(* ===== verification/Prelude.thy ===== *)
theory Prelude
  imports
    Main
    "HOL-Library.Word"
    "HOL-Library.AList"
    "HOL-Library.Multiset"
    "HOL-Library.List_Lexorder"
    "HOL-Library.Char_ord"
    "HOL-Library.Signed_Division"
begin

text \<open>
  The Go language and standard library the controller rests on, and the generic facts
  the component theories share.

  \<^item> Strings are byte lists. The \<open>strings\<close> functions are given for ASCII text, which is
    what zone names, key types, algorithm labels and job states are.
  \<^item> Go maps are association lists with distinct keys: \<open>mget\<close>, \<open>mput\<close> and \<open>mdel\<close> are
    reading, storing and deleting. The order of the list stands for one iteration order.
  \<^item> \<open>time.Time\<close> is a number of nanoseconds with 0 for the zero time (\<open>IsZero\<close>), and
    \<open>time.Duration\<close> is a 64-bit number of nanoseconds whose products and sums wrap.
\<close>

named_theorems go_simps \<open>evaluation rules of the Go library functions\<close>

section \<open>Strings\<close>

definition lowerChar :: "char \<Rightarrow> char" where
  "lowerChar c = (if 65 \<le> (of_char c :: nat) \<and> (of_char c :: nat) \<le> 90
                  then char_of ((of_char c :: nat) + 32) else c)"

definition upperChar :: "char \<Rightarrow> char" where
  "upperChar c = (if 97 \<le> (of_char c :: nat) \<and> (of_char c :: nat) \<le> 122
                  then char_of ((of_char c :: nat) - 32) else c)"

text \<open>\<open>strings.ToLower\<close>, \<open>strings.ToUpper\<close>, \<open>strings.EqualFold\<close>\<close>

definition toLower :: "string \<Rightarrow> string" where
  "toLower s = map lowerChar s"

definition toUpper :: "string \<Rightarrow> string" where
  "toUpper s = map upperChar s"

definition equalFold :: "string \<Rightarrow> string \<Rightarrow> bool" where
  "equalFold a b \<longleftrightarrow> toLower a = toLower b"

definition isSpace :: "char \<Rightarrow> bool" where
  "isSpace c \<longleftrightarrow> (of_char c :: nat) \<in> {9, 10, 11, 12, 13, 32}"

text \<open>Characters as bits, for evaluation\<close>

lemma isSpace_code [code]:
  "isSpace (Char b0 b1 b2 b3 b4 b5 b6 b7) \<longleftrightarrow> \<not> b7 \<and> \<not> b6 \<and> \<not> b4 \<and>
     (b5 \<and> \<not> b3 \<and> \<not> b2 \<and> \<not> b1 \<and> \<not> b0 \<or> \<not> b5 \<and> b3 \<and> (b2 \<and> \<not> b1 \<or> \<not> b2 \<and> (b1 \<or> b0)))"
  by (cases b0; cases b1; cases b2; cases b3; cases b4; cases b5; cases b6; cases b7; simp add: isSpace_def)

lemma lowerChar_code [code]:
  "lowerChar (Char b0 b1 b2 b3 b4 b5 b6 b7) =
     (if \<not> b7 \<and> b6 \<and> \<not> b5 \<and> (b0 \<or> b1 \<or> b2 \<or> b3 \<or> b4) \<and> \<not> (b4 \<and> b3 \<and> (b2 \<or> b1 \<and> b0))
      then Char b0 b1 b2 b3 b4 True b6 b7 else Char b0 b1 b2 b3 b4 b5 b6 b7)"
  by (cases b0; cases b1; cases b2; cases b3; cases b4; cases b5; cases b6; cases b7; simp add: lowerChar_def char_of_def bit_simps)

lemma upperChar_code [code]:
  "upperChar (Char b0 b1 b2 b3 b4 b5 b6 b7) =
     (if \<not> b7 \<and> b6 \<and> b5 \<and> (b0 \<or> b1 \<or> b2 \<or> b3 \<or> b4) \<and> \<not> (b4 \<and> b3 \<and> (b2 \<or> b1 \<and> b0))
      then Char b0 b1 b2 b3 b4 False b6 b7 else Char b0 b1 b2 b3 b4 b5 b6 b7)"
  by (cases b0; cases b1; cases b2; cases b3; cases b4; cases b5; cases b6; cases b7; simp add: upperChar_def char_of_def bit_simps)
text \<open>\<open>strings.TrimSpace\<close>, \<open>strings.TrimSuffix\<close>, \<open>strings.Fields\<close>, \<open>strings.Join\<close>\<close>

definition trimSpace :: "string \<Rightarrow> string" where
  "trimSpace s = rev (dropWhile isSpace (rev (dropWhile isSpace s)))"

definition trimSuffix :: "string \<Rightarrow> string \<Rightarrow> string" where
  "trimSuffix s suf =
     (if suf = drop (length s - length suf) s \<and> length suf \<le> length s
      then take (length s - length suf) s else s)"

fun fieldsAux :: "string \<Rightarrow> string \<Rightarrow> string list" where
  "fieldsAux cur [] = (if cur = [] then [] else [rev cur])"
| "fieldsAux cur (c # cs) =
     (if isSpace c then (if cur = [] then fieldsAux [] cs else rev cur # fieldsAux [] cs)
      else fieldsAux (c # cur) cs)"

definition strFields :: "string \<Rightarrow> string list" where
  "strFields s = fieldsAux [] s"

fun strJoin :: "string \<Rightarrow> string list \<Rightarrow> string" where
  "strJoin sep [] = []"
| "strJoin sep [x] = x"
| "strJoin sep (x # y # zs) = x @ sep @ strJoin sep (y # zs)"

text \<open>\<open>fmt.Sprintf("%d", n)\<close> and \<open>strconv.Itoa\<close>\<close>

definition digitChar :: "nat \<Rightarrow> char" where
  "digitChar d = char_of (48 + d)"

fun natDigits :: "nat \<Rightarrow> string" where
  "natDigits n = (if n < 10 then [digitChar n] else natDigits (n div 10) @ [digitChar (n mod 10)])"

declare natDigits.simps [simp del]

definition itoa :: "int \<Rightarrow> string" where
  "itoa i = (if i < 0 then CHR 0x2D # natDigits (nat (- i)) else natDigits (nat i))"

lemma lowerChar_idem [simp]: "lowerChar (lowerChar c) = lowerChar c"
  by (auto simp: lowerChar_def of_char_of)

lemma toLower_idem [simp]: "toLower (toLower s) = toLower s"
  by (simp add: toLower_def)

lemma length_toLower [simp]: "length (toLower s) = length s"
  by (simp add: toLower_def)

lemma equalFold_refl [simp]: "equalFold s s"
  by (simp add: equalFold_def)

lemma equalFold_sym: "equalFold a b \<longleftrightarrow> equalFold b a"
  by (auto simp: equalFold_def)

lemma of_char_digitChar: "d < 10 \<Longrightarrow> (of_char (digitChar d) :: nat) = 48 + d"
  by (simp add: digitChar_def)

text \<open>Decimal digits read back: \<open>natDigits\<close> and \<open>itoa\<close> are injective.\<close>

definition digitsVal :: "string \<Rightarrow> nat" where
  "digitsVal s = foldl (\<lambda>acc c. acc * 10 + ((of_char c :: nat) - 48)) 0 s"

lemma digitsVal_natDigits [simp]: "digitsVal (natDigits n) = n"
proof (induction n rule: natDigits.induct)
  case (1 n)
  show ?case
  proof (cases "n < 10")
    case True
    then show ?thesis
      by (simp add: natDigits.simps [of n] digitsVal_def of_char_digitChar)
  next
    case False
    with "1.IH" have "digitsVal (natDigits (n div 10)) = n div 10" by simp
    with False show ?thesis
      by (simp add: natDigits.simps [of n] digitsVal_def of_char_digitChar)
  qed
qed

lemma natDigits_chars: "c \<in> set (natDigits n) \<Longrightarrow> 48 \<le> (of_char c :: nat) \<and> (of_char c :: nat) \<le> 57"
proof (induction n rule: natDigits.induct)
  case (1 n)
  show ?case
  proof (cases "n < 10")
    case True
    with "1.prems" show ?thesis
      by (simp add: natDigits.simps [of n] of_char_digitChar)
  next
    case False
    with "1.IH" "1.prems" show ?thesis
      by (subst (asm) natDigits.simps) (auto simp: of_char_digitChar)
  qed
qed

lemma natDigits_inj [simp]: "natDigits a = natDigits b \<longleftrightarrow> a = b"
  by (metis digitsVal_natDigits)

lemma minus_notin_natDigits: "CHR 0x2D \<notin> set (natDigits n)"
  using natDigits_chars [of "CHR 0x2D" n] by auto

lemma natDigits_nonempty [simp]: "natDigits n \<noteq> []"
  by (subst natDigits.simps) simp

lemma itoa_inj [simp]: "itoa a = itoa b \<longleftrightarrow> a = b"
proof -
  have "CHR 0x2D # xs \<noteq> natDigits n" for xs n
    using minus_notin_natDigits [of n] by (metis list.set_intros(1))
  then show ?thesis
    by (auto simp: itoa_def split: if_splits dest: sym)
qed

text \<open>Fields joined by a separator that they do not contain can be told apart.\<close>

lemma split_at_sep:
  "c \<notin> set a \<Longrightarrow> c \<notin> set b \<Longrightarrow> a @ c # x = b @ c # y \<longleftrightarrow> a = b \<and> x = y"
proof (induction a arbitrary: b)
  case Nil
  then show ?case by (cases b) auto
next
  case (Cons h a)
  then show ?case by (cases b) auto
qed

section \<open>Sorting and deduplication\<close>

text \<open>\<open>slices.Sort\<close> followed by \<open>slices.Compact\<close> on strings\<close>

definition sortCompact :: "string list \<Rightarrow> string list" where
  "sortCompact xs = remdups_adj (sort xs)"

lemma set_sortCompact [simp]: "set (sortCompact xs) = set xs"
  by (simp add: sortCompact_def)

lemma sorted_distinct_remdups_adj: "sorted (xs :: 'a::linorder list) \<Longrightarrow> distinct (remdups_adj xs)"
  by (induction xs rule: remdups_adj.induct) (auto simp: order.antisym)

lemma distinct_sortCompact [simp]: "distinct (sortCompact xs)"
  by (simp add: sortCompact_def sorted_distinct_remdups_adj)

lemma sortCompact_cong: "set xs = set ys \<Longrightarrow> sortCompact xs = sortCompact ys"
  by (rule sorted_distinct_set_unique) (auto simp: sortCompact_def sorted_distinct_remdups_adj)

text \<open>\<open>slices.Sort\<close> on both sides and \<open>slices.Equal\<close> compare multisets.\<close>

lemma sort_eq_iff_mset: "sort xs = sort ys \<longleftrightarrow> mset xs = mset ys"
  by (metis mset_sort properties_for_sort sorted_sort)

section \<open>Maps\<close>

definition mget :: "('k \<times> 'v) list \<Rightarrow> 'k \<Rightarrow> 'v option" where
  "mget m k = map_of m k"

definition mput :: "'k \<Rightarrow> 'v \<Rightarrow> ('k \<times> 'v) list \<Rightarrow> ('k \<times> 'v) list" where
  "mput k v m = AList.update k v m"

definition mdel :: "'k \<Rightarrow> ('k \<times> 'v) list \<Rightarrow> ('k \<times> 'v) list" where
  "mdel k m = AList.delete k m"

definition mvals :: "('k \<times> 'v) list \<Rightarrow> 'v list" where
  "mvals m = map snd m"

lemma mget_mput: "mget (mput k v m) j = (if j = k then Some v else mget m j)"
  by (simp add: mget_def mput_def update_conv')

lemma mget_mput_same [simp]: "mget (mput k v m) k = Some v"
  by (simp add: mget_mput)

lemma mget_mput_other [simp]: "j \<noteq> k \<Longrightarrow> mget (mput k v m) j = mget m j"
  by (simp add: mget_mput)

lemma mget_mdel: "mget (mdel k m) j = (if j = k then None else mget m j)"
  by (simp add: mget_def mdel_def delete_conv')

lemma distinct_mput [simp]: "distinct (map fst m) \<Longrightarrow> distinct (map fst (mput k v m))"
  by (simp add: mput_def distinct_update)

lemma distinct_mdel [simp]: "distinct (map fst m) \<Longrightarrow> distinct (map fst (mdel k m))"
  by (simp add: mdel_def distinct_delete)

lemma mvals_iff:
  "distinct (map fst m) \<Longrightarrow> v \<in> set (mvals m) \<longleftrightarrow> (\<exists>k. mget m k = Some v)"
  by (force simp: mvals_def mget_def)

lemma mget_in_mvals: "mget m k = Some v \<Longrightarrow> v \<in> set (mvals m)"
  by (force simp: mvals_def mget_def dest: map_of_SomeD)

section \<open>Time\<close>

type_synonym time = int
type_synonym duration = int

definition timeIsZero :: "time \<Rightarrow> bool" where
  "timeIsZero t \<longleftrightarrow> t = 0"

definition i64 :: "int \<Rightarrow> int" where
  "i64 x = (x + 2 ^ 63) mod 2 ^ 64 - 2 ^ 63"

text \<open>\<open>time.Second\<close>, \<open>time.Minute\<close>, \<open>time.Hour\<close> in nanoseconds\<close>

definition second :: duration where
  "second = 1000000000"

definition minute :: duration where
  "minute = 60 * second"

definition hour :: duration where
  "hour = 60 * minute"

text \<open>Arithmetic on durations wraps at 64 bits; \<open>time.Time.Sub\<close> saturates.\<close>

definition durMul :: "int \<Rightarrow> int \<Rightarrow> duration" where
  "durMul a b = i64 (a * b)"

definition durAdd :: "duration \<Rightarrow> duration \<Rightarrow> duration" where
  "durAdd a b = i64 (a + b)"

definition timeAdd :: "time \<Rightarrow> duration \<Rightarrow> time" where
  "timeAdd t d = t + d"

definition timeSub :: "time \<Rightarrow> time \<Rightarrow> duration" where
  "timeSub t u = max (- (2 ^ 63)) (min (2 ^ 63 - 1) (t - u))"

definition timeBefore :: "time \<Rightarrow> time \<Rightarrow> bool" where
  "timeBefore t u \<longleftrightarrow> t < u"

definition i64_range :: "int \<Rightarrow> bool" where
  "i64_range x \<longleftrightarrow> - (2 ^ 63) \<le> x \<and> x < 2 ^ 63"

lemma i64_id: "i64_range x \<Longrightarrow> i64 x = x"
  by (simp add: i64_def i64_range_def)

lemma i64_in_range [simp]: "i64_range (i64 x)"
  by (simp add: i64_def i64_range_def)

text \<open>\<open>int64(d / time.Second)\<close>: Go division truncates towards zero.\<close>

definition durSeconds :: "duration \<Rightarrow> int" where
  "durSeconds d = d sdiv second"

lemma durSeconds_mult [simp]: "durSeconds (n * second) = n"
  by (simp add: durSeconds_def second_def signed_divide_int_def sgn_mult abs_mult sgn_mult_abs)

lemma durSeconds_mult2 [simp]: "durSeconds (second * n) = n"
  by (metis durSeconds_mult mult.commute)

section \<open>Domain names\<close>

text \<open>\<open>dns.IsFqdn\<close> and \<open>dns.Fqdn\<close> of the vendored \<open>miekg/dns\<close>, \<open>defaults.go\<close>\<close>

definition isFqdn :: "string \<Rightarrow> bool" where
  "isFqdn s =
     (if s = [] \<or> last s \<noteq> CHR 0x2E then False
      else (let t = butlast s in
        if t = [] \<or> last t \<noteq> CHR 0x5C then True
        else even (length (takeWhile (\<lambda>c. c = CHR 0x5C) (rev t)))))"

definition fqdn :: "string \<Rightarrow> string" where
  "fqdn s = (if isFqdn s then s else s @ [CHR 0x2E])"

end
