(* ===== verification/Errors.thy ===== *)
theory Errors
  imports Prelude
begin

text \<open>
  Error values. Go builds an error from a format string and its arguments, or wraps
  another error with \<open>%w\<close>; the model keeps that structure instead of the rendered text.
  \<open>Fmt m args\<close> is \<open>fmt.Errorf\<close> or \<open>errors.New\<close>; \<open>Wrap m args e\<close> is \<open>fmt.Errorf\<close> with \<open>e\<close>
  under \<open>%w\<close>; \<open>Quote m args es\<close> puts the text of other errors into a new one (\<open>%v\<close> or
  \<open>+ err.Error()\<close>), which \<open>errors.Is\<close> does not look through; \<open>JobUnavailable e\<close> wraps the
  sentinel \<open>autodns.ErrJobUnavailable\<close>; \<open>Ext t\<close> is an error of a service or of a library;
  \<open>Joined\<close> is \<open>errors.Join\<close>.
\<close>

type_synonym msg = string

datatype arg = AInt int | AStr string | ABool bool | AStrs "string list"

datatype err =
    Fmt msg "arg list"
  | Wrap msg "arg list" err
  | Quote msg "arg list" "err list"
  | JobUnavailable err
  | Ext string
  | Joined "err list"

text \<open>\<open>errors.Is(err, autodns.ErrJobUnavailable)\<close>: the sentinel anywhere in the \<open>%w\<close> chain.\<close>

fun isJobUnavailable :: "err \<Rightarrow> bool" where
  "isJobUnavailable (JobUnavailable e) = True"
| "isJobUnavailable (Wrap m args e) = isJobUnavailable e"
| "isJobUnavailable (Joined es) = list_ex isJobUnavailable es"
| "isJobUnavailable _ = False"

text \<open>\<open>errors.Join\<close> of a list without nil errors: nil when the list is empty.\<close>

definition errorsJoin :: "err list \<Rightarrow> err option" where
  "errorsJoin es = (if es = [] then None else Some (Joined es))"

section \<open>Message texts of the controller\<close>

subsection \<open>Reconciliation\<close>

definition InvalidZoneName :: msg where
  "InvalidZoneName = ''invalid PowerDNS zone name %q''"

definition ZoneError :: msg where
  "ZoneError = ''%s: %w''"

definition EnrollZoneDisappeared :: msg where
  "EnrollZoneDisappeared = ''enrollment zone disappeared or DNSSEC was disabled''"

definition MoreThanOneActive :: msg where
  "MoreThanOneActive = ''more than one active workflow for zone''"

definition EnrollDisabledBeforeWrite :: msg where
  "EnrollDisabledBeforeWrite = ''automatic enrollment was disabled or moved out of scope before registrar write''"

definition ExpectedActiveKSKandZSK :: msg where
  "ExpectedActiveKSKandZSK = ''expected exactly one active KSK and one active ZSK''"

definition UnknownPhase :: msg where
  "UnknownPhase = ''unknown phase %q''"

subsection \<open>Bootstrap and start\<close>

definition EnrollRequiresCleanSplit :: msg where
  "EnrollRequiresCleanSplit = ''automatic enrollment requires a clean split KSK/ZSK zone at first discovery''"

definition EnrollCircuitBreaker :: msg where
  "EnrollCircuitBreaker = ''automatic enrollment circuit breaker exceeded''"

definition WaitingStableInventory :: msg where
  "WaitingStableInventory = ''waiting for a stable clean split inventory: %w''"

definition AlreadyActive :: msg where
  "AlreadyActive = ''zone already has active %s workflow''"

subsection \<open>Prepublish and key creation\<close>

definition OldKeyMissing :: msg where
  "OldKeyMissing = ''recorded old key missing''"

definition InitialNeedsNoDS :: msg where
  "InitialNeedsNoDS = ''initial delegation requires proven parent DS absence: %w''"

definition RegistrarNeitherState :: msg where
  "RegistrarNeitherState = ''InternetX DNSSEC state is neither exact active old CSK nor exact disabled-empty initial state''"

definition CandidateReusesSlot :: msg where
  "CandidateReusesSlot = ''candidate %s key %d reuses the other replacement slot''"

definition CandidateAlgorithm :: msg where
  "CandidateAlgorithm = ''candidate %s key %d has algorithm %q, want %q''"

definition CandidateRole :: msg where
  "CandidateRole = ''candidate %s key: %w''"

definition CandidateLabel :: msg where
  "CandidateLabel = ''candidate %s key %d: %w''"

definition MultipleCandidates :: msg where
  "MultipleCandidates = ''multiple candidate %s keys''"

definition CreateAlreadyAttempted :: msg where
  "CreateAlreadyAttempted = ''%s create was already attempted at %s; waiting for one exact read-back candidate''"

definition CreatedBadState :: msg where
  "CreatedBadState = ''created %s response has invalid id or active/published state''"

definition CreatedAlgorithm :: msg where
  "CreatedAlgorithm = ''created %s response has algorithm %q, want %q''"

definition CreatedRole :: msg where
  "CreatedRole = ''created %s response: %w''"

definition WorkflowChangedBeforeCreate :: msg where
  "WorkflowChangedBeforeCreate = ''workflow changed before key create intent could be persisted''"

definition KeyCreateAlreadyAttempted :: msg where
  "KeyCreateAlreadyAttempted = ''key create was already attempted at %s''"

subsection \<open>Publication, activation and signatures\<close>

definition NewZSKMissing :: msg where
  "NewZSKMissing = ''recorded new ZSK missing''"

definition OldOverlapMissing :: msg where
  "OldOverlapMissing = ''old KSK/CSK overlap signature missing: %w''"

definition NewOverlapMissing :: msg where
  "NewOverlapMissing = ''new KSK overlap signature missing: %w''"

definition SplitActivationInventory :: msg where
  "SplitActivationInventory = ''split activation inventory is neither exact pre-state nor exact post-state; full DNSKEY prepublication recovery may be required: pre=%v; post=%v''"

definition NewSigningKeyMissing :: msg where
  "NewSigningKeyMissing = ''new signing key missing''"

definition NewSignerMissing :: msg where
  "NewSignerMissing = ''new signer missing''"

definition NewSignerNotActive :: msg where
  "NewSignerNotActive = ''new signing key is not active and published''"

definition ZoneTTLZero :: msg where
  "ZoneTTLZero = ''zone maximum TTL is zero''"

definition OldCSKOverlapMissing :: msg where
  "OldCSKOverlapMissing = ''old CSK overlap signature missing: %w''"

definition SplitSignerEvidence :: msg where
  "SplitSignerEvidence = ''split signer-transition evidence: %w''"

subsection \<open>Deactivation and deletion\<close>

definition SplitDeactivationInventory :: msg where
  "SplitDeactivationInventory = ''split deactivation inventory is neither exact pre-state nor exact post-state: pre=%v; post=%v''"

definition SplitSignerEvidenceBeforeDeactivation :: msg where
  "SplitSignerEvidenceBeforeDeactivation = ''split signer-transition evidence before old-key deactivation: %w''"

definition ReplacementNotActive :: msg where
  "ReplacementNotActive = ''replacement key is not active and published''"

definition NewZSKSigMissing :: msg where
  "NewZSKSigMissing = ''new ZSK signature missing before old-key deactivation: %w''"

definition NewKSKSigMissing :: msg where
  "NewKSKSigMissing = ''new KSK signature missing before old-key deactivation: %w''"

definition ParentDSMissing :: msg where
  "ParentDSMissing = ''parent DS evidence missing before old-key deactivation: %w''"

definition ReplacementZSKNotActive :: msg where
  "ReplacementZSKNotActive = ''replacement ZSK is not active and published''"

definition NewZSKSigMissingCSK :: msg where
  "NewZSKSigMissingCSK = ''new ZSK signature missing before CSK deactivation: %w''"

definition ReplacementDNSKEYMissing :: msg where
  "ReplacementDNSKEYMissing = ''replacement DNSKEY evidence missing before old-key deactivation: %w''"

definition NewZSKMissingAtRetirement :: msg where
  "NewZSKMissingAtRetirement = ''new ZSK missing at retirement''"

definition ReplacementMissing :: msg where
  "ReplacementMissing = ''active and published replacement key missing''"

definition ReplacementZSKMissing :: msg where
  "ReplacementZSKMissing = ''active and published replacement ZSK missing''"

definition MaterialNotNewOnlyBeforeDelete :: msg where
  "MaterialNotNewOnlyBeforeDelete = ''InternetX material is not exact new-only KSK before old-key deletion''"

definition ReplacementDNSKEYBeforeDelete :: msg where
  "ReplacementDNSKEYBeforeDelete = ''replacement DNSKEY evidence missing before deletion: %w''"

definition RefuseDeleteActive :: msg where
  "RefuseDeleteActive = ''refusing to delete active old key''"

subsection \<open>Parent change\<close>

definition ExactDNSKEYBeforeParentWrite :: msg where
  "ExactDNSKEYBeforeParentWrite = ''exact DNSKEY evidence missing immediately before parent write: %w''"

definition NewKSKSignatureMissing :: msg where
  "NewKSKSignatureMissing = ''new KSK signature missing: %w''"

definition OldCSKSignatureBeforeParentWrite :: msg where
  "OldCSKSignatureBeforeParentWrite = ''old CSK zone signature missing immediately before parent write: %w''"

definition InitialStateChanged :: msg where
  "InitialStateChanged = ''InternetX initial DNSSEC state changed before write''"

definition ParentDSAppeared :: msg where
  "ParentDSAppeared = ''parent DS appeared before initial InternetX write: %v''"

definition MaterialNotOldKey :: msg where
  "MaterialNotOldKey = ''InternetX material is not the exact active old KSK/CSK''"

definition AmbiguousWriteTimeout :: msg where
  "AmbiguousWriteTimeout = ''ambiguous InternetX write did not converge within 24h; manual reconciliation required''"

definition AmbiguousWrite :: msg where
  "AmbiguousWrite = ''InternetX write outcome is ambiguous; waiting for read-back without resubmitting''"

definition SplitInventoryDrift :: msg where
  "SplitInventoryDrift = ''split inventory drifted during parent wait; full DNSKEY prepublication recovery required: %v''"

definition JobFinished :: msg where
  "JobFinished = ''InternetX job %d finished with %s''"

definition JobPending :: msg where
  "JobPending = ''InternetX job %d is %s''"

definition NewKSKNotActiveAfterWait :: msg where
  "NewKSKNotActiveAfterWait = ''new KSK is not active and published after parent wait''"

definition NewKSKDNSKEYAfterWait :: msg where
  "NewKSKDNSKEYAfterWait = ''new KSK DNSKEY evidence missing after parent wait: %w''"

definition NewKSKSigAfterWait :: msg where
  "NewKSKSigAfterWait = ''new KSK signature missing after parent wait: %w''"

definition JobUnavailableMismatch :: msg where
  "JobUnavailableMismatch = ''InternetX job is unavailable and current registrar material does not exactly match the recorded replacement key''"

subsection \<open>Enrollment\<close>

definition EnrollDriftDiscovery :: msg where
  "EnrollDriftDiscovery = ''enrollment inventory drifted during discovery: %v''"

definition ZoneIdentityChangedDiscovery :: msg where
  "ZoneIdentityChangedDiscovery = ''PowerDNS zone identity changed during enrollment discovery''"

definition EnrollNonMatching :: msg where
  "EnrollNonMatching = ''InternetX already contains non-matching DNSSEC material''"

definition AdoptionEvidence :: msg where
  "AdoptionEvidence = ''existing enrollment adoption evidence: %w''"

definition AdoptionAuthDS :: msg where
  "AdoptionAuthDS = ''existing enrollment authoritative DS evidence: %w''"

definition AdoptionDS :: msg where
  "AdoptionDS = ''existing enrollment validating DS evidence: %w''"

definition EnrollNotDisabledEmpty :: msg where
  "EnrollNotDisabledEmpty = ''InternetX initial enrollment state is not disabled-empty''"

definition EnrollNeedsNoDS :: msg where
  "EnrollNeedsNoDS = ''initial enrollment requires proven parent DS absence: %w''"

definition EnrollNeedsDelegation :: msg where
  "EnrollNeedsDelegation = ''initial enrollment requires exact parent delegation: %w''"

definition ZoneIdentityChanged :: msg where
  "ZoneIdentityChanged = ''PowerDNS zone identity changed''"

definition EnrollDriftPublish :: msg where
  "EnrollDriftPublish = ''enrollment inventory drifted during publication wait: %v''"

definition EnrollKSKSig :: msg where
  "EnrollKSKSig = ''enrollment KSK DNSKEY signature: %w''"

definition EnrollZSKSig :: msg where
  "EnrollZSKSig = ''enrollment ZSK zone signature: %w''"

definition EnrollDisarmed :: msg where
  "EnrollDisarmed = ''automatic enrollment is disarmed before registrar write''"

definition EnrollDriftParentWrite :: msg where
  "EnrollDriftParentWrite = ''enrollment inventory drifted before parent write: %v''"

definition EnrollPreWrite :: msg where
  "EnrollPreWrite = ''enrollment pre-write evidence: %w''"

definition EnrollDSAppeared :: msg where
  "EnrollDSAppeared = ''parent DS appeared before enrollment write: %v''"

definition EnrollHashChanged :: msg where
  "EnrollHashChanged = ''recorded InternetX enrollment payload hash changed''"

definition EnrollStateChanged :: msg where
  "EnrollStateChanged = ''InternetX initial enrollment state changed before write''"

definition EnrollHashMissing :: msg where
  "EnrollHashMissing = ''InternetX enrollment payload hash was not persisted before write''"

definition EnrollAmbiguousTimeout :: msg where
  "EnrollAmbiguousTimeout = ''ambiguous InternetX enrollment write did not converge within 24h; manual reconciliation required''"

definition EnrollAmbiguous :: msg where
  "EnrollAmbiguous = ''InternetX enrollment write outcome is ambiguous; waiting for read-back without resubmitting''"

definition EnrollWorkflowChanged :: msg where
  "EnrollWorkflowChanged = ''enrollment workflow changed before registrar intent could be persisted''"

definition EnrollNoJobID :: msg where
  "EnrollNoJobID = ''InternetX enrollment acknowledgement omitted a positive job id''"

definition EnrollDriftParentWait :: msg where
  "EnrollDriftParentWait = ''enrollment inventory drifted during parent wait: %v''"

definition EnrollJobFinished :: msg where
  "EnrollJobFinished = ''InternetX enrollment job %d finished with %s''"

definition EnrollJobPending :: msg where
  "EnrollJobPending = ''InternetX enrollment job %d is %s''"

definition EnrollMaterialMismatch :: msg where
  "EnrollMaterialMismatch = ''InternetX enrollment material is not the exact recorded KSK after parent wait''"

definition ParentDelegation :: msg where
  "ParentDelegation = ''parent delegation: %w''"

subsection \<open>Key inventories\<close>

definition ExpectedOneActive :: msg where
  "ExpectedOneActive = ''expected one active %s, got %d''"

definition RecordedOldMissing :: msg where
  "RecordedOldMissing = ''recorded old key %d missing''"

definition RecordedNewMissing :: msg where
  "RecordedNewMissing = ''recorded new key %d missing''"

definition KeyPartial :: msg where
  "KeyPartial = ''key %d is active/published only partially''"

definition UnexpectedKey :: msg where
  "UnexpectedKey = ''unexpected active or published key %d (%s)''"

definition ExpectedOneKSKandZSK :: msg where
  "ExpectedOneKSKandZSK = ''expected exactly one distinct active/published KSK and ZSK''"

definition KSKIdChanged :: msg where
  "KSKIdChanged = ''KSK id changed from %d to %d''"

definition ZSKIdChanged :: msg where
  "ZSKIdChanged = ''ZSK id changed from %d to %d''"

definition AlgorithmsDiffer :: msg where
  "AlgorithmsDiffer = ''KSK and ZSK algorithms differ''"

definition AlgorithmNotAllowed :: msg where
  "AlgorithmNotAllowed = ''algorithm %q is not allowed for automatic enrollment''"

definition FingerprintChanged :: msg where
  "FingerprintChanged = ''public keyset fingerprint changed''"

definition IdsNotDistinct :: msg where
  "IdsNotDistinct = ''recorded old and new key IDs must be non-zero and distinct''"

definition SplitIdsNotDistinct :: msg where
  "SplitIdsNotDistinct = ''split workflow must record three distinct key IDs''"

definition OldKeyRole :: msg where
  "OldKeyRole = ''recorded old key role: %w''"

definition OldNotActive :: msg where
  "OldNotActive = ''recorded old %s is not active and published''"

definition NewKeyRole :: msg where
  "NewKeyRole = ''recorded new key role: %w''"

definition NewAlgorithmDiffers :: msg where
  "NewAlgorithmDiffers = ''recorded new key algorithm %d differs from old key algorithm %d''"

definition NewKeyState :: msg where
  "NewKeyState = ''recorded new %s has unexpected active/published state''"

definition NewZSKRole :: msg where
  "NewZSKRole = ''recorded new ZSK role: %w''"

definition NewZSKAlgorithmDiffers :: msg where
  "NewZSKAlgorithmDiffers = ''recorded new ZSK algorithm %d differs from old key algorithm %d''"

definition NewZSKState :: msg where
  "NewZSKState = ''recorded new ZSK is not inactive and published''"

definition CompanionMissing :: msg where
  "CompanionMissing = ''expected one active and published companion %s''"

definition ReplacementZSKIdMissing :: msg where
  "ReplacementZSKIdMissing = ''recorded replacement ZSK %d is missing''"

definition SignerRoles :: msg where
  "SignerRoles = ''PowerDNS signer roles are %q/%q/%q, want exact ksk/ksk/zsk''"

definition KeyAlgorithmLabel :: msg where
  "KeyAlgorithmLabel = ''key %d algorithm label: %w''"

definition MaterialNotNewOnly :: msg where
  "MaterialNotNewOnly = ''InternetX material is not exact new-only replacement KSK''"

definition AuthParentDS :: msg where
  "AuthParentDS = ''authoritative parent DS: %w''"

definition ADParentDS :: msg where
  "ADParentDS = ''AD-validating parent DS: %w''"

definition ExactDNSKEY :: msg where
  "ExactDNSKEY = ''exact DNSKEY evidence: %w''"

definition KSKDNSKEYSig :: msg where
  "KSKDNSKEYSig = ''replacement KSK DNSKEY signature: %w''"

definition ZSKZoneSig :: msg where
  "ZSKZoneSig = ''replacement ZSK zone signature: %w''"

definition ActiveSplitIds :: msg where
  "ActiveSplitIds = ''active split workflow must record three distinct key IDs''"

definition NewZSKIdMissing :: msg where
  "NewZSKIdMissing = ''recorded new ZSK %d missing''"

definition OldCSKRole :: msg where
  "OldCSKRole = ''recorded old CSK effective role: %w''"

definition NewKSKRole :: msg where
  "NewKSKRole = ''recorded new KSK role: %w''"

definition ActiveSplitAlgorithms :: msg where
  "ActiveSplitAlgorithms = ''active split DNSKEY algorithms differ''"

definition SplitKeyState :: msg where
  "SplitKeyState = ''split keys do not match expected old-active=%t post-activation state''"

definition DNSKEYInvalid :: msg where
  "DNSKEYInvalid = ''key %d DNSKEY is invalid: %w''"

definition DNSKEYProtocol :: msg where
  "DNSKEYProtocol = ''key %d has DNSKEY protocol %d, want 3''"

definition DNSKEYFlags :: msg where
  "DNSKEYFlags = ''key %d has DNSKEY flags %d, want %d for %s''"

definition KeyTypeMismatch :: msg where
  "KeyTypeMismatch = ''key %d has PowerDNS keytype %q, want %q''"

definition UnknownAlgorithm :: msg where
  "UnknownAlgorithm = ''unknown PowerDNS algorithm %q''"

definition AlgorithmLabelMismatch :: msg where
  "AlgorithmLabelMismatch = ''PowerDNS algorithm %q maps to %d but DNSKEY contains %d''"

definition RetirementIds :: msg where
  "RetirementIds = ''retirement requires distinct recorded old and new key IDs''"

definition RetirementCompanion :: msg where
  "RetirementCompanion = ''retirement requires one distinct active and published companion %s''"

definition RetirementOldKey :: msg where
  "RetirementOldKey = ''recorded old key has unexpected retirement role, algorithm, or publication state''"

definition RetirementUnexpected :: msg where
  "RetirementUnexpected = ''unexpected or duplicate key %d at retirement''"

subsection \<open>Operator requests\<close>

definition ObserveMode :: msg where
  "ObserveMode = ''controller is in observe mode''"

definition EnrollNotEnabled :: msg where
  "EnrollNotEnabled = ''automatic enrollment is not explicitly enabled for all_selected scope''"

definition IdemLength :: msg where
  "IdemLength = ''idempotency key must be between 16 and 128 characters''"

definition IdemReused :: msg where
  "IdemReused = ''idempotency key already used for a different request''"

definition AlreadyArmed :: msg where
  "AlreadyArmed = ''automatic enrollment is already armed''"

definition IdemConflict :: msg where
  "IdemConflict = ''idempotency key conflict''"

definition ZoneAbsent :: msg where
  "ZoneAbsent = ''zone %s is absent or not DNSSEC-enabled''"

definition ZoneOutsideScope :: msg where
  "ZoneOutsideScope = ''zone %s is outside the configured rotation scope''"

definition NotCSKZone :: msg where
  "NotCSKZone = ''zone %s is not a CSK zone''"

definition NotSplitZone :: msg where
  "NotSplitZone = ''zone %s is not split KSK/ZSK''"

definition ZoneHasActive :: msg where
  "ZoneHasActive = ''zone %s already has active %s workflow''"

definition OnlySplitResume :: msg where
  "OnlySplitResume = ''only split workflows may be resumed to wait_publish''"

definition ZoneCount :: msg where
  "ZoneCount = ''between one and 100 zones are required''"

definition NoBlockedSplit :: msg where
  "NoBlockedSplit = ''zone %s has no blocked split workflow''"

definition NotInitialSplit :: msg where
  "NotInitialSplit = ''zone %s is not an initialized initial-delegation split workflow''"

definition ZoneIdsNotDistinct :: msg where
  "ZoneIdsNotDistinct = ''zone %s does not record three distinct key IDs''"

definition RegistrarAttempted :: msg where
  "RegistrarAttempted = ''zone %s already records a registrar mutation attempt''"

definition InventoryNotResumable :: msg where
  "InventoryNotResumable = ''zone %s inventory cannot be resumed: %w''"

definition RegistrarNotEmpty :: msg where
  "RegistrarNotEmpty = ''zone %s registrar DNSSEC state is not disabled-empty''"

definition NoDSNotProven :: msg where
  "NoDSNotProven = ''zone %s parent DS absence is not proven: %w''"

definition ChangedDuringResume :: msg where
  "ChangedDuringResume = ''zone %s workflow changed during resume validation''"

definition OneZoneRequired :: msg where
  "OneZoneRequired = ''one zone is required''"

definition NotInWaitNewSignature :: msg where
  "NotInWaitNewSignature = ''zone %s has no split workflow in wait_new_signature''"

definition NoRegistrarTransaction :: msg where
  "NoRegistrarTransaction = ''zone %s has no recorded registrar transaction''"

definition AlreadyAttested :: msg where
  "AlreadyAttested = ''zone %s already has a split signer-transition attestation''"

definition CannotReconcile :: msg where
  "CannotReconcile = ''zone %s cannot reconcile split signer transition: %w''"

definition ChangedDuringReconcile :: msg where
  "ChangedDuringReconcile = ''zone %s workflow changed during signer-transition validation''"

definition MaterialDiffers :: msg where
  "MaterialDiffers = ''InternetX material differs from active local KSK/CSK''"

definition MigrationRequired :: msg where
  "MigrationRequired = ''explicit confirmed CSK-to-split migration required''"

definition KindRequired :: msg where
  "KindRequired = ''kind must be zsk, ksk, or split''"

definition ZoneRequired :: msg where
  "ZoneRequired = ''at least one zone is required''"

definition TooManyZones :: msg where
  "TooManyZones = ''at most 100 zones are accepted''"

definition ConfirmRequired :: msg where
  "ConfirmRequired = ''confirm must be true''"

definition FlagRequired :: msg where
  "FlagRequired = ''--confirm is required''"

definition NotificationFailed :: msg where
  "NotificationFailed = ''notification %s: %w''"

subsection \<open>Public keys\<close>

definition ParseDNSKEY :: msg where
  "ParseDNSKEY = ''parse public DNSKEY for key %d: %w''"

definition NotDNSKEY :: msg where
  "NotDNSKEY = ''key %d is not DNSKEY''"

subsection \<open>The probe\<close>

definition LocalDNSKEYVia :: msg where
  "LocalDNSKEYVia = ''local authoritative DNSKEY: %w''"

definition AuthDNSKEYVia :: msg where
  "AuthDNSKEYVia = ''authoritative DNSKEY via %s: %w''"

definition RecursiveDNSKEYVia :: msg where
  "RecursiveDNSKEYVia = ''recursive DNSKEY via %s: %w''"

definition ProbeTTLZero :: msg where
  "ProbeTTLZero = ''authoritative DNSKEY TTL is zero''"

definition TwoResolvers :: msg where
  "TwoResolvers = ''at least two validating resolvers are required for no-DS evidence''"

definition RecursiveNoDSVia :: msg where
  "RecursiveNoDSVia = ''recursive no-DS via %s: %w''"

definition ParentHasDS :: msg where
  "ParentHasDS = ''authoritative parent already has DS for %s''"

definition ParentNoDSVia :: msg where
  "ParentNoDSVia = ''parent no-DS via %s: %w''"

definition OnlyNoDSProofs :: msg where
  "OnlyNoDSProofs = ''only %d authoritative parent no-DS proof(s); need at least two''"

definition NoDSNoReferral :: msg where
  "NoDSNoReferral = ''iterative no-DS lookup has no referral servers''"

definition NoDSDepth :: msg where
  "NoDSDepth = ''iterative no-DS lookup exceeded referral depth''"

definition TwoNameservers :: msg where
  "TwoNameservers = ''at least two expected delegated nameservers are required''"

definition DelegationMismatch :: msg where
  "DelegationMismatch = ''parent delegation via %s is %v, want %v''"

definition OnlyDelegations :: msg where
  "OnlyDelegations = ''only %d exact parent delegation answer(s); need at least two''"

definition DelegationNoReferral :: msg where
  "DelegationNoReferral = ''iterative delegation lookup has no referral servers''"

definition DelegationDepth :: msg where
  "DelegationDepth = ''iterative delegation lookup exceeded referral depth''"

definition LacksAA :: msg where
  "LacksAA = ''response lacks authoritative-answer''"

definition LacksAD :: msg where
  "LacksAD = ''response lacks authenticated-data''"

definition DSPresent :: msg where
  "DSPresent = ''DS is present''"

definition NoParentSOA :: msg where
  "NoParentSOA = ''negative DS response lacks a valid parent SOA''"

definition ParentDNSKEYQuery :: msg where
  "ParentDNSKEYQuery = ''parent DNSKEY: %w''"

definition ParentDNSKEYLacksAD :: msg where
  "ParentDNSKEYLacksAD = ''parent DNSKEY response lacks authenticated-data''"

definition ParentDNSKEYOwner :: msg where
  "ParentDNSKEYOwner = ''parent DNSKEY owner/class mismatch''"

definition ParentDNSKEYEmpty :: msg where
  "ParentDNSKEYEmpty = ''parent DNSKEY RRset is empty''"

definition NoOptOutCover :: msg where
  "NoOptOutCover = ''NSEC3 closest-encloser proof lacks a signed Opt-Out next-closer cover''"

definition NoDenialProof :: msg where
  "NoDenialProof = ''no cryptographically valid NSEC/NSEC3 proof of DS absence''"

definition RecursiveDSVia :: msg where
  "RecursiveDSVia = ''recursive DS via %s: %w''"

definition RecursiveDSLacksAD :: msg where
  "RecursiveDSLacksAD = ''recursive DS via %s lacks authenticated-data''"

definition ParentDSVia :: msg where
  "ParentDSVia = ''parent DS via %s: %w''"

definition ParentHasNoDS :: msg where
  "ParentHasNoDS = ''authoritative parent has no DS for %s''"

definition OnlyDSAnswers :: msg where
  "OnlyDSAnswers = ''only %d authoritative parent DS answer(s); need at least two''"

definition DSNoReferral :: msg where
  "DSNoReferral = ''iterative DS lookup has no referral servers''"

definition DSDepth :: msg where
  "DSDepth = ''iterative DS lookup exceeded referral depth''"

definition LocalSignature :: msg where
  "LocalSignature = ''local authoritative signature: %w''"

definition AuthSignatureVia :: msg where
  "AuthSignatureVia = ''authoritative signature via %s: %w''"

definition RecursiveSignatureVia :: msg where
  "RecursiveSignatureVia = ''recursive signature via %s: %w''"

definition RcodeError :: msg where
  "RcodeError = ''rcode %s''"

definition DeriveDS :: msg where
  "DeriveDS = ''cannot derive SHA-256 DS for key %d''"

definition DNSKEYOwner :: msg where
  "DNSKEYOwner = ''DNSKEY owner/class mismatch''"

definition DNSKEYSetMismatch :: msg where
  "DNSKEYSetMismatch = ''DNSKEY set mismatch: got %v expected %v''"

definition CoveredOwner :: msg where
  "CoveredOwner = ''covered RRset owner/class mismatch''"

definition CoveredAbsent :: msg where
  "CoveredAbsent = ''covered RRset is absent''"

definition NoValidRRSIG :: msg where
  "NoValidRRSIG = ''no cryptographically valid RRSIG by expected DNSKEY''"

definition DSOwner :: msg where
  "DSOwner = ''DS owner/class mismatch''"

definition DSSetMismatch :: msg where
  "DSSetMismatch = ''DS set mismatch: got %v expected %v''"

subsection \<open>Configuration\<close>

definition ModeInvalid :: msg where
  "ModeInvalid = ''mode must be observe or enforce''"

definition IntervalShort :: msg where
  "IntervalShort = ''reconcile interval must be at least 10s''"

definition MarginShort :: msg where
  "MarginShort = ''propagation margin must be at least 1m''"

definition RetentionShort :: msg where
  "RetentionShort = ''idempotency retention must be at least 24h''"

definition PathsAbsolute :: msg where
  "PathsAbsolute = ''state_file and socket must be absolute''"

definition StateFilePath :: msg where
  "StateFilePath = ''state_file must be under /var/lib/dnssec-keyrotation''"

definition SocketPath :: msg where
  "SocketPath = ''socket must be under /run/dnssec-keyrotation''"

definition PowerDNSURL :: msg where
  "PowerDNSURL = ''powerdns.url must be a valid loopback http URL''"

definition PowerDNSLoopback :: msg where
  "PowerDNSLoopback = ''powerdns.url must use loopback; remote plaintext API access is forbidden''"

definition AutoDNSHTTPS :: msg where
  "AutoDNSHTTPS = ''autodns.url must be HTTPS''"

definition AutoDNSHost :: msg where
  "AutoDNSHost = ''autodns.url host is not an approved DomainRobot endpoint''"

definition SecretPath :: msg where
  "SecretPath = ''secret path %s must be under /run/secrets''"

definition AutoDNSUser :: msg where
  "AutoDNSUser = ''autodns username and positive context are required''"

definition AutoDNSRate :: msg where
  "AutoDNSRate = ''autodns minimum request interval must stay below 3 requests/s''"

definition TwoDNSResolvers :: msg where
  "TwoDNSResolvers = ''at least two independent DNS resolvers are required''"

definition InvalidResolver :: msg where
  "InvalidResolver = ''invalid resolver %q: %w''"

definition DuplicateResolver :: msg where
  "DuplicateResolver = ''duplicate resolver %q''"

definition InvalidLocalAuth :: msg where
  "InvalidLocalAuth = ''invalid local authoritative address: %w''"

definition TwoAuthServers :: msg where
  "TwoAuthServers = ''at least two authoritative servers are required''"

definition EnrollTwoNS :: msg where
  "EnrollTwoNS = ''automatic enrollment requires at least two expected parent nameservers''"

definition InvalidExpectedNS :: msg where
  "InvalidExpectedNS = ''invalid or duplicate expected nameserver %q''"

definition EnrollAuthMatch :: msg where
  "EnrollAuthMatch = ''automatic enrollment requires authoritative_servers to match expected_nameservers exactly''"

definition AuthNotExpected :: msg where
  "AuthNotExpected = ''authoritative server %q is not an expected delegated nameserver''"

definition IntervalsPolicy :: msg where
  "IntervalsPolicy = ''rotation intervals are below policy minimum''"

definition WaitsPolicy :: msg where
  "WaitsPolicy = ''minimum DNSSEC evidence waits are below policy minimum''"

definition AutoMigration :: msg where
  "AutoMigration = ''automatic CSK migration is forbidden; use an explicit confirmed split trigger''"

definition ScopeInvalid :: msg where
  "ScopeInvalid = ''enrollment scope must be none or all_selected''"

definition ScopeRequired :: msg where
  "ScopeRequired = ''enabled enrollment requires explicit scope all_selected''"

definition GraceShort :: msg where
  "GraceShort = ''enrollment discovery grace must be at least 24h''"

definition BreakerLimits :: msg where
  "BreakerLimits = ''enrollment circuit-breaker limits must be between 1 and 100''"

definition AlgorithmsEmpty :: msg where
  "AlgorithmsEmpty = ''enrollment allowed_algorithms must not be empty''"

definition LMTPAddress :: msg where
  "LMTPAddress = ''invalid LMTP address: %w''"

definition LMTPPrivate :: msg where
  "LMTPPrivate = ''LMTP address must be a private or loopback IP''"

definition LMTPHostname :: msg where
  "LMTPHostname = ''LMTP hostname is required and must not contain line breaks''"

definition LMTPHostnameDNS :: msg where
  "LMTPHostnameDNS = ''LMTP hostname must be a valid DNS name''"

definition LMTPTimeout :: msg where
  "LMTPTimeout = ''LMTP timeout must be between 1s and 1m''"

definition LMTPSender :: msg where
  "LMTPSender = ''invalid LMTP sender: %w''"

definition LMTPNoRecipient :: msg where
  "LMTPNoRecipient = ''at least one LMTP recipient is required''"

definition LMTPRecipient :: msg where
  "LMTPRecipient = ''invalid LMTP recipient: %w''"

definition SecretNotRegular :: msg where
  "SecretNotRegular = ''secret %s must be a regular non-symlink file''"

definition SecretAccessible :: msg where
  "SecretAccessible = ''secret %s must not be group/world accessible''"

definition SecretEmpty :: msg where
  "SecretEmpty = ''secret %s is empty''"

definition MailboxBreaks :: msg where
  "MailboxBreaks = ''mailbox must not contain line breaks''"

definition MailboxEmpty :: msg where
  "MailboxEmpty = ''mailbox address is empty''"

subsection \<open>The state store\<close>

definition StateLocked :: msg where
  "StateLocked = ''state is locked by another controller: %w''"

definition DecodeState :: msg where
  "DecodeState = ''decode state: %w''"

definition UnsupportedVersion :: msg where
  "UnsupportedVersion = ''unsupported state version %d''"

definition PersistMigration :: msg where
  "PersistMigration = ''persist state v%d to v%d migration: %w''"

subsection \<open>The registrar client\<close>

definition AutoDomainRecords :: msg where
  "AutoDomainRecords = ''autodns domain info returned %d records''"

definition AutoDecodeDomain :: msg where
  "AutoDecodeDomain = ''decode autodns domain info: %w''"

definition AutoNameMismatch :: msg where
  "AutoNameMismatch = ''decode autodns domain info: returned domain name does not match request''"

definition AutoDNSSECMissing :: msg where
  "AutoDNSSECMissing = ''decode autodns domain info: dnssec field is missing''"

definition AutoDataMissing :: msg where
  "AutoDataMissing = ''decode autodns domain info: dnssecData field is missing''"

definition AutoBoolean :: msg where
  "AutoBoolean = ''decode autodns domain info: dnssec must be an explicit boolean''"

definition AutoArray :: msg where
  "AutoArray = ''decode autodns domain info: dnssecData must be an explicit array''"

definition AutoDecodeData :: msg where
  "AutoDecodeData = ''decode autodns domain info dnssecData: %w''"

definition AutoDataNull :: msg where
  "AutoDataNull = ''decode autodns domain info: dnssecData must not be null''"

definition AutoDecodeJob :: msg where
  "AutoDecodeJob = ''decode autodns job acknowledgement: %w''"

definition AutoNoJobID :: msg where
  "AutoNoJobID = ''autodns asynchronous response omitted job id''"

definition AutoJobIDPositive :: msg where
  "AutoJobIDPositive = ''autodns job id must be positive''"

definition AutoJobRecords :: msg where
  "AutoJobRecords = ''autodns job info returned %d records''"

definition AutoDecodeJobInfo :: msg where
  "AutoDecodeJobInfo = ''decode autodns job info: %w''"

definition AutoJobMismatch :: msg where
  "AutoJobMismatch = ''autodns job info did not identify requested job %d''"

definition AutoRequest :: msg where
  "AutoRequest = ''autodns %s %s: status %d code %s: %s''"

definition AutoTransport :: msg where
  "AutoTransport = ''autodns %s: %w''"

definition AutoDecode :: msg where
  "AutoDecode = ''decode autodns response: %w''"

definition AutoCode :: msg where
  "AutoCode = ''autodns code %s: %s''"

subsection \<open>The PowerDNS client\<close>

definition PDNSTransport :: msg where
  "PDNSTransport = ''powerdns %s: %w''"

definition PDNSStatus :: msg where
  "PDNSStatus = ''powerdns %s %s: status %d: %s''"

definition PDNSDecode :: msg where
  "PDNSDecode = ''decode powerdns response: %w''"

subsection \<open>The LMTP notifier\<close>

definition LMTPDisabled :: msg where
  "LMTPDisabled = ''LMTP notifications are disabled''"

definition LMTPDial :: msg where
  "LMTPDial = ''dial LMTP: %w''"

definition LMTPGreeting :: msg where
  "LMTPGreeting = ''LMTP greeting: %w''"

definition LMTPDelivery :: msg where
  "LMTPDelivery = ''LMTP delivery response: %w''"

definition LMTPCommand :: msg where
  "LMTPCommand = ''LMTP command %s: %w''"

definition MailboxBreak :: msg where
  "MailboxBreak = ''mailbox contains line break''"

definition EventZoneBreak :: msg where
  "EventZoneBreak = ''notification zone contains line break''"

definition EventZoneName :: msg where
  "EventZoneName = ''notification zone is not a valid DNS name''"

definition EventIDLength :: msg where
  "EventIDLength = ''notification event id length is invalid''"

definition EventIDChar :: msg where
  "EventIDChar = ''notification event id contains unsafe character''"

definition LMTPHostUnsafe :: msg where
  "LMTPHostUnsafe = ''LMTP hostname is not a safe DNS name''"

end
