(* ===== verification/Model.thy ===== *)
theory Model
  imports Errors
begin

text \<open>
  \<open>internal/model/model.go\<close>: the persisted workflow state and the external DNSSEC
  data. A Go string type with named constants is a datatype of these constants plus one
  constructor for every other text; the zero value of \<open>Kind\<close> and \<open>Phase\<close> is the empty
  text. Fields carry the source's names behind a letter for their struct.
\<close>

section \<open>Kinds and phases\<close>

datatype (plugins only: code size) kind =
  KindZSK | KindKSK | KindSplit | KindEnroll | KindOther string

fun kindStr :: "kind \<Rightarrow> string" where
  "kindStr KindZSK = ''zsk''"
| "kindStr KindKSK = ''ksk''"
| "kindStr KindSplit = ''split''"
| "kindStr KindEnroll = ''enroll''"
| "kindStr (KindOther s) = s"

datatype (plugins only: code size) phase =
    PhaseIdle | PhasePrepublish | PhaseWaitPublish | PhaseActivateNew
  | PhaseWaitNewSignature | PhaseDeactivateOld | PhaseParentRemove | PhaseWaitParentRemove
  | PhaseWaitRetire | PhaseDeleteOld | PhaseEnrollDiscovered | PhaseEnrollWaitPublish
  | PhaseEnrollParentAdd | PhaseEnrollWaitParent | PhaseBlocked | PhaseOther string

fun phaseStr :: "phase \<Rightarrow> string" where
  "phaseStr PhaseIdle = ''idle''"
| "phaseStr PhasePrepublish = ''prepublish''"
| "phaseStr PhaseWaitPublish = ''wait_publish''"
| "phaseStr PhaseActivateNew = ''activate_new''"
| "phaseStr PhaseWaitNewSignature = ''wait_new_signature''"
| "phaseStr PhaseDeactivateOld = ''deactivate_old''"
| "phaseStr PhaseParentRemove = ''parent_remove''"
| "phaseStr PhaseWaitParentRemove = ''wait_parent_remove''"
| "phaseStr PhaseWaitRetire = ''wait_retire''"
| "phaseStr PhaseDeleteOld = ''delete_old''"
| "phaseStr PhaseEnrollDiscovered = ''enroll_discovered''"
| "phaseStr PhaseEnrollWaitPublish = ''enroll_wait_publish''"
| "phaseStr PhaseEnrollParentAdd = ''enroll_parent_add''"
| "phaseStr PhaseEnrollWaitParent = ''enroll_wait_parent''"
| "phaseStr PhaseBlocked = ''blocked''"
| "phaseStr (PhaseOther s) = s"

section \<open>Keys, zones and registrar material\<close>

record key =
  kID :: int
  kKeyType :: string
  kActive :: bool
  kPublished :: bool
  kDNSKEY :: string
  kDS :: "string list"
  kAlgorithm :: string
  kBits :: int

record rrcontent =
  cContent :: string
  cDisabled :: bool

record rrset =
  rName :: string
  rType :: string
  rTTL :: "32 word"
  rRecords :: "rrcontent list"

record zone =
  zID :: string
  zName :: string
  zKind :: string
  zDNSSEC :: bool
  zRRsets :: "rrset list"

record dnssecData =
  dFlags :: "16 word"
  dProtocol :: "8 word"
  dAlgorithm :: "8 word"
  dPublicKey :: string

section \<open>Workflows and the state document\<close>

text \<open>
  \<open>LastError\<close> is the text of an error: \<open>None\<close> stands for the empty text and \<open>Some e\<close>
  for \<open>e.Error()\<close>. \<open>Attempts\<close> is only ever set to 0 or incremented, so it is a natural
  number here.
\<close>

record workflow =
  wZone :: string
  wZoneID :: string
  wKind :: kind
  wPhase :: phase
  wOldKeyID :: int
  wNewKeyID :: int
  wNewZSKID :: int
  wNewKeyCreateAttemptedAt :: time
  wNewZSKCreateAttemptedAt :: time
  wPhaseStartedAt :: time
  wNextActionAt :: time
  wLastCompletedAt :: time
  wLastError :: "err option"
  wAttempts :: nat
  wManual :: bool
  wIdempotencyKey :: string
  wDNSKEYTTL :: int
  wZoneTTL :: int
  wParentDSTTL :: int
  wEvidenceAt :: time
  wRegistrarCTID :: string
  wRegistrarSTID :: string
  wRegistrarJobID :: int
  wRegistrarJobStatus :: string
  wRegistrarAttemptedAt :: time
  wRegistrarPayloadHash :: string
  wParentMode :: string
  wSplitSignerTransitionAt :: time
  wDiscoveredAt :: time
  wKeysetFingerprint :: string
  wEnrollmentDisposition :: string

text \<open>The zero value \<open>model.Workflow{}\<close>\<close>

definition zeroWorkflow :: workflow where
  "zeroWorkflow =
     \<lparr>wZone = [], wZoneID = [], wKind = KindOther [], wPhase = PhaseOther [],
      wOldKeyID = 0, wNewKeyID = 0, wNewZSKID = 0,
      wNewKeyCreateAttemptedAt = 0, wNewZSKCreateAttemptedAt = 0,
      wPhaseStartedAt = 0, wNextActionAt = 0, wLastCompletedAt = 0,
      wLastError = None, wAttempts = 0, wManual = False, wIdempotencyKey = [],
      wDNSKEYTTL = 0, wZoneTTL = 0, wParentDSTTL = 0, wEvidenceAt = 0,
      wRegistrarCTID = [], wRegistrarSTID = [], wRegistrarJobID = 0,
      wRegistrarJobStatus = [], wRegistrarAttemptedAt = 0, wRegistrarPayloadHash = [],
      wParentMode = [], wSplitSignerTransitionAt = 0, wDiscoveredAt = 0,
      wKeysetFingerprint = [], wEnrollmentDisposition = []\<rparr>"

definition workflowActive :: "workflow \<Rightarrow> bool" where
  "workflowActive w \<longleftrightarrow> wPhase w \<noteq> PhaseOther [] \<and> wPhase w \<noteq> PhaseIdle"

record notification =
  nID :: string
  nEvent :: string
  nZone :: string
  nKind :: kind
  nCompletedAt :: time
  nOldKeyID :: int
  nNewKeyID :: int
  nNewZSKID :: int
  nRegistrarSTID :: string
  nAttempts :: nat
  nNextAttemptAt :: time
  nLastError :: "err option"
  nDeliveredAt :: time

record state =
  sVersion :: int
  sEnrollmentArmedAt :: time
  sWorkflows :: "(string \<times> workflow) list"
  sIdempotency :: "(string \<times> string) list"
  sNotifications :: "(string \<times> notification) list"

definition workflowKey :: "string \<Rightarrow> kind \<Rightarrow> string" where
  "workflowKey zone kind = zone @ CHR 0x7C # kindStr kind"

text \<open>Indexing a Go map yields the zero value for a missing key.\<close>

definition getWorkflow :: "state \<Rightarrow> string \<Rightarrow> workflow" where
  "getWorkflow s k = (case mget (sWorkflows s) k of None \<Rightarrow> zeroWorkflow | Some w \<Rightarrow> w)"

definition putWorkflow :: "string \<Rightarrow> workflow \<Rightarrow> state \<Rightarrow> state" where
  "putWorkflow k w s = s\<lparr>sWorkflows := mput k w (sWorkflows s)\<rparr>"

lemma putWorkflow_sel [simp]:
  "sVersion (putWorkflow k w s) = sVersion s"
  "sEnrollmentArmedAt (putWorkflow k w s) = sEnrollmentArmedAt s"
  "sIdempotency (putWorkflow k w s) = sIdempotency s"
  "sNotifications (putWorkflow k w s) = sNotifications s"
  by (simp_all add: putWorkflow_def)

lemma getWorkflow_put: "getWorkflow (putWorkflow k w s) j = (if j = k then w else getWorkflow s j)"
  by (simp add: getWorkflow_def putWorkflow_def mget_mput)

lemma getWorkflow_put_same [simp]: "getWorkflow (putWorkflow k w s) k = w"
  by (simp add: getWorkflow_put)

lemma getWorkflow_put_other [simp]: "j \<noteq> k \<Longrightarrow> getWorkflow (putWorkflow k w s) j = getWorkflow s j"
  by (simp add: getWorkflow_put)

lemma getWorkflow_frame [simp]:
  "getWorkflow (s\<lparr>sNotifications := n\<rparr>) k = getWorkflow s k"
  "getWorkflow (s\<lparr>sIdempotency := i\<rparr>) k = getWorkflow s k"
  "getWorkflow (s\<lparr>sEnrollmentArmedAt := a\<rparr>) k = getWorkflow s k"
  by (simp_all add: getWorkflow_def)

lemma zero_not_active [simp]: "\<not> workflowActive zeroWorkflow"
  by (simp add: workflowActive_def zeroWorkflow_def)

text \<open>
  Different kinds of one zone have different map keys, and so have different zones of one
  kind: the key is injective in the zone, and in the kind for the four named ones.
\<close>

lemma workflowKey_zone_inj [simp]: "workflowKey z k = workflowKey z' k \<longleftrightarrow> z = z'"
  by (simp add: workflowKey_def)

lemma workflowKey_kind_inj [simp]:
  "workflowKey z KindZSK \<noteq> workflowKey z KindKSK"
  "workflowKey z KindZSK \<noteq> workflowKey z KindSplit"
  "workflowKey z KindZSK \<noteq> workflowKey z KindEnroll"
  "workflowKey z KindKSK \<noteq> workflowKey z KindSplit"
  "workflowKey z KindKSK \<noteq> workflowKey z KindEnroll"
  "workflowKey z KindSplit \<noteq> workflowKey z KindEnroll"
  "workflowKey z KindKSK \<noteq> workflowKey z KindZSK"
  "workflowKey z KindSplit \<noteq> workflowKey z KindZSK"
  "workflowKey z KindEnroll \<noteq> workflowKey z KindZSK"
  "workflowKey z KindSplit \<noteq> workflowKey z KindKSK"
  "workflowKey z KindEnroll \<noteq> workflowKey z KindKSK"
  "workflowKey z KindEnroll \<noteq> workflowKey z KindSplit"
  by (simp_all add: workflowKey_def)

end
