(* ===== verification/Dns.thy ===== *)
theory Dns
  imports Model
begin

text \<open>
  DNS resource records as far as the source looks into them (its type switches on the
  \<open>dns.RR\<close> of the vendored \<open>miekg/dns\<close>), and the conversion of a PowerDNS key into
  registrar material of \<open>internal/dnsprobe/probe.go\<close>. The zone-file parser
  \<open>dns.NewRR\<close> is the parameter \<open>newRR\<close>.
\<close>

record rrHeader =
  hName :: string
  hRrtype :: "16 word"
  hClass :: "16 word"
  hTtl :: "32 word"

record dnskeyRR =
  dkHdr :: rrHeader
  dkFlags :: "16 word"
  dkProtocol :: "8 word"
  dkAlgorithm :: "8 word"
  dkPublicKey :: string

record dsRR =
  dsHdr :: rrHeader
  dsKeyTag :: "16 word"
  dsAlgorithm :: "8 word"
  dsDigestType :: "8 word"
  dsDigest :: string

record rrsigRR =
  sgHdr :: rrHeader
  sgTypeCovered :: "16 word"
  sgAlgorithm :: "8 word"
  sgLabels :: "8 word"
  sgOrigTtl :: "32 word"
  sgExpiration :: "32 word"
  sgInception :: "32 word"
  sgKeyTag :: "16 word"
  sgSignerName :: string
  sgSignature :: string

record nsecRR =
  nsHdr :: rrHeader
  nsNextDomain :: string
  nsTypeBitMap :: "16 word list"

record nsec3RR =
  n3Hdr :: rrHeader
  n3Hash :: "8 word"
  n3Flags :: "8 word"
  n3Iterations :: "16 word"
  n3SaltLength :: "8 word"
  n3Salt :: string
  n3HashLength :: "8 word"
  n3NextDomain :: string
  n3TypeBitMap :: "16 word list"

datatype (plugins only: code size) rr =
    RR_DNSKEY dnskeyRR
  | RR_DS dsRR
  | RR_RRSIG rrsigRR
  | RR_NSEC nsecRR
  | RR_NSEC3 nsec3RR
  | RR_NS rrHeader string
  | RR_SOA rrHeader
  | RR_A rrHeader string
  | RR_AAAA rrHeader string
  | RR_Other rrHeader

section \<open>Public keys of PowerDNS\<close>

definition keyRR :: "(string \<Rightarrow> err + rr) \<Rightarrow> string \<Rightarrow> key \<Rightarrow> err + dnskeyRR" where
  "keyRR newRR zone key =
     (let content = trimSpace (kDNSKEY key);
          parts = strFields content;
          content' = (if 4 < length parts \<and> equalFold (parts ! (length parts - 5)) ''DNSKEY''
                      then strJoin '' '' (drop (length parts - 4) parts) else content)
      in case newRR (fqdn zone @ '' 300 IN DNSKEY '' @ content') of
           Inl e \<Rightarrow> Inl (Wrap ParseDNSKEY [AInt (kID key)] e)
         | Inr (RR_DNSKEY k) \<Rightarrow> Inr k
         | Inr _ \<Rightarrow> Inl (Fmt NotDNSKEY [AInt (kID key)]))"

definition DNSSECDataForKey :: "(string \<Rightarrow> err + rr) \<Rightarrow> string \<Rightarrow> key \<Rightarrow> err + dnssecData" where
  "DNSSECDataForKey newRR zone key =
     (case keyRR newRR (fqdn zone) key of
        Inl e \<Rightarrow> Inl e
      | Inr rr \<Rightarrow> Inr \<lparr>dFlags = dkFlags rr, dProtocol = dkProtocol rr,
                       dAlgorithm = dkAlgorithm rr, dPublicKey = dkPublicKey rr\<rparr>)"

section \<open>Algorithm labels\<close>

text \<open>
  \<open>dns.StringToAlgorithm\<close> of the vendored \<open>miekg/dns\<close> (\<open>dnssec.go\<close>, \<open>types.go\<close>): the
  inverse of \<open>AlgorithmToString\<close>.
\<close>

definition stringToAlgorithm :: "(string \<times> 8 word) list" where
  "stringToAlgorithm =
     [(''RSAMD5'', 1), (''DH'', 2), (''DSA'', 3), (''RSASHA1'', 5), (''DSA-NSEC3-SHA1'', 6),
      (''RSASHA1-NSEC3-SHA1'', 7), (''RSASHA256'', 8), (''RSASHA512'', 10), (''ECC-GOST'', 12),
      (''ECDSAP256SHA256'', 13), (''ECDSAP384SHA384'', 14), (''ED25519'', 15), (''ED448'', 16),
      (''INDIRECT'', 252), (''PRIVATEDNS'', 253), (''PRIVATEOID'', 254)]"

definition validateAlgorithmLabel :: "string \<Rightarrow> 8 word \<Rightarrow> err option" where
  "validateAlgorithmLabel label algorithm =
     (case mget stringToAlgorithm (toUpper (trimSpace label)) of
        None \<Rightarrow> Some (Fmt UnknownAlgorithm [AStr label])
      | Some want \<Rightarrow>
          if want \<noteq> algorithm
          then Some (Fmt AlgorithmLabelMismatch [AStr label, AInt (uint want), AInt (uint algorithm)])
          else None)"

end
