(* ===== verification/Config.thy ===== *)
theory Config
  imports Model
begin

text \<open>
  \<open>internal/config/config.go\<close>: the configuration structs. One record per struct, one field
  per field, behind a two-letter prefix.
\<close>

record logConfig =
  lgLevel :: string

record controllerConfig =
  ccReconcileInterval :: duration
  ccPropagationMargin :: duration
  ccStateFile :: string
  ccSocket :: string
  ccIdempotencyRetention :: duration

record powerDNSConfig =
  pcURL :: string
  pcServerID :: string
  pcAPIKeyFile :: string
  pcTimeout :: duration

record autoDNSConfig =
  acURL :: string
  acUsername :: string
  acPasswordFile :: string
  acContext :: int
  acTimeout :: duration
  acMinimumRequestInterval :: duration

record dnsConfig =
  dcResolvers :: "string list"
  dcAuthoritativeServers :: "string list"
  dcExpectedNameservers :: "string list"
  dcLocalAuthoritative :: string
  dcTimeout :: duration

record rotationConfig =
  rcAlgorithm :: string
  rcZSKInterval :: duration
  rcKSKInterval :: duration
  rcAutoMigrateCSK :: bool
  rcMinimumDNSKEYWait :: duration
  rcMinimumParentWait :: duration
  rcIncludeZones :: "string list"
  rcExcludeZones :: "string list"

record enrollmentConfig =
  ecEnabled :: bool
  ecScope :: string
  ecDiscoveryGrace :: duration
  ecMaxPending :: int
  ecMaxNewPerDay :: int
  ecAllowedAlgorithms :: "string list"
  ecIncludeZones :: "string list"
  ecExcludeZones :: "string list"

record lmtpConfig =
  lcEnabled :: bool
  lcAddress :: string
  lcHostname :: string
  lcFrom :: string
  lcTo :: "string list"
  lcTimeout :: duration

record notificationsConfig =
  ncLMTP :: lmtpConfig

record config =
  cfMode :: string
  cfLog :: logConfig
  cfController :: controllerConfig
  cfPowerDNS :: powerDNSConfig
  cfAutoDNS :: autoDNSConfig
  cfDNS :: dnsConfig
  cfRotation :: rotationConfig
  cfEnrollment :: enrollmentConfig
  cfNotifications :: notificationsConfig

end
