(* ===== verification/Keys.thy ===== *)
theory Keys
  imports Dns Config
begin

text \<open>
  The key inventory functions of \<open>internal/controller/controller.go\<close>: which keys a zone
  has, which role a key plays, and the closed inventories every mutation is guarded by.
  All of them are pure; an error is \<open>Some e\<close> or \<open>Inl e\<close>.
\<close>

section \<open>Looking keys up\<close>

definition activeOfType :: "key list \<Rightarrow> string \<Rightarrow> nat" where
  "activeOfType keys typ = length (filter (\<lambda>k. kActive k \<and> kKeyType k = typ) keys)"

definition keyScheme :: "key list \<Rightarrow> string" where
  "keyScheme keys =
     (if activeOfType keys ''ksk'' = 1 \<and> activeOfType keys ''zsk'' = 1 \<and> activeOfType keys ''csk'' = 0
      then ''split''
      else if activeOfType keys ''csk'' = 1 \<and> activeOfType keys ''ksk'' = 0 \<and> activeOfType keys ''zsk'' = 0
      then ''csk''
      else ''unknown'')"

definition exactlyOneActive :: "key list \<Rightarrow> string \<Rightarrow> err + key" where
  "exactlyOneActive keys typ =
     (let a = filter (\<lambda>k. kKeyType k = typ \<and> kActive k) keys
      in if length a \<noteq> 1 then Inl (Fmt ExpectedOneActive [AStr typ, AInt (int (length a))])
         else Inr (a ! 0))"

fun byID :: "key list \<Rightarrow> int \<Rightarrow> key option" where
  "byID [] i = None"
| "byID (k # ks) i = (if kID k = i then Some k else byID ks i)"

definition recordedKeys :: "key list \<Rightarrow> int \<Rightarrow> int \<Rightarrow> err + (key \<times> key)" where
  "recordedKeys keys oldID newID =
     (case byID keys oldID of
        None \<Rightarrow> Inl (Fmt RecordedOldMissing [AInt oldID])
      | Some old \<Rightarrow>
         (case byID keys newID of
            None \<Rightarrow> Inl (Fmt RecordedNewMissing [AInt newID])
          | Some n \<Rightarrow> Inr (old, n)))"

definition publishedKeys :: "key list \<Rightarrow> key list" where
  "publishedKeys keys = filter kPublished keys"

section \<open>Roles\<close>

definition validatedKeyRole ::
  "(string \<Rightarrow> err + rr) \<Rightarrow> string \<Rightarrow> key \<Rightarrow> string \<Rightarrow> bool \<Rightarrow> err + dnssecData" where
  "validatedKeyRole newRR zone key wantType allowTransitionalCSK =
     (let wantFlags = (if wantType = ''ksk'' \<or> wantType = ''csk'' then 257 else 256) :: 16 word
      in case DNSSECDataForKey newRR zone key of
           Inl e \<Rightarrow> Inl (Wrap DNSKEYInvalid [AInt (kID key)] e)
         | Inr d \<Rightarrow>
             if dProtocol d \<noteq> 3
             then Inl (Fmt DNSKEYProtocol [AInt (kID key), AInt (uint (dProtocol d))])
             else if dFlags d \<noteq> wantFlags
             then Inl (Fmt DNSKEYFlags [AInt (kID key), AInt (uint (dFlags d)), AInt (uint wantFlags), AStr wantType])
             else if kKeyType key = wantType then Inr d
             else if allowTransitionalCSK \<and> kKeyType key = ''csk'' \<and> (wantType = ''ksk'' \<or> wantType = ''zsk'')
             then Inr d
             else Inl (Fmt KeyTypeMismatch [AInt (kID key), AStr (kKeyType key), AStr wantType]))"

section \<open>Closed inventories\<close>

text \<open>
  The last loop of the inventory checks: the first key that is active or published and is
  not one of the allowed identifiers.
\<close>

fun unexpectedKey :: "int list \<Rightarrow> key list \<Rightarrow> key option" where
  "unexpectedKey allowed [] = None"
| "unexpectedKey allowed (k # ks) =
     (if (kActive k \<or> kPublished k) \<and> kID k \<notin> set allowed then Some k
      else unexpectedKey allowed ks)"

definition closedInventory :: "int list \<Rightarrow> key list \<Rightarrow> err option" where
  "closedInventory allowed keys =
     (case unexpectedKey allowed keys of
        None \<Rightarrow> None
      | Some k \<Rightarrow> Some (Fmt UnexpectedKey [AInt (kID k), AStr (kKeyType k)]))"

definition validatePrepublishInventory ::
  "(string \<Rightarrow> err + rr) \<Rightarrow> string \<Rightarrow> key list \<Rightarrow> workflow \<Rightarrow> err option" where
  "validatePrepublishInventory newRR zone keys w =
   (if wOldKeyID w = 0 \<or> wNewKeyID w = 0 \<or> wOldKeyID w = wNewKeyID w
    then Some (Fmt IdsNotDistinct [])
    else if wKind w = KindSplit \<and> (wNewZSKID w = 0 \<or> wOldKeyID w = wNewZSKID w \<or> wNewKeyID w = wNewZSKID w)
    then Some (Fmt SplitIdsNotDistinct [])
    else (case recordedKeys keys (wOldKeyID w) (wNewKeyID w) of
      Inl e \<Rightarrow> Some e
    | Inr (old, newKey) \<Rightarrow>
     (let wantOldType = (if wKind w = KindSplit then ''csk'' else kindStr (wKind w))
      in case validatedKeyRole newRR zone old wantOldType False of
        Inl e \<Rightarrow> Some (Wrap OldKeyRole [] e)
      | Inr oldData \<Rightarrow>
       (if \<not> kActive old \<or> \<not> kPublished old then Some (Fmt OldNotActive [AStr wantOldType])
        else
        (let wantNewActive = (wKind w = KindKSK \<or> wKind w = KindSplit);
             wantNewType = (if wKind w = KindSplit then ''ksk'' else kindStr (wKind w))
         in case validatedKeyRole newRR zone newKey wantNewType (wKind w = KindSplit) of
           Inl e \<Rightarrow> Some (Wrap NewKeyRole [] e)
         | Inr newData \<Rightarrow>
          (if dAlgorithm newData \<noteq> dAlgorithm oldData
           then Some (Fmt NewAlgorithmDiffers [AInt (uint (dAlgorithm newData)), AInt (uint (dAlgorithm oldData))])
           else if kActive newKey \<noteq> wantNewActive \<or> \<not> kPublished newKey
           then Some (Fmt NewKeyState [AStr wantNewType])
           else if wKind w = KindSplit then
            (case byID keys (wNewZSKID w) of
               None \<Rightarrow> Some (Fmt NewZSKMissing [])
             | Some zsk \<Rightarrow>
              (case validatedKeyRole newRR zone zsk ''zsk'' True of
                 Inl e \<Rightarrow> Some (Wrap NewZSKRole [] e)
               | Inr zskData \<Rightarrow>
                  if dAlgorithm zskData \<noteq> dAlgorithm oldData
                  then Some (Fmt NewZSKAlgorithmDiffers [AInt (uint (dAlgorithm zskData)), AInt (uint (dAlgorithm oldData))])
                  else if kActive zsk \<or> \<not> kPublished zsk then Some (Fmt NewZSKState [])
                  else closedInventory [kID old, kID newKey, kID zsk] keys))
           else
            (let companionType = (if wKind w = KindKSK then ''zsk'' else ''ksk'')
             in case exactlyOneActive keys companionType of
                  Inl e \<Rightarrow> Some (Fmt CompanionMissing [AStr companionType])
                | Inr companion \<Rightarrow>
                    if \<not> kPublished companion then Some (Fmt CompanionMissing [AStr companionType])
                    else closedInventory [kID old, kID newKey, kID companion] keys)))))))"

definition validateSplitMutationInventory ::
  "(string \<Rightarrow> err + rr) \<Rightarrow> string \<Rightarrow> key list \<Rightarrow> workflow \<Rightarrow> bool \<Rightarrow> err option" where
  "validateSplitMutationInventory newRR zone keys w oldActive =
   (if wKind w \<noteq> KindSplit \<or> wOldKeyID w = 0 \<or> wNewKeyID w = 0 \<or> wNewZSKID w = 0
       \<or> wOldKeyID w = wNewKeyID w \<or> wOldKeyID w = wNewZSKID w \<or> wNewKeyID w = wNewZSKID w
    then Some (Fmt ActiveSplitIds [])
    else (case recordedKeys keys (wOldKeyID w) (wNewKeyID w) of
      Inl e \<Rightarrow> Some e
    | Inr (old, newKSK) \<Rightarrow>
     (case byID keys (wNewZSKID w) of
        None \<Rightarrow> Some (Fmt NewZSKIdMissing [AInt (wNewZSKID w)])
      | Some newZSK \<Rightarrow>
       (case validatedKeyRole newRR zone old ''ksk'' True of
          Inl e \<Rightarrow> Some (Wrap OldCSKRole [] e)
        | Inr oldData \<Rightarrow>
         (case validatedKeyRole newRR zone newKSK ''ksk'' True of
            Inl e \<Rightarrow> Some (Wrap NewKSKRole [] e)
          | Inr kskData \<Rightarrow>
           (case validatedKeyRole newRR zone newZSK ''zsk'' True of
              Inl e \<Rightarrow> Some (Wrap NewZSKRole [] e)
            | Inr zskData \<Rightarrow>
               if dAlgorithm oldData \<noteq> dAlgorithm kskData \<or> dAlgorithm oldData \<noteq> dAlgorithm zskData
               then Some (Fmt ActiveSplitAlgorithms [])
               else if kActive old \<noteq> oldActive \<or> \<not> kPublished old \<or> \<not> kActive newKSK \<or> \<not> kPublished newKSK
                       \<or> \<not> kActive newZSK \<or> \<not> kPublished newZSK
               then Some (Fmt SplitKeyState [ABool oldActive])
               else closedInventory [kID old, kID newKSK, kID newZSK] keys))))))"

definition validateActiveSplitInventory where
  "validateActiveSplitInventory newRR zone keys w = validateSplitMutationInventory newRR zone keys w True"

definition validateDeactivatedSplitInventory where
  "validateDeactivatedSplitInventory newRR zone keys w = validateSplitMutationInventory newRR zone keys w False"

text \<open>
  \<open>retirementInventory\<close>: besides extra keys its loop refuses a duplicated identifier.
\<close>

fun retirementLoop :: "int list \<Rightarrow> int list \<Rightarrow> key list \<Rightarrow> err option" where
  "retirementLoop allowed seen [] = None"
| "retirementLoop allowed seen (k # ks) =
     (if kID k \<in> set seen \<or> ((kActive k \<or> kPublished k) \<and> kID k \<notin> set allowed)
      then Some (Fmt RetirementUnexpected [AInt (kID k)])
      else retirementLoop allowed (kID k # seen) ks)"

definition retirementInventory ::
  "(string \<Rightarrow> err + rr) \<Rightarrow> string \<Rightarrow> key list \<Rightarrow> workflow \<Rightarrow> err + key list" where
  "retirementInventory newRR zone keys w =
   (if wOldKeyID w \<le> 0 \<or> wNewKeyID w \<le> 0 \<or> wOldKeyID w = wNewKeyID w
    then Inl (Fmt RetirementIds [])
    else (case byID keys (wNewKeyID w) of
      None \<Rightarrow> Inl (Fmt ReplacementMissing [])
    | Some replacement \<Rightarrow>
     (if \<not> kActive replacement \<or> \<not> kPublished replacement then Inl (Fmt ReplacementMissing [])
      else case validatedKeyRole newRR zone replacement (kindStr (wKind w)) False of
        Inl e \<Rightarrow> Inl e
      | Inr data \<Rightarrow>
       (let companionRole = (if wKind w = KindKSK then ''zsk'' else ''ksk'')
        in case exactlyOneActive keys companionRole of
          Inl e \<Rightarrow> Inl (Fmt RetirementCompanion [AStr companionRole])
        | Inr companion \<Rightarrow>
         (if \<not> kPublished companion \<or> kID companion = wOldKeyID w \<or> kID companion = wNewKeyID w
          then Inl (Fmt RetirementCompanion [AStr companionRole])
          else case validatedKeyRole newRR zone companion companionRole False of
            Inl e \<Rightarrow> Inl e
          | Inr companionData \<Rightarrow>
           (case byID keys (wOldKeyID w) of
              None \<Rightarrow>
               (case retirementLoop [kID replacement, kID companion] [] keys of
                  Some e \<Rightarrow> Inl e
                | None \<Rightarrow> Inr [replacement, companion])
            | Some old \<Rightarrow>
               (case validatedKeyRole newRR zone old (kindStr (wKind w)) False of
                  Inl e \<Rightarrow> Inl (Fmt RetirementOldKey [])
                | Inr oldData \<Rightarrow>
                   if kActive old \<or> \<not> kPublished old \<or> dAlgorithm oldData \<noteq> dAlgorithm data
                   then Inl (Fmt RetirementOldKey [])
                   else (case retirementLoop [kID replacement, kID companion, kID old] [] keys of
                           Some e \<Rightarrow> Inl e
                         | None \<Rightarrow> Inr [replacement, companion, old]))))))))"

end
