(* ===== verification/Material.thy ===== *)
theory Material
  imports Keys
begin

text \<open>
  Registrar material, the enrollment inventory with its fingerprint, zone TTLs and job
  states: the remaining pure functions of \<open>internal/controller/controller.go\<close>.
  \<open>sha256\<close> is the parameter for \<open>crypto/sha256\<close>.
\<close>

section \<open>Hashes\<close>

text \<open>\<open>fmt.Sprintf("%x", bytes)\<close>\<close>

definition hexDigit :: "nat \<Rightarrow> char" where
  "hexDigit d = (if d < 10 then char_of (48 + d) else char_of (87 + d))"

definition hexBytes :: "8 word list \<Rightarrow> string" where
  "hexBytes bs = concat (map (\<lambda>b. [hexDigit (unat b div 16), hexDigit (unat b mod 16)]) bs)"

definition dnssecPayloadHash :: "(string \<Rightarrow> 8 word list) \<Rightarrow> dnssecData \<Rightarrow> string" where
  "dnssecPayloadHash sha256 data =
     ''sha256:'' @ hexBytes (sha256 (strJoin ''|'' [itoa (uint (dFlags data)), itoa (uint (dProtocol data)),
                                             itoa (uint (dAlgorithm data)), dPublicKey data]))"

section \<open>Enrollment inventory\<close>

text \<open>
  The first loop of \<open>validateEnrollmentInventory\<close> with its early returns: the KSKs and the
  ZSKs among the keys that are active and published.
\<close>

fun enrollmentPartition :: "key list \<Rightarrow> key list \<Rightarrow> key list \<Rightarrow> err + (key list \<times> key list)" where
  "enrollmentPartition ksk zsk [] = Inr (ksk, zsk)"
| "enrollmentPartition ksk zsk (k # ks) =
     (if \<not> kActive k \<and> \<not> kPublished k then enrollmentPartition ksk zsk ks
      else if \<not> kActive k \<or> \<not> kPublished k then Inl (Fmt KeyPartial [AInt (kID k)])
      else if kKeyType k = ''ksk'' then enrollmentPartition (ksk @ [k]) zsk ks
      else if kKeyType k = ''zsk'' then enrollmentPartition ksk (zsk @ [k]) ks
      else Inl (Fmt UnexpectedKey [AInt (kID k), AStr (kKeyType k)]))"

definition keysetFingerprint ::
  "(string \<Rightarrow> 8 word list) \<Rightarrow> key \<Rightarrow> dnssecData \<Rightarrow> key \<Rightarrow> dnssecData \<Rightarrow> string" where
  "keysetFingerprint sha256 ksk kdata zsk zdata =
     ''sha256:'' @ hexBytes (sha256 (strJoin ''|''
        [''ksk'', itoa (kID ksk), itoa (uint (dProtocol kdata)), itoa (uint (dAlgorithm kdata)), dPublicKey kdata,
         ''zsk'', itoa (kID zsk), itoa (uint (dProtocol zdata)), itoa (uint (dAlgorithm zdata)), dPublicKey zdata]))"

definition validateEnrollmentInventory ::
  "(string \<Rightarrow> err + rr) \<Rightarrow> (string \<Rightarrow> 8 word list) \<Rightarrow> string \<Rightarrow> key list \<Rightarrow> int \<Rightarrow> int \<Rightarrow> string
   \<Rightarrow> string list \<Rightarrow> err + (key \<times> key \<times> string)" where
  "validateEnrollmentInventory newRR sha256 zone keys expectedKSK expectedZSK expectedFingerprint allowedAlgorithms =
   (case enrollmentPartition [] [] keys of
      Inl e \<Rightarrow> Inl e
    | Inr (ksks, zsks) \<Rightarrow>
     (if length ksks \<noteq> 1 \<or> length zsks \<noteq> 1 \<or> kID (ksks ! 0) = kID (zsks ! 0)
      then Inl (Fmt ExpectedOneKSKandZSK [])
      else
      (let ksk = ksks ! 0; zsk = zsks ! 0
       in if expectedKSK \<noteq> 0 \<and> kID ksk \<noteq> expectedKSK
          then Inl (Fmt KSKIdChanged [AInt expectedKSK, AInt (kID ksk)])
          else if expectedZSK \<noteq> 0 \<and> kID zsk \<noteq> expectedZSK
          then Inl (Fmt ZSKIdChanged [AInt expectedZSK, AInt (kID zsk)])
          else case validatedKeyRole newRR zone ksk ''ksk'' False of
            Inl e \<Rightarrow> Inl e
          | Inr kdata \<Rightarrow>
           (case validatedKeyRole newRR zone zsk ''zsk'' False of
              Inl e \<Rightarrow> Inl e
            | Inr zdata \<Rightarrow>
              (if dAlgorithm kdata \<noteq> dAlgorithm zdata then Inl (Fmt AlgorithmsDiffer [])
               else case validateAlgorithmLabel (kAlgorithm ksk) (dAlgorithm kdata) of
                 Some e \<Rightarrow> Inl e
               | None \<Rightarrow>
                (case validateAlgorithmLabel (kAlgorithm zsk) (dAlgorithm zdata) of
                   Some e \<Rightarrow> Inl e
                 | None \<Rightarrow>
                   if \<not> list_ex (\<lambda>label. equalFold (trimSpace label) (kAlgorithm ksk)) allowedAlgorithms
                   then Inl (Fmt AlgorithmNotAllowed [AStr (kAlgorithm ksk)])
                   else (let fingerprint = keysetFingerprint sha256 ksk kdata zsk zdata
                         in if expectedFingerprint \<noteq> [] \<and> fingerprint \<noteq> expectedFingerprint
                            then Inl (Fmt FingerprintChanged [])
                            else Inr (ksk, zsk, fingerprint))))))))"

section \<open>Registrar material\<close>

definition materialKey :: "dnssecData \<Rightarrow> string" where
  "materialKey x =
     itoa (uint (dFlags x)) @ ''/'' @ itoa (uint (dProtocol x)) @ ''/'' @ itoa (uint (dAlgorithm x))
       @ ''/'' @ trimSpace (dPublicKey x)"

definition sameMaterial :: "dnssecData list \<Rightarrow> dnssecData list \<Rightarrow> bool" where
  "sameMaterial a b \<longleftrightarrow>
     (if length a \<noteq> length b then False
      else sort (map materialKey a) = sort (map materialKey b))"

section \<open>Job states, TTLs\<close>

definition jobSucceeded :: "string \<Rightarrow> bool" where
  "jobSucceeded status \<longleftrightarrow>
     toUpper status \<in> {''SUCCESS'', ''SUCCEEDED'', ''DONE'', ''COMPLETED''}"

definition jobFailed :: "string \<Rightarrow> bool" where
  "jobFailed status \<longleftrightarrow>
     toUpper status \<in> {''FAILED'', ''FAILURE'', ''ERROR'', ''CANCELED'', ''CANCELLED''}"

fun maxTTLLoop :: "32 word \<Rightarrow> rrset list \<Rightarrow> 32 word" where
  "maxTTLLoop maximum [] = maximum"
| "maxTTLLoop maximum (r # rs) = maxTTLLoop (if rTTL r > maximum then rTTL r else maximum) rs"

definition maxTTL :: "zone \<Rightarrow> duration" where
  "maxTTL z = durMul (uint (maxTTLLoop 86400 (zRRsets z))) second"

definition maxDuration :: "duration \<Rightarrow> duration \<Rightarrow> duration" where
  "maxDuration a b = (if a > b then a else b)"

section \<open>Facts\<close>

lemma maxDuration_max [simp]: "maxDuration a b = max a b"
  by (simp add: maxDuration_def)

lemma maxTTLLoop_eq: "maxTTLLoop m rs = Max (insert m (rTTL ` set rs))"
proof (induction m rs rule: maxTTLLoop.induct)
  case (1 m)
  then show ?case by simp
next
  case (2 m r rs)
  have "Max (insert m (insert (rTTL r) (rTTL ` set rs)))
      = Max (insert (max m (rTTL r)) (rTTL ` set rs))"
    by (cases "rs = []") (simp_all add: max.assoc)
  moreover have "(if rTTL r > m then rTTL r else m) = max m (rTTL r)"
    by (auto simp: max_def dest: less_imp_le)
  ultimately show ?case using 2 by simp
qed

lemma maxTTLLoop_ge: "m \<le> maxTTLLoop m rs"
  by (simp add: maxTTLLoop_eq)

lemma maxTTLLoop_bounds: "86400 \<le> uint (maxTTLLoop 86400 rs) \<and> uint (maxTTLLoop 86400 rs) < 2 ^ 32"
proof -
  have "uint (86400 :: 32 word) \<le> uint (maxTTLLoop 86400 rs)"
    using maxTTLLoop_ge [of 86400 rs] by (simp add: word_le_def)
  moreover have "uint (maxTTLLoop 86400 rs) < 2 ^ LENGTH(32)"
    by (rule uint_lt2p)
  ultimately show ?thesis by simp
qed

lemma maxTTL_eq: "maxTTL z = uint (maxTTLLoop 86400 (zRRsets z)) * second"
  using maxTTLLoop_bounds [of "zRRsets z"]
  by (simp add: maxTTL_def durMul_def i64_id i64_range_def second_def)

lemma maxTTL_pos [simp]: "0 < maxTTL z"
  using maxTTLLoop_bounds [of "zRRsets z"] by (simp add: maxTTL_eq second_def)

lemma durSeconds_maxTTL: "durSeconds (maxTTL z) = uint (maxTTLLoop 86400 (zRRsets z))"
  by (simp add: maxTTL_eq)

lemma durSeconds_maxTTL_bounds:
  "86400 \<le> durSeconds (maxTTL z)" "durSeconds (maxTTL z) < 2 ^ 32"
  using maxTTLLoop_bounds [of "zRRsets z"] by (simp_all add: durSeconds_maxTTL)

text \<open>Material keys determine all four components (public keys up to surrounding space).\<close>

lemma slash_notin_itoa: "0 \<le> i \<Longrightarrow> CHR 0x2F \<notin> set (itoa i)"
  using natDigits_chars [of "CHR 0x2F" "nat i"] by (auto simp: itoa_def)

lemma materialKey_eq_iff:
  "materialKey x = materialKey y \<longleftrightarrow>
     dFlags x = dFlags y \<and> dProtocol x = dProtocol y \<and> dAlgorithm x = dAlgorithm y
     \<and> trimSpace (dPublicKey x) = trimSpace (dPublicKey y)"
  by (simp add: materialKey_def split_at_sep slash_notin_itoa word_uint_eq_iff)

lemma sameMaterial_mset:
  "sameMaterial a b \<longleftrightarrow> mset (map materialKey a) = mset (map materialKey b)"
  using mset_eq_length [of "map materialKey a" "map materialKey b"]
  by (auto simp: sameMaterial_def sort_eq_iff_mset simp del: mset_map)

lemma sameMaterial_refl [simp]: "sameMaterial a a"
  by (simp add: sameMaterial_mset)

lemma sameMaterial_sym: "sameMaterial a b \<longleftrightarrow> sameMaterial b a"
  by (auto simp: sameMaterial_mset)

lemma sameMaterial_trans: "sameMaterial a b \<Longrightarrow> sameMaterial b c \<Longrightarrow> sameMaterial a c"
  by (simp add: sameMaterial_mset)

lemma jobSucceeded_not_failed: "jobSucceeded s \<Longrightarrow> \<not> jobFailed s"
  by (auto simp: jobSucceeded_def jobFailed_def)

end
