(* ===== verification/Effects.thy ===== *)
theory Effects
  imports Errors
begin

text \<open>
  Operations on a state of any type that end in an error or in a value, how the code puts
  them in sequence, and weakest preconditions for them. \<open>wp m Q s\<close> says that running \<open>m\<close> in
  \<open>s\<close> ends in a result and a state that satisfy \<open>Q\<close>.
\<close>

type_synonym ('s, 'a) opn = "'s \<Rightarrow> (err + 'a) \<times> 's"

section \<open>Sequencing\<close>

text \<open>
  \<open>ret\<close> is a return without error, \<open>throw\<close> a return with one. \<open>bind m f\<close> is
  \<open>x, err := m; if err != nil { return err }; f(x)\<close>; \<open>attempt m\<close> hands the error on as a
  value, for code that does something else with it; \<open>wrapErr\<close> is
  \<open>if err != nil { return fmt.Errorf("...: %w", err) }\<close>.
\<close>

definition ret :: "'a \<Rightarrow> ('s, 'a) opn" where
  "ret x = (\<lambda>s. (Inr x, s))"

definition throw :: "err \<Rightarrow> ('s, 'a) opn" where
  "throw e = (\<lambda>s. (Inl e, s))"

definition bind :: "('s, 'a) opn \<Rightarrow> ('a \<Rightarrow> ('s, 'b) opn) \<Rightarrow> ('s, 'b) opn" where
  "bind m f = (\<lambda>s. case m s of (Inl e, t) \<Rightarrow> (Inl e, t) | (Inr x, t) \<Rightarrow> f x t)"

definition attempt :: "('s, 'a) opn \<Rightarrow> ('s, err + 'a) opn" where
  "attempt m = (\<lambda>s. case m s of (r, t) \<Rightarrow> (Inr r, t))"

definition wrapErr :: "(err \<Rightarrow> err) \<Rightarrow> ('s, 'a) opn \<Rightarrow> ('s, 'a) opn" where
  "wrapErr f m = (\<lambda>s. case m s of (Inl e, t) \<Rightarrow> (Inl (f e), t) | (Inr x, t) \<Rightarrow> (Inr x, t))"

text \<open>A pure function that returns an error or a value.\<close>

definition pureE :: "err + 'a \<Rightarrow> ('s, 'a) opn" where
  "pureE r = (\<lambda>s. (r, s))"

section \<open>Weakest preconditions\<close>

named_theorems wp_simps \<open>weakest preconditions of the sequencing operations\<close>
named_theorems wp_intros \<open>weakest preconditions of the calls to the outside\<close>
named_theorems op_defs \<open>definitions of the interface calls\<close>
named_theorems vcg \<open>introduction rules that follow the syntax of an operation\<close>

definition wp :: "('s, 'a) opn \<Rightarrow> (err + 'a \<Rightarrow> 's \<Rightarrow> bool) \<Rightarrow> 's \<Rightarrow> bool" where
  "wp m Q s \<longleftrightarrow> (case m s of (r, t) \<Rightarrow> Q r t)"

lemma wpI: "wp m Q s \<Longrightarrow> m s = (r, t) \<Longrightarrow> Q r t"
  by (simp add: wp_def)

lemma wp_conv: "wp m Q s \<longleftrightarrow> Q (fst (m s)) (snd (m s))"
  by (simp add: wp_def split: prod.split)

lemma wp_mono: "wp m P s \<Longrightarrow> (\<And>r t. P r t \<Longrightarrow> Q r t) \<Longrightarrow> wp m Q s"
  by (simp add: wp_conv)

lemma wp_conj: "wp m P s \<Longrightarrow> wp m Q s \<Longrightarrow> wp m (\<lambda>r t. P r t \<and> Q r t) s"
  by (simp add: wp_conv)

lemma wp_ret [wp_simps]: "wp (ret x) Q s = Q (Inr x) s"
  by (simp add: wp_def ret_def)

lemma wp_throw [wp_simps]: "wp (throw e) Q s = Q (Inl e) s"
  by (simp add: wp_def throw_def)

lemma wp_pureE [wp_simps]: "wp (pureE r) Q s = Q r s"
  by (simp add: wp_def pureE_def)

lemma wp_bind [wp_simps]:
  "wp (bind m f) Q s = wp m (case_sum (\<lambda>e. Q (Inl e)) (\<lambda>x. wp (f x) Q)) s"
  by (simp add: wp_def bind_def split: prod.split sum.split)

lemma wp_attempt [wp_simps]: "wp (attempt m) Q s = wp m (\<lambda>r. Q (Inr r)) s"
  by (simp add: wp_def attempt_def split: prod.split)

lemma wp_wrapErr [wp_simps]:
  "wp (wrapErr f m) Q s = wp m (case_sum (\<lambda>e. Q (Inl (f e))) (\<lambda>x. Q (Inr x))) s"
  by (simp add: wp_def wrapErr_def split: prod.split sum.split)

lemma wp_if [wp_simps]: "wp (if b then m else n) Q s = (if b then wp m Q s else wp n Q s)"
  by simp

lemma wp_case_option [wp_simps]:
  "wp (case x of None \<Rightarrow> m | Some y \<Rightarrow> f y) Q s = (case x of None \<Rightarrow> wp m Q s | Some y \<Rightarrow> wp (f y) Q s)"
  by (simp split: option.split)

lemma wp_case_sum [wp_simps]:
  "wp (case x of Inl e \<Rightarrow> g e | Inr y \<Rightarrow> f y) Q s = (case x of Inl e \<Rightarrow> wp (g e) Q s | Inr y \<Rightarrow> wp (f y) Q s)"
  by (simp split: sum.split)

lemma wp_case_prod [wp_simps]:
  "wp (case x of (a, b) \<Rightarrow> f a b) Q s = (case x of (a, b) \<Rightarrow> wp (f a b) Q s)"
  by (simp split: prod.split)

section \<open>Verification conditions\<close>

text \<open>
  \<open>intro vcg\<close> follows the syntax of an operation and leaves one subgoal for every path
  through it. Each intermediate system state is a fresh variable, related to the one before
  it by equations on the state document and the history only; so the subgoals stay small
  and hold for every behaviour of the services.
\<close>

lemma vcg_ret [vcg]: "Q (Inr x) s \<Longrightarrow> wp (ret x) Q s"
  by (simp add: wp_simps)

lemma vcg_throw [vcg]: "Q (Inl e) s \<Longrightarrow> wp (throw e) Q s"
  by (simp add: wp_simps)

lemma vcg_pureE [vcg]:
  "(\<And>e. r = Inl e \<Longrightarrow> Q (Inl e) s) \<Longrightarrow> (\<And>x. r = Inr x \<Longrightarrow> Q (Inr x) s) \<Longrightarrow> wp (pureE r) Q s"
  by (cases r) (simp_all add: wp_simps)

lemma vcg_bind [vcg]:
  "wp m (case_sum (\<lambda>e. Q (Inl e)) (\<lambda>x. wp (f x) Q)) s \<Longrightarrow> wp (bind m f) Q s"
  by (simp add: wp_simps)

lemma vcg_attempt [vcg]: "wp m (\<lambda>r. Q (Inr r)) s \<Longrightarrow> wp (attempt m) Q s"
  by (simp add: wp_simps)

lemma vcg_wrapErr [vcg]:
  "wp m (case_sum (\<lambda>e. Q (Inl (f e))) (\<lambda>x. Q (Inr x))) s \<Longrightarrow> wp (wrapErr f m) Q s"
  by (simp add: wp_simps)

lemma vcg_Inl [vcg]: "A e s \<Longrightarrow> case_sum A B (Inl e) s"
  by simp

lemma vcg_Inr [vcg]: "B x s \<Longrightarrow> case_sum A B (Inr x) s"
  by simp

lemma vcg_if [vcg]:
  "(b \<Longrightarrow> wp m Q s) \<Longrightarrow> (\<not> b \<Longrightarrow> wp n Q s) \<Longrightarrow> wp (if b then m else n) Q s"
  by simp

lemma vcg_let [vcg]: "(\<And>x. x = v \<Longrightarrow> wp (f x) Q s) \<Longrightarrow> wp (Let v f) Q s"
  by simp

lemma vcg_option [vcg]:
  "(x = None \<Longrightarrow> wp m Q s) \<Longrightarrow> (\<And>y. x = Some y \<Longrightarrow> wp (f y) Q s) \<Longrightarrow> wp (case_option m f x) Q s"
  by (cases x) simp_all

lemma vcg_sum [vcg]:
  "(\<And>e. x = Inl e \<Longrightarrow> wp (m e) Q s) \<Longrightarrow> (\<And>y. x = Inr y \<Longrightarrow> wp (f y) Q s) \<Longrightarrow> wp (case_sum m f x) Q s"
  by (cases x) simp_all

lemma vcg_prod [vcg]: "(\<And>a b. x = (a, b) \<Longrightarrow> wp (f a b) Q s) \<Longrightarrow> wp (case_prod f x) Q s"
  by (cases x) simp_all

lemma vcg_list [vcg]:
  "(xs = [] \<Longrightarrow> wp m Q s) \<Longrightarrow> (\<And>y ys. xs = y # ys \<Longrightarrow> wp (f y ys) Q s) \<Longrightarrow> wp (case_list m f xs) Q s"
  by (cases xs) simp_all

lemma wp_after:
  assumes "wp m (\<lambda>r t. P t) u" "\<And>e t. P t \<Longrightarrow> Q (Inl e) t" "\<And>x t. P t \<Longrightarrow> Q (Inr x) t"
  shows "wp m Q u"
proof (rule wp_mono [OF assms(1)])
  fix r t
  assume "P t"
  then show "Q r t" by (cases r) (simp_all add: assms)
qed

end
