(* ===== verification/Io.thy ===== *)
theory Io
  imports Material Effects
begin

text \<open>
  Effects. The \<open>Controller\<close> struct of \<open>internal/controller/controller.go\<close> holds the
  configuration and the interfaces of the services around it: the PowerDNS API
  (\<open>internal/pdns\<close>), the registrar API (\<open>internal/autodns\<close>), the observer
  (\<open>internal/dnsprobe\<close>), the notifier, the clock and the state store. Behind an interface
  is a world of unknown type \<open>'w\<close> that every call may change.

  An operation of the controller is a function on the system state: the state document
  held by the store, the world, and the history of calls made so far with their results.
  The code never reads the history; theorems do. Because an operation appends to it in
  program order, a prefix of the history is what has happened when the process stops at
  that point.
\<close>

section \<open>Interfaces\<close>

record domainDNSSECState =
  dsEnabled :: bool
  dsData :: "dnssecData list"
  dsOmitted :: bool

record job =
  jID :: int
  jSTID :: string
  jStatus :: string

record 'w controller =
  cfg :: config
  \<comment> \<open>\<open>pdns.API\<close>\<close>
  apiListZones :: "'w \<Rightarrow> (err + zone list) \<times> 'w"
  apiGetZone :: "string \<Rightarrow> 'w \<Rightarrow> (err + zone) \<times> 'w"
  apiListKeys :: "string \<Rightarrow> 'w \<Rightarrow> (err + key list) \<times> 'w"
  apiCreateKey :: "string \<Rightarrow> string \<Rightarrow> string \<Rightarrow> bool \<Rightarrow> 'w \<Rightarrow> (err + key) \<times> 'w"
  apiSetKey :: "string \<Rightarrow> key \<Rightarrow> bool \<Rightarrow> bool \<Rightarrow> 'w \<Rightarrow> (err + unit) \<times> 'w"
  apiDeleteKey :: "string \<Rightarrow> int \<Rightarrow> 'w \<Rightarrow> (err + unit) \<times> 'w"
  \<comment> \<open>\<open>autodns.API\<close>\<close>
  apiDomainDNSSEC :: "string \<Rightarrow> 'w \<Rightarrow> (err + domainDNSSECState) \<times> 'w"
  apiUpdateDNSSEC :: "string \<Rightarrow> dnssecData list \<Rightarrow> string \<Rightarrow> 'w \<Rightarrow> (err + job) \<times> 'w"
  apiJobStatus :: "int \<Rightarrow> 'w \<Rightarrow> (err + string) \<times> 'w"
  \<comment> \<open>\<open>dnsprobe.Observer\<close>; the flag selects the method with recursive resolvers\<close>
  apiDNSKEYEvidence :: "bool \<Rightarrow> string \<Rightarrow> key list \<Rightarrow> 'w \<Rightarrow> (err + duration) \<times> 'w"
  apiNoDSEvidence :: "string \<Rightarrow> 'w \<Rightarrow> (err + unit) \<times> 'w"
  apiDSEvidence :: "string \<Rightarrow> key list \<Rightarrow> 'w \<Rightarrow> (err + unit) \<times> 'w"
  apiAuthoritativeDSEvidence :: "string \<Rightarrow> key list \<Rightarrow> 'w \<Rightarrow> (err + duration) \<times> 'w"
  apiRRSIGBy :: "bool \<Rightarrow> string \<Rightarrow> key \<Rightarrow> 'w \<Rightarrow> (err + unit) \<times> 'w"
  apiDNSKEYRRSIGBy :: "bool \<Rightarrow> string \<Rightarrow> key \<Rightarrow> 'w \<Rightarrow> (err + unit) \<times> 'w"
  apiDelegationEvidence :: "string \<Rightarrow> string list \<Rightarrow> 'w \<Rightarrow> (err + unit) \<times> 'w"
  \<comment> \<open>\<open>Notifier\<close>, \<open>Clock\<close>, the file behind \<open>state.Store\<close>\<close>
  apiSend :: "notification \<Rightarrow> 'w \<Rightarrow> (err + unit) \<times> 'w"
  apiNow :: "'w \<Rightarrow> time \<times> 'w"
  apiWriteAtomic :: "state \<Rightarrow> 'w \<Rightarrow> (err + unit) \<times> 'w"
  \<comment> \<open>libraries: \<open>dns.NewRR\<close>, \<open>dns.IsDomainName\<close>, \<open>sha256.Sum256\<close>, time formatting,
    and the order in which \<open>range\<close> visits the workflow map\<close>
  libNewRR :: "string \<Rightarrow> err + rr"
  libIsDomainName :: "string \<Rightarrow> bool"
  libSha256 :: "string \<Rightarrow> 8 word list"
  libRFC3339Nano :: "time \<Rightarrow> string"
  libRange :: "'w \<Rightarrow> (string \<times> workflow) list \<Rightarrow> (string \<times> workflow) list"

section \<open>History\<close>

datatype (plugins only: code size) event =
    EvPersist state
  | EvListZones "err + zone list"
  | EvGetZone string "err + zone"
  | EvListKeys string "err + key list"
  | EvCreateKey string string string bool "err + key"
  | EvSetKey string key bool bool "err + unit"
  | EvDeleteKey string int "err + unit"
  | EvDomainDNSSEC string "err + domainDNSSECState"
  | EvUpdateDNSSEC string "dnssecData list" string "err + job"
  | EvJobStatus int "err + string"
  | EvDNSKEY bool string "key list" "err + duration"
  | EvNoDS string "err + unit"
  | EvDS string "key list" "err + unit"
  | EvAuthDS string "key list" "err + duration"
  | EvRRSIG bool string key "err + unit"
  | EvDNSKEYRRSIG bool string key "err + unit"
  | EvDelegation string "string list" "err + unit"
  | EvSend notification "err + unit"

record 'w sys =
  sysState :: state
  sysWorld :: 'w
  sysLog :: "event list"

type_synonym ('w, 'a) io = "('w sys, 'a) opn"

section \<open>Calls through the interfaces\<close>

definition call :: "('w \<Rightarrow> (err + 'a) \<times> 'w) \<Rightarrow> ((err + 'a) \<Rightarrow> event) \<Rightarrow> ('w, 'a) io" where
  "call f ev = (\<lambda>s. case f (sysWorld s) of
     (r, w) \<Rightarrow> (r, s\<lparr>sysWorld := w, sysLog := sysLog s @ [ev r]\<rparr>))"

definition listZones :: "'w controller \<Rightarrow> ('w, zone list) io" where
  "listZones c = call (apiListZones c) EvListZones"

definition getZone :: "'w controller \<Rightarrow> string \<Rightarrow> ('w, zone) io" where
  "getZone c zid = call (apiGetZone c zid) (EvGetZone zid)"

definition listKeys :: "'w controller \<Rightarrow> string \<Rightarrow> ('w, key list) io" where
  "listKeys c zid = call (apiListKeys c zid) (EvListKeys zid)"

definition createKey :: "'w controller \<Rightarrow> string \<Rightarrow> string \<Rightarrow> string \<Rightarrow> bool \<Rightarrow> ('w, key) io" where
  "createKey c zid typ alg active = call (apiCreateKey c zid typ alg active) (EvCreateKey zid typ alg active)"

definition setKey :: "'w controller \<Rightarrow> string \<Rightarrow> key \<Rightarrow> bool \<Rightarrow> bool \<Rightarrow> ('w, unit) io" where
  "setKey c zid k active published = call (apiSetKey c zid k active published) (EvSetKey zid k active published)"

definition deleteKey :: "'w controller \<Rightarrow> string \<Rightarrow> int \<Rightarrow> ('w, unit) io" where
  "deleteKey c zid kid = call (apiDeleteKey c zid kid) (EvDeleteKey zid kid)"

definition domainDNSSEC :: "'w controller \<Rightarrow> string \<Rightarrow> ('w, domainDNSSECState) io" where
  "domainDNSSEC c zone = call (apiDomainDNSSEC c zone) (EvDomainDNSSEC zone)"

definition updateDNSSEC :: "'w controller \<Rightarrow> string \<Rightarrow> dnssecData list \<Rightarrow> string \<Rightarrow> ('w, job) io" where
  "updateDNSSEC c zone data ctid = call (apiUpdateDNSSEC c zone data ctid) (EvUpdateDNSSEC zone data ctid)"

definition jobStatus :: "'w controller \<Rightarrow> int \<Rightarrow> ('w, string) io" where
  "jobStatus c i = call (apiJobStatus c i) (EvJobStatus i)"

definition DNSKEYEvidence :: "'w controller \<Rightarrow> string \<Rightarrow> key list \<Rightarrow> ('w, duration) io" where
  "DNSKEYEvidence c zone ks = call (apiDNSKEYEvidence c True zone ks) (EvDNSKEY True zone ks)"

definition AuthoritativeDNSKEYEvidence :: "'w controller \<Rightarrow> string \<Rightarrow> key list \<Rightarrow> ('w, duration) io" where
  "AuthoritativeDNSKEYEvidence c zone ks = call (apiDNSKEYEvidence c False zone ks) (EvDNSKEY False zone ks)"

definition NoDSEvidence :: "'w controller \<Rightarrow> string \<Rightarrow> ('w, unit) io" where
  "NoDSEvidence c zone = call (apiNoDSEvidence c zone) (EvNoDS zone)"

definition DSEvidence :: "'w controller \<Rightarrow> string \<Rightarrow> key list \<Rightarrow> ('w, unit) io" where
  "DSEvidence c zone ks = call (apiDSEvidence c zone ks) (EvDS zone ks)"

definition AuthoritativeDSEvidence :: "'w controller \<Rightarrow> string \<Rightarrow> key list \<Rightarrow> ('w, duration) io" where
  "AuthoritativeDSEvidence c zone ks = call (apiAuthoritativeDSEvidence c zone ks) (EvAuthDS zone ks)"

definition RRSIGBy :: "'w controller \<Rightarrow> string \<Rightarrow> key \<Rightarrow> ('w, unit) io" where
  "RRSIGBy c zone k = call (apiRRSIGBy c True zone k) (EvRRSIG True zone k)"

definition AuthoritativeRRSIGBy :: "'w controller \<Rightarrow> string \<Rightarrow> key \<Rightarrow> ('w, unit) io" where
  "AuthoritativeRRSIGBy c zone k = call (apiRRSIGBy c False zone k) (EvRRSIG False zone k)"

definition DNSKEYRRSIGBy :: "'w controller \<Rightarrow> string \<Rightarrow> key \<Rightarrow> ('w, unit) io" where
  "DNSKEYRRSIGBy c zone k = call (apiDNSKEYRRSIGBy c True zone k) (EvDNSKEYRRSIG True zone k)"

definition AuthoritativeDNSKEYRRSIGBy :: "'w controller \<Rightarrow> string \<Rightarrow> key \<Rightarrow> ('w, unit) io" where
  "AuthoritativeDNSKEYRRSIGBy c zone k = call (apiDNSKEYRRSIGBy c False zone k) (EvDNSKEYRRSIG False zone k)"

definition DelegationEvidence :: "'w controller \<Rightarrow> string \<Rightarrow> string list \<Rightarrow> ('w, unit) io" where
  "DelegationEvidence c zone expected = call (apiDelegationEvidence c zone expected) (EvDelegation zone expected)"

definition notifierSend :: "'w controller \<Rightarrow> notification \<Rightarrow> ('w, unit) io" where
  "notifierSend c n = call (apiSend c n) (EvSend n)"

text \<open>\<open>c.clock.Now()\<close>: reading the clock leaves no trace in the history.\<close>

definition clockNow :: "'w controller \<Rightarrow> ('w, time) io" where
  "clockNow c = (\<lambda>s. case apiNow c (sysWorld s) of (t, w) \<Rightarrow> (Inr t, s\<lparr>sysWorld := w\<rparr>))"

text \<open>\<open>for _, w := range st.Workflows\<close> visits the map in an unspecified order.\<close>

definition rangeWorkflows :: "'w controller \<Rightarrow> state \<Rightarrow> ('w, workflow list) io" where
  "rangeWorkflows c st = (\<lambda>s. (Inr (map snd (libRange c (sysWorld s) (sWorkflows st))), s))"

section \<open>The state store\<close>

text \<open>
  \<open>Store.Snapshot\<close> and \<open>Store.Update\<close> of \<open>internal/state/store.go\<close>: the mutation runs on a
  copy; the copy replaces the state only after it has been written to the file. The
  mutation may read the clock. Only a completed update is an event of the history.
\<close>

definition snapshot :: "('w, state) io" where
  "snapshot = (\<lambda>s. (Inr (sysState s), s))"

definition storeUpdate :: "'w controller \<Rightarrow> (state \<Rightarrow> ('w, state) io) \<Rightarrow> ('w, unit) io" where
  "storeUpdate c fn = (\<lambda>s.
     case fn (sysState s) s of
       (Inl e, t) \<Rightarrow> (Inl e, t)
     | (Inr clone, t) \<Rightarrow>
         (case apiWriteAtomic c clone (sysWorld t) of
            (Inl e, w) \<Rightarrow> (Inl e, t\<lparr>sysWorld := w\<rparr>)
          | (Inr _, w) \<Rightarrow> (Inr (), t\<lparr>sysWorld := w, sysState := clone,
                                       sysLog := sysLog t @ [EvPersist clone]\<rparr>)))"

end
