(* ===== verification/Wp.thy ===== *)
theory Wp
  imports Io
begin

text \<open>
  Reasoning about the operations of the controller. The rules forget what the world answers,
  so that what is proved with them holds for every behaviour of the services; what remains
  is the state document and the history.
\<close>

section \<open>Calls and the store\<close>

lemma wp_snapshot [wp_simps]: "wp snapshot Q s = Q (Inr (sysState s)) s"
  by (simp add: wp_def snapshot_def)

lemma wp_rangeWorkflows [wp_simps]:
  "wp (rangeWorkflows c st) Q s = Q (Inr (map snd (libRange c (sysWorld s) (sWorkflows st)))) s"
  by (simp add: wp_def rangeWorkflows_def)

lemma wp_clockNow [wp_intros]:
  assumes "\<And>t w. Q (Inr t) (s\<lparr>sysWorld := w\<rparr>)"
  shows "wp (clockNow c) Q s"
  using assms by (simp add: wp_def clockNow_def split: prod.split)

lemma wp_call [wp_intros]:
  assumes "\<And>r w. Q r (s\<lparr>sysWorld := w, sysLog := sysLog s @ [ev r]\<rparr>)"
  shows "wp (call f ev) Q s"
  using assms by (simp add: wp_def call_def split: prod.split)

lemma wp_storeUpdate [wp_intros]:
  assumes "wp (fn (sysState s)) (case_sum (\<lambda>e. Q (Inl e))
     (\<lambda>x t. (\<forall>e w. Q (Inl e) (t\<lparr>sysWorld := w\<rparr>)) \<and>
            (\<forall>w. Q (Inr ()) (t\<lparr>sysWorld := w, sysState := x, sysLog := sysLog t @ [EvPersist x]\<rparr>)))) s"
  shows "wp (storeUpdate c fn) Q s"
  using assms by (auto simp: wp_def storeUpdate_def split: prod.splits sum.splits)

lemmas call_defs [op_defs] =
  listZones_def getZone_def listKeys_def createKey_def setKey_def deleteKey_def
  domainDNSSEC_def updateDNSSEC_def jobStatus_def DNSKEYEvidence_def
  AuthoritativeDNSKEYEvidence_def NoDSEvidence_def DSEvidence_def AuthoritativeDSEvidence_def
  RRSIGBy_def AuthoritativeRRSIGBy_def DNSKEYRRSIGBy_def AuthoritativeDNSKEYRRSIGBy_def
  DelegationEvidence_def notifierSend_def

section \<open>Verification conditions of the calls\<close>

lemma vcg_snapshot [vcg]: "Q (Inr (sysState s)) s \<Longrightarrow> wp snapshot Q s"
  by (simp add: wp_simps)

lemma vcg_rangeWorkflows [vcg]:
  "(\<And>ws w. ws = map snd (libRange c w (sWorkflows st)) \<Longrightarrow> Q (Inr ws) s) \<Longrightarrow> wp (rangeWorkflows c st) Q s"
  by (simp add: wp_simps)

text \<open>The times the clock can show\<close>

definition clockReadings :: "'w controller \<Rightarrow> time set" where
  "clockReadings c = range (\<lambda>w. fst (apiNow c w))"

lemma vcg_clockNow [vcg]:
  assumes "\<And>t now. now \<in> clockReadings c \<Longrightarrow> sysState t = sysState s \<Longrightarrow> sysLog t = sysLog s \<Longrightarrow> Q (Inr now) t"
  shows "wp (clockNow c) Q s"
proof -
  have "fst (apiNow c (sysWorld s)) \<in> clockReadings c"
    by (simp add: clockReadings_def)
  then show ?thesis
    by (auto simp: wp_def clockNow_def split: prod.split intro: assms)
qed

lemma vcg_call [vcg]:
  assumes "\<And>t e. sysState t = sysState s \<Longrightarrow> sysLog t = sysLog s @ [ev (Inl e)] \<Longrightarrow> Q (Inl e) t"
    and "\<And>t x. sysState t = sysState s \<Longrightarrow> sysLog t = sysLog s @ [ev (Inr x)] \<Longrightarrow> Q (Inr x) t"
  shows "wp (call f ev) Q s"
proof (rule wp_call)
  fix r w
  show "Q r (s\<lparr>sysWorld := w, sysLog := sysLog s @ [ev r]\<rparr>)"
    by (cases r) (simp_all add: assms)
qed

text \<open>What holds after the document \<open>x\<close> was handed to the store in the state \<open>u\<close>\<close>

definition persisting :: "state \<Rightarrow> (err + unit \<Rightarrow> 'w sys \<Rightarrow> bool) \<Rightarrow> 'w sys \<Rightarrow> bool" where
  "persisting x Q u \<longleftrightarrow>
     (\<forall>t e. sysState t = sysState u \<longrightarrow> sysLog t = sysLog u \<longrightarrow> Q (Inl e) t) \<and>
     (\<forall>t. sysState t = x \<longrightarrow> sysLog t = sysLog u @ [EvPersist x] \<longrightarrow> Q (Inr ()) t)"

lemma vcg_persisting [vcg]:
  "(\<And>t e. sysState t = sysState u \<Longrightarrow> sysLog t = sysLog u \<Longrightarrow> Q (Inl e) t) \<Longrightarrow>
   (\<And>t. sysState t = x \<Longrightarrow> sysLog t = sysLog u @ [EvPersist x] \<Longrightarrow> Q (Inr ()) t) \<Longrightarrow> persisting x Q u"
  by (simp add: persisting_def)

lemma vcg_storeUpdate [vcg]:
  "wp (fn (sysState s)) (case_sum (\<lambda>e. Q (Inl e)) (\<lambda>x. persisting x Q)) s \<Longrightarrow> wp (storeUpdate c fn) Q s"
  by (rule wp_storeUpdate, erule wp_mono) (auto simp: persisting_def split: sum.splits)

section \<open>Guards on the history\<close>

text \<open>
  \<open>guarded G h\<close>: every event of the history \<open>h\<close> satisfies \<open>G\<close> together with the events
  before it. Prefixes of a guarded history are guarded, so a guard holds at every point
  where the process may stop.
\<close>

definition guarded :: "(event list \<Rightarrow> event \<Rightarrow> bool) \<Rightarrow> event list \<Rightarrow> bool" where
  "guarded G h \<longleftrightarrow> (\<forall>pre e post. h = pre @ e # post \<longrightarrow> G pre e)"

lemma guarded_Nil [simp]: "guarded G []"
  by (simp add: guarded_def)

lemma guarded_snoc [simp]: "guarded G (h @ [e]) \<longleftrightarrow> guarded G h \<and> G h e"
proof
  assume g: "guarded G (h @ [e])"
  have "G pre x" if "h = pre @ x # post" for pre x post
    using g that unfolding guarded_def by (metis append.assoc append_Cons)
  moreover have "G h e"
    using g unfolding guarded_def by blast
  ultimately show "guarded G h \<and> G h e"
    by (simp add: guarded_def)
next
  assume g: "guarded G h \<and> G h e"
  show "guarded G (h @ [e])"
    unfolding guarded_def
  proof (intro allI impI)
    fix pre x post
    assume eq: "h @ [e] = pre @ x # post"
    show "G pre x"
    proof (cases post rule: rev_cases)
      case Nil
      with eq g show ?thesis by simp
    next
      case (snoc ys y)
      with eq have "h = pre @ x # ys" by (metis append.assoc append_Cons butlast_snoc)
      with g show ?thesis unfolding guarded_def by blast
    qed
  qed
qed

lemma guarded_prefix: "guarded G (h @ h') \<Longrightarrow> guarded G h"
  by (induction h' rule: rev_induct) (simp_all flip: append_assoc)

lemma guardedD: "guarded G h \<Longrightarrow> h = pre @ e # post \<Longrightarrow> G pre e"
  by (simp add: guarded_def)

lemma guarded_append:
  "guarded G (h @ es) \<longleftrightarrow> guarded G h \<and> guarded (\<lambda>h'. G (h @ h')) es"
  by (induction es rule: rev_induct) (auto simp flip: append_assoc)

lemma guarded_Cons:
  "guarded G (e # es) \<longleftrightarrow> G [] e \<and> guarded (\<lambda>h. G (e # h)) es"
  using guarded_append [of G "[e]" es] guarded_snoc [of G "[]" e] by simp

lemma guarded_mono:
  "guarded G h \<Longrightarrow> (\<And>pre e. G pre e \<Longrightarrow> G' pre e) \<Longrightarrow> guarded G' h"
  by (auto simp: guarded_def)

lemma guarded_conj: "guarded (\<lambda>h e. A h e \<and> B h e) h \<longleftrightarrow> guarded A h \<and> guarded B h"
  by (auto simp: guarded_def)

text \<open>
  \<open>guardedFrom G h es\<close>: the events \<open>es\<close> that follow \<open>h\<close> satisfy \<open>G\<close>. Its equations evaluate
  the guard along the history of one path.
\<close>

primrec guardedFrom :: "(event list \<Rightarrow> event \<Rightarrow> bool) \<Rightarrow> event list \<Rightarrow> event list \<Rightarrow> bool" where
  "guardedFrom G h [] \<longleftrightarrow> True"
| "guardedFrom G h (e # es) \<longleftrightarrow> G h e \<and> guardedFrom G (h @ [e]) es"

lemma guardedFrom_guarded: "guarded G (h @ es) \<longleftrightarrow> guarded G h \<and> guardedFrom G h es"
proof (induction es arbitrary: h)
  case (Cons e es)
  then show ?case using Cons.IH [of "h @ [e]"] by simp
qed simp

lemma guarded_from: "guarded G es \<longleftrightarrow> guardedFrom G [] es"
  using guardedFrom_guarded [of G "[]" es] by simp

text \<open>The state last written by the store, starting from \<open>s0\<close>.\<close>

fun lastPersist :: "state \<Rightarrow> event list \<Rightarrow> state" where
  "lastPersist s0 [] = s0"
| "lastPersist s0 (EvPersist x # es) = lastPersist x es"
| "lastPersist s0 (_ # es) = lastPersist s0 es"

fun isPersist :: "event \<Rightarrow> bool" where
  "isPersist (EvPersist x) = True"
| "isPersist _ = False"

lemma lastPersist_append [simp]: "lastPersist s0 (h @ h') = lastPersist (lastPersist s0 h) h'"
  by (induction s0 h rule: lastPersist.induct) auto

lemma lastPersist_other: "\<not> isPersist e \<Longrightarrow> lastPersist s0 [e] = s0"
  by (cases e) auto

lemma lastPersist_Cons: "\<not> isPersist e \<Longrightarrow> lastPersist s0 (e # es) = lastPersist s0 es"
  by (cases e) auto

section \<open>Guarded runs\<close>

text \<open>
  \<open>since G s t\<close>: the run from \<open>s\<close> to \<open>t\<close> has only added events to the history; they are
  guarded by \<open>G\<close>, given the document the run started from; and the state document is the
  one that was last persisted.
\<close>

definition since :: "(state \<Rightarrow> event list \<Rightarrow> event \<Rightarrow> bool) \<Rightarrow> 'w sys \<Rightarrow> 'w sys \<Rightarrow> bool" where
  "since G s t \<longleftrightarrow>
     (\<exists>es. sysLog t = sysLog s @ es \<and> sysState t = lastPersist (sysState s) es \<and> guarded (G (sysState s)) es)"

lemma since_simp:
  "sysLog t = sysLog s @ es \<Longrightarrow>
     since G s t \<longleftrightarrow> sysState t = lastPersist (sysState s) es \<and> guardedFrom (G (sysState s)) [] es"
  by (simp add: since_def guarded_from)

lemma since_same: "sysLog t = sysLog s \<Longrightarrow> sysState t = sysState s \<Longrightarrow> since G s t"
  by (simp add: since_def)

lemma since_refl [simp]: "since G s s"
  by (simp add: since_same)

lemma since_mono: "since G s t \<Longrightarrow> (\<And>pre e. G (sysState s) pre e \<Longrightarrow> G' (sysState s) pre e) \<Longrightarrow> since G' s t"
  unfolding since_def by (blast intro: guarded_mono)

lemma sinceD:
  "since G s t \<Longrightarrow> sysLog t = sysLog s @ pre @ e # post \<Longrightarrow> G (sysState s) pre e"
  by (auto simp: since_def guarded_def)

abbreviation safely :: "(state \<Rightarrow> event list \<Rightarrow> event \<Rightarrow> bool) \<Rightarrow> ('w, 'a) io \<Rightarrow> 'w sys \<Rightarrow> bool" where
  "safely G m s \<equiv> wp m (\<lambda>r t. since G s t) s"

text \<open>
  A trace guard may be judged from any earlier point of the history. Then guarded runs
  compose, and lists of operations are guarded when their members are.
\<close>

locale trace_guard =
  fixes G :: "state \<Rightarrow> event list \<Rightarrow> event \<Rightarrow> bool"
  assumes shift: "G (lastPersist st es) h e \<Longrightarrow> G st (es @ h) e"
begin

lemma trans:
  assumes "since G s t" "since G t u"
  shows "since G s u"
proof -
  obtain es where es: "sysLog t = sysLog s @ es" "sysState t = lastPersist (sysState s) es"
      "guarded (G (sysState s)) es"
    using assms(1) by (auto simp: since_def)
  obtain fs where fs: "sysLog u = sysLog t @ fs" "sysState u = lastPersist (sysState t) fs"
      "guarded (G (sysState t)) fs"
    using assms(2) by (auto simp: since_def)
  have "guarded (\<lambda>h. G (sysState s) (es @ h)) fs"
    using fs(3) es(2) by (auto elim!: guarded_mono intro: shift)
  with es fs show ?thesis by (auto simp: since_def guarded_append)
qed

text \<open>A run that goes on after \<open>s\<close> may be judged on its own.\<close>

lemma after: "since G s u \<Longrightarrow> safely G m u \<Longrightarrow> wp m (\<lambda>r t. since G s t) u"
  by (erule wp_mono) (rule trans)

lemma run: "since G s u \<Longrightarrow> safely G m u \<Longrightarrow> (\<And>r t. since G s t \<Longrightarrow> Q r t) \<Longrightarrow> wp m Q u"
  by (erule wp_mono) (blast intro: trans)

lemma same: "since G s u \<Longrightarrow> sysLog t = sysLog u \<Longrightarrow> sysState t = sysState u \<Longrightarrow> since G s t"
  by (erule trans) (simp add: since_same)

lemma snoc:
  "since G s u \<Longrightarrow> sysLog t = sysLog u @ [e] \<Longrightarrow> sysState t = lastPersist (sysState u) [e]
   \<Longrightarrow> G (sysState u) [] e \<Longrightarrow> since G s t"
  by (erule trans) (simp add: since_simp)

lemma more:
  "since G s u \<Longrightarrow> sysLog t = sysLog u @ es \<Longrightarrow> sysState t = lastPersist (sysState u) es
   \<Longrightarrow> guardedFrom (G (sysState u)) [] es \<Longrightarrow> since G s t"
  by (erule trans) (simp add: since_simp)

end

end
