(* ===== verification/Transitions.thy ===== *)
theory Transitions
  imports Wp
begin

text \<open>
  The writes to the state document of \<open>internal/controller/controller.go\<close>:
  \<open>bootstrap\<close>, \<open>start\<close>, \<open>transition\<close>, \<open>recordRetry\<close>, \<open>block\<close>, \<open>complete\<close> and
  \<open>recordCreateAttempt\<close>, and the zone selection they use.
\<close>

section \<open>Zone selection\<close>

definition bareZone :: "string \<Rightarrow> string" where
  "bareZone z = trimSuffix (toLower z) ''.''"

definition selected :: "'w controller \<Rightarrow> string \<Rightarrow> bool" where
  "selected c zone =
     (let zone' = bareZone zone; rot = cfRotation (cfg c)
      in if list_ex (\<lambda>x. bareZone x = zone') (rcExcludeZones rot) then False
         else if rcIncludeZones rot = [] then True
         else list_ex (\<lambda>x. bareZone x = zone') (rcIncludeZones rot))"

definition selectedEnrollment :: "'w controller \<Rightarrow> string \<Rightarrow> bool" where
  "selectedEnrollment c zone =
     (let en = cfEnrollment (cfg c)
      in if ecScope en \<noteq> ''all_selected'' \<or> \<not> selected c zone then False
         else let zone' = bareZone zone
         in if list_ex (\<lambda>x. bareZone x = zone') (ecExcludeZones en) then False
            else if ecIncludeZones en = [] then True
            else list_ex (\<lambda>x. bareZone x = zone') (ecIncludeZones en))"

section \<open>Single-workflow updates\<close>

text \<open>
  \<open>transition(w, phase, next, mutate)\<close>; a nil \<open>mutate\<close> is \<open>ret\<close>.
\<close>

definition transition ::
  "'w controller \<Rightarrow> workflow \<Rightarrow> phase \<Rightarrow> time \<Rightarrow> (workflow \<Rightarrow> ('w, workflow) io) \<Rightarrow> ('w, unit) io" where
  "transition c w phase next mutate =
     storeUpdate c (\<lambda>s.
       let k = workflowKey (wZone w) (wKind w); x = getWorkflow s k
       in bind (clockNow c) (\<lambda>now.
          bind (mutate (x\<lparr>wPhase := phase, wPhaseStartedAt := now, wNextActionAt := next,
                          wLastError := None, wAttempts := 0\<rparr>)) (\<lambda>y.
          ret (putWorkflow k y s))))"

definition backoff :: "nat \<Rightarrow> duration" where
  "backoff attempts = durMul minute (2 ^ min attempts 8)"

definition recordRetry :: "'w controller \<Rightarrow> workflow \<Rightarrow> err \<Rightarrow> ('w, unit) io" where
  "recordRetry c w cause =
     storeUpdate c (\<lambda>s.
       let k = workflowKey (wZone w) (wKind w); x = getWorkflow s k;
           x1 = x\<lparr>wAttempts := Suc (wAttempts x), wLastError := Some cause\<rparr>
       in bind (clockNow c) (\<lambda>now.
          ret (putWorkflow k (x1\<lparr>wNextActionAt := timeAdd now (backoff (wAttempts x1))\<rparr>) s)))"

definition zeroNotification :: notification where
  "zeroNotification =
     \<lparr>nID = [], nEvent = [], nZone = [], nKind = KindOther [], nCompletedAt = 0, nOldKeyID = 0,
      nNewKeyID = 0, nNewZSKID = 0, nRegistrarSTID = [], nAttempts = 0, nNextAttemptAt = 0,
      nLastError = None, nDeliveredAt = 0\<rparr>"

text \<open>\<open>fmt.Sprintf("dnssec-%x", sum[:16])\<close>\<close>

definition dnssecID :: "'w controller \<Rightarrow> string \<Rightarrow> string" where
  "dnssecID c text = ''dnssec-'' @ hexBytes (take 16 (libSha256 c text))"

text \<open>\<open>block\<close> records the reason and returns it as the error, whether or not it could be stored.\<close>

definition block :: "'w controller \<Rightarrow> string \<Rightarrow> kind \<Rightarrow> err \<Rightarrow> ('w, 'a) io" where
  "block c zone kind reason =
     bind (attempt (storeUpdate c (\<lambda>s.
       let k = workflowKey zone kind;
           x = (getWorkflow s k)\<lparr>wZone := zone, wKind := kind, wPhase := PhaseBlocked,
                                  wLastError := Some reason, wNextActionAt := 0\<rparr>;
           s1 = putWorkflow k x s
       in if kind = KindEnroll \<and> lcEnabled (ncLMTP (cfNotifications (cfg c))) then
            (let eventID = dnssecID c (strJoin ''|'' [zone, kindStr kind, wKeysetFingerprint x, ''blocked''])
             in if mget (sNotifications s1) eventID = None then
                  bind (clockNow c) (\<lambda>completedAt.
                  bind (clockNow c) (\<lambda>nextAt.
                  ret (s1\<lparr>sNotifications := mput eventID
                        (zeroNotification\<lparr>nID := eventID, nEvent := ''blocked'', nZone := zone, nKind := kind,
                           nCompletedAt := completedAt, nNewKeyID := wNewKeyID x, nNewZSKID := wNewZSKID x,
                           nNextAttemptAt := nextAt\<rparr>) (sNotifications s1)\<rparr>)))
                else ret s1)
          else ret s1)))
     (\<lambda>_. throw reason)"

section \<open>Completion\<close>

text \<open>The loop of \<open>complete\<close> that resets the rotation timestamps of an enrolled zone\<close>

definition resetRole :: "string \<Rightarrow> time \<Rightarrow> kind \<Rightarrow> state \<Rightarrow> state" where
  "resetRole zone now role s =
     (let roleKey = workflowKey zone role
      in putWorkflow roleKey ((getWorkflow s roleKey)\<lparr>wZone := zone, wKind := role,
           wPhase := PhaseIdle, wLastCompletedAt := now\<rparr>) s)"

definition completedWorkflow :: "workflow \<Rightarrow> time \<Rightarrow> time \<Rightarrow> workflow" where
  "completedWorkflow w prior now =
     (let x = zeroWorkflow\<lparr>wZone := wZone w, wKind := wKind w, wPhase := PhaseIdle, wLastCompletedAt := now\<rparr>;
          x1 = (if wKind w = KindEnroll
                then x\<lparr>wZoneID := wZoneID w, wNewKeyID := wNewKeyID w, wNewZSKID := wNewZSKID w,
                       wDiscoveredAt := wDiscoveredAt w, wKeysetFingerprint := wKeysetFingerprint w,
                       wEnrollmentDisposition := ''enrolled''\<rparr>
                else x)
      in if timeBefore now prior then x1\<lparr>wLastCompletedAt := prior\<rparr> else x1)"

definition completeState :: "'w controller \<Rightarrow> workflow \<Rightarrow> time \<Rightarrow> string \<Rightarrow> state \<Rightarrow> state" where
  "completeState c w now eventID s =
     (let k = workflowKey (wZone w) (wKind w);
          prior = wLastCompletedAt (getWorkflow s k);
          s1 = (if wKind w = KindEnroll
                then resetRole (wZone w) now KindZSK (resetRole (wZone w) now KindKSK s) else s);
          s2 = putWorkflow k (completedWorkflow w prior now) s1
      in if lcEnabled (ncLMTP (cfNotifications (cfg c)))
         then s2\<lparr>sNotifications := mput eventID
               (zeroNotification\<lparr>nID := eventID, nEvent := ''completed'', nZone := wZone w, nKind := wKind w,
                  nCompletedAt := now, nOldKeyID := wOldKeyID w, nNewKeyID := wNewKeyID w,
                  nNewZSKID := wNewZSKID w, nRegistrarSTID := wRegistrarSTID w, nNextAttemptAt := now\<rparr>)
               (sNotifications s2)\<rparr>
         else s2)"

definition complete :: "'w controller \<Rightarrow> workflow \<Rightarrow> ('w, unit) io" where
  "complete c w =
     bind (clockNow c) (\<lambda>now.
       let eventID = dnssecID c (strJoin ''|'' [wZone w, kindStr (wKind w), libRFC3339Nano c now])
       in storeUpdate c (\<lambda>s. ret (completeState c w now eventID s)))"

section \<open>Starting and bootstrapping\<close>

definition startedWorkflow :: "workflow \<Rightarrow> time \<Rightarrow> bool \<Rightarrow> string \<Rightarrow> workflow" where
  "startedWorkflow w now manual idem =
     w\<lparr>wPhase := PhasePrepublish, wPhaseStartedAt := now, wNextActionAt := now, wLastError := None,
       wAttempts := 0, wManual := manual, wIdempotencyKey := idem\<rparr>"

definition start :: "'w controller \<Rightarrow> string \<Rightarrow> kind \<Rightarrow> bool \<Rightarrow> string \<Rightarrow> ('w, unit) io" where
  "start c zone kind manual idem =
     bind (clockNow c) (\<lambda>now. storeUpdate c (\<lambda>s.
       bind (rangeWorkflows c s) (\<lambda>ws.
         case find (\<lambda>w. wZone w = zone \<and> workflowActive w) ws of
           Some w \<Rightarrow> throw (Fmt AlreadyActive [AStr (kindStr (wKind w))])
         | None \<Rightarrow>
           (let k = workflowKey zone kind;
                w = (case mget (sWorkflows s) k of
                       None \<Rightarrow> zeroWorkflow\<lparr>wZone := zone, wKind := kind\<rparr>
                     | Some w \<Rightarrow> w);
                s1 = putWorkflow k (startedWorkflow w now manual idem) s
            in ret (if idem \<noteq> [] then s1\<lparr>sIdempotency := mput idem k (sIdempotency s1)\<rparr> else s1)))))"

definition recordCreateAttempt :: "'w controller \<Rightarrow> workflow \<Rightarrow> bool \<Rightarrow> ('w, unit) io" where
  "recordCreateAttempt c w zskSlot =
     bind (clockNow c) (\<lambda>now. storeUpdate c (\<lambda>s.
       let key = workflowKey (wZone w) (wKind w); current = getWorkflow s key
       in if mget (sWorkflows s) key = None \<or> wPhase current \<noteq> PhasePrepublish
             \<or> wOldKeyID current \<noteq> wOldKeyID w \<or> wNewKeyID current \<noteq> wNewKeyID w
             \<or> wNewZSKID current \<noteq> wNewZSKID w
          then throw (Fmt WorkflowChangedBeforeCreate [])
          else let attemptedAt = (if zskSlot then wNewZSKCreateAttemptedAt current
                                  else wNewKeyCreateAttemptedAt current)
          in if \<not> timeIsZero attemptedAt then throw (Fmt KeyCreateAlreadyAttempted [AInt attemptedAt])
             else ret (putWorkflow key
               (if zskSlot then current\<lparr>wNewZSKCreateAttemptedAt := now\<rparr>
                else current\<lparr>wNewKeyCreateAttemptedAt := now\<rparr>) s)))"

text \<open>\<open>if _, ok := s.Workflows[k]; !ok { s.Workflows[k] = ... }\<close>\<close>

definition addIfMissing :: "string \<Rightarrow> workflow \<Rightarrow> state \<Rightarrow> state" where
  "addIfMissing k w s = (if mget (sWorkflows s) k = None then putWorkflow k w s else s)"

definition idleWorkflow :: "string \<Rightarrow> kind \<Rightarrow> time \<Rightarrow> workflow" where
  "idleWorkflow zone kind now =
     zeroWorkflow\<lparr>wZone := zone, wKind := kind, wPhase := PhaseIdle, wLastCompletedAt := now\<rparr>"

definition bootstrapRoles :: "zone \<Rightarrow> string \<Rightarrow> time \<Rightarrow> state \<Rightarrow> state" where
  "bootstrapRoles zone scheme now s =
     (if scheme = ''split'' then
        addIfMissing (workflowKey (zName zone) KindKSK) (idleWorkflow (zName zone) KindKSK now)
          (addIfMissing (workflowKey (zName zone) KindZSK) (idleWorkflow (zName zone) KindZSK now) s)
      else if scheme = ''csk'' then
        addIfMissing (workflowKey (zName zone) KindSplit) (idleWorkflow (zName zone) KindSplit now) s
      else s)"

text \<open>The circuit-breaker counters: pending enrollments, and candidates of the last 24 hours\<close>

definition pendingEnrollments :: "state \<Rightarrow> nat" where
  "pendingEnrollments s =
     length (filter (\<lambda>w. wKind w = KindEnroll \<and> workflowActive w) (mvals (sWorkflows s)))"

definition recentEnrollments :: "time \<Rightarrow> state \<Rightarrow> nat" where
  "recentEnrollments now s =
     length (filter (\<lambda>w. wKind w = KindEnroll \<and> \<not> timeIsZero (wDiscoveredAt w)
                       \<and> timeSub now (wDiscoveredAt w) < 24 * hour) (mvals (sWorkflows s)))"

text \<open>
  The entry a zone gets once enrollment is armed: not eligible (a CSK zone), blocked by the
  circuit breaker, or a candidate, with its inventory when that is already stable.
\<close>

definition enrollEntry ::
  "'w controller \<Rightarrow> zone \<Rightarrow> string \<Rightarrow> key list \<Rightarrow> time \<Rightarrow> state \<Rightarrow> workflow" where
  "enrollEntry c zone scheme keys now s =
     (let en = cfEnrollment (cfg c);
          entry = zeroWorkflow\<lparr>wZone := zName zone, wZoneID := zID zone, wKind := KindEnroll\<rparr>
      in if scheme = ''csk'' then
           entry\<lparr>wPhase := PhaseIdle, wLastCompletedAt := now, wEnrollmentDisposition := ''ineligible'',
                 wLastError := Some (Fmt EnrollRequiresCleanSplit [])\<rparr>
         else
          (let inv = validateEnrollmentInventory (libNewRR c) (libSha256 c) (zName zone) keys 0 0 []
                       (ecAllowedAlgorithms en)
           in if int (pendingEnrollments s) \<ge> ecMaxPending en \<or> int (recentEnrollments now s) \<ge> ecMaxNewPerDay en
              then entry\<lparr>wPhase := PhaseBlocked, wDiscoveredAt := now,
                         wLastError := Some (Fmt EnrollCircuitBreaker [])\<rparr>
              else
               (let candidate = entry\<lparr>wPhase := PhaseEnrollDiscovered, wPhaseStartedAt := now,
                      wNextActionAt := now, wDiscoveredAt := now, wParentMode := ''initial'',
                      wEnrollmentDisposition := ''candidate''\<rparr>
                in case inv of
                     Inr (ksk, zsk, fingerprint) \<Rightarrow>
                       candidate\<lparr>wNewKeyID := kID ksk, wNewZSKID := kID zsk,
                         wKeysetFingerprint := fingerprint,
                         wNextActionAt := timeAdd now (ecDiscoveryGrace en)\<rparr>
                   | Inl e \<Rightarrow> candidate\<lparr>wLastError := Some (Quote WaitingStableInventory [] [e])\<rparr>)))"

definition bootstrapState ::
  "'w controller \<Rightarrow> zone \<Rightarrow> string \<Rightarrow> key list \<Rightarrow> time \<Rightarrow> state \<Rightarrow> state" where
  "bootstrapState c zone scheme keys now s0 =
     (let s = bootstrapRoles zone scheme now s0;
          enrollKey = workflowKey (zName zone) KindEnroll
      in if mget (sWorkflows s) enrollKey \<noteq> None \<or> timeIsZero (sEnrollmentArmedAt s)
            \<or> \<not> ecEnabled (cfEnrollment (cfg c)) \<or> \<not> selectedEnrollment c (zName zone)
         then s
         else putWorkflow enrollKey (enrollEntry c zone scheme keys now s) s)"

lemma enrollEntry_sel [simp]:
  "wZone (enrollEntry c zone scheme keys now s) = zName zone"
  "wKind (enrollEntry c zone scheme keys now s) = KindEnroll"
  by (simp_all add: enrollEntry_def Let_def split: sum.split prod.split)

lemma enrollEntry_phase:
  "wPhase (enrollEntry c zone scheme keys now s) \<in> {PhaseIdle, PhaseEnrollDiscovered, PhaseBlocked}"
  by (simp add: enrollEntry_def Let_def split: sum.split prod.split)

definition bootstrap :: "'w controller \<Rightarrow> zone \<Rightarrow> string \<Rightarrow> key list \<Rightarrow> ('w, unit) io" where
  "bootstrap c zone scheme keys =
     bind (clockNow c) (\<lambda>now. storeUpdate c (\<lambda>s. ret (bootstrapState c zone scheme keys now s)))"

section \<open>Verification conditions of the writes\<close>

text \<open>The document that \<open>block\<close> hands to the store, as a function of the two clock readings\<close>

definition blockedWorkflow :: "string \<Rightarrow> kind \<Rightarrow> err \<Rightarrow> workflow \<Rightarrow> workflow" where
  "blockedWorkflow zone kind reason x =
     x\<lparr>wZone := zone, wKind := kind, wPhase := PhaseBlocked, wLastError := Some reason, wNextActionAt := 0\<rparr>"

definition blockState ::
  "'w controller \<Rightarrow> string \<Rightarrow> kind \<Rightarrow> err \<Rightarrow> time \<Rightarrow> time \<Rightarrow> state \<Rightarrow> state" where
  "blockState c zone kind reason t1 t2 s =
     (let x = blockedWorkflow zone kind reason (getWorkflow s (workflowKey zone kind));
          s1 = putWorkflow (workflowKey zone kind) x s;
          eventID = dnssecID c (strJoin ''|'' [zone, kindStr kind, wKeysetFingerprint x, ''blocked''])
      in if kind = KindEnroll \<and> lcEnabled (ncLMTP (cfNotifications (cfg c))) \<and> mget (sNotifications s1) eventID = None
         then s1\<lparr>sNotifications := mput eventID
                (zeroNotification\<lparr>nID := eventID, nEvent := ''blocked'', nZone := zone, nKind := kind,
                   nCompletedAt := t1, nNewKeyID := wNewKeyID x, nNewZSKID := wNewZSKID x,
                   nNextAttemptAt := t2\<rparr>) (sNotifications s1)\<rparr>
         else s1)"

lemma getWorkflow_blockState:
  "getWorkflow (blockState c zone kind reason t1 t2 s) j =
     (if j = workflowKey zone kind then blockedWorkflow zone kind reason (getWorkflow s j) else getWorkflow s j)"
  by (simp add: blockState_def Let_def getWorkflow_put)

lemma vcg_block [vcg]:
  assumes "\<And>t. sysState t = sysState s \<Longrightarrow> sysLog t = sysLog s \<Longrightarrow> Q (Inl reason) t"
    and "\<And>t x t1 t2. x = blockState c zone kind reason t1 t2 (sysState s) \<Longrightarrow> sysState t = x
           \<Longrightarrow> sysLog t = sysLog s @ [EvPersist x] \<Longrightarrow> Q (Inl reason) t"
  shows "wp (block c zone kind reason) Q s"
  unfolding block_def
  apply (intro vcg)
       apply (simp add: assms(1))
      subgoal for _ x _ _ _ t1 _ t2 by (rule assms(2) [OF refl, of _ t1 t2]) (auto simp: blockState_def blockedWorkflow_def Let_def)
     apply (simp add: assms(1))
    subgoal by (rule assms(2) [OF refl, of _ 0 0]) (auto simp: blockState_def blockedWorkflow_def Let_def)
   apply (simp add: assms(1))
  subgoal by (rule assms(2) [OF refl, of _ 0 0]) (auto simp: blockState_def blockedWorkflow_def Let_def)
  done

lemma vcg_complete [vcg]:
  assumes "\<And>t e. sysState t = sysState s \<Longrightarrow> sysLog t = sysLog s \<Longrightarrow> Q (Inl e) t"
    and "\<And>t x now eventID. x = completeState c w now eventID (sysState s) \<Longrightarrow> sysState t = x
           \<Longrightarrow> sysLog t = sysLog s @ [EvPersist x] \<Longrightarrow> Q (Inr ()) t"
  shows "wp (complete c w) Q s"
  unfolding complete_def by (intro vcg) (auto intro!: assms)

text \<open>
  \<open>entered\<close> is the workflow a transition hands to its mutation. Every mutation of the code
  is a pure update of it, apart from a clock reading.
\<close>

definition entered :: "phase \<Rightarrow> time \<Rightarrow> time \<Rightarrow> workflow \<Rightarrow> workflow" where
  "entered phase now next x =
     x\<lparr>wPhase := phase, wPhaseStartedAt := now, wNextActionAt := next, wLastError := None, wAttempts := 0\<rparr>"

lemma vcg_transition [vcg]:
  assumes "\<And>t e. sysState t = sysState s \<Longrightarrow> sysLog t = sysLog s \<Longrightarrow> Q (Inl e) t"
    and "\<And>t now. sysState t = sysState s \<Longrightarrow> sysLog t = sysLog s \<Longrightarrow>
           wp (mutate (entered phase now next (getWorkflow (sysState s) (workflowKey (wZone w) (wKind w)))))
             (case_sum (\<lambda>e. Q (Inl e))
               (\<lambda>y. persisting (putWorkflow (workflowKey (wZone w) (wKind w)) y (sysState s)) Q)) t"
  shows "wp (transition c w phase next mutate) Q s"
  unfolding transition_def
  by (intro vcg) (use assms(2) in \<open>simp add: entered_def\<close>, rule wp_mono, assumption, auto simp: wp_simps split: sum.splits)

end
