(* ===== verification/Rotation.thy ===== *)
theory Rotation
  imports Transitions
begin

text \<open>
  The phase handlers of the ZSK, KSK and split workflows in
  \<open>internal/controller/controller.go\<close>, in the order of the source. Each handler gets the
  zone, the key inventory just read from PowerDNS and a copy of the workflow, and ends in
  one transition, in a block, or in an error that the caller records for a retry.
\<close>

definition parentModeExisting :: string where
  "parentModeExisting = ''existing''"

definition parentModeInitial :: string where
  "parentModeInitial = ''initial''"

text \<open>\<open>c.transition(w, phase, c.clock.Now(), mutate)\<close> and \<open>...c.clock.Now().Add(wait)...\<close>\<close>

definition transitionNow ::
  "'w controller \<Rightarrow> workflow \<Rightarrow> phase \<Rightarrow> (workflow \<Rightarrow> ('w, workflow) io) \<Rightarrow> ('w, unit) io" where
  "transitionNow c w phase mutate = bind (clockNow c) (\<lambda>t. transition c w phase t mutate)"

definition transitionAfter ::
  "'w controller \<Rightarrow> workflow \<Rightarrow> phase \<Rightarrow> duration \<Rightarrow> (workflow \<Rightarrow> ('w, workflow) io) \<Rightarrow> ('w, unit) io" where
  "transitionAfter c w phase wait mutate =
     bind (clockNow c) (\<lambda>t. transition c w phase (timeAdd t wait) mutate)"

definition margin :: "'w controller \<Rightarrow> duration" where
  "margin c = ccPropagationMargin (cfController (cfg c))"

section \<open>Creating keys\<close>

definition slotReused :: "workflow \<Rightarrow> bool \<Rightarrow> int \<Rightarrow> bool" where
  "slotReused w zskSlot i \<longleftrightarrow>
     (zskSlot \<and> i = wNewKeyID w) \<or> (\<not> zskSlot \<and> i = wNewZSKID w \<and> wNewZSKID w \<noteq> 0)"

fun adoptCandidates ::
  "(string \<Rightarrow> err + rr) \<Rightarrow> string \<Rightarrow> workflow \<Rightarrow> string \<Rightarrow> string \<Rightarrow> int \<Rightarrow> bool \<Rightarrow> bool \<Rightarrow> bool
   \<Rightarrow> key list \<Rightarrow> err + key list" where
  "adoptCandidates newRR zone w typ algorithm oldID active allowCSK zskSlot [] = Inr []"
| "adoptCandidates newRR zone w typ algorithm oldID active allowCSK zskSlot (k # ks) =
     (if kID k = oldID \<or> kActive k \<noteq> active \<or> \<not> kPublished k
      then adoptCandidates newRR zone w typ algorithm oldID active allowCSK zskSlot ks
      else if slotReused w zskSlot (kID k)
      then Inl (Fmt CandidateReusesSlot [AStr typ, AInt (kID k)])
      else if kKeyType k \<noteq> typ \<and> (\<not> allowCSK \<or> kKeyType k \<noteq> ''csk'')
      then adoptCandidates newRR zone w typ algorithm oldID active allowCSK zskSlot ks
      else if kAlgorithm k = [] \<or> \<not> equalFold (kAlgorithm k) algorithm
      then Inl (Fmt CandidateAlgorithm [AStr typ, AInt (kID k), AStr (kAlgorithm k), AStr algorithm])
      else case validatedKeyRole newRR zone k typ allowCSK of
        Inl e \<Rightarrow> Inl (Wrap CandidateRole [AStr typ] e)
      | Inr data \<Rightarrow>
         (case validateAlgorithmLabel (kAlgorithm k) (dAlgorithm data) of
            Some e \<Rightarrow> Inl (Wrap CandidateLabel [AStr typ, AInt (kID k)] e)
          | None \<Rightarrow>
             (case adoptCandidates newRR zone w typ algorithm oldID active allowCSK zskSlot ks of
                Inl e \<Rightarrow> Inl e
              | Inr cs \<Rightarrow> Inr (k # cs))))"

text \<open>The checks on the response of \<open>CreateKey\<close>\<close>

definition checkCreated ::
  "(string \<Rightarrow> err + rr) \<Rightarrow> string \<Rightarrow> workflow \<Rightarrow> string \<Rightarrow> string \<Rightarrow> int \<Rightarrow> bool \<Rightarrow> bool \<Rightarrow> bool \<Rightarrow> key
   \<Rightarrow> err + key" where
  "checkCreated newRR zone w typ algorithm oldID active allowCSK zskSlot created =
     (if kID created \<le> 0 \<or> kID created = oldID \<or> slotReused w zskSlot (kID created)
         \<or> kActive created \<noteq> active \<or> \<not> kPublished created
      then Inl (Fmt CreatedBadState [AStr typ])
      else if kAlgorithm created = [] \<or> \<not> equalFold (kAlgorithm created) algorithm
      then Inl (Fmt CreatedAlgorithm [AStr typ, AStr (kAlgorithm created), AStr algorithm])
      else case validatedKeyRole newRR zone created typ allowCSK of
        Inl e \<Rightarrow> Inl (Wrap CreatedRole [AStr typ] e)
      | Inr data \<Rightarrow>
         (case validateAlgorithmLabel (kAlgorithm created) (dAlgorithm data) of
            Some e \<Rightarrow> Inl (Wrap CreatedRole [AStr typ] e)
          | None \<Rightarrow> Inr created))"

definition adoptOrCreate ::
  "'w controller \<Rightarrow> zone \<Rightarrow> key list \<Rightarrow> workflow \<Rightarrow> string \<Rightarrow> string \<Rightarrow> int \<Rightarrow> bool \<Rightarrow> bool \<Rightarrow> bool
   \<Rightarrow> ('w, key) io" where
  "adoptOrCreate c zone keys w typ algorithm oldID active allowCSK zskSlot =
     bind (pureE (adoptCandidates (libNewRR c) (zName zone) w typ algorithm oldID active allowCSK zskSlot keys))
       (\<lambda>candidates.
        if length candidates > 1 then throw (Fmt MultipleCandidates [AStr typ])
        else if length candidates = 1 then ret (candidates ! 0)
        else let attemptedAt = (if zskSlot then wNewZSKCreateAttemptedAt w else wNewKeyCreateAttemptedAt w)
        in if \<not> timeIsZero attemptedAt
           then throw (Fmt CreateAlreadyAttempted [AStr typ, AInt attemptedAt])
           else bind (recordCreateAttempt c w zskSlot) (\<lambda>_.
                bind (createKey c (zID zone) typ algorithm active) (\<lambda>created.
                pureE (checkCreated (libNewRR c) (zName zone) w typ algorithm oldID active allowCSK zskSlot created))))"

section \<open>prepublish\<close>

text \<open>The classification of the parent before a split creates its first key\<close>

definition classifyParent :: "'w controller \<Rightarrow> zone \<Rightarrow> workflow \<Rightarrow> key \<Rightarrow> ('w, unit) io" where
  "classifyParent c zone w old =
     bind (pureE (DNSSECDataForKey (libNewRR c) (zName zone) old)) (\<lambda>oldData.
     bind (domainDNSSEC c (zName zone)) (\<lambda>remote.
       if dsEnabled remote \<and> sameMaterial (dsData remote) [oldData]
       then transitionNow c w PhasePrepublish (\<lambda>x. ret (x\<lparr>wParentMode := parentModeExisting\<rparr>))
       else if \<not> dsEnabled remote \<and> dsData remote = []
       then bind (wrapErr (Wrap InitialNeedsNoDS []) (NoDSEvidence c (zName zone))) (\<lambda>_.
            transitionNow c w PhasePrepublish (\<lambda>x. ret (x\<lparr>wParentMode := parentModeInitial\<rparr>)))
       else block c (zName zone) (wKind w) (Fmt RegistrarNeitherState [])))"

definition clearEvidence :: "workflow \<Rightarrow> ('w, workflow) io" where
  "clearEvidence x = ret (x\<lparr>wEvidenceAt := 0\<rparr>)"

definition prepublish :: "'w controller \<Rightarrow> zone \<Rightarrow> key list \<Rightarrow> workflow \<Rightarrow> ('w, unit) io" where
  "prepublish c zone keys w =
     (let typ = (if wKind w = KindSplit then ''csk'' else kindStr (wKind w))
      in if wOldKeyID w = 0 then
          (case exactlyOneActive keys typ of
             Inl e \<Rightarrow> block c (zName zone) (wKind w) e
           | Inr old \<Rightarrow> transitionNow c w PhasePrepublish (\<lambda>x. ret (x\<lparr>wOldKeyID := kID old\<rparr>)))
         else
          (case byID keys (wOldKeyID w) of
             None \<Rightarrow> block c (zName zone) (wKind w) (Fmt OldKeyMissing [])
           | Some old \<Rightarrow>
              (let algorithm = (if kAlgorithm old = [] then rcAlgorithm (cfRotation (cfg c)) else kAlgorithm old)
               in if wKind w = KindSplit \<and> wParentMode w = [] then classifyParent c zone w old
                  else if wKind w = KindSplit then
                   (if wNewKeyID w = 0 then
                      bind (adoptOrCreate c zone keys w ''ksk'' algorithm (kID old) True True False) (\<lambda>k.
                      transitionNow c w PhasePrepublish (\<lambda>x. ret (x\<lparr>wNewKeyID := kID k\<rparr>)))
                    else if wNewZSKID w = 0 then
                      bind (adoptOrCreate c zone keys w ''zsk'' algorithm (kID old) False True True) (\<lambda>k.
                      transitionNow c w PhaseWaitPublish (\<lambda>x. ret (x\<lparr>wNewZSKID := kID k, wEvidenceAt := 0\<rparr>)))
                    else transitionNow c w PhaseWaitPublish clearEvidence)
                  else if wNewKeyID w = 0 then
                    bind (adoptOrCreate c zone keys w (kindStr (wKind w)) algorithm (kID old)
                            (wKind w = KindKSK) False False) (\<lambda>k.
                    transitionNow c w PhaseWaitPublish (\<lambda>x. ret (x\<lparr>wNewKeyID := kID k, wEvidenceAt := 0\<rparr>)))
                  else transitionNow c w PhaseWaitPublish clearEvidence)))"

section \<open>waitPublish\<close>

definition initialSplit :: "workflow \<Rightarrow> bool" where
  "initialSplit w \<longleftrightarrow> wKind w = KindSplit \<and> wParentMode w = parentModeInitial"

definition dnskeyEvidenceFor :: "'w controller \<Rightarrow> workflow \<Rightarrow> string \<Rightarrow> key list \<Rightarrow> ('w, duration) io" where
  "dnskeyEvidenceFor c w = (if initialSplit w then AuthoritativeDNSKEYEvidence c else DNSKEYEvidence c)"

definition checkSignatureFor :: "'w controller \<Rightarrow> workflow \<Rightarrow> string \<Rightarrow> key \<Rightarrow> ('w, unit) io" where
  "checkSignatureFor c w = (if initialSplit w then AuthoritativeDNSKEYRRSIGBy c else DNSKEYRRSIGBy c)"

lemma dnskeyEvidenceFor_call [op_defs]:
  "dnskeyEvidenceFor c w zone ks =
     call (apiDNSKEYEvidence c (\<not> initialSplit w) zone ks) (EvDNSKEY (\<not> initialSplit w) zone ks)"
  by (simp add: dnskeyEvidenceFor_def DNSKEYEvidence_def AuthoritativeDNSKEYEvidence_def)

lemma checkSignatureFor_call [op_defs]:
  "checkSignatureFor c w zone k =
     call (apiDNSKEYRRSIGBy c (\<not> initialSplit w) zone k) (EvDNSKEYRRSIG (\<not> initialSplit w) zone k)"
  by (simp add: checkSignatureFor_def DNSKEYRRSIGBy_def AuthoritativeDNSKEYRRSIGBy_def)

text \<open>\<open>func(x) { ...; x.EvidenceAt = c.clock.Now() }\<close>\<close>

definition stampEvidence :: "'w controller \<Rightarrow> (workflow \<Rightarrow> workflow) \<Rightarrow> workflow \<Rightarrow> ('w, workflow) io" where
  "stampEvidence c f x = bind (clockNow c) (\<lambda>t. ret ((f x)\<lparr>wEvidenceAt := t\<rparr>))"

definition waitPublish :: "'w controller \<Rightarrow> zone \<Rightarrow> key list \<Rightarrow> workflow \<Rightarrow> ('w, unit) io" where
  "waitPublish c zone keys w =
     (case recordedKeys keys (wOldKeyID w) (wNewKeyID w) of
        Inl e \<Rightarrow> block c (zName zone) (wKind w) e
      | Inr (old, newKey) \<Rightarrow>
        if wKind w = KindSplit \<and> byID keys (wNewZSKID w) = None
        then block c (zName zone) (wKind w) (Fmt NewZSKMissing [])
        else case validatePrepublishInventory (libNewRR c) (zName zone) keys w of
          Some e \<Rightarrow> block c (zName zone) (wKind w) e
        | None \<Rightarrow>
          bind (dnskeyEvidenceFor c w (zName zone) (publishedKeys keys)) (\<lambda>ttl.
          bind (if wKind w = KindKSK \<or> wKind w = KindSplit then
                  bind (wrapErr (Wrap OldOverlapMissing []) (checkSignatureFor c w (zName zone) old)) (\<lambda>_.
                  wrapErr (Wrap NewOverlapMissing []) (checkSignatureFor c w (zName zone) newKey))
                else ret ()) (\<lambda>_.
          if timeIsZero (wEvidenceAt w) then
            (let wait = durAdd (maxDuration ttl (rcMinimumDNSKEYWait (cfRotation (cfg c)))) (margin c)
             in transitionAfter c w PhaseWaitPublish wait
                  (stampEvidence c (\<lambda>x. x\<lparr>wDNSKEYTTL := durSeconds ttl\<rparr>)))
          else transitionNow c w
                 (if wKind w = KindKSK \<or> wKind w = KindSplit then PhaseParentRemove else PhaseActivateNew)
                 clearEvidence)))"

section \<open>activateNew\<close>

definition activateNew :: "'w controller \<Rightarrow> zone \<Rightarrow> key list \<Rightarrow> workflow \<Rightarrow> ('w, unit) io" where
  "activateNew c zone keys w =
     (let pre = validatePrepublishInventory (libNewRR c) (zName zone) keys w;
          post = validateActiveSplitInventory (libNewRR c) (zName zone) keys w
      in if wKind w = KindSplit \<and> pre \<noteq> None \<and> post \<noteq> None
         then block c (zName zone) (wKind w) (Quote SplitActivationInventory [] [the pre, the post])
         else case byID keys (if wKind w = KindSplit then wNewZSKID w else wNewKeyID w) of
           None \<Rightarrow> block c (zName zone) (wKind w) (Fmt NewSigningKeyMissing [])
         | Some k \<Rightarrow>
             bind (if \<not> kActive k then setKey c (zID zone) k True True else ret ()) (\<lambda>_.
             transitionNow c w PhaseWaitNewSignature clearEvidence))"

section \<open>Evidence for the split signer transition\<close>

text \<open>The loop over \<open>{old, ksk}, {newKSK, ksk}, {newZSK, zsk}\<close>\<close>

fun checkRolesAndLabels :: "(string \<Rightarrow> err + rr) \<Rightarrow> string \<Rightarrow> (key \<times> string) list \<Rightarrow> err option" where
  "checkRolesAndLabels newRR zone [] = None"
| "checkRolesAndLabels newRR zone ((k, role) # rest) =
     (case validatedKeyRole newRR zone k role False of
        Inl e \<Rightarrow> Some e
      | Inr data \<Rightarrow>
         (case validateAlgorithmLabel (kAlgorithm k) (dAlgorithm data) of
            Some e \<Rightarrow> Some (Wrap KeyAlgorithmLabel [AInt (kID k)] e)
          | None \<Rightarrow> checkRolesAndLabels newRR zone rest))"

text \<open>The pure first half: the inventory, the three keys and their exact labels\<close>

definition splitSignerKeys ::
  "(string \<Rightarrow> err + rr) \<Rightarrow> string \<Rightarrow> key list \<Rightarrow> workflow \<Rightarrow> err + (key \<times> key)" where
  "splitSignerKeys newRR zone keys w =
     (case validateActiveSplitInventory newRR zone keys w of
        Some e \<Rightarrow> Inl e
      | None \<Rightarrow>
       (case recordedKeys keys (wOldKeyID w) (wNewKeyID w) of
          Inl e \<Rightarrow> Inl e
        | Inr (old, newKSK) \<Rightarrow>
         (case byID keys (wNewZSKID w) of
            None \<Rightarrow> Inl (Fmt ReplacementZSKIdMissing [AInt (wNewZSKID w)])
          | Some newZSK \<Rightarrow>
             if kKeyType old \<noteq> ''ksk'' \<or> kKeyType newKSK \<noteq> ''ksk'' \<or> kKeyType newZSK \<noteq> ''zsk''
             then Inl (Fmt SignerRoles [AStr (kKeyType old), AStr (kKeyType newKSK), AStr (kKeyType newZSK)])
             else case checkRolesAndLabels newRR zone [(old, ''ksk''), (newKSK, ''ksk''), (newZSK, ''zsk'')] of
               Some e \<Rightarrow> Inl e
             | None \<Rightarrow> Inr (newKSK, newZSK))))"

definition validateSplitSignerTransitionEvidence ::
  "'w controller \<Rightarrow> zone \<Rightarrow> key list \<Rightarrow> workflow \<Rightarrow> ('w, int) io" where
  "validateSplitSignerTransitionEvidence c zone keys w =
     bind (pureE (splitSignerKeys (libNewRR c) (zName zone) keys w)) (\<lambda>(newKSK, newZSK).
     bind (pureE (DNSSECDataForKey (libNewRR c) (zName zone) newKSK)) (\<lambda>expected.
     bind (domainDNSSEC c (zName zone)) (\<lambda>remote.
     if \<not> dsEnabled remote \<or> \<not> sameMaterial (dsData remote) [expected]
     then throw (Fmt MaterialNotNewOnly [])
     else
     bind (wrapErr (Wrap AuthParentDS []) (AuthoritativeDSEvidence c (zName zone) [newKSK])) (\<lambda>_.
     bind (wrapErr (Wrap ADParentDS []) (DSEvidence c (zName zone) [newKSK])) (\<lambda>_.
     bind (wrapErr (Wrap ExactDNSKEY []) (DNSKEYEvidence c (zName zone) (publishedKeys keys))) (\<lambda>_.
     bind (wrapErr (Wrap KSKDNSKEYSig []) (DNSKEYRRSIGBy c (zName zone) newKSK)) (\<lambda>_.
     bind (wrapErr (Wrap ZSKZoneSig []) (RRSIGBy c (zName zone) newZSK)) (\<lambda>_.
     bind (wrapErr (Wrap ParentDelegation [])
             (DelegationEvidence c (zName zone) (dcExpectedNameservers (cfDNS (cfg c))))) (\<lambda>_.
     bind (getZone c (zID zone)) (\<lambda>detail.
     let ttl = durSeconds (maxTTL detail)
     in if ttl \<le> 0 then throw (Fmt ZoneTTLZero []) else ret ttl))))))))))"

section \<open>waitNewSignature\<close>

definition zoneWait :: "'w controller \<Rightarrow> int \<Rightarrow> duration" where
  "zoneWait c ttl = durAdd (durMul ttl second) (margin c)"

text \<open>
  The restart of the split wait when the zone TTL has grown:
  \<open>x.ZoneTTL = currentTTL; x.EvidenceAt = now; x.SplitSignerTransitionAt = now\<close>
\<close>

definition restartSplitWait :: "'w controller \<Rightarrow> workflow \<Rightarrow> int \<Rightarrow> ('w, unit) io" where
  "restartSplitWait c w currentTTL =
     bind (clockNow c) (\<lambda>now.
     transition c w PhaseWaitNewSignature (timeAdd now (zoneWait c currentTTL))
       (\<lambda>x. ret (x\<lparr>wZoneTTL := currentTTL, wEvidenceAt := now, wSplitSignerTransitionAt := now\<rparr>)))"

definition waitNewSignature :: "'w controller \<Rightarrow> zone \<Rightarrow> key list \<Rightarrow> workflow \<Rightarrow> ('w, unit) io" where
  "waitNewSignature c zone keys w =
     bind (pureE (recordedKeys keys (wOldKeyID w) (wNewKeyID w))) (\<lambda>(old, _).
     case byID keys (if wKind w = KindSplit then wNewZSKID w else wNewKeyID w) of
       None \<Rightarrow> block c (zName zone) (wKind w) (Fmt NewSignerMissing [])
     | Some newSigner \<Rightarrow>
       bind (RRSIGBy c (zName zone) newSigner) (\<lambda>_.
       if \<not> kActive newSigner \<or> \<not> kPublished newSigner
       then block c (zName zone) (wKind w) (Fmt NewSignerNotActive [])
       else if wZoneTTL w = 0 then
         bind (getZone c (zID zone)) (\<lambda>detail.
         let ttl = maxTTL detail
         in if ttl \<le> 0 then block c (zName zone) (wKind w) (Fmt ZoneTTLZero [])
            else transitionNow c w PhaseWaitNewSignature (\<lambda>x. ret (x\<lparr>wZoneTTL := durSeconds ttl\<rparr>)))
       else
        (let finish = transitionNow c w PhaseDeactivateOld clearEvidence
         in if wKind w = KindSplit then
             (if timeIsZero (wSplitSignerTransitionAt w) then
                bind (wrapErr (Wrap OldCSKOverlapMissing []) (RRSIGBy c (zName zone) old)) (\<lambda>_.
                if timeIsZero (wEvidenceAt w)
                then transitionAfter c w PhaseWaitNewSignature (zoneWait c (wZoneTTL w)) (stampEvidence c (\<lambda>x. x))
                else finish)
              else
                (let deadline = timeAdd (wSplitSignerTransitionAt w) (zoneWait c (wZoneTTL w))
                 in bind (clockNow c) (\<lambda>now.
                    if timeBefore now deadline then transition c w PhaseWaitNewSignature deadline ret
                    else bind (wrapErr (Wrap SplitSignerEvidence [])
                                 (validateSplitSignerTransitionEvidence c zone keys w)) (\<lambda>currentTTL.
                         if currentTTL > wZoneTTL w then restartSplitWait c w currentTTL else finish))))
            else finish)))"

section \<open>deactivateOld\<close>

text \<open>The evidence that the replacement serves before the old key is switched off\<close>

definition deactivationEvidence ::
  "'w controller \<Rightarrow> zone \<Rightarrow> key list \<Rightarrow> workflow \<Rightarrow> key \<Rightarrow> ('w, unit) io" where
  "deactivationEvidence c zone keys w newKey =
     bind (if wKind w = KindZSK
           then wrapErr (Wrap NewZSKSigMissing []) (RRSIGBy c (zName zone) newKey)
           else bind (wrapErr (Wrap NewKSKSigMissing []) (DNSKEYRRSIGBy c (zName zone) newKey)) (\<lambda>_.
                wrapErr (Wrap ParentDSMissing []) (DSEvidence c (zName zone) [newKey]))) (\<lambda>_.
     bind (if wKind w = KindSplit then
             (case byID keys (wNewZSKID w) of
                None \<Rightarrow> block c (zName zone) (wKind w) (Fmt ReplacementZSKNotActive [])
              | Some z \<Rightarrow>
                  if \<not> kActive z \<or> \<not> kPublished z
                  then block c (zName zone) (wKind w) (Fmt ReplacementZSKNotActive [])
                  else wrapErr (Wrap NewZSKSigMissingCSK []) (RRSIGBy c (zName zone) z))
           else ret ()) (\<lambda>_.
     bind (wrapErr (Wrap ReplacementDNSKEYMissing [])
             (DNSKEYEvidence c (zName zone) (publishedKeys keys))) (\<lambda>_. ret ())))"

definition switchOffOld :: "'w controller \<Rightarrow> zone \<Rightarrow> workflow \<Rightarrow> key \<Rightarrow> ('w, unit) io" where
  "switchOffOld c zone w old =
     bind (if kActive old then setKey c (zID zone) old False True else ret ()) (\<lambda>_.
     if wKind w = KindKSK then transitionNow c w PhaseDeleteOld ret
     else transitionAfter c w PhaseWaitRetire (zoneWait c (wZoneTTL w)) ret)"

text \<open>The part of \<open>deactivateOld\<close> that all kinds share\<close>

definition deactivateRecorded :: "'w controller \<Rightarrow> zone \<Rightarrow> key list \<Rightarrow> workflow \<Rightarrow> ('w, unit) io" where
  "deactivateRecorded c zone keys w =
     bind (pureE (recordedKeys keys (wOldKeyID w) (wNewKeyID w))) (\<lambda>(old, newKey).
     if \<not> kActive newKey \<or> \<not> kPublished newKey
     then block c (zName zone) (wKind w) (Fmt ReplacementNotActive [])
     else bind (deactivationEvidence c zone keys w newKey) (\<lambda>_.
       if wKind w \<noteq> KindKSK then
         bind (getZone c (zID zone)) (\<lambda>detail.
         let current = durSeconds (maxTTL detail)
         in if current \<le> 0 then block c (zName zone) (wKind w) (Fmt ZoneTTLZero [])
            else if current > wZoneTTL w
            then transitionAfter c w PhaseDeactivateOld (zoneWait c current)
                   (stampEvidence c (\<lambda>x. x\<lparr>wZoneTTL := current\<rparr>))
            else switchOffOld c zone w old)
       else switchOffOld c zone w old))"

definition deactivateOld :: "'w controller \<Rightarrow> zone \<Rightarrow> key list \<Rightarrow> workflow \<Rightarrow> ('w, unit) io" where
  "deactivateOld c zone keys w =
     (if wKind w = KindSplit then
       (let pre = validateActiveSplitInventory (libNewRR c) (zName zone) keys w;
            post = validateDeactivatedSplitInventory (libNewRR c) (zName zone) keys w
        in if pre \<noteq> None \<and> post \<noteq> None
           then block c (zName zone) (wKind w) (Quote SplitDeactivationInventory [] [the pre, the post])
           else if \<not> timeIsZero (wSplitSignerTransitionAt w) \<and> pre = None then
             bind (wrapErr (Wrap SplitSignerEvidenceBeforeDeactivation [])
                     (validateSplitSignerTransitionEvidence c zone keys w)) (\<lambda>currentTTL.
             if currentTTL > wZoneTTL w then restartSplitWait c w currentTTL
             else deactivateRecorded c zone keys w)
           else deactivateRecorded c zone keys w)
      else deactivateRecorded c zone keys w)"

section \<open>The change at the parent\<close>

definition parentReplaceID :: "'w controller \<Rightarrow> workflow \<Rightarrow> string" where
  "parentReplaceID c w = dnssecID c (strJoin ''|''
     [wZone w, kindStr (wKind w), libRFC3339Nano c (wPhaseStartedAt w), ''parent-replace''])"

text \<open>The persisted intent and the write to the registrar\<close>

definition submitReplacement :: "'w controller \<Rightarrow> zone \<Rightarrow> workflow \<Rightarrow> dnssecData \<Rightarrow> ('w, unit) io" where
  "submitReplacement c zone w newData =
     bind (clockNow c) (\<lambda>attemptedAt.
     bind (storeUpdate c (\<lambda>s.
       let k = workflowKey (wZone w) (wKind w)
       in ret (putWorkflow k ((getWorkflow s k)\<lparr>wRegistrarAttemptedAt := attemptedAt\<rparr>) s))) (\<lambda>_.
     bind (updateDNSSEC c (zName zone) [newData] (wRegistrarCTID w)) (\<lambda>j.
     transitionNow c w PhaseWaitParentRemove (\<lambda>x. ret (x\<lparr>wRegistrarSTID := jSTID j, wRegistrarJobID := jID j,
       wRegistrarJobStatus := jStatus j, wEvidenceAt := 0\<rparr>)))))"

definition ambiguousOrSubmit :: "'w controller \<Rightarrow> zone \<Rightarrow> workflow \<Rightarrow> dnssecData \<Rightarrow> ('w, unit) io" where
  "ambiguousOrSubmit c zone w newData =
     (if \<not> timeIsZero (wRegistrarAttemptedAt w) then
        bind (clockNow c) (\<lambda>now.
        if timeSub now (wRegistrarAttemptedAt w) \<ge> 24 * hour
        then block c (zName zone) (wKind w) (Fmt AmbiguousWriteTimeout [])
        else throw (Fmt AmbiguousWrite []))
      else submitReplacement c zone w newData)"

text \<open>The comparison of the registrar state with the keys, and what follows from it\<close>

definition replaceMaterial ::
  "'w controller \<Rightarrow> zone \<Rightarrow> workflow \<Rightarrow> dnssecData \<Rightarrow> dnssecData \<Rightarrow> ('w, unit) io" where
  "replaceMaterial c zone w oldData newData =
     bind (domainDNSSEC c (zName zone)) (\<lambda>remote.
     if dsEnabled remote \<and> sameMaterial (dsData remote) [newData]
     then transitionNow c w PhaseWaitParentRemove clearEvidence
     else if initialSplit w then
      (if dsEnabled remote \<or> dsData remote \<noteq> []
       then block c (zName zone) (wKind w) (Fmt InitialStateChanged [])
       else bind (attempt (NoDSEvidence c (zName zone))) (\<lambda>r.
            case r of
              Inl e \<Rightarrow> block c (zName zone) (wKind w) (Quote ParentDSAppeared [] [e])
            | Inr _ \<Rightarrow> ambiguousOrSubmit c zone w newData))
     else if \<not> dsEnabled remote \<or> \<not> sameMaterial (dsData remote) [oldData]
     then block c (zName zone) (wKind w) (Fmt MaterialNotOldKey [])
     else ambiguousOrSubmit c zone w newData)"

definition parentReplace :: "'w controller \<Rightarrow> zone \<Rightarrow> key list \<Rightarrow> workflow \<Rightarrow> ('w, unit) io" where
  "parentReplace c zone keys w =
     (if wRegistrarCTID w = [] then
        transitionNow c w PhaseParentRemove (\<lambda>x. ret (x\<lparr>wRegistrarCTID := parentReplaceID c w\<rparr>))
      else
       bind (pureE (recordedKeys keys (wOldKeyID w) (wNewKeyID w))) (\<lambda>(old, newKey).
       case validatePrepublishInventory (libNewRR c) (zName zone) keys w of
         Some e \<Rightarrow> block c (zName zone) (wKind w) e
       | None \<Rightarrow>
         bind (wrapErr (Wrap ExactDNSKEYBeforeParentWrite [])
                 (dnskeyEvidenceFor c w (zName zone) (publishedKeys keys))) (\<lambda>_.
         bind (wrapErr (Wrap NewKSKSignatureMissing []) (checkSignatureFor c w (zName zone) newKey)) (\<lambda>_.
         bind (if wKind w = KindSplit then
                 wrapErr (Wrap OldCSKSignatureBeforeParentWrite [])
                   (if wParentMode w = parentModeInitial then AuthoritativeRRSIGBy c (zName zone) old
                    else RRSIGBy c (zName zone) old)
               else ret ()) (\<lambda>_.
         bind (pureE (DNSSECDataForKey (libNewRR c) (zName zone) old)) (\<lambda>oldData.
         bind (pureE (DNSSECDataForKey (libNewRR c) (zName zone) newKey)) (\<lambda>newData.
         replaceMaterial c zone w oldData newData)))))))"

definition reconcileUnavailableRegistrarJob ::
  "'w controller \<Rightarrow> string \<Rightarrow> key \<Rightarrow> err \<Rightarrow> ('w, unit) io" where
  "reconcileUnavailableRegistrarJob c zone key jobErr =
     (if \<not> isJobUnavailable jobErr then throw jobErr
      else bind (pureE (DNSSECDataForKey (libNewRR c) zone key)) (\<lambda>expected.
           bind (domainDNSSEC c zone) (\<lambda>remote.
           if \<not> dsEnabled remote \<or> \<not> sameMaterial (dsData remote) [expected]
           then throw (Fmt JobUnavailableMismatch [])
           else ret ())))"

definition waitParentReplace :: "'w controller \<Rightarrow> zone \<Rightarrow> key list \<Rightarrow> workflow \<Rightarrow> ('w, unit) io" where
  "waitParentReplace c zone keys w =
     (let drift = (if wKind w = KindSplit
                   then validatePrepublishInventory (libNewRR c) (zName zone) keys w else None)
      in case drift of
        Some e \<Rightarrow> block c (zName zone) (wKind w) (Quote SplitInventoryDrift [] [e])
      | None \<Rightarrow>
       bind (pureE (recordedKeys keys (wOldKeyID w) (wNewKeyID w))) (\<lambda>(_, newKey).
       if wRegistrarJobID w > 0 \<and> \<not> jobSucceeded (wRegistrarJobStatus w) then
         bind (attempt (jobStatus c (wRegistrarJobID w))) (\<lambda>r.
         case r of
           Inl e \<Rightarrow>
             bind (reconcileUnavailableRegistrarJob c (zName zone) newKey e) (\<lambda>_.
             transitionNow c w PhaseWaitParentRemove (\<lambda>x. ret (x\<lparr>wRegistrarJobStatus := ''SUCCESS''\<rparr>)))
         | Inr status \<Rightarrow>
             if jobFailed status
             then block c (zName zone) (wKind w) (Fmt JobFinished [AInt (wRegistrarJobID w), AStr status])
             else if \<not> jobSucceeded status
             then throw (Fmt JobPending [AInt (wRegistrarJobID w), AStr status])
             else transitionNow c w PhaseWaitParentRemove (\<lambda>x. ret (x\<lparr>wRegistrarJobStatus := status\<rparr>)))
       else
       bind (AuthoritativeDSEvidence c (zName zone) [newKey]) (\<lambda>ttl.
       if timeIsZero (wEvidenceAt w) then
         (let wait = durAdd (maxDuration ttl (rcMinimumParentWait (cfRotation (cfg c)))) (margin c)
          in transitionAfter c w PhaseWaitParentRemove wait
               (stampEvidence c (\<lambda>x. x\<lparr>wParentDSTTL := durSeconds ttl\<rparr>)))
       else
       bind (DSEvidence c (zName zone) [newKey]) (\<lambda>_.
       if \<not> kActive newKey \<or> \<not> kPublished newKey
       then block c (zName zone) (wKind w) (Fmt NewKSKNotActiveAfterWait [])
       else
       bind (wrapErr (Wrap NewKSKDNSKEYAfterWait []) (DNSKEYEvidence c (zName zone) (publishedKeys keys))) (\<lambda>_.
       bind (wrapErr (Wrap NewKSKSigAfterWait []) (DNSKEYRRSIGBy c (zName zone) newKey)) (\<lambda>_.
       transitionNow c w (if wKind w = KindSplit then PhaseActivateNew else PhaseDeactivateOld)
         clearEvidence))))))"

section \<open>Retirement\<close>

definition waitRetire :: "'w controller \<Rightarrow> zone \<Rightarrow> key list \<Rightarrow> workflow \<Rightarrow> ('w, unit) io" where
  "waitRetire c zone keys w =
     bind (pureE (recordedKeys keys (wOldKeyID w) (wNewKeyID w))) (\<lambda>(_, newKey).
     case (if wKind w = KindSplit then byID keys (wNewZSKID w) else Some newKey) of
       None \<Rightarrow> block c (zName zone) (wKind w) (Fmt NewZSKMissingAtRetirement [])
     | Some signer \<Rightarrow>
         bind (RRSIGBy c (zName zone) signer) (\<lambda>_. transitionNow c w PhaseDeleteOld ret))"

text \<open>
  The kind-specific part of \<open>deleteOld\<close>: the evidence, and the key set that must be
  visible in the DNS before the old key goes.
\<close>

definition deletionEvidence ::
  "'w controller \<Rightarrow> zone \<Rightarrow> key list \<Rightarrow> workflow \<Rightarrow> key \<Rightarrow> key list \<Rightarrow> ('w, key list) io" where
  "deletionEvidence c zone keys w newKey dnskeys =
     bind (if wKind w = KindKSK \<or> wKind w = KindSplit then
             bind (DNSKEYRRSIGBy c (zName zone) newKey) (\<lambda>_.
             bind (DSEvidence c (zName zone) [newKey]) (\<lambda>_.
             bind (AuthoritativeDSEvidence c (zName zone) [newKey]) (\<lambda>_. ret ())))
           else ret ()) (\<lambda>_.
     if wKind w = KindSplit then
      (case byID keys (wNewZSKID w) of
         None \<Rightarrow> block c (zName zone) (wKind w) (Fmt ReplacementZSKMissing [])
       | Some z \<Rightarrow>
          if \<not> kActive z \<or> \<not> kPublished z
          then block c (zName zone) (wKind w) (Fmt ReplacementZSKMissing [])
          else
          bind (RRSIGBy c (zName zone) z) (\<lambda>_.
          bind (domainDNSSEC c (zName zone)) (\<lambda>remote.
          bind (pureE (DNSSECDataForKey (libNewRR c) (zName zone) newKey)) (\<lambda>expected.
          if \<not> dsEnabled remote \<or> \<not> sameMaterial (dsData remote) [expected]
          then block c (zName zone) (wKind w) (Fmt MaterialNotNewOnlyBeforeDelete [])
          else ret (case byID keys (wOldKeyID w) of
                      None \<Rightarrow> [newKey, z]
                    | Some old \<Rightarrow> [newKey, z, old])))))
     else if wKind w = KindZSK then
       bind (RRSIGBy c (zName zone) newKey) (\<lambda>_. ret dnskeys)
     else ret dnskeys)"

definition deleteOld :: "'w controller \<Rightarrow> zone \<Rightarrow> key list \<Rightarrow> workflow \<Rightarrow> ('w, unit) io" where
  "deleteOld c zone keys w =
     (case byID keys (wNewKeyID w) of
        None \<Rightarrow> block c (zName zone) (wKind w) (Fmt ReplacementMissing [])
      | Some newKey \<Rightarrow>
        if \<not> kActive newKey \<or> \<not> kPublished newKey
        then block c (zName zone) (wKind w) (Fmt ReplacementMissing [])
        else
         (let inv = (if wKind w = KindZSK \<or> wKind w = KindKSK
                     then retirementInventory (libNewRR c) (zName zone) keys w else Inr [])
          in case inv of
            Inl e \<Rightarrow> block c (zName zone) (wKind w) e
          | Inr dnskeys0 \<Rightarrow>
            bind (deletionEvidence c zone keys w newKey dnskeys0) (\<lambda>dnskeys.
            bind (wrapErr (Wrap ReplacementDNSKEYBeforeDelete []) (DNSKEYEvidence c (zName zone) dnskeys)) (\<lambda>_.
            case byID keys (wOldKeyID w) of
              None \<Rightarrow> complete c w
            | Some old \<Rightarrow>
                if kActive old then block c (zName zone) (wKind w) (Fmt RefuseDeleteActive [])
                else bind (deleteKey c (zID zone) (kID old)) (\<lambda>_. complete c w)))))"

end
