(* ===== verification/Enrollment.thy ===== *)
theory Enrollment
  imports Rotation
begin

text \<open>
  The phase handlers of automatic initial enrollment in
  \<open>internal/controller/controller.go\<close>. They change no key in PowerDNS; the only write to
  the outside is the one submission in \<open>enrollParentAdd\<close>.
\<close>

text \<open>The inventory recorded at discovery must still be there, under the same zone identity.\<close>

definition recordedInventory :: "'w controller \<Rightarrow> zone \<Rightarrow> key list \<Rightarrow> workflow \<Rightarrow> err + (key \<times> key)" where
  "recordedInventory c zone keys w =
     (case validateEnrollmentInventory (libNewRR c) (libSha256 c) (zName zone) keys (wNewKeyID w) (wNewZSKID w)
             (wKeysetFingerprint w) (ecAllowedAlgorithms (cfEnrollment (cfg c))) of
        Inl e \<Rightarrow> Inl e
      | Inr (ksk, zsk, _) \<Rightarrow>
          if zID zone \<noteq> wZoneID w then Inl (Fmt ZoneIdentityChanged []) else Inr (ksk, zsk))"

definition validateEnrollmentEvidence ::
  "'w controller \<Rightarrow> string \<Rightarrow> key list \<Rightarrow> key \<Rightarrow> key \<Rightarrow> bool \<Rightarrow> ('w, unit) io" where
  "validateEnrollmentEvidence c zone keys ksk zsk recursive =
     bind (wrapErr (Wrap ParentDelegation [])
             (DelegationEvidence c zone (dcExpectedNameservers (cfDNS (cfg c))))) (\<lambda>_.
     if recursive then
       bind (DNSKEYEvidence c zone (publishedKeys keys)) (\<lambda>_.
       bind (DNSKEYRRSIGBy c zone ksk) (\<lambda>_.
       RRSIGBy c zone zsk))
     else
       bind (AuthoritativeDNSKEYEvidence c zone (publishedKeys keys)) (\<lambda>_.
       bind (AuthoritativeDNSKEYRRSIGBy c zone ksk) (\<lambda>_.
       AuthoritativeRRSIGBy c zone zsk)))"

section \<open>enrollDiscovered\<close>

definition markIneligible :: "'w controller \<Rightarrow> workflow \<Rightarrow> ('w, unit) io" where
  "markIneligible c w =
     storeUpdate c (\<lambda>s.
       let k = workflowKey (wZone w) (wKind w)
       in bind (clockNow c) (\<lambda>now.
          ret (putWorkflow k ((getWorkflow s k)\<lparr>wPhase := PhaseIdle, wLastCompletedAt := now,
                 wNextActionAt := 0, wEnrollmentDisposition := ''ineligible'',
                 wLastError := Some (Fmt EnrollRequiresCleanSplit [])\<rparr>) s)))"

text \<open>Discovery while no stable inventory is recorded\<close>

definition discoverInventory :: "'w controller \<Rightarrow> zone \<Rightarrow> key list \<Rightarrow> workflow \<Rightarrow> ('w, unit) io" where
  "discoverInventory c zone keys w =
     (if keyScheme keys = ''csk'' then markIneligible c w
      else case validateEnrollmentInventory (libNewRR c) (libSha256 c) (zName zone) keys 0 0 []
                  (ecAllowedAlgorithms (cfEnrollment (cfg c))) of
        Inl e \<Rightarrow> throw (Wrap WaitingStableInventory [] e)
      | Inr (ksk, zsk, fingerprint) \<Rightarrow>
          transitionAfter c w PhaseEnrollDiscovered (ecDiscoveryGrace (cfEnrollment (cfg c)))
            (\<lambda>x. ret (x\<lparr>wNewKeyID := kID ksk, wNewZSKID := kID zsk, wKeysetFingerprint := fingerprint,
                        wEvidenceAt := 0, wDNSKEYTTL := 0\<rparr>)))"

definition clearDNSKEYEvidence :: "workflow \<Rightarrow> ('w, workflow) io" where
  "clearDNSKEYEvidence x = ret (x\<lparr>wEvidenceAt := 0, wDNSKEYTTL := 0\<rparr>)"

text \<open>The classification of a stable candidate: adopt, refuse, or go on to publication\<close>

definition classifyCandidate :: "'w controller \<Rightarrow> zone \<Rightarrow> key list \<Rightarrow> workflow \<Rightarrow> key \<Rightarrow> key \<Rightarrow> ('w, unit) io" where
  "classifyCandidate c zone keys w ksk zsk =
     bind (domainDNSSEC c (zName zone)) (\<lambda>remote.
     bind (pureE (DNSSECDataForKey (libNewRR c) (zName zone) ksk)) (\<lambda>expected.
     if dsEnabled remote then
      (if \<not> sameMaterial (dsData remote) [expected]
       then block c (zName zone) (wKind w) (Fmt EnrollNonMatching [])
       else
       bind (wrapErr (Wrap AdoptionEvidence [])
               (validateEnrollmentEvidence c (zName zone) keys ksk zsk True)) (\<lambda>_.
       bind (wrapErr (Wrap AdoptionAuthDS []) (AuthoritativeDSEvidence c (zName zone) [ksk])) (\<lambda>_.
       bind (wrapErr (Wrap AdoptionDS []) (DSEvidence c (zName zone) [ksk])) (\<lambda>_.
       complete c w))))
     else if dsData remote \<noteq> [] then block c (zName zone) (wKind w) (Fmt EnrollNotDisabledEmpty [])
     else
     bind (wrapErr (Wrap EnrollNeedsNoDS []) (NoDSEvidence c (zName zone))) (\<lambda>_.
     bind (wrapErr (Wrap EnrollNeedsDelegation [])
             (DelegationEvidence c (zName zone) (dcExpectedNameservers (cfDNS (cfg c))))) (\<lambda>_.
     transitionNow c w PhaseEnrollWaitPublish clearDNSKEYEvidence))))"

definition enrollDiscovered :: "'w controller \<Rightarrow> zone \<Rightarrow> key list \<Rightarrow> workflow \<Rightarrow> ('w, unit) io" where
  "enrollDiscovered c zone keys w =
     (if wNewKeyID w = 0 \<or> wNewZSKID w = 0 \<or> wKeysetFingerprint w = [] then discoverInventory c zone keys w
      else case validateEnrollmentInventory (libNewRR c) (libSha256 c) (zName zone) keys (wNewKeyID w)
                  (wNewZSKID w) (wKeysetFingerprint w) (ecAllowedAlgorithms (cfEnrollment (cfg c))) of
        Inl e \<Rightarrow> block c (zName zone) (wKind w) (Quote EnrollDriftDiscovery [] [e])
      | Inr (ksk, zsk, _) \<Rightarrow>
          if zID zone \<noteq> wZoneID w
          then block c (zName zone) (wKind w) (Fmt ZoneIdentityChangedDiscovery [])
          else classifyCandidate c zone keys w ksk zsk)"

section \<open>enrollWaitPublish\<close>

definition enrollWaitPublish :: "'w controller \<Rightarrow> zone \<Rightarrow> key list \<Rightarrow> workflow \<Rightarrow> ('w, unit) io" where
  "enrollWaitPublish c zone keys w =
     (case recordedInventory c zone keys w of
        Inl e \<Rightarrow> block c (zName zone) (wKind w) (Quote EnrollDriftPublish [] [e])
      | Inr (ksk, zsk) \<Rightarrow>
        bind (AuthoritativeDNSKEYEvidence c (zName zone) (publishedKeys keys)) (\<lambda>ttl.
        bind (wrapErr (Wrap EnrollKSKSig []) (AuthoritativeDNSKEYRRSIGBy c (zName zone) ksk)) (\<lambda>_.
        bind (wrapErr (Wrap EnrollZSKSig []) (AuthoritativeRRSIGBy c (zName zone) zsk)) (\<lambda>_.
        bind (DelegationEvidence c (zName zone) (dcExpectedNameservers (cfDNS (cfg c)))) (\<lambda>_.
        if timeIsZero (wEvidenceAt w) then
          (let wait = durAdd (maxDuration ttl (rcMinimumDNSKEYWait (cfRotation (cfg c)))) (margin c)
           in transitionAfter c w PhaseEnrollWaitPublish wait
                (stampEvidence c (\<lambda>x. x\<lparr>wDNSKEYTTL := durSeconds ttl\<rparr>)))
        else transitionNow c w PhaseEnrollParentAdd clearEvidence)))))"

section \<open>enrollParentAdd\<close>

definition enrollID :: "'w controller \<Rightarrow> state \<Rightarrow> zone \<Rightarrow> workflow \<Rightarrow> string" where
  "enrollID c st zone w = dnssecID c (strJoin ''|''
     [libRFC3339Nano c (sEnrollmentArmedAt st), zName zone, wKeysetFingerprint w, ''enroll''])"

text \<open>The persisted intent, the one write, and its acknowledgement\<close>

definition submitEnrollment :: "'w controller \<Rightarrow> zone \<Rightarrow> workflow \<Rightarrow> dnssecData \<Rightarrow> ('w, unit) io" where
  "submitEnrollment c zone w newData =
     bind (clockNow c) (\<lambda>attemptedAt.
     bind (storeUpdate c (\<lambda>s.
       let k = workflowKey (wZone w) (wKind w); current = getWorkflow s k
       in if wPhase current \<noteq> PhaseEnrollParentAdd \<or> wRegistrarCTID current \<noteq> wRegistrarCTID w
             \<or> \<not> timeIsZero (wRegistrarAttemptedAt current)
          then throw (Fmt EnrollWorkflowChanged [])
          else ret (putWorkflow k (current\<lparr>wRegistrarAttemptedAt := attemptedAt\<rparr>) s))) (\<lambda>_.
     bind (updateDNSSEC c (zName zone) [newData] (wRegistrarCTID w)) (\<lambda>j.
     if jID j \<le> 0 then block c (zName zone) (wKind w) (Fmt EnrollNoJobID [])
     else transitionNow c w PhaseEnrollWaitParent (\<lambda>x. ret (x\<lparr>wRegistrarSTID := jSTID j,
            wRegistrarJobID := jID j, wRegistrarJobStatus := jStatus j, wEvidenceAt := 0\<rparr>)))))"

text \<open>The decision once all evidence has been proven again\<close>

definition enrollWrite :: "'w controller \<Rightarrow> zone \<Rightarrow> workflow \<Rightarrow> dnssecData \<Rightarrow> ('w, unit) io" where
  "enrollWrite c zone w newData =
     (let payloadHash = dnssecPayloadHash (libSha256 c) newData
      in if wRegistrarPayloadHash w \<noteq> [] \<and> wRegistrarPayloadHash w \<noteq> payloadHash
         then block c (zName zone) (wKind w) (Fmt EnrollHashChanged [])
         else
         bind (domainDNSSEC c (zName zone)) (\<lambda>remote.
         if dsEnabled remote \<and> sameMaterial (dsData remote) [newData]
         then transitionNow c w PhaseEnrollWaitParent clearEvidence
         else if dsEnabled remote \<or> dsData remote \<noteq> []
         then block c (zName zone) (wKind w) (Fmt EnrollStateChanged [])
         else if wRegistrarCTID w = [] then
           bind snapshot (\<lambda>st.
           transitionNow c w PhaseEnrollParentAdd (\<lambda>x. ret (x\<lparr>wRegistrarCTID := enrollID c st zone w,
             wRegistrarPayloadHash := payloadHash\<rparr>)))
         else if wRegistrarPayloadHash w = []
         then block c (zName zone) (wKind w) (Fmt EnrollHashMissing [])
         else if \<not> timeIsZero (wRegistrarAttemptedAt w) then
           bind (clockNow c) (\<lambda>now.
           if timeSub now (wRegistrarAttemptedAt w) \<ge> 24 * hour
           then block c (zName zone) (wKind w) (Fmt EnrollAmbiguousTimeout [])
           else throw (Fmt EnrollAmbiguous []))
         else submitEnrollment c zone w newData))"

definition enrollParentAdd :: "'w controller \<Rightarrow> zone \<Rightarrow> key list \<Rightarrow> workflow \<Rightarrow> ('w, unit) io" where
  "enrollParentAdd c zone keys w =
     (if wPhase w \<noteq> PhaseEnrollParentAdd then ret ()
      else bind snapshot (\<lambda>st.
      if timeIsZero (wRegistrarAttemptedAt w) \<and> timeIsZero (sEnrollmentArmedAt st)
      then block c (zName zone) (wKind w) (Fmt EnrollDisarmed [])
      else case recordedInventory c zone keys w of
        Inl e \<Rightarrow> block c (zName zone) (wKind w) (Quote EnrollDriftParentWrite [] [e])
      | Inr (ksk, zsk) \<Rightarrow>
        bind (wrapErr (Wrap EnrollPreWrite [])
                (validateEnrollmentEvidence c (zName zone) keys ksk zsk False)) (\<lambda>_.
        bind (attempt (NoDSEvidence c (zName zone))) (\<lambda>r.
        case r of
          Inl e \<Rightarrow> block c (zName zone) (wKind w) (Quote EnrollDSAppeared [] [e])
        | Inr _ \<Rightarrow>
          bind (pureE (DNSSECDataForKey (libNewRR c) (zName zone) ksk)) (\<lambda>newData.
          enrollWrite c zone w newData)))))"

section \<open>enrollWaitParent\<close>

definition enrollWaitParent :: "'w controller \<Rightarrow> zone \<Rightarrow> key list \<Rightarrow> workflow \<Rightarrow> ('w, unit) io" where
  "enrollWaitParent c zone keys w =
     (case recordedInventory c zone keys w of
        Inl e \<Rightarrow> block c (zName zone) (wKind w) (Quote EnrollDriftParentWait [] [e])
      | Inr (ksk, zsk) \<Rightarrow>
       if wRegistrarJobID w > 0 \<and> \<not> jobSucceeded (wRegistrarJobStatus w) then
         bind (attempt (jobStatus c (wRegistrarJobID w))) (\<lambda>r.
         case r of
           Inl e \<Rightarrow>
             bind (reconcileUnavailableRegistrarJob c (zName zone) ksk e) (\<lambda>_.
             transitionNow c w PhaseEnrollWaitParent (\<lambda>x. ret (x\<lparr>wRegistrarJobStatus := ''SUCCESS''\<rparr>)))
         | Inr status \<Rightarrow>
             if jobFailed status
             then block c (zName zone) (wKind w) (Fmt EnrollJobFinished [AInt (wRegistrarJobID w), AStr status])
             else if \<not> jobSucceeded status
             then throw (Fmt EnrollJobPending [AInt (wRegistrarJobID w), AStr status])
             else transitionNow c w PhaseEnrollWaitParent (\<lambda>x. ret (x\<lparr>wRegistrarJobStatus := status\<rparr>)))
       else
       bind (AuthoritativeDSEvidence c (zName zone) [ksk]) (\<lambda>ttl.
       let wait = durAdd (maxDuration ttl (rcMinimumParentWait (cfRotation (cfg c)))) (margin c)
       in if timeIsZero (wEvidenceAt w) \<or> durSeconds ttl > wParentDSTTL w
          then transitionAfter c w PhaseEnrollWaitParent wait
                 (stampEvidence c (\<lambda>x. x\<lparr>wParentDSTTL := durSeconds ttl\<rparr>))
          else
          bind (validateEnrollmentEvidence c (zName zone) keys ksk zsk True) (\<lambda>_.
          bind (DSEvidence c (zName zone) [ksk]) (\<lambda>_.
          bind (domainDNSSEC c (zName zone)) (\<lambda>remote.
          bind (pureE (DNSSECDataForKey (libNewRR c) (zName zone) ksk)) (\<lambda>data.
          if \<not> dsEnabled remote \<or> \<not> sameMaterial (dsData remote) [data]
          then block c (zName zone) (wKind w) (Fmt EnrollMaterialMismatch [])
          else complete c w))))))"

end
