(* ===== verification/Reconcile.thy ===== *)
theory Reconcile
  imports Enrollment
begin

text \<open>
  The reconciliation loop of \<open>internal/controller/controller.go\<close>: \<open>advance\<close> runs the handler
  of a workflow's phase and records a failure for a retry, \<open>reconcileZone\<close> decides what a
  zone needs, \<open>deliverNotifications\<close> empties the outbox, and \<open>Tick\<close> is one serialized pass
  over all zones.
\<close>

section \<open>advance\<close>

definition handlePhase :: "'w controller \<Rightarrow> zone \<Rightarrow> key list \<Rightarrow> workflow \<Rightarrow> ('w, unit) io" where
  "handlePhase c zone keys w =
     (case wPhase w of
        PhasePrepublish \<Rightarrow> prepublish c zone keys w
      | PhaseWaitPublish \<Rightarrow> waitPublish c zone keys w
      | PhaseActivateNew \<Rightarrow> activateNew c zone keys w
      | PhaseWaitNewSignature \<Rightarrow> waitNewSignature c zone keys w
      | PhaseDeactivateOld \<Rightarrow> deactivateOld c zone keys w
      | PhaseParentRemove \<Rightarrow> parentReplace c zone keys w
      | PhaseWaitParentRemove \<Rightarrow> waitParentReplace c zone keys w
      | PhaseWaitRetire \<Rightarrow> waitRetire c zone keys w
      | PhaseDeleteOld \<Rightarrow> deleteOld c zone keys w
      | PhaseEnrollDiscovered \<Rightarrow> enrollDiscovered c zone keys w
      | PhaseEnrollWaitPublish \<Rightarrow> enrollWaitPublish c zone keys w
      | PhaseEnrollParentAdd \<Rightarrow> enrollParentAdd c zone keys w
      | PhaseEnrollWaitParent \<Rightarrow> enrollWaitParent c zone keys w
      | _ \<Rightarrow> ret ())"

text \<open>The phases that have a case in the switch of \<open>advance\<close>\<close>

definition knownPhase :: "phase \<Rightarrow> bool" where
  "knownPhase p \<longleftrightarrow> (case p of PhaseIdle \<Rightarrow> False | PhaseOther _ \<Rightarrow> False | _ \<Rightarrow> True)"

definition advance :: "'w controller \<Rightarrow> zone \<Rightarrow> key list \<Rightarrow> workflow \<Rightarrow> ('w, unit) io" where
  "advance c zone keys w =
     bind (if timeIsZero (wNextActionAt w) then ret False
           else bind (clockNow c) (\<lambda>now. ret (timeBefore now (wNextActionAt w)))) (\<lambda>early.
     if early then ret ()
     else if \<not> knownPhase (wPhase w) then throw (Fmt UnknownPhase [AStr (phaseStr (wPhase w))])
     else bind (attempt (handlePhase c zone keys w)) (\<lambda>r.
       case r of
         Inr _ \<Rightarrow> ret ()
       | Inl e \<Rightarrow> bind (attempt (recordRetry c w e)) (\<lambda>_. throw e)))"

section \<open>reconcileZone\<close>

definition reconcileZone :: "'w controller \<Rightarrow> zone \<Rightarrow> ('w, unit) io" where
  "reconcileZone c zone =
     bind (listKeys c (zID zone)) (\<lambda>keys.
     let scheme = keyScheme keys
     in if cfMode (cfg c) = ''observe'' then ret ()
        else
        bind (bootstrap c zone scheme keys) (\<lambda>_.
        bind snapshot (\<lambda>st.
        bind (rangeWorkflows c st) (\<lambda>ws.
        case filter (\<lambda>w. wZone w = zName zone \<and> workflowActive w) ws of
          w1 # w2 # _ \<Rightarrow> block c (zName zone) (wKind w1) (Fmt MoreThanOneActive [])
        | [w1] \<Rightarrow>
            if wKind w1 = KindEnroll \<and> timeIsZero (wRegistrarAttemptedAt w1)
               \<and> (\<not> ecEnabled (cfEnrollment (cfg c)) \<or> \<not> selectedEnrollment c (zName zone))
            then block c (zName zone) KindEnroll (Fmt EnrollDisabledBeforeWrite [])
            else advance c zone keys w1
        | [] \<Rightarrow>
            if scheme = ''csk'' then ret ()
            else if scheme \<noteq> ''split'' then block c (zName zone) KindZSK (Fmt ExpectedActiveKSKandZSK [])
            else
            bind (clockNow c) (\<lambda>now.
            let z = getWorkflow st (workflowKey (zName zone) KindZSK);
                k = getWorkflow st (workflowKey (zName zone) KindKSK)
            in if timeSub now (wLastCompletedAt z) \<ge> rcZSKInterval (cfRotation (cfg c))
               then start c (zName zone) KindZSK False []
               else if timeSub now (wLastCompletedAt k) \<ge> rcKSKInterval (cfRotation (cfg c))
               then start c (zName zone) KindKSK False []
               else ret ())))))"

section \<open>The notification outbox\<close>

definition expiredNotifications :: "duration \<Rightarrow> time \<Rightarrow> state \<Rightarrow> string list" where
  "expiredNotifications retention now st =
     map fst (filter (\<lambda>(i, ev). \<not> timeIsZero (nDeliveredAt ev) \<and> timeSub now (nDeliveredAt ev) > retention)
                (sNotifications st))"

definition deleteNotifications :: "string list \<Rightarrow> state \<Rightarrow> state" where
  "deleteNotifications ids s = s\<lparr>sNotifications := fold mdel ids (sNotifications s)\<rparr>"

definition dueNotifications :: "time \<Rightarrow> state \<Rightarrow> string list" where
  "dueNotifications now st =
     sort (map fst (filter (\<lambda>(i, ev). timeIsZero (nDeliveredAt ev)
             \<and> (timeIsZero (nNextAttemptAt ev) \<or> \<not> timeBefore now (nNextAttemptAt ev))) (sNotifications st)))"

text \<open>The outcome of one delivery, written back to the outbox\<close>

definition recordDelivery :: "string \<Rightarrow> time \<Rightarrow> err option \<Rightarrow> state \<Rightarrow> state" where
  "recordDelivery i now failure s =
     (case mget (sNotifications s) i of
        None \<Rightarrow> s
      | Some current \<Rightarrow>
          if \<not> timeIsZero (nDeliveredAt current) then s
          else s\<lparr>sNotifications := mput i
            (case failure of
               None \<Rightarrow> current\<lparr>nDeliveredAt := now, nLastError := None, nNextAttemptAt := 0\<rparr>
             | Some e \<Rightarrow> current\<lparr>nAttempts := Suc (nAttempts current), nLastError := Some e,
                          nNextAttemptAt := timeAdd now (backoff (Suc (nAttempts current)))\<rparr>)
            (sNotifications s)\<rparr>)"

fun deliverLoop :: "'w controller \<Rightarrow> time \<Rightarrow> state \<Rightarrow> string list \<Rightarrow> ('w, err list) io" where
  "deliverLoop c now st [] = ret []"
| "deliverLoop c now st (i # ids) =
     (let event = (case mget (sNotifications st) i of None \<Rightarrow> zeroNotification | Some ev \<Rightarrow> ev)
      in bind (attempt (notifierSend c event)) (\<lambda>r.
         let failure = (case r of Inl e \<Rightarrow> Some e | Inr _ \<Rightarrow> None)
         in bind (attempt (storeUpdate c (\<lambda>s. ret (recordDelivery i now failure s)))) (\<lambda>u.
            bind (deliverLoop c now st ids) (\<lambda>errs.
            ret (case u of
                   Inl updateErr \<Rightarrow> updateErr # errs
                 | Inr _ \<Rightarrow> (case failure of
                     Some e \<Rightarrow> Wrap NotificationFailed [AStr i] e # errs
                   | None \<Rightarrow> errs))))))"

definition deliverNotifications :: "'w controller \<Rightarrow> ('w, unit) io" where
  "deliverNotifications c =
     bind (clockNow c) (\<lambda>now.
     bind snapshot (\<lambda>st0.
     let expired = expiredNotifications (ccIdempotencyRetention (cfController (cfg c))) now st0
     in bind (if expired \<noteq> [] then
                bind (storeUpdate c (\<lambda>s. ret (deleteNotifications expired s))) (\<lambda>_. snapshot)
              else ret st0) (\<lambda>st.
        if \<not> lcEnabled (ncLMTP (cfNotifications (cfg c))) then ret ()
        else bind (deliverLoop c now st (dueNotifications now st)) (\<lambda>errs.
             case errorsJoin errs of None \<Rightarrow> ret () | Some e \<Rightarrow> throw e))))"

section \<open>Tick\<close>

definition validZoneName :: "'w controller \<Rightarrow> string \<Rightarrow> bool" where
  "validZoneName c name \<longleftrightarrow>
     libIsDomainName c (fqdn name) \<and> \<not> list_ex (\<lambda>ch. ch = CHR 0x0D \<or> ch = CHR 0x0A) name"

definition skipZone :: "'w controller \<Rightarrow> state \<Rightarrow> zone \<Rightarrow> bool" where
  "skipZone c st z \<longleftrightarrow>
     \<not> zDNSSEC z \<or> (\<not> selected c (zName z)
       \<and> \<not> workflowActive (getWorkflow st (workflowKey (zName z) KindEnroll)))"

fun tickZones :: "'w controller \<Rightarrow> state \<Rightarrow> zone list \<Rightarrow> ('w, err list) io" where
  "tickZones c st [] = ret []"
| "tickZones c st (z # zs) =
     (if \<not> validZoneName c (zName z)
      then bind (tickZones c st zs) (\<lambda>errs. ret (Fmt InvalidZoneName [AStr (zName z)] # errs))
      else if skipZone c st z then tickZones c st zs
      else bind (attempt (reconcileZone c z)) (\<lambda>r.
           bind (tickZones c st zs) (\<lambda>errs.
           ret (case r of Inl e \<Rightarrow> Wrap ZoneError [AStr (zName z)] e # errs | Inr _ \<Rightarrow> errs))))"

definition seenDNSSEC :: "'w controller \<Rightarrow> zone list \<Rightarrow> string list" where
  "seenDNSSEC c zones = map zName (filter (\<lambda>z. validZoneName c (zName z) \<and> zDNSSEC z) zones)"

text \<open>Enrollments whose zone has disappeared or is no longer signed are blocked.\<close>

fun blockVanished :: "'w controller \<Rightarrow> string list \<Rightarrow> workflow list \<Rightarrow> ('w, err list) io" where
  "blockVanished c seen [] = ret []"
| "blockVanished c seen (w # ws) =
     (if wKind w = KindEnroll \<and> workflowActive w \<and> wZone w \<notin> set seen
      then bind (attempt (block c (wZone w) (wKind w) (Fmt EnrollZoneDisappeared []) :: ('w, unit) io)) (\<lambda>r.
           bind (blockVanished c seen ws) (\<lambda>errs.
           ret (case r of Inl e \<Rightarrow> e # errs | Inr _ \<Rightarrow> errs)))
      else blockVanished c seen ws)"

definition Tick :: "'w controller \<Rightarrow> ('w, unit) io" where
  "Tick c =
     bind (if cfMode (cfg c) = ''enforce'' then
             bind (attempt (deliverNotifications c)) (\<lambda>r.
             ret (case r of Inl e \<Rightarrow> [e] | Inr _ \<Rightarrow> []))
           else ret []) (\<lambda>errs0.
     bind (attempt (listZones c)) (\<lambda>z.
     case z of
       Inl e \<Rightarrow> throw (Joined (errs0 @ [e]))
     | Inr zones \<Rightarrow>
       bind snapshot (\<lambda>st.
       bind (tickZones c st zones) (\<lambda>errs1.
       bind (if cfMode (cfg c) = ''enforce'' then
               bind snapshot (\<lambda>st2.
               bind (rangeWorkflows c st2) (\<lambda>ws. blockVanished c (seenDNSSEC c zones) ws))
             else ret []) (\<lambda>errs2.
       case errorsJoin (errs0 @ errs1 @ errs2) of None \<Rightarrow> ret () | Some e \<Rightarrow> throw e)))))"

end
