(* ===== verification/Inventory.thy ===== *)
theory Inventory
  imports Material
begin

text \<open>
  What the inventory checks of \<open>internal/controller/controller.go\<close> accept, stated without
  their order of checks and their error texts: specifications by conjunction, and proofs
  that the checks return no error exactly for the inventories that meet them.
\<close>

section \<open>Roles\<close>

definition roleFlags :: "string \<Rightarrow> 16 word" where
  "roleFlags role = (if role = ''ksk'' \<or> role = ''csk'' then 257 else 256)"

definition hasRole :: "(string \<Rightarrow> err + rr) \<Rightarrow> string \<Rightarrow> key \<Rightarrow> string \<Rightarrow> bool \<Rightarrow> dnssecData \<Rightarrow> bool" where
  "hasRole newRR zone k role transitional d \<longleftrightarrow>
     DNSSECDataForKey newRR zone k = Inr d \<and> dProtocol d = 3 \<and> dFlags d = roleFlags role
     \<and> (kKeyType k = role \<or> transitional \<and> kKeyType k = ''csk'' \<and> role \<in> {''ksk'', ''zsk''})"

lemma validatedKeyRole_iff:
  "validatedKeyRole newRR zone k role transitional = Inr d \<longleftrightarrow> hasRole newRR zone k role transitional d"
  by (auto simp: validatedKeyRole_def hasRole_def roleFlags_def Let_def split: sum.splits)

lemma hasRole_fun: "hasRole newRR zone k r1 t1 d \<Longrightarrow> hasRole newRR zone k r2 t2 d' \<Longrightarrow> d = d'"
  by (simp add: hasRole_def)

definition serving :: "key \<Rightarrow> bool" where
  "serving k \<longleftrightarrow> kActive k \<and> kPublished k"

text \<open>No key outside \<open>allowed\<close> is active or published.\<close>

definition closedOver :: "int list \<Rightarrow> key list \<Rightarrow> bool" where
  "closedOver allowed keys \<longleftrightarrow> (\<forall>k\<in>set keys. kActive k \<or> kPublished k \<longrightarrow> kID k \<in> set allowed)"

lemma closedInventory_iff: "closedInventory allowed keys = None \<longleftrightarrow> closedOver allowed keys"
proof -
  have "unexpectedKey allowed keys = None \<longleftrightarrow> closedOver allowed keys"
    by (induction keys) (auto simp: closedOver_def)
  then show ?thesis by (auto simp: closedInventory_def split: option.split)
qed

lemma byID_id: "byID keys i = Some k \<Longrightarrow> kID k = i"
  by (induction keys) (auto split: if_splits)

lemma byID_in: "byID keys i = Some k \<Longrightarrow> k \<in> set keys"
  by (induction keys) (auto split: if_splits)

definition soleActive :: "key list \<Rightarrow> string \<Rightarrow> key \<Rightarrow> bool" where
  "soleActive keys typ k \<longleftrightarrow> filter (\<lambda>k. kKeyType k = typ \<and> kActive k) keys = [k]"

lemma exactlyOneActive_iff: "exactlyOneActive keys typ = Inr k \<longleftrightarrow> soleActive keys typ k"
  by (auto simp: exactlyOneActive_def soleActive_def Let_def length_Suc_conv)

lemma recordedKeys_iff:
  "recordedKeys keys i j = Inr (old, new) \<longleftrightarrow> byID keys i = Some old \<and> byID keys j = Some new"
  by (auto simp: recordedKeys_def split: option.split)

lemma soleActive_fun: "soleActive keys typ k \<Longrightarrow> soleActive keys typ k' \<Longrightarrow> k = k'"
  by (simp add: soleActive_def)

lemma sum_Inl_iff: "(\<exists>e. x = Inl e) \<longleftrightarrow> (\<nexists>d. x = Inr d)"
  by (cases x) auto

section \<open>The inventory before activation\<close>

text \<open>
  A single rotation (ZSK or KSK): the old key signs, the new one is published and, for a
  KSK, already signs the key set; both have the same algorithm, the companion role is served
  by one key, and there is no other key.
\<close>

definition singlePrepublished :: "(string \<Rightarrow> err + rr) \<Rightarrow> string \<Rightarrow> key list \<Rightarrow> workflow \<Rightarrow> bool" where
  "singlePrepublished newRR zone keys w \<longleftrightarrow>
     (\<exists>old new companion d d'.
        byID keys (wOldKeyID w) = Some old \<and> byID keys (wNewKeyID w) = Some new
        \<and> wOldKeyID w \<noteq> 0 \<and> wNewKeyID w \<noteq> 0 \<and> wOldKeyID w \<noteq> wNewKeyID w
        \<and> hasRole newRR zone old (kindStr (wKind w)) False d
        \<and> hasRole newRR zone new (kindStr (wKind w)) False d' \<and> dAlgorithm d' = dAlgorithm d
        \<and> serving old \<and> kPublished new \<and> kActive new = (wKind w = KindKSK)
        \<and> soleActive keys (if wKind w = KindKSK then ''zsk'' else ''ksk'') companion \<and> kPublished companion
        \<and> closedOver [wOldKeyID w, wNewKeyID w, kID companion] keys)"

text \<open>
  A split: the old CSK signs everything, the new KSK signs the key set, and the new ZSK is
  published only.
\<close>

definition splitPrepublished :: "(string \<Rightarrow> err + rr) \<Rightarrow> string \<Rightarrow> key list \<Rightarrow> workflow \<Rightarrow> bool" where
  "splitPrepublished newRR zone keys w \<longleftrightarrow>
     (\<exists>old ksk zsk d dk dz.
        byID keys (wOldKeyID w) = Some old \<and> byID keys (wNewKeyID w) = Some ksk
        \<and> byID keys (wNewZSKID w) = Some zsk
        \<and> 0 \<notin> {wOldKeyID w, wNewKeyID w, wNewZSKID w} \<and> distinct [wOldKeyID w, wNewKeyID w, wNewZSKID w]
        \<and> hasRole newRR zone old ''csk'' False d
        \<and> hasRole newRR zone ksk ''ksk'' True dk \<and> dAlgorithm dk = dAlgorithm d
        \<and> hasRole newRR zone zsk ''zsk'' True dz \<and> dAlgorithm dz = dAlgorithm d
        \<and> serving old \<and> serving ksk \<and> kPublished zsk \<and> \<not> kActive zsk
        \<and> closedOver [wOldKeyID w, wNewKeyID w, wNewZSKID w] keys)"

lemma prepublish_split:
  assumes "wKind w = KindSplit"
  shows "validatePrepublishInventory newRR zone keys w = None \<longleftrightarrow> splitPrepublished newRR zone keys w"
  using assms
  by (auto simp: validatePrepublishInventory_def splitPrepublished_def Let_def recordedKeys_def serving_def
      closedInventory_iff byID_id simp flip: validatedKeyRole_iff
      split: option.splits sum.splits if_splits)

lemma prepublish_single:
  assumes "wKind w \<noteq> KindSplit"
  shows "validatePrepublishInventory newRR zone keys w = None \<longleftrightarrow> singlePrepublished newRR zone keys w"
proof
  assume "validatePrepublishInventory newRR zone keys w = None"
  then show "singlePrepublished newRR zone keys w"
    using assms unfolding validatePrepublishInventory_def singlePrepublished_def recordedKeys_def serving_def Let_def
    by (auto simp: closedInventory_iff byID_id simp flip: validatedKeyRole_iff exactlyOneActive_iff
        split: option.split_asm sum.split_asm if_split_asm)
next
  assume "singlePrepublished newRR zone keys w"
  then show "validatePrepublishInventory newRR zone keys w = None"
    using assms unfolding validatePrepublishInventory_def singlePrepublished_def recordedKeys_def serving_def Let_def
    by (cases "wKind w = KindKSK")
      (clarsimp simp: closedInventory_iff byID_id simp flip: validatedKeyRole_iff exactlyOneActive_iff)+
qed

section \<open>The inventories after activation\<close>

definition splitActivated :: "(string \<Rightarrow> err + rr) \<Rightarrow> string \<Rightarrow> key list \<Rightarrow> workflow \<Rightarrow> bool \<Rightarrow> bool" where
  "splitActivated newRR zone keys w oldActive \<longleftrightarrow>
     wKind w = KindSplit
     \<and> (\<exists>old ksk zsk d dk dz.
        byID keys (wOldKeyID w) = Some old \<and> byID keys (wNewKeyID w) = Some ksk
        \<and> byID keys (wNewZSKID w) = Some zsk
        \<and> 0 \<notin> {wOldKeyID w, wNewKeyID w, wNewZSKID w} \<and> distinct [wOldKeyID w, wNewKeyID w, wNewZSKID w]
        \<and> hasRole newRR zone old ''ksk'' True d
        \<and> hasRole newRR zone ksk ''ksk'' True dk \<and> dAlgorithm dk = dAlgorithm d
        \<and> hasRole newRR zone zsk ''zsk'' True dz \<and> dAlgorithm dz = dAlgorithm d
        \<and> kActive old = oldActive \<and> kPublished old \<and> serving ksk \<and> serving zsk
        \<and> closedOver [wOldKeyID w, wNewKeyID w, wNewZSKID w] keys)"

lemma splitMutation_iff:
  "validateSplitMutationInventory newRR zone keys w oldActive = None
     \<longleftrightarrow> splitActivated newRR zone keys w oldActive"
  by (auto simp: validateSplitMutationInventory_def splitActivated_def Let_def recordedKeys_def serving_def
      closedInventory_iff byID_id simp flip: validatedKeyRole_iff
      split: option.splits sum.splits if_splits)

section \<open>The inventory at retirement\<close>

lemma retirementLoop_iff:
  "retirementLoop allowed seen keys = None \<longleftrightarrow>
     distinct (map kID keys) \<and> kID ` set keys \<inter> set seen = {} \<and> closedOver allowed keys"
  by (induction keys arbitrary: seen) (auto simp: closedOver_def)

lemma retirementLoop_None:
  "distinct (map kID keys) \<Longrightarrow> closedOver allowed keys \<Longrightarrow> retirementLoop allowed [] keys = None"
  by (simp add: retirementLoop_iff)

text \<open>
  A key may be retired in a zone whose keys have different identifiers, when the replacement
  serves its role, one other key serves the companion role, nothing else is active or
  published, and the old key, if it is still there, is published, inactive and of the
  same algorithm. \<open>ks\<close> is the key set that the DNS must show.
\<close>

definition retirable :: "(string \<Rightarrow> err + rr) \<Rightarrow> string \<Rightarrow> key list \<Rightarrow> workflow \<Rightarrow> key list \<Rightarrow> bool" where
  "retirable newRR zone keys w ks \<longleftrightarrow>
     (let role = kindStr (wKind w); companionRole = (if wKind w = KindKSK then ''zsk'' else ''ksk'')
      in 0 < wOldKeyID w \<and> 0 < wNewKeyID w \<and> wOldKeyID w \<noteq> wNewKeyID w \<and> distinct (map kID keys)
        \<and> (\<exists>new companion d dc.
             byID keys (wNewKeyID w) = Some new \<and> serving new \<and> hasRole newRR zone new role False d
             \<and> soleActive keys companionRole companion \<and> kPublished companion
             \<and> kID companion \<notin> {wOldKeyID w, wNewKeyID w}
             \<and> hasRole newRR zone companion companionRole False dc
             \<and> (case byID keys (wOldKeyID w) of
                  None \<Rightarrow> ks = [new, companion] \<and> closedOver [wNewKeyID w, kID companion] keys
                | Some old \<Rightarrow> ks = [new, companion, old]
                    \<and> closedOver [wNewKeyID w, kID companion, wOldKeyID w] keys
                    \<and> (\<exists>d'. hasRole newRR zone old role False d' \<and> dAlgorithm d' = dAlgorithm d)
                    \<and> \<not> kActive old \<and> kPublished old)))"

text \<open>retirementInventory returns a key set exactly when the declarative description of a
  retirable inventory holds for it.\<close>

theorem retirement_inventory_spec:
  "retirementInventory newRR zone keys w = Inr ks \<longleftrightarrow> retirable newRR zone keys w ks"
proof
  assume "retirementInventory newRR zone keys w = Inr ks"
  then show "retirable newRR zone keys w ks"
    unfolding retirementInventory_def retirable_def Let_def serving_def
    by (clarsimp simp: retirementLoop_iff byID_id simp flip: validatedKeyRole_iff exactlyOneActive_iff
        split: option.split_asm sum.split_asm if_split_asm)
next
  assume "retirable newRR zone keys w ks"
  then show "retirementInventory newRR zone keys w = Inr ks"
    unfolding retirementInventory_def retirable_def Let_def serving_def
    by (cases "wKind w = KindKSK"; cases "byID keys (wOldKeyID w)")
      (clarsimp simp: retirementLoop_None byID_id simp flip: validatedKeyRole_iff exactlyOneActive_iff)+
qed

section \<open>The inventory at enrollment\<close>

definition wholeKeys :: "key list \<Rightarrow> bool" where
  "wholeKeys keys \<longleftrightarrow>
     (\<forall>k\<in>set keys. kActive k = kPublished k \<and> (kActive k \<longrightarrow> kKeyType k \<in> {''ksk'', ''zsk''}))"

lemma enrollmentPartition_iff:
  "enrollmentPartition a b keys = Inr (ksks, zsks) \<longleftrightarrow>
     wholeKeys keys \<and> ksks = a @ filter (\<lambda>k. kActive k \<and> kKeyType k = ''ksk'') keys
     \<and> zsks = b @ filter (\<lambda>k. kActive k \<and> kKeyType k = ''zsk'') keys"
  by (induction keys arbitrary: a b) (auto simp: wholeKeys_def)

definition enrollable ::
  "(string \<Rightarrow> err + rr) \<Rightarrow> (string \<Rightarrow> 8 word list) \<Rightarrow> string \<Rightarrow> key list \<Rightarrow> int \<Rightarrow> int \<Rightarrow> string
   \<Rightarrow> string list \<Rightarrow> key \<Rightarrow> key \<Rightarrow> string \<Rightarrow> bool" where
  "enrollable newRR sha256 zone keys expectedKSK expectedZSK expectedFp labels ksk zsk fp \<longleftrightarrow>
     wholeKeys keys
     \<and> filter (\<lambda>k. kActive k \<and> kKeyType k = ''ksk'') keys = [ksk]
     \<and> filter (\<lambda>k. kActive k \<and> kKeyType k = ''zsk'') keys = [zsk]
     \<and> kID ksk \<noteq> kID zsk
     \<and> expectedKSK \<in> {0, kID ksk} \<and> expectedZSK \<in> {0, kID zsk} \<and> expectedFp \<in> {[], fp}
     \<and> (\<exists>dk dz. hasRole newRR zone ksk ''ksk'' False dk \<and> hasRole newRR zone zsk ''zsk'' False dz
          \<and> dAlgorithm dk = dAlgorithm dz
          \<and> validateAlgorithmLabel (kAlgorithm ksk) (dAlgorithm dk) = None
          \<and> validateAlgorithmLabel (kAlgorithm zsk) (dAlgorithm dz) = None
          \<and> fp = keysetFingerprint sha256 ksk dk zsk dz)
     \<and> (\<exists>label\<in>set labels. equalFold (trimSpace label) (kAlgorithm ksk))"

text \<open>validateEnrollmentInventory returns a KSK, a ZSK and a fingerprint exactly when they are
  the only active or published keys, each fully active and published, in role, of one allowed
  algorithm, and match what was recorded.\<close>

theorem enrollment_inventory_spec:
  "validateEnrollmentInventory newRR sha256 zone keys ek ez ef labels = Inr (ksk, zsk, fp)
     \<longleftrightarrow> enrollable newRR sha256 zone keys ek ez ef labels ksk zsk fp"
proof
  assume "validateEnrollmentInventory newRR sha256 zone keys ek ez ef labels = Inr (ksk, zsk, fp)"
  then show "enrollable newRR sha256 zone keys ek ez ef labels ksk zsk fp"
    unfolding validateEnrollmentInventory_def enrollable_def Let_def
    by (auto simp: enrollmentPartition_iff list_ex_iff length_Suc_conv simp flip: validatedKeyRole_iff
        split: option.split_asm sum.split_asm if_split_asm prod.split_asm)
next
  assume e: "enrollable newRR sha256 zone keys ek ez ef labels ksk zsk fp"
  then have "enrollmentPartition [] [] keys = Inr ([ksk], [zsk])"
    by (simp add: enrollmentPartition_iff enrollable_def)
  then show "validateEnrollmentInventory newRR sha256 zone keys ek ez ef labels = Inr (ksk, zsk, fp)"
    using e unfolding validateEnrollmentInventory_def enrollable_def Let_def
    by (auto simp: list_ex_iff simp flip: validatedKeyRole_iff)
qed

section \<open>The specifications together\<close>

text \<open>C39: validatePrepublishInventory accepts exactly the key sets that satisfy the declarative
  description of a prepublished rotation (or split): recorded keys distinct, present, in role,
  same algorithm, in the right state, and no other active or published key.\<close>

theorem prepublish_inventory_spec:
  "validatePrepublishInventory newRR zone keys w = None \<longleftrightarrow>
     (if wKind w = KindSplit then splitPrepublished newRR zone keys w else singlePrepublished newRR zone keys w)"
  by (simp add: prepublish_split prepublish_single)

text \<open>The inventory checks before and after the deactivation of the old key of a split accept
  exactly the key sets of their declarative description.\<close>

theorem split_mutation_spec:
  "(validateActiveSplitInventory newRR zone keys w = None \<longleftrightarrow> splitActivated newRR zone keys w True)
   \<and> (validateDeactivatedSplitInventory newRR zone keys w = None \<longleftrightarrow> splitActivated newRR zone keys w False)"
  by (simp add: validateActiveSplitInventory_def validateDeactivatedSplitInventory_def splitMutation_iff)

text \<open>No key inventory passes two of the three split checks (prepublished, activated,
  deactivated), so a stage can be told from the keys alone.\<close>

theorem split_stages_exclusive:
  "\<not> (validatePrepublishInventory newRR zone keys w = None \<and> validateActiveSplitInventory newRR zone keys w = None)
   \<and> \<not> (validatePrepublishInventory newRR zone keys w = None \<and> validateDeactivatedSplitInventory newRR zone keys w = None)
   \<and> \<not> (validateActiveSplitInventory newRR zone keys w = None \<and> validateDeactivatedSplitInventory newRR zone keys w = None)"
  by (auto simp: validateActiveSplitInventory_def validateDeactivatedSplitInventory_def splitMutation_iff
      splitActivated_def serving_def)
    (auto simp: prepublish_split splitPrepublished_def)

text \<open>The comparison of sorted texts is the comparison of the records as multisets.\<close>

definition materialFields :: "dnssecData \<Rightarrow> 16 word \<times> 8 word \<times> 8 word \<times> string" where
  "materialFields x = (dFlags x, dProtocol x, dAlgorithm x, trimSpace (dPublicKey x))"

definition materialText :: "16 word \<times> 8 word \<times> 8 word \<times> string \<Rightarrow> string" where
  "materialText = (\<lambda>(f, p, a, k). itoa (uint f) @ ''/'' @ itoa (uint p) @ ''/'' @ itoa (uint a) @ ''/'' @ k)"

lemma materialKey_text: "materialKey = materialText \<circ> materialFields"
  by (rule ext) (simp add: materialKey_def materialText_def materialFields_def)

lemma materialText_inj: "inj materialText"
  by (rule injI) (auto simp: materialText_def split_at_sep slash_notin_itoa word_uint_eq_iff)

text \<open>sameMaterial holds exactly when the two lists are equal as multisets of flags, protocol,
  algorithm and trimmed public key; the textual key it sorts by is injective.\<close>

theorem same_material_spec:
  "sameMaterial a b \<longleftrightarrow> mset (map materialFields a) = mset (map materialFields b)"
proof -
  have "mset (map materialKey c) = image_mset materialText (mset (map materialFields c))" for c
    by (simp add: materialKey_text image_mset.compositionality)
  then show ?thesis
    using inj_eq [OF multiset.inj_map [OF materialText_inj]] by (simp add: sameMaterial_mset)
qed

end
