(* ===== verification/Lifecycle.thy ===== *)
theory Lifecycle
  imports Reconcile Inventory
begin

text \<open>
  The abstract life of a workflow: the phase graph of each kind, as a step relation, and the
  state documents whose workflows lie on it. It is the specification that the handlers are
  shown to refine.
\<close>

section \<open>The phase graph\<close>

definition rotationKinds :: "kind set" where
  "rotationKinds = {KindZSK, KindKSK, KindSplit}"

lemma rotationKinds_iff [simp]: "k \<in> rotationKinds \<longleftrightarrow> k = KindZSK \<or> k = KindKSK \<or> k = KindSplit"
  by (simp add: rotationKinds_def)

inductive phaseStep :: "kind \<Rightarrow> phase \<Rightarrow> phase \<Rightarrow> bool" where
  stay: "phaseStep k p p"
| halt: "phaseStep k p PhaseBlocked"
| begin_rotation: "k \<in> rotationKinds \<Longrightarrow> phaseStep k PhaseIdle PhasePrepublish"
| prepublished: "k \<in> rotationKinds \<Longrightarrow> phaseStep k PhasePrepublish PhaseWaitPublish"
| zsk_visible: "phaseStep KindZSK PhaseWaitPublish PhaseActivateNew"
| ksk_visible: "k \<in> {KindKSK, KindSplit} \<Longrightarrow> phaseStep k PhaseWaitPublish PhaseParentRemove"
| parent_submitted: "k \<in> {KindKSK, KindSplit} \<Longrightarrow> phaseStep k PhaseParentRemove PhaseWaitParentRemove"
| ksk_parent_visible: "phaseStep KindKSK PhaseWaitParentRemove PhaseDeactivateOld"
| split_parent_visible: "phaseStep KindSplit PhaseWaitParentRemove PhaseActivateNew"
| activated: "k \<in> {KindZSK, KindSplit} \<Longrightarrow> phaseStep k PhaseActivateNew PhaseWaitNewSignature"
| new_signed: "k \<in> {KindZSK, KindSplit} \<Longrightarrow> phaseStep k PhaseWaitNewSignature PhaseDeactivateOld"
| ttl_grew: "phaseStep KindSplit PhaseDeactivateOld PhaseWaitNewSignature"
| old_silent: "k \<in> {KindZSK, KindSplit} \<Longrightarrow> phaseStep k PhaseDeactivateOld PhaseWaitRetire"
| old_ksk_silent: "phaseStep KindKSK PhaseDeactivateOld PhaseDeleteOld"
| retired: "k \<in> {KindZSK, KindSplit} \<Longrightarrow> phaseStep k PhaseWaitRetire PhaseDeleteOld"
| finished: "k \<in> rotationKinds \<Longrightarrow> phaseStep k PhaseDeleteOld PhaseIdle"
| enroll_unsuitable: "phaseStep KindEnroll PhaseEnrollDiscovered PhaseIdle"
| enroll_candidate: "phaseStep KindEnroll PhaseEnrollDiscovered PhaseEnrollWaitPublish"
| enroll_published: "phaseStep KindEnroll PhaseEnrollWaitPublish PhaseEnrollParentAdd"
| enroll_submitted: "phaseStep KindEnroll PhaseEnrollParentAdd PhaseEnrollWaitParent"
| enrolled: "phaseStep KindEnroll PhaseEnrollWaitParent PhaseIdle"

inductive_simps phaseStep_simps [simp]:
  "phaseStep k PhaseIdle q" "phaseStep k PhasePrepublish q" "phaseStep k PhaseWaitPublish q"
  "phaseStep k PhaseActivateNew q" "phaseStep k PhaseWaitNewSignature q" "phaseStep k PhaseDeactivateOld q"
  "phaseStep k PhaseParentRemove q" "phaseStep k PhaseWaitParentRemove q" "phaseStep k PhaseWaitRetire q"
  "phaseStep k PhaseDeleteOld q" "phaseStep k PhaseEnrollDiscovered q" "phaseStep k PhaseEnrollWaitPublish q"
  "phaseStep k PhaseEnrollParentAdd q" "phaseStep k PhaseEnrollWaitParent q" "phaseStep k PhaseBlocked q"
  "phaseStep k (PhaseOther t) q"

declare phaseStep.stay [simp] phaseStep.halt [simp]

text \<open>The phases a workflow of each kind can be in\<close>

definition validPhase :: "kind \<Rightarrow> phase \<Rightarrow> bool" where
  "validPhase k p \<longleftrightarrow>
     p = PhaseBlocked \<or> p = PhaseIdle \<or>
     (case k of
        KindZSK \<Rightarrow> p \<in> {PhasePrepublish, PhaseWaitPublish, PhaseActivateNew, PhaseWaitNewSignature,
          PhaseDeactivateOld, PhaseWaitRetire, PhaseDeleteOld}
      | KindKSK \<Rightarrow> p \<in> {PhasePrepublish, PhaseWaitPublish, PhaseParentRemove, PhaseWaitParentRemove,
          PhaseDeactivateOld, PhaseDeleteOld}
      | KindSplit \<Rightarrow> p \<in> {PhasePrepublish, PhaseWaitPublish, PhaseParentRemove, PhaseWaitParentRemove,
          PhaseActivateNew, PhaseWaitNewSignature, PhaseDeactivateOld, PhaseWaitRetire, PhaseDeleteOld}
      | KindEnroll \<Rightarrow> p \<in> {PhaseEnrollDiscovered, PhaseEnrollWaitPublish, PhaseEnrollParentAdd,
          PhaseEnrollWaitParent}
      | KindOther s \<Rightarrow> False)"

lemma phaseStep_valid: "phaseStep k p q \<Longrightarrow> validPhase k p \<Longrightarrow> validPhase k q"
  by (induction rule: phaseStep.induct) (auto simp: validPhase_def split: kind.splits)

lemma validPhase_kinds:
  "validPhase k PhasePrepublish \<longleftrightarrow> k \<in> rotationKinds"
  "validPhase k PhaseWaitPublish \<longleftrightarrow> k \<in> rotationKinds"
  "validPhase k PhaseActivateNew \<longleftrightarrow> k = KindZSK \<or> k = KindSplit"
  "validPhase k PhaseWaitNewSignature \<longleftrightarrow> k = KindZSK \<or> k = KindSplit"
  "validPhase k PhaseDeactivateOld \<longleftrightarrow> k \<in> rotationKinds"
  "validPhase k PhaseParentRemove \<longleftrightarrow> k = KindKSK \<or> k = KindSplit"
  "validPhase k PhaseWaitParentRemove \<longleftrightarrow> k = KindKSK \<or> k = KindSplit"
  "validPhase k PhaseWaitRetire \<longleftrightarrow> k = KindZSK \<or> k = KindSplit"
  "validPhase k PhaseDeleteOld \<longleftrightarrow> k \<in> rotationKinds"
  "validPhase k PhaseEnrollDiscovered \<longleftrightarrow> k = KindEnroll"
  "validPhase k PhaseEnrollWaitPublish \<longleftrightarrow> k = KindEnroll"
  "validPhase k PhaseEnrollParentAdd \<longleftrightarrow> k = KindEnroll"
  "validPhase k PhaseEnrollWaitParent \<longleftrightarrow> k = KindEnroll"
  "validPhase k PhaseIdle" "validPhase k PhaseBlocked" "\<not> validPhase k (PhaseOther t)"
  by (auto simp: validPhase_def split: kind.splits)

section \<open>State documents\<close>

definition namedKind :: "kind \<Rightarrow> bool" where
  "namedKind k \<longleftrightarrow> k \<in> {KindZSK, KindKSK, KindSplit, KindEnroll}"

abbreviation keyOf :: "workflow \<Rightarrow> string" where
  "keyOf w \<equiv> workflowKey (wZone w) (wKind w)"

text \<open>Every workflow is filed under its own key, is of a named kind, and in one of its phases.\<close>

definition wfWorkflow :: "string \<Rightarrow> workflow \<Rightarrow> bool" where
  "wfWorkflow k w \<longleftrightarrow> k = keyOf w \<and> namedKind (wKind w) \<and> validPhase (wKind w) (wPhase w)"

definition wfState :: "state \<Rightarrow> bool" where
  "wfState s \<longleftrightarrow> distinct (map fst (sWorkflows s)) \<and> (\<forall>(k, w)\<in>set (sWorkflows s). wfWorkflow k w)"

text \<open>The key of a workflow determines its zone and its kind.\<close>

lemma workflowKey_inj:
  assumes "namedKind k" "namedKind k'"
  shows "workflowKey z k = workflowKey z' k' \<longleftrightarrow> z = z' \<and> k = k'"
proof -
  have "workflowKey z k = workflowKey z' k' \<longleftrightarrow> rev (workflowKey z k) = rev (workflowKey z' k')"
    by (simp only: rev_is_rev_conv)
  also have "\<dots> \<longleftrightarrow> z = z' \<and> k = k'"
    using assms by (auto simp: namedKind_def workflowKey_def)
  finally show ?thesis .
qed

section \<open>Steps of one workflow\<close>

text \<open>
  \<open>ownStep zn k p x\<close>: the document \<open>x\<close> follows from \<open>p\<close> by one step of the workflow \<open>k\<close> of the
  zone \<open>zn\<close>. Nothing else changes, except that the last step of an enrollment
  sets the two rotation roles of the same zone to idle.
\<close>

definition resetByEnrollment :: "string \<Rightarrow> state \<Rightarrow> state \<Rightarrow> string \<Rightarrow> bool" where
  "resetByEnrollment zn p x j \<longleftrightarrow>
     wPhase (getWorkflow p (workflowKey zn KindEnroll)) \<in> {PhaseEnrollDiscovered, PhaseEnrollWaitParent}
     \<and> wPhase (getWorkflow x (workflowKey zn KindEnroll)) = PhaseIdle
     \<and> (\<exists>role\<in>{KindZSK, KindKSK}. j = workflowKey zn role \<and> (\<exists>u. mget (sWorkflows x) j = Some u
          \<and> wZone u = zn \<and> wKind u = role \<and> wPhase u = PhaseIdle))"

text \<open>
  A recorded attempt is never forgotten or changed before the workflow has reached its end:
  the attempts to create a key, the attempt to write to the registrar, and its identifier.
\<close>

definition keepsAttempts :: "workflow \<Rightarrow> workflow \<Rightarrow> bool" where
  "keepsAttempts u v \<longleftrightarrow> wPhase v = PhaseIdle \<or>
     (wRegistrarAttemptedAt u \<noteq> 0 \<longrightarrow> wRegistrarAttemptedAt v = wRegistrarAttemptedAt u)
     \<and> (wNewKeyCreateAttemptedAt u \<noteq> 0 \<longrightarrow> wNewKeyCreateAttemptedAt v = wNewKeyCreateAttemptedAt u)
     \<and> (wNewZSKCreateAttemptedAt u \<noteq> 0 \<longrightarrow> wNewZSKCreateAttemptedAt v = wNewZSKCreateAttemptedAt u)
     \<and> (wRegistrarCTID u \<noteq> [] \<longrightarrow> wRegistrarCTID v = wRegistrarCTID u)"

definition ownStep :: "string \<Rightarrow> kind \<Rightarrow> state \<Rightarrow> state \<Rightarrow> bool" where
  "ownStep zn k p x \<longleftrightarrow>
     sVersion x = sVersion p \<and> sEnrollmentArmedAt x = sEnrollmentArmedAt p \<and> sIdempotency x = sIdempotency p
     \<and> (distinct (map fst (sWorkflows p)) \<longrightarrow> distinct (map fst (sWorkflows x)))
     \<and> (\<forall>j. j \<noteq> workflowKey zn k \<longrightarrow> mget (sWorkflows x) j = mget (sWorkflows p) j
              \<or> k = KindEnroll \<and> resetByEnrollment zn p x j)
     \<and> (\<exists>v. mget (sWorkflows x) (workflowKey zn k) = Some v \<and> wZone v = zn \<and> wKind v = k
          \<and> phaseStep k (wPhase (getWorkflow p (workflowKey zn k))) (wPhase v)
          \<and> keepsAttempts (getWorkflow p (workflowKey zn k)) v)"

lemma mget_putWorkflow:
  "mget (sWorkflows (putWorkflow k w s)) j = (if j = k then Some w else mget (sWorkflows s) j)"
  by (simp add: putWorkflow_def mget_mput)

lemma distinct_putWorkflow [simp]:
  "distinct (map fst (sWorkflows s)) \<Longrightarrow> distinct (map fst (sWorkflows (putWorkflow k w s)))"
  by (simp add: putWorkflow_def)

lemma ownStep_put [simp]:
  "ownStep zn k p (putWorkflow (workflowKey zn k) y p) \<longleftrightarrow>
     wZone y = zn \<and> wKind y = k \<and> phaseStep k (wPhase (getWorkflow p (workflowKey zn k))) (wPhase y)
     \<and> keepsAttempts (getWorkflow p (workflowKey zn k)) y"
  by (auto simp: ownStep_def mget_putWorkflow)

lemma ownStep_block [simp]: "ownStep zn k p (blockState c zn k reason t1 t2 p)"
  by (simp add: ownStep_def blockState_def Let_def mget_putWorkflow blockedWorkflow_def keepsAttempts_def)

lemma completedWorkflow_sel [simp]:
  "wZone (completedWorkflow w prior now) = wZone w"
  "wKind (completedWorkflow w prior now) = wKind w"
  "wPhase (completedWorkflow w prior now) = PhaseIdle"
  by (simp_all add: completedWorkflow_def Let_def)

lemma ownStep_complete:
  assumes "zn = wZone w" "k = wKind w"
    and "phaseStep k (wPhase (getWorkflow p (workflowKey zn k))) PhaseIdle"
    and "k = KindEnroll \<Longrightarrow>
           wPhase (getWorkflow p (workflowKey zn k)) \<in> {PhaseEnrollDiscovered, PhaseEnrollWaitParent}"
  shows "ownStep zn k p (completeState c w now ev p)"
  using assms
  by (auto simp: ownStep_def completeState_def resetRole_def Let_def mget_putWorkflow resetByEnrollment_def
      getWorkflow_put keepsAttempts_def)

lemma entered_sel [simp]:
  "wZone (entered ph now next x) = wZone x"
  "wKind (entered ph now next x) = wKind x"
  "wPhase (entered ph now next x) = ph"
  "wRegistrarAttemptedAt (entered ph now next x) = wRegistrarAttemptedAt x"
  "wNewKeyCreateAttemptedAt (entered ph now next x) = wNewKeyCreateAttemptedAt x"
  "wNewZSKCreateAttemptedAt (entered ph now next x) = wNewZSKCreateAttemptedAt x"
  "wRegistrarCTID (entered ph now next x) = wRegistrarCTID x"
  by (simp_all add: entered_def)

lemma wfState_iff:
  "wfState s \<longleftrightarrow> distinct (map fst (sWorkflows s)) \<and> (\<forall>k w. mget (sWorkflows s) k = Some w \<longrightarrow> wfWorkflow k w)"
  by (auto simp: wfState_def mget_def split: prod.splits)

lemma ownStep_wf:
  assumes "ownStep zn k p x" "wfState p" "namedKind k"
    and "validPhase k (wPhase (getWorkflow p (workflowKey zn k)))
         \<or> wPhase (getWorkflow x (workflowKey zn k)) = PhaseBlocked"
  shows "wfState x"
  unfolding wfState_iff
proof (intro conjI allI impI)
  show "distinct (map fst (sWorkflows x))"
    using assms by (simp add: ownStep_def wfState_iff)
  fix j w
  assume w: "mget (sWorkflows x) j = Some w"
  show "wfWorkflow j w"
  proof (cases "j = workflowKey zn k")
    case True
    with assms w show ?thesis
      by (auto simp: ownStep_def wfWorkflow_def getWorkflow_def validPhase_kinds intro: phaseStep_valid)
  next
    case False
    with assms w have "mget (sWorkflows p) j = Some w \<or> resetByEnrollment zn p x j"
      by (auto simp: ownStep_def)
    with assms w show ?thesis
      by (auto simp: wfState_iff resetByEnrollment_def wfWorkflow_def namedKind_def validPhase_kinds)
  qed
qed

end
