(* ===== verification/Guards.thy ===== *)
theory Guards
  imports Lifecycle
begin

text \<open>
  What every write to the outside must be preceded by. The guards are stated on the history
  of one run of a phase handler: the zone and the key inventory it was given, the workflow
  it advances, the state document \<open>st\<close> it started from, and the events of the run so far.
\<close>

section \<open>Evidence in a history\<close>

definition provenDNSKEY :: "bool \<Rightarrow> string \<Rightarrow> key list \<Rightarrow> event list \<Rightarrow> bool" where
  "provenDNSKEY recursive zn ks h \<longleftrightarrow> (\<exists>ttl. EvDNSKEY recursive zn ks (Inr ttl) \<in> set h)"

definition provenDS :: "string \<Rightarrow> key \<Rightarrow> event list \<Rightarrow> bool" where
  "provenDS zn k h \<longleftrightarrow> EvDS zn [k] (Inr ()) \<in> set h"

definition provenAuthDS :: "string \<Rightarrow> key \<Rightarrow> event list \<Rightarrow> bool" where
  "provenAuthDS zn k h \<longleftrightarrow> (\<exists>ttl. EvAuthDS zn [k] (Inr ttl) \<in> set h)"

definition provenNoDS :: "string \<Rightarrow> event list \<Rightarrow> bool" where
  "provenNoDS zn h \<longleftrightarrow> EvNoDS zn (Inr ()) \<in> set h"

definition provenRRSIG :: "bool \<Rightarrow> string \<Rightarrow> key \<Rightarrow> event list \<Rightarrow> bool" where
  "provenRRSIG recursive zn k h \<longleftrightarrow> EvRRSIG recursive zn k (Inr ()) \<in> set h"

definition provenDNSKEYRRSIG :: "bool \<Rightarrow> string \<Rightarrow> key \<Rightarrow> event list \<Rightarrow> bool" where
  "provenDNSKEYRRSIG recursive zn k h \<longleftrightarrow> EvDNSKEYRRSIG recursive zn k (Inr ()) \<in> set h"

definition provenDelegation :: "string \<Rightarrow> string list \<Rightarrow> event list \<Rightarrow> bool" where
  "provenDelegation zn ns h \<longleftrightarrow> EvDelegation zn ns (Inr ()) \<in> set h"

definition registrarSeen :: "string \<Rightarrow> (domainDNSSECState \<Rightarrow> bool) \<Rightarrow> event list \<Rightarrow> bool" where
  "registrarSeen zn P h \<longleftrightarrow> (\<exists>remote. EvDomainDNSSEC zn (Inr remote) \<in> set h \<and> P remote)"

text \<open>The states of the registrar that the code distinguishes\<close>

definition holdsOnly :: "'w controller \<Rightarrow> string \<Rightarrow> key \<Rightarrow> domainDNSSECState \<Rightarrow> bool" where
  "holdsOnly c zn k remote \<longleftrightarrow>
     (case DNSSECDataForKey (libNewRR c) zn k of
        Inl e \<Rightarrow> False
      | Inr d \<Rightarrow> dsEnabled remote \<and> sameMaterial (dsData remote) [d])"

definition disabledEmpty :: "domainDNSSECState \<Rightarrow> bool" where
  "disabledEmpty remote \<longleftrightarrow> \<not> dsEnabled remote \<and> dsData remote = []"

lemmas evidence_defs =
  provenDNSKEY_def provenDS_def provenAuthDS_def provenNoDS_def provenRRSIG_def
  provenDNSKEYRRSIG_def provenDelegation_def registrarSeen_def holdsOnly_def disabledEmpty_def

text \<open>
  The last event has persisted a document; \<open>P\<close> relates it to the one before, for a run
  that started from \<open>st\<close>.
\<close>

definition justPersisted :: "state \<Rightarrow> event list \<Rightarrow> (state \<Rightarrow> state \<Rightarrow> bool) \<Rightarrow> bool" where
  "justPersisted st h P \<longleftrightarrow>
     h \<noteq> [] \<and> (case last h of EvPersist x \<Rightarrow> P (lastPersist st (butlast h)) x | _ \<Rightarrow> False)"

section \<open>Guards of the writes\<close>

definition parentReady :: "string \<Rightarrow> key \<Rightarrow> event list \<Rightarrow> bool" where
  "parentReady zn k h \<longleftrightarrow> provenDNSKEYRRSIG True zn k h \<and> provenDS zn k h \<and> provenAuthDS zn k h"

text \<open>
  A key may be deleted when it is the recorded old key, no longer signs, and a different,
  serving replacement has been proven: by its signatures, and, where the parent points at
  the key, by the parent's DS set.
\<close>

definition deletionReady :: "'w controller \<Rightarrow> zone \<Rightarrow> key list \<Rightarrow> workflow \<Rightarrow> event list \<Rightarrow> int \<Rightarrow> bool" where
  "deletionReady c zone keys w h i \<longleftrightarrow>
     i = wOldKeyID w
     \<and> (case byID keys i of None \<Rightarrow> False | Some old \<Rightarrow> \<not> kActive old)
     \<and> (case byID keys (wNewKeyID w) of
          None \<Rightarrow> False
        | Some newKey \<Rightarrow>
            serving newKey
            \<and> (\<exists>ks. provenDNSKEY True (zName zone) ks h \<and> newKey \<in> set ks)
            \<and> (wKind w = KindZSK \<and> provenRRSIG True (zName zone) newKey h
               \<or> wKind w = KindKSK \<and> parentReady (zName zone) newKey h
               \<or> wKind w = KindSplit \<and> parentReady (zName zone) newKey h
                   \<and> registrarSeen (zName zone) (holdsOnly c (zName zone) newKey) h
                   \<and> (case byID keys (wNewZSKID w) of
                        None \<Rightarrow> False
                      | Some z \<Rightarrow> serving z \<and> provenRRSIG True (zName zone) z h)))"

text \<open>
  A key is switched on only to activate the recorded, published replacement signer; for a
  split the exact prepublished inventory must still hold.
\<close>

definition activationReady :: "'w controller \<Rightarrow> zone \<Rightarrow> key list \<Rightarrow> workflow \<Rightarrow> key \<Rightarrow> bool" where
  "activationReady c zone keys w k \<longleftrightarrow>
     byID keys (if wKind w = KindSplit then wNewZSKID w else wNewKeyID w) = Some k
     \<and> \<not> kActive k
     \<and> (wKind w = KindSplit \<longrightarrow> validatePrepublishInventory (libNewRR c) (zName zone) keys w = None)"

text \<open>
  A key is switched off only when it is the recorded old key and the replacement has been
  proven to serve; unless the zone's own signatures are not affected (KSK), the zone TTL
  that was waited for is at least the current one.
\<close>

definition deactivationReady ::
  "'w controller \<Rightarrow> zone \<Rightarrow> key list \<Rightarrow> workflow \<Rightarrow> event list \<Rightarrow> key \<Rightarrow> bool" where
  "deactivationReady c zone keys w h k \<longleftrightarrow>
     byID keys (wOldKeyID w) = Some k \<and> kActive k
     \<and> provenDNSKEY True (zName zone) (publishedKeys keys) h
     \<and> (wKind w \<noteq> KindKSK \<longrightarrow>
          (\<exists>detail. EvGetZone (zID zone) (Inr detail) \<in> set h \<and> durSeconds (maxTTL detail) \<le> wZoneTTL w))
     \<and> (case byID keys (wNewKeyID w) of
          None \<Rightarrow> False
        | Some newKey \<Rightarrow>
            serving newKey
            \<and> (if wKind w = KindZSK then provenRRSIG True (zName zone) newKey h
               else provenDNSKEYRRSIG True (zName zone) newKey h \<and> provenDS (zName zone) newKey h)
            \<and> (wKind w = KindSplit \<longrightarrow>
                 validateActiveSplitInventory (libNewRR c) (zName zone) keys w = None
                 \<and> (case byID keys (wNewZSKID w) of
                      None \<Rightarrow> False
                    | Some z \<Rightarrow> serving z \<and> provenRRSIG True (zName zone) z h)))"

text \<open>
  A key is created only when no adoptable candidate exists, and directly after the attempt
  has been persisted; the attempt was not recorded before.
\<close>

definition zskSlotOf :: "workflow \<Rightarrow> bool" where
  "zskSlotOf w \<longleftrightarrow> wKind w = KindSplit \<and> wNewKeyID w \<noteq> 0"

definition slotAttempt :: "bool \<Rightarrow> workflow \<Rightarrow> time" where
  "slotAttempt zskSlot w = (if zskSlot then wNewZSKCreateAttemptedAt w else wNewKeyCreateAttemptedAt w)"

definition createRole :: "workflow \<Rightarrow> string \<times> bool" where
  "createRole w =
     (if wKind w = KindSplit then (if zskSlotOf w then (''zsk'', False) else (''ksk'', True))
      else (kindStr (wKind w), wKind w = KindKSK))"

definition createIntent :: "'w controller \<Rightarrow> workflow \<Rightarrow> state \<Rightarrow> state \<Rightarrow> bool" where
  "createIntent c w st x \<longleftrightarrow>
     (let k = keyOf w; t = slotAttempt (zskSlotOf w) (getWorkflow x k)
      in slotAttempt (zskSlotOf w) (getWorkflow st k) = 0 \<and> t \<in> clockReadings c
        \<and> x = putWorkflow k
           (if zskSlotOf w then (getWorkflow st k)\<lparr>wNewZSKCreateAttemptedAt := t\<rparr>
            else (getWorkflow st k)\<lparr>wNewKeyCreateAttemptedAt := t\<rparr>) st)"

definition createReady ::
  "'w controller \<Rightarrow> zone \<Rightarrow> key list \<Rightarrow> workflow \<Rightarrow> state \<Rightarrow> event list \<Rightarrow> string \<Rightarrow> string \<Rightarrow> bool \<Rightarrow> bool" where
  "createReady c zone keys w st h typ alg act \<longleftrightarrow>
     (typ, act) = createRole w
     \<and> (if zskSlotOf w then wNewZSKID w = 0 else wNewKeyID w = 0)
     \<and> slotAttempt (zskSlotOf w) w = 0
     \<and> adoptCandidates (libNewRR c) (zName zone) w typ alg (wOldKeyID w) act (wKind w = KindSplit)
          (zskSlotOf w) keys = Inr []
     \<and> justPersisted st h (createIntent c w)"

text \<open>
  The registrar is written only directly after the attempt has been persisted, for the one
  key that replaces all others, when the state of the registrar is still the recorded one.
\<close>

definition updateIntent :: "'w controller \<Rightarrow> workflow \<Rightarrow> state \<Rightarrow> state \<Rightarrow> bool" where
  "updateIntent c w st x \<longleftrightarrow>
     (let k = keyOf w; t = wRegistrarAttemptedAt (getWorkflow x k)
      in wRegistrarAttemptedAt (getWorkflow st k) = 0 \<and> t \<in> clockReadings c
        \<and> x = putWorkflow k ((getWorkflow st k)\<lparr>wRegistrarAttemptedAt := t\<rparr>) st)"

definition replacementReady ::
  "'w controller \<Rightarrow> zone \<Rightarrow> key list \<Rightarrow> workflow \<Rightarrow> event list \<Rightarrow> dnssecData list \<Rightarrow> bool" where
  "replacementReady c zone keys w h data \<longleftrightarrow>
     validatePrepublishInventory (libNewRR c) (zName zone) keys w = None
     \<and> provenDNSKEY (\<not> initialSplit w) (zName zone) (publishedKeys keys) h
     \<and> (case recordedKeys keys (wOldKeyID w) (wNewKeyID w) of
          Inl e \<Rightarrow> False
        | Inr (old, newKey) \<Rightarrow>
            provenDNSKEYRRSIG (\<not> initialSplit w) (zName zone) newKey h
            \<and> (wKind w = KindSplit \<longrightarrow> provenRRSIG (\<not> initialSplit w) (zName zone) old h)
            \<and> (case DNSSECDataForKey (libNewRR c) (zName zone) newKey of
                 Inl e \<Rightarrow> False | Inr d \<Rightarrow> data = [d])
            \<and> (if initialSplit w
               then registrarSeen (zName zone) disabledEmpty h \<and> provenNoDS (zName zone) h
               else registrarSeen (zName zone) (holdsOnly c (zName zone) old) h))"

definition enrollmentReady ::
  "'w controller \<Rightarrow> zone \<Rightarrow> key list \<Rightarrow> workflow \<Rightarrow> event list \<Rightarrow> dnssecData list \<Rightarrow> bool" where
  "enrollmentReady c zone keys w h data \<longleftrightarrow>
     provenDelegation (zName zone) (dcExpectedNameservers (cfDNS (cfg c))) h
     \<and> provenDNSKEY False (zName zone) (publishedKeys keys) h
     \<and> provenNoDS (zName zone) h
     \<and> registrarSeen (zName zone) disabledEmpty h
     \<and> (case recordedInventory c zone keys w of
          Inl e \<Rightarrow> False
        | Inr (ksk, zsk) \<Rightarrow>
            provenDNSKEYRRSIG False (zName zone) ksk h
            \<and> provenRRSIG False (zName zone) zsk h
            \<and> (case DNSSECDataForKey (libNewRR c) (zName zone) ksk of
                 Inl e \<Rightarrow> False
               | Inr d \<Rightarrow> data = [d] \<and> wRegistrarPayloadHash w = dnssecPayloadHash (libSha256 c) d))"

definition writeGuard ::
  "'w controller \<Rightarrow> zone \<Rightarrow> key list \<Rightarrow> workflow \<Rightarrow> state \<Rightarrow> event list \<Rightarrow> event \<Rightarrow> bool" where
  "writeGuard c zone keys w st h e \<longleftrightarrow>
     (case e of
        EvDeleteKey zid i r \<Rightarrow>
          zid = zID zone \<and> wPhase w = PhaseDeleteOld \<and> deletionReady c zone keys w h i
      | EvSetKey zid k act pub r \<Rightarrow>
          zid = zID zone \<and> pub
          \<and> (if act then wPhase w = PhaseActivateNew \<and> activationReady c zone keys w k
             else wPhase w = PhaseDeactivateOld \<and> deactivationReady c zone keys w h k)
      | EvCreateKey zid typ alg act r \<Rightarrow>
          zid = zID zone \<and> wPhase w = PhasePrepublish \<and> createReady c zone keys w st h typ alg act
      | EvUpdateDNSSEC zn data ctid r \<Rightarrow>
          zn = zName zone \<and> ctid = wRegistrarCTID w \<and> ctid \<noteq> []
          \<and> wRegistrarAttemptedAt w = 0 \<and> justPersisted st h (updateIntent c w)
          \<and> (if wPhase w = PhaseEnrollParentAdd then enrollmentReady c zone keys w h data
             else wPhase w = PhaseParentRemove \<and> replacementReady c zone keys w h data)
      | _ \<Rightarrow> True)"

lemma writeGuard_simps [simp]:
  "writeGuard c zone keys w st h (EvPersist x)"
  "writeGuard c zone keys w st h (EvListZones a1)"
  "writeGuard c zone keys w st h (EvGetZone zid a2)"
  "writeGuard c zone keys w st h (EvListKeys zid a3)"
  "writeGuard c zone keys w st h (EvDomainDNSSEC zn a4)"
  "writeGuard c zone keys w st h (EvJobStatus i a5)"
  "writeGuard c zone keys w st h (EvDNSKEY b zn ks a6)"
  "writeGuard c zone keys w st h (EvNoDS zn a7)"
  "writeGuard c zone keys w st h (EvDS zn ks a7)"
  "writeGuard c zone keys w st h (EvAuthDS zn ks a6)"
  "writeGuard c zone keys w st h (EvRRSIG b zn k a7)"
  "writeGuard c zone keys w st h (EvDNSKEYRRSIG b zn k a7)"
  "writeGuard c zone keys w st h (EvDelegation zn ns a7)"
  "writeGuard c zone keys w st h (EvSend n a7)"
  "writeGuard c zone keys w st h (EvDeleteKey zid i a7) \<longleftrightarrow>
     zid = zID zone \<and> wPhase w = PhaseDeleteOld \<and> deletionReady c zone keys w h i"
  "writeGuard c zone keys w st h (EvSetKey zid k act pub a7) \<longleftrightarrow>
     zid = zID zone \<and> pub
     \<and> (if act then wPhase w = PhaseActivateNew \<and> activationReady c zone keys w k
        else wPhase w = PhaseDeactivateOld \<and> deactivationReady c zone keys w h k)"
  "writeGuard c zone keys w st h (EvCreateKey zid typ alg act a8) \<longleftrightarrow>
     zid = zID zone \<and> wPhase w = PhasePrepublish \<and> createReady c zone keys w st h typ alg act"
  "writeGuard c zone keys w st h (EvUpdateDNSSEC zn data ctid a9) \<longleftrightarrow>
     zn = zName zone \<and> ctid = wRegistrarCTID w \<and> ctid \<noteq> []
     \<and> wRegistrarAttemptedAt w = 0 \<and> justPersisted st h (updateIntent c w)
     \<and> (if wPhase w = PhaseEnrollParentAdd then enrollmentReady c zone keys w h data
        else wPhase w = PhaseParentRemove \<and> replacementReady c zone keys w h data)"
  by (simp_all add: writeGuard_def)

text \<open>Earlier events never invalidate a guard.\<close>

lemma proven_mono [intro]:
  "provenDNSKEY b zn ks h \<Longrightarrow> provenDNSKEY b zn ks (es @ h)"
  "provenDS zn k h \<Longrightarrow> provenDS zn k (es @ h)"
  "provenAuthDS zn k h \<Longrightarrow> provenAuthDS zn k (es @ h)"
  "provenNoDS zn h \<Longrightarrow> provenNoDS zn (es @ h)"
  "provenRRSIG b zn k h \<Longrightarrow> provenRRSIG b zn k (es @ h)"
  "provenDNSKEYRRSIG b zn k h \<Longrightarrow> provenDNSKEYRRSIG b zn k (es @ h)"
  "provenDelegation zn ns h \<Longrightarrow> provenDelegation zn ns (es @ h)"
  "registrarSeen zn P h \<Longrightarrow> registrarSeen zn P (es @ h)"
  "justPersisted (lastPersist st es) h Q \<Longrightarrow> justPersisted st (es @ h) Q"
  by (auto simp: evidence_defs justPersisted_def butlast_append split: event.splits)

lemma ready_mono [intro]:
  "deletionReady c zone keys w h i \<Longrightarrow> deletionReady c zone keys w (es @ h) i"
  "deactivationReady c zone keys w h k \<Longrightarrow> deactivationReady c zone keys w (es @ h) k"
  "createReady c zone keys w (lastPersist st es) h typ alg act \<Longrightarrow> createReady c zone keys w st (es @ h) typ alg act"
  "replacementReady c zone keys w h data \<Longrightarrow> replacementReady c zone keys w (es @ h) data"
  "enrollmentReady c zone keys w h data \<Longrightarrow> enrollmentReady c zone keys w (es @ h) data"
proof -
  show "deletionReady c zone keys w h i \<Longrightarrow> deletionReady c zone keys w (es @ h) i"
    unfolding deletionReady_def parentReady_def by (auto split: option.splits)
  show "deactivationReady c zone keys w h k \<Longrightarrow> deactivationReady c zone keys w (es @ h) k"
    unfolding deactivationReady_def by (auto split: option.splits if_splits)
  show "createReady c zone keys w (lastPersist st es) h typ alg act \<Longrightarrow> createReady c zone keys w st (es @ h) typ alg act"
    unfolding createReady_def by auto
  show "replacementReady c zone keys w h data \<Longrightarrow> replacementReady c zone keys w (es @ h) data"
    unfolding replacementReady_def by (auto split: sum.splits if_splits)
  show "enrollmentReady c zone keys w h data \<Longrightarrow> enrollmentReady c zone keys w (es @ h) data"
    unfolding enrollmentReady_def by (auto split: sum.splits)
qed

lemma writeGuard_shift:
  "writeGuard c zone keys w (lastPersist st es) h e \<Longrightarrow> writeGuard c zone keys w st (es @ h) e"
  by (cases e) (auto split: if_splits)

interpretation wg: trace_guard "writeGuard c zone keys w" for c zone keys w
  by unfold_locales (rule writeGuard_shift)

section \<open>The handlers keep the guards\<close>

lemma retirementInventory_replacement:
  "retirementInventory newRR zn keys w = Inr ks \<Longrightarrow> byID keys (wNewKeyID w) = Some k \<Longrightarrow> k \<in> set ks"
  by (auto simp: retirementInventory_def Let_def split: if_splits option.splits sum.splits)

abbreviation handlerSafe ::
  "'w controller \<Rightarrow> zone \<Rightarrow> key list \<Rightarrow> workflow \<Rightarrow> ('w, 'a) io \<Rightarrow> 'w sys \<Rightarrow> bool" where
  "handlerSafe c zone keys w m s \<equiv> safely (writeGuard c zone keys w) m s"

lemma deleteOld_safe:
  assumes "wPhase w = PhaseDeleteOld" "wKind w \<in> {KindZSK, KindKSK, KindSplit}"
  shows "handlerSafe c zone keys w (deleteOld c zone keys w) s"
  using assms
  unfolding deleteOld_def deletionEvidence_def op_defs
  apply (intro vcg)
  apply (simp_all add: since_simp since_same)
  apply (simp_all add: deletionReady_def serving_def parentReady_def evidence_defs byID_id
    retirementInventory_replacement split: if_splits)
  done


lemma activeSplit_signer:
  "validateActiveSplitInventory newRR zn keys w = None \<Longrightarrow> byID keys (wNewZSKID w) = Some k \<Longrightarrow> kActive k"
  by (auto simp: validateActiveSplitInventory_def splitMutation_iff splitActivated_def serving_def)

lemma deactivatedSplit_inactive:
  "byID keys (wOldKeyID w) = Some k \<Longrightarrow> kActive k \<Longrightarrow> validateDeactivatedSplitInventory newRR zn keys w \<noteq> None"
  by (auto simp: validateDeactivatedSplitInventory_def splitMutation_iff splitActivated_def)

lemma activateNew_safe:
  assumes "wPhase w = PhaseActivateNew"
  shows "handlerSafe c zone keys w (activateNew c zone keys w) s"
  using assms
  unfolding activateNew_def op_defs transitionNow_def clearEvidence_def
  apply (intro vcg)
  apply (simp_all add: since_simp since_same)
  apply (auto simp: activationReady_def dest: activeSplit_signer)
  done

lemma waitRetire_safe: "handlerSafe c zone keys w (waitRetire c zone keys w) s"
  unfolding waitRetire_def op_defs transitionNow_def
  by (intro vcg) (simp_all add: since_simp since_same)

lemma waitPublish_safe: "handlerSafe c zone keys w (waitPublish c zone keys w) s"
  unfolding waitPublish_def op_defs transitionNow_def transitionAfter_def clearEvidence_def stampEvidence_def
  by (intro vcg) (simp_all add: since_simp since_same)

lemma waitParentReplace_safe: "handlerSafe c zone keys w (waitParentReplace c zone keys w) s"
  unfolding waitParentReplace_def op_defs transitionNow_def transitionAfter_def clearEvidence_def
    stampEvidence_def reconcileUnavailableRegistrarJob_def
  by (intro vcg) (simp_all add: since_simp since_same)


lemma no_candidates: "length xs \<noteq> Suc 0 \<Longrightarrow> \<not> Suc 0 < length xs \<Longrightarrow> xs = []"
  by (cases xs) auto

lemma prepublish_safe:
  assumes "wPhase w = PhasePrepublish"
  shows "handlerSafe c zone keys w (prepublish c zone keys w) s"
  using assms
  unfolding prepublish_def adoptOrCreate_def recordCreateAttempt_def classifyParent_def op_defs transitionNow_def clearEvidence_def
  apply (intro vcg)
  apply (simp_all add: since_simp since_same split del: if_split)
  apply (simp_all add: createReady_def createRole_def zskSlotOf_def slotAttempt_def byID_id justPersisted_def createIntent_def no_candidates timeIsZero_def split del: if_split)
  done

lemma parentReplace_safe:
  assumes "wPhase w = PhaseParentRemove" "getWorkflow (sysState s) (keyOf w) = w"
  shows "handlerSafe c zone keys w (parentReplace c zone keys w) s"
  using assms
  unfolding parentReplace_def replaceMaterial_def ambiguousOrSubmit_def submitReplacement_def op_defs transitionNow_def clearEvidence_def
  apply (intro vcg)
  apply (simp_all add: since_simp since_same)
  apply (simp_all add: replacementReady_def initialSplit_def evidence_defs justPersisted_def updateIntent_def timeIsZero_def)
  done

lemma enrollParentAdd_safe:
  assumes "wPhase w = PhaseEnrollParentAdd"
  shows "handlerSafe c zone keys w (enrollParentAdd c zone keys w) s"
  using assms
  unfolding enrollParentAdd_def enrollWrite_def submitEnrollment_def validateEnrollmentEvidence_def op_defs transitionNow_def clearEvidence_def
  apply (intro vcg)
  apply (simp_all add: since_simp since_same)
  apply (simp_all add: enrollmentReady_def evidence_defs justPersisted_def updateIntent_def timeIsZero_def)
  done

lemma enrollDiscovered_safe: "handlerSafe c zone keys w (enrollDiscovered c zone keys w) s"
  unfolding enrollDiscovered_def discoverInventory_def markIneligible_def classifyCandidate_def
    validateEnrollmentEvidence_def op_defs transitionNow_def transitionAfter_def clearDNSKEYEvidence_def
  by (intro vcg) (simp_all add: since_simp since_same)

lemma enrollWaitPublish_safe: "handlerSafe c zone keys w (enrollWaitPublish c zone keys w) s"
  unfolding enrollWaitPublish_def op_defs transitionNow_def transitionAfter_def clearEvidence_def stampEvidence_def
  by (intro vcg) (simp_all add: since_simp since_same)

lemma enrollWaitParent_safe: "handlerSafe c zone keys w (enrollWaitParent c zone keys w) s"
  unfolding enrollWaitParent_def op_defs transitionNow_def transitionAfter_def stampEvidence_def
    validateEnrollmentEvidence_def reconcileUnavailableRegistrarJob_def
  by (intro vcg) (simp_all add: since_simp since_same)

lemma waitNewSignature_safe: "handlerSafe c zone keys w (waitNewSignature c zone keys w) s"
  unfolding waitNewSignature_def restartSplitWait_def validateSplitSignerTransitionEvidence_def op_defs
    transitionNow_def transitionAfter_def stampEvidence_def clearEvidence_def Let_def
  by (intro vcg) (simp_all add: since_simp since_same)

lemma deactivateRecorded_safe:
  assumes "wPhase w = PhaseDeactivateOld" "wKind w \<in> {KindZSK, KindKSK, KindSplit}"
    and "wKind w = KindSplit \<longrightarrow> validateActiveSplitInventory (libNewRR c) (zName zone) keys w = None
           \<or> validateDeactivatedSplitInventory (libNewRR c) (zName zone) keys w = None"
  shows "handlerSafe c zone keys w (deactivateRecorded c zone keys w) s"
  using assms
  unfolding deactivateRecorded_def deactivationEvidence_def switchOffOld_def op_defs
    transitionNow_def transitionAfter_def stampEvidence_def Let_def
  apply (intro vcg)
  apply (simp_all add: since_simp since_same)
  apply (simp_all add: deactivationReady_def evidence_defs recordedKeys_iff serving_def
    deactivatedSplit_inactive)
  done

lemmas deactivateRecorded_after = wg.after [OF _ deactivateRecorded_safe]

lemma deactivateOld_safe:
  assumes "wPhase w = PhaseDeactivateOld" "wKind w \<in> {KindZSK, KindKSK, KindSplit}"
  shows "handlerSafe c zone keys w (deactivateOld c zone keys w) s"
  using assms
  unfolding deactivateOld_def restartSplitWait_def validateSplitSignerTransitionEvidence_def op_defs Let_def
  apply (intro vcg deactivateRecorded_after)
  apply (simp_all add: since_simp since_same)
  done

section \<open>Every phase, and the retry\<close>

lemma handlePhase_safe:
  assumes "validPhase (wKind w) (wPhase w)" "getWorkflow (sysState s) (keyOf w) = w"
  shows "handlerSafe c zone keys w (handlePhase c zone keys w) s"
proof (cases "wPhase w")
  case PhasePrepublish
  then show ?thesis by (simp add: handlePhase_def prepublish_safe)
next
  case PhaseWaitPublish
  then show ?thesis by (simp add: handlePhase_def waitPublish_safe)
next
  case PhaseActivateNew
  then show ?thesis by (simp add: handlePhase_def activateNew_safe)
next
  case PhaseWaitNewSignature
  then show ?thesis by (simp add: handlePhase_def waitNewSignature_safe)
next
  case PhaseDeactivateOld
  with assms show ?thesis by (simp add: handlePhase_def deactivateOld_safe validPhase_kinds)
next
  case PhaseParentRemove
  with assms show ?thesis by (simp add: handlePhase_def parentReplace_safe)
next
  case PhaseWaitParentRemove
  then show ?thesis by (simp add: handlePhase_def waitParentReplace_safe)
next
  case PhaseWaitRetire
  then show ?thesis by (simp add: handlePhase_def waitRetire_safe)
next
  case PhaseDeleteOld
  with assms show ?thesis by (simp add: handlePhase_def deleteOld_safe validPhase_kinds)
next
  case PhaseEnrollDiscovered
  then show ?thesis by (simp add: handlePhase_def enrollDiscovered_safe)
next
  case PhaseEnrollWaitPublish
  then show ?thesis by (simp add: handlePhase_def enrollWaitPublish_safe)
next
  case PhaseEnrollParentAdd
  then show ?thesis by (simp add: handlePhase_def enrollParentAdd_safe)
next
  case PhaseEnrollWaitParent
  then show ?thesis by (simp add: handlePhase_def enrollWaitParent_safe)
qed (simp_all add: handlePhase_def wp_simps)

lemma advance_safe:
  assumes "validPhase (wKind w) (wPhase w)" "getWorkflow (sysState s) (keyOf w) = w"
  shows "handlerSafe c zone keys w (advance c zone keys w) s"
  unfolding advance_def recordRetry_def
  by (intro vcg wg.run [OF _ handlePhase_safe])
    (use assms in \<open>auto simp: since_same intro: wg.same wg.snoc\<close>)

end
