(* ===== verification/Phases.thy ===== *)
theory Phases
  imports Lifecycle
begin

text \<open>
  The handlers refine the phase graph: every document a handler hands to the store is one
  step of the workflow it advances.
\<close>

definition stepGuard :: "string \<Rightarrow> kind \<Rightarrow> state \<Rightarrow> event list \<Rightarrow> event \<Rightarrow> bool" where
  "stepGuard zn k st h e \<longleftrightarrow> (case e of EvPersist x \<Rightarrow> ownStep zn k (lastPersist st h) x | _ \<Rightarrow> True)"

lemma stepGuard_simps [simp]:
  "stepGuard zn k st h (EvPersist x) \<longleftrightarrow> ownStep zn k (lastPersist st h) x"
  "stepGuard zn k st h (EvListZones a1)"
  "stepGuard zn k st h (EvGetZone zid a2)"
  "stepGuard zn k st h (EvListKeys zid a3)"
  "stepGuard zn k st h (EvCreateKey zid typ alg act a8)"
  "stepGuard zn k st h (EvSetKey zid ky act pub a7)"
  "stepGuard zn k st h (EvDeleteKey zid i a7)"
  "stepGuard zn k st h (EvDomainDNSSEC z a4)"
  "stepGuard zn k st h (EvUpdateDNSSEC z data ctid a9)"
  "stepGuard zn k st h (EvJobStatus i a5)"
  "stepGuard zn k st h (EvDNSKEY b z ks a6)"
  "stepGuard zn k st h (EvNoDS z a7)"
  "stepGuard zn k st h (EvDS z ks a7)"
  "stepGuard zn k st h (EvAuthDS z ks a6)"
  "stepGuard zn k st h (EvRRSIG b z ky a7)"
  "stepGuard zn k st h (EvDNSKEYRRSIG b z ky a7)"
  "stepGuard zn k st h (EvDelegation z ns a7)"
  "stepGuard zn k st h (EvSend n a7)"
  by (simp_all add: stepGuard_def)

lemma stepGuard_shift: "stepGuard zn k (lastPersist st es) h e \<Longrightarrow> stepGuard zn k st (es @ h) e"
  by (cases e) simp_all

interpretation sg: trace_guard "stepGuard zn k" for zn k
  by unfold_locales (rule stepGuard_shift)

abbreviation handlerSteps :: "workflow \<Rightarrow> ('w, 'a) io \<Rightarrow> 'w sys \<Rightarrow> bool" where
  "handlerSteps w m s \<equiv> safely (stepGuard (wZone w) (wKind w)) m s"

text \<open>What a handler may rely on: the workflow is the one in the document, for this zone.\<close>

definition current :: "zone \<Rightarrow> workflow \<Rightarrow> 'w sys \<Rightarrow> bool" where
  "current zone w s \<longleftrightarrow> wZone w = zName zone \<and> getWorkflow (sysState s) (workflowKey (zName zone) (wKind w)) = w"

lemma currentD:
  "current zone w s \<Longrightarrow> wKind w = k \<Longrightarrow> getWorkflow (sysState s) (workflowKey (zName zone) k) = w"
  "current zone w s \<Longrightarrow> wZone w = zName zone"
  by (auto simp: current_def)

lemmas transitions = transitionNow_def transitionAfter_def clearEvidence_def stampEvidence_def
lemmas steps_simps = since_simp since_same currentD ownStep_complete keepsAttempts_def timeIsZero_def

lemma prepublish_steps:
  assumes "current zone w s" "wPhase w = PhasePrepublish" "wKind w \<in> rotationKinds"
  shows "handlerSteps w (prepublish c zone keys w) s"
  using assms
  unfolding prepublish_def adoptOrCreate_def recordCreateAttempt_def classifyParent_def op_defs transitions
  by (intro vcg) (simp_all add: steps_simps)

lemma waitPublish_steps:
  assumes "current zone w s" "wPhase w = PhaseWaitPublish" "wKind w \<in> rotationKinds"
  shows "handlerSteps w (waitPublish c zone keys w) s"
  using assms unfolding waitPublish_def op_defs transitions
  by (intro vcg) (simp_all add: steps_simps)

lemma activateNew_steps:
  assumes "current zone w s" "wPhase w = PhaseActivateNew" "wKind w = KindZSK \<or> wKind w = KindSplit"
  shows "handlerSteps w (activateNew c zone keys w) s"
  using assms unfolding activateNew_def op_defs transitions
  by (intro vcg) (simp_all add: steps_simps)

lemma waitNewSignature_steps:
  assumes "current zone w s" "wPhase w = PhaseWaitNewSignature" "wKind w = KindZSK \<or> wKind w = KindSplit"
  shows "handlerSteps w (waitNewSignature c zone keys w) s"
  using assms
  unfolding waitNewSignature_def restartSplitWait_def validateSplitSignerTransitionEvidence_def op_defs
    transitions Let_def
  by (intro vcg) (simp_all add: steps_simps)

lemma parentReplace_steps:
  assumes "current zone w s" "wPhase w = PhaseParentRemove" "wKind w = KindKSK \<or> wKind w = KindSplit"
  shows "handlerSteps w (parentReplace c zone keys w) s"
  using assms
  unfolding parentReplace_def replaceMaterial_def ambiguousOrSubmit_def submitReplacement_def op_defs transitions
  by (intro vcg) (simp_all add: steps_simps)

lemma waitParentReplace_steps:
  assumes "current zone w s" "wPhase w = PhaseWaitParentRemove" "wKind w = KindKSK \<or> wKind w = KindSplit"
  shows "handlerSteps w (waitParentReplace c zone keys w) s"
  using assms
  unfolding waitParentReplace_def reconcileUnavailableRegistrarJob_def op_defs transitions
  by (intro vcg) (simp_all add: steps_simps, auto)

lemma waitRetire_steps:
  assumes "current zone w s" "wPhase w = PhaseWaitRetire" "wKind w = KindZSK \<or> wKind w = KindSplit"
  shows "handlerSteps w (waitRetire c zone keys w) s"
  using assms unfolding waitRetire_def op_defs transitions
  by (intro vcg) (simp_all add: steps_simps)

lemma deleteOld_steps:
  assumes "current zone w s" "wPhase w = PhaseDeleteOld" "wKind w \<in> rotationKinds"
  shows "handlerSteps w (deleteOld c zone keys w) s"
  using assms unfolding deleteOld_def deletionEvidence_def op_defs
  by (intro vcg) (simp_all add: steps_simps, (rule ownStep_complete; simp add: currentD)+)

lemma enrollDiscovered_steps:
  assumes "current zone w s" "wPhase w = PhaseEnrollDiscovered" "wKind w = KindEnroll"
  shows "handlerSteps w (enrollDiscovered c zone keys w) s"
  using assms
  unfolding enrollDiscovered_def discoverInventory_def markIneligible_def classifyCandidate_def
    validateEnrollmentEvidence_def op_defs transitions clearDNSKEYEvidence_def
  by (intro vcg) (simp_all add: steps_simps)

lemma enrollWaitPublish_steps:
  assumes "current zone w s" "wPhase w = PhaseEnrollWaitPublish" "wKind w = KindEnroll"
  shows "handlerSteps w (enrollWaitPublish c zone keys w) s"
  using assms unfolding enrollWaitPublish_def op_defs transitions
  by (intro vcg) (simp_all add: steps_simps)

lemma enrollParentAdd_steps:
  assumes "current zone w s" "wPhase w = PhaseEnrollParentAdd" "wKind w = KindEnroll"
  shows "handlerSteps w (enrollParentAdd c zone keys w) s"
  using assms
  unfolding enrollParentAdd_def enrollWrite_def submitEnrollment_def validateEnrollmentEvidence_def op_defs transitions
  by (intro vcg) (simp_all add: steps_simps)

lemma enrollWaitParent_steps:
  assumes "current zone w s" "wPhase w = PhaseEnrollWaitParent" "wKind w = KindEnroll"
  shows "handlerSteps w (enrollWaitParent c zone keys w) s"
  using assms
  unfolding enrollWaitParent_def validateEnrollmentEvidence_def reconcileUnavailableRegistrarJob_def op_defs transitions
  by (intro vcg) (simp_all add: steps_simps)

text \<open>The part of \<open>deactivateOld\<close> that all kinds share, and the whole of it\<close>

lemma deactivateRecorded_steps:
  assumes "current zone w s" "wPhase w = PhaseDeactivateOld" "wKind w \<in> rotationKinds"
  shows "handlerSteps w (deactivateRecorded c zone keys w) s"
  using assms
  unfolding deactivateRecorded_def deactivationEvidence_def switchOffOld_def op_defs transitions Let_def
  by (intro vcg) (simp_all add: steps_simps)

lemmas deactivateRecorded_run = sg.after [OF _ deactivateRecorded_steps]

lemma current_same: "sysState t = sysState s \<Longrightarrow> current zone w s \<Longrightarrow> current zone w t"
  by (simp add: current_def)

lemma deactivateOld_steps:
  assumes "current zone w s" "wPhase w = PhaseDeactivateOld" "wKind w \<in> rotationKinds"
  shows "handlerSteps w (deactivateOld c zone keys w) s"
  using assms
  unfolding deactivateOld_def restartSplitWait_def validateSplitSignerTransitionEvidence_def op_defs Let_def
  apply (intro vcg deactivateRecorded_run)
  apply (simp_all add: steps_simps)
  apply (auto elim: current_same [rotated])
  done

section \<open>Every phase, and the retry\<close>

lemma handlePhase_steps:
  assumes "current zone w s" "validPhase (wKind w) (wPhase w)"
  shows "handlerSteps w (handlePhase c zone keys w) s"
proof (cases "wPhase w")
  case PhasePrepublish
  with assms prepublish_steps [of zone w s c keys] show ?thesis by (simp add: handlePhase_def validPhase_kinds)
next
  case PhaseWaitPublish
  with assms waitPublish_steps [of zone w s c keys] show ?thesis by (simp add: handlePhase_def validPhase_kinds)
next
  case PhaseActivateNew
  with assms activateNew_steps [of zone w s c keys] show ?thesis by (simp add: handlePhase_def validPhase_kinds)
next
  case PhaseWaitNewSignature
  with assms waitNewSignature_steps [of zone w s c keys] show ?thesis by (simp add: handlePhase_def validPhase_kinds)
next
  case PhaseDeactivateOld
  with assms deactivateOld_steps [of zone w s c keys] show ?thesis by (simp add: handlePhase_def validPhase_kinds)
next
  case PhaseParentRemove
  with assms parentReplace_steps [of zone w s c keys] show ?thesis by (simp add: handlePhase_def validPhase_kinds)
next
  case PhaseWaitParentRemove
  with assms waitParentReplace_steps [of zone w s c keys] show ?thesis by (simp add: handlePhase_def validPhase_kinds)
next
  case PhaseWaitRetire
  with assms waitRetire_steps [of zone w s c keys] show ?thesis by (simp add: handlePhase_def validPhase_kinds)
next
  case PhaseDeleteOld
  with assms deleteOld_steps [of zone w s c keys] show ?thesis by (simp add: handlePhase_def validPhase_kinds)
next
  case PhaseEnrollDiscovered
  with assms enrollDiscovered_steps [of zone w s c keys] show ?thesis by (simp add: handlePhase_def validPhase_kinds)
next
  case PhaseEnrollWaitPublish
  with assms enrollWaitPublish_steps [of zone w s c keys] show ?thesis by (simp add: handlePhase_def validPhase_kinds)
next
  case PhaseEnrollParentAdd
  with assms enrollParentAdd_steps [of zone w s c keys] show ?thesis by (simp add: handlePhase_def validPhase_kinds)
next
  case PhaseEnrollWaitParent
  with assms enrollWaitParent_steps [of zone w s c keys] show ?thesis by (simp add: handlePhase_def validPhase_kinds)
qed (simp_all add: handlePhase_def wp_simps)

text \<open>The workflow stays on file, under its zone and its kind.\<close>

lemma since_identity:
  assumes "since (stepGuard zn k) s t"
    and "wZone (getWorkflow (sysState s) (workflowKey zn k)) = zn"
    and "wKind (getWorkflow (sysState s) (workflowKey zn k)) = k"
  shows "wZone (getWorkflow (sysState t) (workflowKey zn k)) = zn"
    and "wKind (getWorkflow (sysState t) (workflowKey zn k)) = k"
proof -
  have "guarded (stepGuard zn k (sysState s)) es \<Longrightarrow>
      wZone (getWorkflow (lastPersist (sysState s) es) (workflowKey zn k)) = zn
      \<and> wKind (getWorkflow (lastPersist (sysState s) es) (workflowKey zn k)) = k" for es
  proof (induction es rule: rev_induct)
    case (snoc e es)
    then show ?case by (cases e) (auto simp: ownStep_def getWorkflow_def)
  qed (simp add: assms)
  then show "wZone (getWorkflow (sysState t) (workflowKey zn k)) = zn"
    and "wKind (getWorkflow (sysState t) (workflowKey zn k)) = k"
    using assms(1) by (auto simp: since_def)
qed

lemma retry_step:
  assumes "since (stepGuard (wZone w) (wKind w)) s u" "current zone w s" "sysState t = sysState u" "sysLog t = sysLog u"
    and "sysState v = putWorkflow (keyOf w) ((getWorkflow (sysState u) (keyOf w))\<lparr>wAttempts := n, wLastError := e,
           wNextActionAt := a\<rparr>) (sysState u)"
    and "sysLog v = sysLog u @ [EvPersist (sysState v)]"
  shows "since (stepGuard (wZone w) (wKind w)) s v"
proof (rule sg.snoc [OF assms(1)])
  have "getWorkflow (sysState s) (keyOf w) = w"
    using assms(2) by (simp add: current_def)
  then show "stepGuard (wZone w) (wKind w) (sysState u) [] (EvPersist (sysState v))"
    using since_identity [OF assms(1)] by (simp add: assms keepsAttempts_def)
qed (simp_all add: assms)

lemma advance_steps:
  assumes "current zone w s" "validPhase (wKind w) (wPhase w)"
  shows "handlerSteps w (advance c zone keys w) s"
  unfolding advance_def recordRetry_def
  apply (intro vcg sg.run [OF _ handlePhase_steps])
  apply (use assms in \<open>auto simp: since_same intro: sg.same elim: current_same [rotated] retry_step\<close>)
  done

end
