(* ===== verification/Ticks.thy ===== *)
theory Ticks
  imports Guards Phases
begin

text \<open>
  One pass of the controller. \<open>tickGuard\<close> lifts the guards of the handlers to the history of
  a whole \<open>Tick\<close>: every write to the outside is preceded, since the key inventory was read,
  by what the handler's guard demands, for a workflow that was on file; every document handed
  to the store is one step of one workflow, the bootstrap of one zone, or a change of the
  outbox.
\<close>

section \<open>Document steps\<close>

definition sameRest :: "state \<Rightarrow> state \<Rightarrow> bool" where
  "sameRest p x \<longleftrightarrow>
     sVersion x = sVersion p \<and> sEnrollmentArmedAt x = sEnrollmentArmedAt p \<and> sIdempotency x = sIdempotency p"

definition bootStep :: "string \<Rightarrow> state \<Rightarrow> state \<Rightarrow> bool" where
  "bootStep zn p x \<longleftrightarrow> sameRest p x \<and> sNotifications x = sNotifications p
     \<and> (distinct (map fst (sWorkflows p)) \<longrightarrow> distinct (map fst (sWorkflows x)))
     \<and> (\<forall>j. mget (sWorkflows x) j = mget (sWorkflows p) j
          \<or> mget (sWorkflows p) j = None \<and> (\<exists>v. mget (sWorkflows x) j = Some v \<and> wfWorkflow j v \<and> wZone v = zn
               \<and> wPhase v \<in> {PhaseIdle, PhaseEnrollDiscovered, PhaseBlocked}))"

definition outboxStep :: "state \<Rightarrow> state \<Rightarrow> bool" where
  "outboxStep p x \<longleftrightarrow> sameRest p x \<and> sWorkflows x = sWorkflows p"

text \<open>
  What a request of the operator may do to workflows: give a zone its baseline entry, start
  a rotation of an idle zone, return a blocked split to the publication wait, or attest a
  signer transition. One request changes workflows of one kind.
\<close>

inductive operatorEdge :: "kind \<Rightarrow> phase option \<Rightarrow> phase \<Rightarrow> bool" where
  baseline: "operatorEdge KindEnroll None PhaseIdle"
| triggered_first: "k \<in> rotationKinds \<Longrightarrow> operatorEdge k None PhasePrepublish"
| triggered: "k \<in> rotationKinds \<Longrightarrow> operatorEdge k (Some PhaseIdle) PhasePrepublish"
| resumed: "operatorEdge KindSplit (Some PhaseBlocked) PhaseWaitPublish"
| attested: "operatorEdge KindSplit (Some PhaseWaitNewSignature) PhaseWaitNewSignature"

inductive_cases operatorEdgeE [elim]: "operatorEdge k a q"

definition operatorChange :: "string \<Rightarrow> kind \<Rightarrow> state \<Rightarrow> state \<Rightarrow> bool" where
  "operatorChange zn k p x \<longleftrightarrow>
     (\<exists>v. mget (sWorkflows x) (workflowKey zn k) = Some v \<and> wZone v = zn \<and> wKind v = k
        \<and> operatorEdge k (map_option wPhase (mget (sWorkflows p) (workflowKey zn k))) (wPhase v)
        \<and> keepsAttempts (getWorkflow p (workflowKey zn k)) v
        \<and> (wPhase v = PhasePrepublish \<longrightarrow> (\<forall>j u. mget (sWorkflows p) j = Some u \<longrightarrow> wZone u = zn \<longrightarrow> \<not> workflowActive u)))"

definition requestStep :: "state \<Rightarrow> state \<Rightarrow> bool" where
  "requestStep p x \<longleftrightarrow> sVersion x = sVersion p \<and> sNotifications x = sNotifications p
     \<and> (sEnrollmentArmedAt x = sEnrollmentArmedAt p \<or> sEnrollmentArmedAt p = 0)
     \<and> (\<forall>i. mget (sIdempotency p) i \<noteq> None \<longrightarrow> mget (sIdempotency x) i = mget (sIdempotency p) i)
     \<and> (distinct (map fst (sWorkflows p)) \<longrightarrow> distinct (map fst (sWorkflows x)))
     \<and> (\<exists>k. namedKind k \<and> (\<forall>j. mget (sWorkflows x) j = mget (sWorkflows p) j
          \<or> (\<exists>zn. j = workflowKey zn k \<and> operatorChange zn k p x)))"

definition docStep :: "state \<Rightarrow> state \<Rightarrow> bool" where
  "docStep p x \<longleftrightarrow>
     (\<exists>zn k. namedKind k \<and> ownStep zn k p x
        \<and> (validPhase k (wPhase (getWorkflow p (workflowKey zn k)))
           \<or> wPhase (getWorkflow x (workflowKey zn k)) = PhaseBlocked))
     \<or> (\<exists>zn. bootStep zn p x) \<or> outboxStep p x \<or> requestStep p x"

lemma requestStep_wf:
  assumes "requestStep p x" "wfState p"
  shows "wfState x"
proof -
  obtain k where k: "namedKind k" "\<forall>j. mget (sWorkflows x) j = mget (sWorkflows p) j
      \<or> (\<exists>zn. j = workflowKey zn k \<and> operatorChange zn k p x)"
    using assms(1) unfolding requestStep_def by blast
  have "wfWorkflow j w" if w: "mget (sWorkflows x) j = Some w" for j w
  proof (cases "mget (sWorkflows x) j = mget (sWorkflows p) j")
    case True
    with w assms(2) show ?thesis by (simp add: wfState_iff)
  next
    case False
    with k(2) obtain zn where "j = workflowKey zn k" "operatorChange zn k p x" by metis
    with w k(1) show ?thesis
      by (auto simp: operatorChange_def wfWorkflow_def validPhase_kinds)
  qed
  with assms show ?thesis by (simp add: wfState_iff requestStep_def)
qed

lemma docStep_wf: "docStep p x \<Longrightarrow> wfState p \<Longrightarrow> wfState x"
  unfolding docStep_def
proof (elim disjE exE conjE)
  fix zn
  assume "bootStep zn p x" "wfState p"
  then show "wfState x"
    unfolding wfState_iff bootStep_def by (metis option.inject)
next
  assume "outboxStep p x" "wfState p"
  then show "wfState x" by (simp add: outboxStep_def wfState_def)
qed (blast intro: ownStep_wf requestStep_wf)+

section \<open>The guard of a pass\<close>

fun isWrite :: "event \<Rightarrow> bool" where
  "isWrite (EvCreateKey zid typ alg act r) = True"
| "isWrite (EvSetKey zid k act pub r) = True"
| "isWrite (EvDeleteKey zid i r) = True"
| "isWrite (EvUpdateDNSSEC zn data ctid r) = True"
| "isWrite _ = False"

definition eligible :: "'w controller \<Rightarrow> zone \<Rightarrow> bool" where
  "eligible c zone \<longleftrightarrow> zDNSSEC zone \<and> validZoneName c (zName zone) \<and> cfMode (cfg c) \<noteq> ''observe''"

definition onFile :: "state \<Rightarrow> zone \<Rightarrow> workflow \<Rightarrow> bool" where
  "onFile st zone w \<longleftrightarrow> mget (sWorkflows st) (keyOf w) = Some w \<and> wZone w = zName zone \<and> workflowActive w"

text \<open>
  \<open>underway\<close>: at the point \<open>h1\<close> of the history the inventory \<open>keys\<close> of the zone has been
  read, and \<open>w\<close> is its active workflow on file.
\<close>

definition underway :: "'w controller \<Rightarrow> state \<Rightarrow> zone \<Rightarrow> key list \<Rightarrow> workflow \<Rightarrow> event list \<Rightarrow> bool" where
  "underway c st zone keys w h1 \<longleftrightarrow> eligible c zone
     \<and> (\<exists>pre post. h1 = pre @ EvListKeys (zID zone) (Inr keys) # post)
     \<and> onFile (lastPersist st h1) zone w"

definition writesGuard :: "'w controller \<Rightarrow> state \<Rightarrow> event list \<Rightarrow> event \<Rightarrow> bool" where
  "writesGuard c st h e \<longleftrightarrow> (isWrite e \<longrightarrow>
     (\<exists>zone keys w h1 h2. h = h1 @ h2 \<and> underway c st zone keys w h1
        \<and> writeGuard c zone keys w (lastPersist st h1) h2 e))"

definition stepsGuard :: "state \<Rightarrow> event list \<Rightarrow> event \<Rightarrow> bool" where
  "stepsGuard st h e \<longleftrightarrow> (case e of EvPersist x \<Rightarrow> docStep (lastPersist st h) x | _ \<Rightarrow> True)"

definition tickGuard :: "'w controller \<Rightarrow> state \<Rightarrow> event list \<Rightarrow> event \<Rightarrow> bool" where
  "tickGuard c st h e \<longleftrightarrow> writesGuard c st h e \<and> stepsGuard st h e"

lemma underway_shift: "underway c (lastPersist st es) zone keys w h1 \<Longrightarrow> underway c st zone keys w (es @ h1)"
  unfolding underway_def lastPersist_append by (metis append.assoc)

lemma writesGuard_shift:
  assumes "writesGuard c (lastPersist st es) h e"
  shows "writesGuard c st (es @ h) e"
  unfolding writesGuard_def
proof
  assume "isWrite e"
  then obtain zone keys w h1 h2 where "h = h1 @ h2" "underway c (lastPersist st es) zone keys w h1"
      "writeGuard c zone keys w (lastPersist (lastPersist st es) h1) h2 e"
    using assms unfolding writesGuard_def by blast
  then have "es @ h = (es @ h1) @ h2 \<and> underway c st zone keys w (es @ h1)
      \<and> writeGuard c zone keys w (lastPersist st (es @ h1)) h2 e"
    by (simp add: underway_shift)
  then show "\<exists>zone keys w h1 h2. es @ h = h1 @ h2 \<and> underway c st zone keys w h1
      \<and> writeGuard c zone keys w (lastPersist st h1) h2 e"
    by blast
qed

lemma stepsGuard_shift: "stepsGuard (lastPersist st es) h e \<Longrightarrow> stepsGuard st (es @ h) e"
  by (cases e) (simp_all add: stepsGuard_def)

interpretation tg: trace_guard "tickGuard c" for c
  by unfold_locales (simp add: tickGuard_def writesGuard_shift stepsGuard_shift)

lemma tickGuard_simps [simp]:
  "tickGuard c st h (EvPersist x) \<longleftrightarrow> docStep (lastPersist st h) x"
  "tickGuard c st h (EvListZones a1)"
  "tickGuard c st h (EvListKeys zid a3)"
  "tickGuard c st h (EvSend n a7)"
  by (simp_all add: tickGuard_def writesGuard_def stepsGuard_def)

lemma since_wf:
  assumes "since (tickGuard c) s t" "wfState (sysState s)"
  shows "wfState (sysState t)"
proof -
  have "guarded (tickGuard c (sysState s)) es \<Longrightarrow> wfState (lastPersist (sysState s) es)" for es
  proof (induction es rule: rev_induct)
    case (snoc e es)
    then show ?case by (cases e) (auto intro: docStep_wf)
  qed (simp add: assms)
  with assms(1) show ?thesis by (auto simp: since_def)
qed

section \<open>The handlers inside a pass\<close>

text \<open>\<open>range\<close> over a map visits every entry once, in some order.\<close>

definition rangesAll :: "'w controller \<Rightarrow> bool" where
  "rangesAll c \<longleftrightarrow> (\<forall>w m. mset (libRange c w m) = mset m)"

lemma rangesAll_set: "rangesAll c \<Longrightarrow> set (libRange c w m) = set m"
  unfolding rangesAll_def by (metis set_mset_mset)

lemma steps_valid:
  assumes "guarded (stepGuard zn k st) es" "validPhase k (wPhase (getWorkflow st (workflowKey zn k)))"
  shows "validPhase k (wPhase (getWorkflow (lastPersist st es) (workflowKey zn k)))"
  using assms
proof (induction es rule: rev_induct)
  case (snoc e es)
  then show ?case by (cases e) (auto simp: ownStep_def getWorkflow_def intro: phaseStep_valid)
qed simp

lemma steps_docStep:
  assumes "guarded (stepGuard zn k st) es" "validPhase k (wPhase (getWorkflow st (workflowKey zn k)))" "namedKind k"
  shows "guarded (stepsGuard st) es"
  using assms
proof (induction es rule: rev_induct)
  case (snoc e es)
  then show ?case
    using steps_valid [of zn k st es]
    by (cases e) (auto simp: stepsGuard_def docStep_def)
qed simp

lemma advance_tick:
  assumes s: "since (tickGuard c) s u" "sysLog u = sysLog s @ h1" "h1 = pre @ EvListKeys (zID zone) (Inr keys) # post"
    and w: "onFile (sysState u) zone w" "wfWorkflow (keyOf w) w"
    and e: "eligible c zone"
  shows "wp (advance c zone keys w) (\<lambda>r t. since (tickGuard c) s t) u"
proof (rule wp_mono [OF wp_conj])
  have cur: "current zone w u"
    using w by (auto simp: current_def onFile_def getWorkflow_def)
  have valid: "validPhase (wKind w) (wPhase w)" and named: "namedKind (wKind w)"
    using w(2) by (simp_all add: wfWorkflow_def)
  show "handlerSafe c zone keys w (advance c zone keys w) u"
    by (rule advance_safe [OF valid]) (use cur in \<open>simp add: current_def\<close>)
  show "handlerSteps w (advance c zone keys w) u"
    by (rule advance_steps [OF cur valid])
  fix r t
  assume t: "since (writeGuard c zone keys w) u t \<and> since (stepGuard (wZone w) (wKind w)) u t"
  then obtain es where es: "sysLog t = sysLog u @ es" "sysState t = lastPersist (sysState u) es"
    and wg: "guarded (writeGuard c zone keys w (sysState u)) es"
    and sg: "guarded (stepGuard (wZone w) (wKind w) (sysState u)) es"
    by (auto simp: since_def)
  have u: "sysState u = lastPersist (sysState s) h1" and g1: "guarded (tickGuard c (sysState s)) h1"
    using s(1,2) by (auto simp: since_def)
  have "guarded (stepsGuard (sysState u)) es"
    using steps_docStep [OF sg _ named] cur valid by (auto simp: current_def)
  then have "guarded (\<lambda>h. stepsGuard (sysState s) (h1 @ h)) es"
    by (auto elim!: guarded_mono intro: stepsGuard_shift simp: u)
  moreover have "guarded (\<lambda>h. writesGuard c (sysState s) (h1 @ h)) es"
  proof (rule guarded_mono [OF wg])
    fix h2 x
    assume "writeGuard c zone keys w (sysState u) h2 x"
    then have "underway c (sysState s) zone keys w h1
        \<and> writeGuard c zone keys w (lastPersist (sysState s) h1) h2 x"
      using s(3) w(1) e unfolding underway_def by (auto simp only: u)
    then show "writesGuard c (sysState s) (h1 @ h2) x"
      unfolding writesGuard_def by blast
  qed
  ultimately have "guarded (\<lambda>h. tickGuard c (sysState s) (h1 @ h)) es"
    unfolding tickGuard_def by (simp add: guarded_conj)
  then have "guarded (tickGuard c (sysState s)) (h1 @ es)"
    using g1 by (simp add: guarded_append)
  with s(2) u es show "since (tickGuard c) s t"
    unfolding since_def by auto
qed

section \<open>reconcileZone\<close>

lemma namedKind_simps [simp]:
  "namedKind KindZSK" "namedKind KindKSK" "namedKind KindSplit" "namedKind KindEnroll"
  by (simp_all add: namedKind_def)

lemma wf_idle:
  "wfWorkflow k w \<Longrightarrow> \<not> workflowActive w \<Longrightarrow> wPhase w = PhaseIdle"
  by (cases "wPhase w") (auto simp: wfWorkflow_def workflowActive_def validPhase_kinds)

lemma addIfMissing_sel [simp]:
  "sVersion (addIfMissing k w s) = sVersion s"
  "sEnrollmentArmedAt (addIfMissing k w s) = sEnrollmentArmedAt s"
  "sIdempotency (addIfMissing k w s) = sIdempotency s"
  "sNotifications (addIfMissing k w s) = sNotifications s"
  by (simp_all add: addIfMissing_def)

lemma bootStep_refl: "bootStep zn p p"
  by (simp add: bootStep_def sameRest_def)

lemma bootStep_trans: "bootStep zn p q \<Longrightarrow> bootStep zn q x \<Longrightarrow> bootStep zn p x"
  unfolding bootStep_def sameRest_def by (auto, metis+)

lemma bootStep_put:
  assumes "mget (sWorkflows p) (keyOf v) = None" "wfWorkflow (keyOf v) v" "wZone v = zn" "k = keyOf v"
    and "wPhase v \<in> {PhaseIdle, PhaseEnrollDiscovered, PhaseBlocked}"
  shows "bootStep zn p (putWorkflow k v p)"
  using assms by (auto simp: bootStep_def sameRest_def mget_putWorkflow)

lemma bootStep_addIfMissing:
  assumes "wfWorkflow (keyOf v) v" "wZone v = zn" "k = keyOf v"
    and "wPhase v \<in> {PhaseIdle, PhaseEnrollDiscovered, PhaseBlocked}"
  shows "bootStep zn p (addIfMissing k v p)"
  using assms by (auto simp: addIfMissing_def intro: bootStep_refl bootStep_put)

lemma bootStep_idle: "namedKind k \<Longrightarrow> bootStep zn p (addIfMissing (workflowKey zn k) (idleWorkflow zn k now) p)"
  by (rule bootStep_addIfMissing) (simp_all add: idleWorkflow_def wfWorkflow_def validPhase_kinds)

lemma bootStep_roles: "bootStep (zName zone) p (bootstrapRoles zone scheme now p)"
  unfolding bootstrapRoles_def
  by (auto simp: namedKind_def intro: bootStep_refl bootStep_idle bootStep_trans [OF bootStep_idle bootStep_idle])

lemma bootStep_enroll:
  assumes "mget (sWorkflows p) (workflowKey (zName zone) KindEnroll) = None"
  shows "bootStep (zName zone) p
    (putWorkflow (workflowKey (zName zone) KindEnroll) (enrollEntry c zone scheme keys now s) p)"
  by (rule bootStep_put)
    (use assms enrollEntry_phase [of c zone scheme keys now s] in
      \<open>auto simp: wfWorkflow_def namedKind_def validPhase_kinds\<close>)

lemma bootStep_bootstrap: "bootStep (zName zone) p (bootstrapState c zone scheme keys now p)"
  by (simp add: bootstrapState_def Let_def bootStep_roles)
    (blast intro: bootStep_trans [OF bootStep_roles bootStep_enroll])

lemma docStep_own:
  "ownStep zn k p x \<Longrightarrow> namedKind k \<Longrightarrow> validPhase k (wPhase (getWorkflow p (workflowKey zn k))) \<Longrightarrow> docStep p x"
  unfolding docStep_def by blast

lemma docStep_block: "namedKind k \<Longrightarrow> docStep p (blockState c zn k reason t1 t2 p)"
  unfolding docStep_def
  by (rule disjI1, rule exI [of _ zn], rule exI [of _ k])
    (simp add: getWorkflow_blockState blockedWorkflow_def)

lemma docStep_boot: "bootStep zn p x \<Longrightarrow> docStep p x"
  unfolding docStep_def by blast

lemma wf_get:
  assumes "wfState p" "mget (sWorkflows p) (workflowKey zn k) = Some v" "namedKind k"
  shows "wZone v = zn" "wKind v = k" "validPhase k (wPhase v)" "getWorkflow p (workflowKey zn k) = v"
proof -
  have wf: "wfWorkflow (workflowKey zn k) v"
    using assms(1,2) by (simp add: wfState_iff)
  then have "zn = wZone v \<and> k = wKind v"
    using assms(3) unfolding wfWorkflow_def by (metis workflowKey_inj)
  with wf assms(2) show "wZone v = zn" "wKind v = k" "validPhase k (wPhase v)"
      "getWorkflow p (workflowKey zn k) = v"
    by (simp_all add: wfWorkflow_def getWorkflow_def)
qed

lemma docStep_start:
  assumes wf: "wfState p" and v: "mget (sWorkflows p) (workflowKey zn k) = Some v" and k: "k \<in> rotationKinds"
    and none: "find (\<lambda>w. wZone w = zn \<and> workflowActive w) ws = None" and ws: "set ws = set (mvals (sWorkflows p))"
  shows "docStep p (putWorkflow (workflowKey zn k) (startedWorkflow v now manual idem) p)"
proof -
  have named: "namedKind k" using k by (auto simp: namedKind_def)
  note v' = wf_get [OF wf v named]
  have "v \<in> set ws" using v ws by (auto intro: mget_in_mvals)
  then have "wPhase v = PhaseIdle"
    using none v' wf_idle [of "keyOf v" v] named by (auto simp: find_None_iff wfWorkflow_def)
  with v' k named show ?thesis
    by (intro docStep_own [of zn k]) (auto simp: startedWorkflow_def validPhase_kinds keepsAttempts_def)
qed

lemma start_tick:
  assumes "since (tickGuard c) s u" "wfState (sysState u)" "rangesAll c" "k \<in> rotationKinds"
    and "mget (sWorkflows (sysState u)) (workflowKey zn k) = Some v"
  shows "wp (start c zn k False []) (\<lambda>r t. since (tickGuard c) s t) u"
proof -
  have step: "since (tickGuard c) s t"
    if "find (\<lambda>w. wZone w = zn \<and> workflowActive w) (map snd (libRange c w (sWorkflows (sysState u)))) = None"
      "sysState t = putWorkflow (workflowKey zn k) (startedWorkflow v now False []) (sysState u)"
      "sysLog t = sysLog u @ [EvPersist (sysState t)]" for w now and t :: "'a sys"
    using that(2,3) docStep_start [OF assms(2,5,4) that(1)] assms(3)
    by (auto simp: mvals_def rangesAll_set intro: tg.snoc [OF assms(1)])
  show ?thesis
    unfolding start_def
    by (intro vcg) (use assms(1,5) in \<open>auto intro: tg.same step\<close>)
qed

lemma bootstrapState_roles:
  "scheme = ''split'' \<Longrightarrow> k \<in> {KindZSK, KindKSK} \<Longrightarrow>
     \<exists>v. mget (sWorkflows (bootstrapState c zone scheme keys now p)) (workflowKey (zName zone) k) = Some v"
  by (auto simp: bootstrapState_def bootstrapRoles_def addIfMissing_def Let_def mget_putWorkflow)

lemma since_call:
  "since (tickGuard c) s u \<Longrightarrow> sysState t = sysState u \<Longrightarrow> sysLog t = sysLog u @ [e] \<Longrightarrow> \<not> isPersist e
   \<Longrightarrow> \<not> isWrite e \<Longrightarrow> since (tickGuard c) s t"
  by (rule tg.snoc, assumption, assumption)
    (cases e; simp add: lastPersist_other tickGuard_def writesGuard_def stepsGuard_def)+

lemma filed:
  assumes "rangesAll c" "wfState p" "filter P (map snd (libRange c w (sWorkflows p))) = y # ys"
  shows "P y" "mget (sWorkflows p) (keyOf y) = Some y" "wfWorkflow (keyOf y) y"
proof -
  have "y \<in> set (filter P (map snd (libRange c w (sWorkflows p))))"
    by (simp add: assms(3))
  then obtain k where k: "(k, y) \<in> set (sWorkflows p)" and "P y"
    using assms(1) by (auto simp: rangesAll_set)
  then have "wfWorkflow k y" "distinct (map fst (sWorkflows p))"
    using assms(2) by (auto simp: wfState_def)
  then show "P y" "wfWorkflow (keyOf y) y" "mget (sWorkflows p) (keyOf y) = Some y"
    using k \<open>P y\<close> by (auto simp: wfWorkflow_def mget_def)
qed

lemmas docStep_bootstrap = docStep_boot [OF bootStep_bootstrap]

lemma reconcileZone_tick:
  assumes wf: "wfState (sysState s)" and r: "rangesAll c" and z: "zDNSSEC zone" "validZoneName c (zName zone)"
  shows "safely (tickGuard c) (reconcileZone c zone) s"
proof -
  have wf': "wfState (bootstrapState c zone scheme keys now (sysState s))" for scheme keys now
    using wf docStep_bootstrap by (rule docStep_wf [rotated])
  have start: "wp (start c (zName zone) k False []) (\<lambda>r t. since (tickGuard c) s t) u"
    if log: "sysLog u = sysLog s @ [EvListKeys (zID zone) (Inr keys), EvPersist (sysState u)]"
      and u: "sysState u = bootstrapState c zone ''split'' keys now (sysState s)" and k: "k \<in> {KindZSK, KindKSK}"
    for u keys now k
  proof -
    obtain v where "mget (sWorkflows (sysState u)) (workflowKey (zName zone) k) = Some v"
      using bootstrapState_roles [OF refl k] u by metis
    then show ?thesis
      using log u k wf' r by (intro start_tick) (auto simp: since_simp docStep_bootstrap)
  qed
  have adv: "wp (advance c zone keys y) (\<lambda>r t. since (tickGuard c) s t) u"
    if "sysLog u = sysLog s @ [EvListKeys (zID zone) (Inr keys), EvPersist (sysState u)]"
      and "sysState u = bootstrapState c zone scheme keys now (sysState s)"
      and "filter (\<lambda>w. wZone w = zName zone \<and> workflowActive w) (map snd (libRange c w (sWorkflows (sysState u)))) = y # ys"
      and "cfMode (cfg c) \<noteq> ''observe''"
    for u keys scheme now y ys w
  proof (rule advance_tick [of c s u])
    show "since (tickGuard c) s u"
      using that(1,2) by (simp add: since_simp docStep_bootstrap)
    show "[EvListKeys (zID zone) (Inr keys), EvPersist (sysState u)]
            = [] @ EvListKeys (zID zone) (Inr keys) # [EvPersist (sysState u)]" by simp
    show "onFile (sysState u) zone y" "wfWorkflow (keyOf y) y"
      using filed [OF r _ that(3)] wf' that(2) by (auto simp: onFile_def)
    show "eligible c zone"
      using z that(4) by (simp add: eligible_def)
  qed (rule that(1))
  have named: "namedKind (wKind y)"
    if "filter P (map snd (libRange c w (sWorkflows (bootstrapState c zone scheme keys now (sysState s))))) = y # ys"
    for P w scheme keys now y ys
    using filed(3) [OF r wf' that] by (simp add: wfWorkflow_def)
  show ?thesis
    unfolding reconcileZone_def bootstrap_def listKeys_def
    apply (intro vcg)
    apply (auto simp: since_simp docStep_bootstrap docStep_block intro!: start adv intro: docStep_block named)
    done
qed

section \<open>The outbox\<close>

lemma outboxStep_docStep: "outboxStep p x \<Longrightarrow> docStep p x"
  by (simp add: docStep_def)

lemma recordDelivery_outbox: "docStep p (recordDelivery i now failure p)"
  by (rule outboxStep_docStep) (simp add: outboxStep_def sameRest_def recordDelivery_def split: option.split)

lemma deleteNotifications_outbox: "docStep p (deleteNotifications ids p)"
  by (rule outboxStep_docStep) (simp add: outboxStep_def sameRest_def deleteNotifications_def)

lemma deliverLoop_tick: "since (tickGuard c) s u \<Longrightarrow> wp (deliverLoop c now st ids) (\<lambda>r t. since (tickGuard c) s t) u"
proof (induction ids arbitrary: u)
  case Nil
  then show ?case by (simp add: wp_simps)
next
  case (Cons i ids)
  show ?case
    unfolding deliverLoop.simps notifierSend_def
    apply (intro vcg wp_after [OF Cons.IH])
    apply (auto intro: tg.more tg.same Cons simp: recordDelivery_outbox)
    done
qed

lemmas deliverLoop_after = wp_after [OF deliverLoop_tick]

lemma deliver_tick: "safely (tickGuard c) (deliverNotifications c) s"
  unfolding deliverNotifications_def
  by (intro vcg deliverLoop_after) (simp_all add: since_simp since_same deleteNotifications_outbox)

section \<open>Tick\<close>

lemmas reconcileZone_after = tg.run [OF _ reconcileZone_tick]

lemma tickZones_tick:
  assumes "since (tickGuard c) s u" "wfState (sysState s)" "rangesAll c"
  shows "wp (tickZones c st zs) (\<lambda>r t. since (tickGuard c) s t) u"
  using assms(1)
proof (induction zs arbitrary: u)
  case Nil
  then show ?case by (simp add: wp_simps)
next
  case (Cons z zs)
  show ?case
    unfolding tickZones.simps
    apply (intro vcg wp_after [OF Cons.IH] reconcileZone_after)
    apply (use assms(2,3) Cons.prems in \<open>auto simp: skipZone_def intro: since_wf\<close>)
    done
qed

lemma blockVanished_tick:
  assumes "since (tickGuard c) s u"
  shows "wp (blockVanished c seen ws) (\<lambda>r t. since (tickGuard c) s t) u"
  using assms
proof (induction ws arbitrary: u)
  case Nil
  then show ?case by (simp add: wp_simps)
next
  case (Cons w ws)
  show ?case
    unfolding blockVanished.simps
    apply (intro vcg wp_after [OF Cons.IH])
    apply (use Cons.prems in \<open>auto intro: tg.more tg.same simp: docStep_block\<close>)
    done
qed

lemma Tick_tick:
  assumes "wfState (sysState s)" "rangesAll c"
  shows "safely (tickGuard c) (Tick c) s"
  unfolding Tick_def listZones_def
  apply (intro vcg wp_after [OF deliver_tick] wp_after [OF tickZones_tick] wp_after [OF blockVanished_tick])
  apply (use assms in \<open>auto intro: since_call simp: since_simp\<close>)
  done

end
