(* ===== verification/Operations.thy ===== *)
theory Operations
  imports Reconcile
begin

text \<open>
  The requests of the operator in \<open>internal/controller/controller.go\<close> that change the state
  document: \<open>ArmEnrollment\<close>, \<open>Trigger\<close>, \<open>Resume\<close> and \<open>ReconcileSplitSignerTransition\<close>. None
  of them writes to PowerDNS or to the registrar; each ends in one update of the document
  under an idempotency key.
\<close>

section \<open>Common parts\<close>

text \<open>\<open>strings.TrimSuffix(strings.ToLower(strings.TrimSpace(x)), ".")\<close>, sorted and compacted\<close>

definition normalizeZone :: "string \<Rightarrow> string" where
  "normalizeZone x = trimSuffix (toLower (trimSpace x)) ''.''"

definition normalizeZones :: "string list \<Rightarrow> string list" where
  "normalizeZones zones = sortCompact (map normalizeZone zones)"

definition idemLengthOk :: "string \<Rightarrow> bool" where
  "idemLengthOk idem \<longleftrightarrow> 16 \<le> length idem \<and> length idem \<le> 128"

text \<open>
  \<open>if existing, ok := m[idem]; ok { if existing == fingerprint { return nil }; return err }\<close>;
  \<open>again\<close> is the early return without error.
\<close>

definition idempotent ::
  "(string \<times> string) list \<Rightarrow> string \<Rightarrow> string \<Rightarrow> msg \<Rightarrow> ('w, 'a) io \<Rightarrow> ('w, 'a) io \<Rightarrow> ('w, 'a) io" where
  "idempotent m idem fingerprint conflict again go =
     (case mget m idem of
        None \<Rightarrow> go
      | Some existing \<Rightarrow> if existing = fingerprint then again else throw (Fmt conflict []))"

definition recordIdem :: "string \<Rightarrow> string \<Rightarrow> state \<Rightarrow> state" where
  "recordIdem idem fingerprint s = s\<lparr>sIdempotency := mput idem fingerprint (sIdempotency s)\<rparr>"

section \<open>ArmEnrollment\<close>

definition baselineWorkflow :: "zone \<Rightarrow> time \<Rightarrow> workflow" where
  "baselineWorkflow zone now =
     zeroWorkflow\<lparr>wZone := zName zone, wZoneID := zID zone, wKind := KindEnroll, wPhase := PhaseIdle,
       wLastCompletedAt := now, wEnrollmentDisposition := ''baseline''\<rparr>"

fun baselineZones :: "zone list \<Rightarrow> time \<Rightarrow> state \<Rightarrow> state" where
  "baselineZones [] now s = s"
| "baselineZones (z # zs) now s =
     baselineZones zs now
       (if \<not> zDNSSEC z then s
        else addIfMissing (workflowKey (zName z) KindEnroll) (baselineWorkflow z now) s)"

definition armState :: "zone list \<Rightarrow> time \<Rightarrow> string \<Rightarrow> state \<Rightarrow> state" where
  "armState zones now idem s =
     recordIdem idem ''enrollment-arm'' ((baselineZones zones now s)\<lparr>sEnrollmentArmedAt := now\<rparr>)"

definition ArmEnrollment :: "'w controller \<Rightarrow> string \<Rightarrow> ('w, unit) io" where
  "ArmEnrollment c idem =
     (if cfMode (cfg c) \<noteq> ''enforce'' then throw (Fmt ObserveMode [])
      else if \<not> ecEnabled (cfEnrollment (cfg c)) \<or> ecScope (cfEnrollment (cfg c)) \<noteq> ''all_selected''
      then throw (Fmt EnrollNotEnabled [])
      else if \<not> idemLengthOk idem then throw (Fmt IdemLength [])
      else bind snapshot (\<lambda>st.
        idempotent (sIdempotency st) idem ''enrollment-arm'' IdemReused (ret ())
          (if \<not> timeIsZero (sEnrollmentArmedAt st) then throw (Fmt AlreadyArmed [])
           else bind (listZones c) (\<lambda>zones.
                bind (clockNow c) (\<lambda>now.
                storeUpdate c (\<lambda>s.
                  if \<not> timeIsZero (sEnrollmentArmedAt s) then throw (Fmt AlreadyArmed [])
                  else ret (armState zones now idem s)))))))"

section \<open>Trigger\<close>

definition triggerFingerprint :: "kind \<Rightarrow> string list \<Rightarrow> string" where
  "triggerFingerprint kind normalized = kindStr kind @ ''|'' @ strJoin '','' normalized"

text \<open>The map \<open>byName\<close> from zone names, with and without the last dot\<close>

fun zonesByName :: "(string \<Rightarrow> string) \<Rightarrow> zone list \<Rightarrow> (string \<times> zone) list \<Rightarrow> (string \<times> zone) list" where
  "zonesByName f [] m = m"
| "zonesByName f (z # zs) m =
     zonesByName f zs (mput (trimSuffix (f (zName z)) ''.'') z (mput (f (zName z)) z m))"

fun triggerZones :: "'w controller \<Rightarrow> kind \<Rightarrow> (string \<times> zone) list \<Rightarrow> string list \<Rightarrow> ('w, string list) io" where
  "triggerZones c kind byName [] = ret []"
| "triggerZones c kind byName (name # names) =
     (case mget byName name of
        None \<Rightarrow> throw (Fmt ZoneAbsent [AStr name])
      | Some z \<Rightarrow>
          if \<not> zDNSSEC z then throw (Fmt ZoneAbsent [AStr name])
          else if \<not> selected c (zName z) then throw (Fmt ZoneOutsideScope [AStr name])
          else bind (listKeys c (zID z)) (\<lambda>keys.
            let scheme = keyScheme keys
            in if kind = KindSplit \<and> scheme \<noteq> ''csk'' then throw (Fmt NotCSKZone [AStr name])
               else if kind \<noteq> KindSplit \<and> scheme \<noteq> ''split'' then throw (Fmt NotSplitZone [AStr name])
               else bind (triggerZones c kind byName names) (\<lambda>rest. ret (zName z # rest))))"

text \<open>The loop that refuses zones with an active workflow\<close>

fun noneActive :: "'w controller \<Rightarrow> state \<Rightarrow> string list \<Rightarrow> ('w, unit) io" where
  "noneActive c s [] = ret ()"
| "noneActive c s (zone # zones) =
     bind (rangeWorkflows c s) (\<lambda>ws.
       case find (\<lambda>w. wZone w = zone \<and> workflowActive w) ws of
         Some w \<Rightarrow> throw (Fmt ZoneHasActive [AStr zone, AStr (kindStr (wKind w))])
       | None \<Rightarrow> noneActive c s zones)"

fun triggerState :: "kind \<Rightarrow> time \<Rightarrow> string \<Rightarrow> string list \<Rightarrow> state \<Rightarrow> state" where
  "triggerState kind now idem [] s = s"
| "triggerState kind now idem (zone # zones) s =
     (let k = workflowKey zone kind;
          w = (getWorkflow s k)\<lparr>wZone := zone, wKind := kind\<rparr>
      in triggerState kind now idem zones (putWorkflow k (startedWorkflow w now True idem) s))"

definition Trigger :: "'w controller \<Rightarrow> kind \<Rightarrow> string list \<Rightarrow> string \<Rightarrow> ('w, unit) io" where
  "Trigger c kind zones idem =
     (if cfMode (cfg c) \<noteq> ''enforce'' then throw (Fmt ObserveMode [])
      else if \<not> idemLengthOk idem then throw (Fmt IdemLength [])
      else let normalized = normalizeZones zones; fingerprint = triggerFingerprint kind normalized
      in bind snapshot (\<lambda>st.
         idempotent (sIdempotency st) idem fingerprint IdemReused (ret ())
           (bind (listZones c) (\<lambda>available.
            bind (triggerZones c kind (zonesByName (\<lambda>x. x) available []) normalized) (\<lambda>canonical.
            bind (clockNow c) (\<lambda>now.
            storeUpdate c (\<lambda>s.
              idempotent (sIdempotency s) idem fingerprint IdemConflict (ret s)
                (bind (noneActive c s canonical) (\<lambda>_.
                 ret (recordIdem idem fingerprint (triggerState kind now idem canonical s)))))))))))"

section \<open>Resume\<close>

definition resumeFingerprint :: "kind \<Rightarrow> phase \<Rightarrow> string list \<Rightarrow> string" where
  "resumeFingerprint kind phase normalized =
     ''resume|'' @ kindStr kind @ ''|'' @ phaseStr phase @ ''|'' @ strJoin '','' normalized"

text \<open>The checks on the recorded workflow that \<open>Resume\<close> makes before it reads the keys\<close>

definition resumableWorkflow :: "string \<Rightarrow> workflow option \<Rightarrow> err + workflow" where
  "resumableWorkflow name found =
     (case found of
        None \<Rightarrow> Inl (Fmt NoBlockedSplit [AStr name])
      | Some w \<Rightarrow>
          if wPhase w \<noteq> PhaseBlocked then Inl (Fmt NoBlockedSplit [AStr name])
          else if wParentMode w \<noteq> parentModeInitial \<or> wOldKeyID w = 0 \<or> wNewKeyID w = 0 \<or> wNewZSKID w = 0
          then Inl (Fmt NotInitialSplit [AStr name])
          else if wOldKeyID w = wNewKeyID w \<or> wOldKeyID w = wNewZSKID w \<or> wNewKeyID w = wNewZSKID w
          then Inl (Fmt ZoneIdsNotDistinct [AStr name])
          else if \<not> timeIsZero (wRegistrarAttemptedAt w) \<or> wRegistrarJobID w \<noteq> 0 \<or> wRegistrarCTID w \<noteq> []
                  \<or> wRegistrarSTID w \<noteq> [] \<or> wRegistrarJobStatus w \<noteq> []
          then Inl (Fmt RegistrarAttempted [AStr name])
          else Inr w)"

fun resumeZones ::
  "'w controller \<Rightarrow> kind \<Rightarrow> state \<Rightarrow> (string \<times> zone) list \<Rightarrow> string list \<Rightarrow> ('w, (string \<times> workflow) list) io" where
  "resumeZones c kind st byName [] = ret []"
| "resumeZones c kind st byName (name # names) =
     (case mget byName name of
        None \<Rightarrow> throw (Fmt ZoneAbsent [AStr name])
      | Some zone \<Rightarrow>
          if \<not> zDNSSEC zone then throw (Fmt ZoneAbsent [AStr name])
          else if \<not> selected c (zName zone) then throw (Fmt ZoneOutsideScope [AStr name])
          else
          bind (pureE (resumableWorkflow name (mget (sWorkflows st) (workflowKey (zName zone) kind)))) (\<lambda>w.
          bind (listKeys c (zID zone)) (\<lambda>keys.
          case validatePrepublishInventory (libNewRR c) (zName zone) keys w of
            Some e \<Rightarrow> throw (Wrap InventoryNotResumable [AStr name] e)
          | None \<Rightarrow>
            bind (domainDNSSEC c (zName zone)) (\<lambda>remote.
            if dsEnabled remote \<or> dsData remote \<noteq> [] then throw (Fmt RegistrarNotEmpty [AStr name])
            else
            bind (wrapErr (Wrap NoDSNotProven [AStr name]) (NoDSEvidence c (zName zone))) (\<lambda>_.
            bind (resumeZones c kind st byName names) (\<lambda>rest. ret ((zName zone, w) # rest)))))))"

definition unchangedForResume :: "kind \<Rightarrow> state \<Rightarrow> string \<times> workflow \<Rightarrow> bool" where
  "unchangedForResume kind s item \<longleftrightarrow>
     (case mget (sWorkflows s) (workflowKey (fst item) kind) of
        None \<Rightarrow> False
      | Some current \<Rightarrow> wPhase current = PhaseBlocked \<and> wOldKeyID current = wOldKeyID (snd item)
          \<and> wNewKeyID current = wNewKeyID (snd item) \<and> wNewZSKID current = wNewZSKID (snd item))"

definition resumedWorkflow :: "time \<Rightarrow> workflow \<Rightarrow> workflow" where
  "resumedWorkflow now w =
     w\<lparr>wPhase := PhaseWaitPublish, wPhaseStartedAt := now, wNextActionAt := now, wEvidenceAt := 0,
       wDNSKEYTTL := 0, wLastError := None, wAttempts := 0\<rparr>"

fun resumeState :: "kind \<Rightarrow> time \<Rightarrow> (string \<times> workflow) list \<Rightarrow> state \<Rightarrow> state" where
  "resumeState kind now [] s = s"
| "resumeState kind now (item # items) s =
     (let key = workflowKey (fst item) kind
      in resumeState kind now items (putWorkflow key (resumedWorkflow now (getWorkflow s key)) s))"

definition Resume :: "'w controller \<Rightarrow> kind \<Rightarrow> string list \<Rightarrow> phase \<Rightarrow> string \<Rightarrow> ('w, unit) io" where
  "Resume c kind zones phase idem =
     (if cfMode (cfg c) \<noteq> ''enforce'' then throw (Fmt ObserveMode [])
      else if kind \<noteq> KindSplit \<or> phase \<noteq> PhaseWaitPublish then throw (Fmt OnlySplitResume [])
      else if \<not> idemLengthOk idem then throw (Fmt IdemLength [])
      else let normalized = normalizeZones zones; fingerprint = resumeFingerprint kind phase normalized
      in if length normalized = 0 \<or> length normalized > 100 then throw (Fmt ZoneCount [])
      else bind snapshot (\<lambda>st.
         idempotent (sIdempotency st) idem fingerprint IdemReused (ret ())
           (bind (listZones c) (\<lambda>available.
            bind (resumeZones c kind st (zonesByName toLower available []) normalized) (\<lambda>recoveries.
            bind (clockNow c) (\<lambda>now.
            storeUpdate c (\<lambda>s.
              idempotent (sIdempotency s) idem fingerprint IdemConflict (ret s)
                (case find (\<lambda>item. \<not> unchangedForResume kind s item) recoveries of
                   Some item \<Rightarrow> throw (Fmt ChangedDuringResume [AStr (fst item)])
                 | None \<Rightarrow> ret (recordIdem idem fingerprint (resumeState kind now recoveries s))))))))))"

section \<open>ReconcileSplitSignerTransition\<close>

text \<open>The checks on the recorded workflow before any live evidence is collected\<close>

definition attestableWorkflow :: "string \<Rightarrow> workflow option \<Rightarrow> err + workflow" where
  "attestableWorkflow name found =
     (case found of
        None \<Rightarrow> Inl (Fmt NotInWaitNewSignature [AStr name])
      | Some w \<Rightarrow>
          if wPhase w \<noteq> PhaseWaitNewSignature then Inl (Fmt NotInWaitNewSignature [AStr name])
          else if wParentMode w \<noteq> parentModeInitial \<or> wOldKeyID w = 0 \<or> wNewKeyID w = 0 \<or> wNewZSKID w = 0
          then Inl (Fmt NotInitialSplit [AStr name])
          else if wOldKeyID w = wNewKeyID w \<or> wOldKeyID w = wNewZSKID w \<or> wNewKeyID w = wNewZSKID w
          then Inl (Fmt ZoneIdsNotDistinct [AStr name])
          else if timeIsZero (wRegistrarAttemptedAt w) \<or> wRegistrarCTID w = []
          then Inl (Fmt NoRegistrarTransaction [AStr name])
          else if \<not> timeIsZero (wSplitSignerTransitionAt w) then Inl (Fmt AlreadyAttested [AStr name])
          else Inr w)"

definition unchangedForAttest :: "workflow \<Rightarrow> workflow option \<Rightarrow> bool" where
  "unchangedForAttest w found \<longleftrightarrow>
     (case found of
        None \<Rightarrow> False
      | Some current \<Rightarrow> wPhase current = PhaseWaitNewSignature \<and> wOldKeyID current = wOldKeyID w
          \<and> wNewKeyID current = wNewKeyID w \<and> wNewZSKID current = wNewZSKID w
          \<and> timeIsZero (wSplitSignerTransitionAt current))"

definition attestedWorkflow :: "'w controller \<Rightarrow> time \<Rightarrow> int \<Rightarrow> workflow \<Rightarrow> workflow" where
  "attestedWorkflow c now ttl current =
     current\<lparr>wSplitSignerTransitionAt := now, wEvidenceAt := now, wZoneTTL := ttl,
       wNextActionAt := timeAdd now (zoneWait c ttl), wLastError := None, wAttempts := 0\<rparr>"

definition attest :: "'w controller \<Rightarrow> zone \<Rightarrow> string \<Rightarrow> string \<Rightarrow> string \<Rightarrow> workflow \<Rightarrow> ('w, unit) io" where
  "attest c zone name idem fingerprint w =
     bind (listKeys c (zID zone)) (\<lambda>keys.
     bind (wrapErr (Wrap CannotReconcile [AStr name])
             (validateSplitSignerTransitionEvidence c zone keys w)) (\<lambda>ttl0.
     let ttl = (if wZoneTTL w > ttl0 then wZoneTTL w else ttl0)
     in bind (clockNow c) (\<lambda>now.
        storeUpdate c (\<lambda>s.
          idempotent (sIdempotency s) idem fingerprint IdemConflict (ret s)
            (let key = workflowKey (zName zone) KindSplit
             in if \<not> unchangedForAttest w (mget (sWorkflows s) key)
                then throw (Fmt ChangedDuringReconcile [AStr (zName zone)])
                else ret (recordIdem idem fingerprint
                  (putWorkflow key (attestedWorkflow c now ttl (getWorkflow s key)) s)))))))"

definition ReconcileSplitSignerTransition :: "'w controller \<Rightarrow> string \<Rightarrow> string \<Rightarrow> ('w, unit) io" where
  "ReconcileSplitSignerTransition c requestedZone idem =
     (if cfMode (cfg c) \<noteq> ''enforce'' then throw (Fmt ObserveMode [])
      else if \<not> idemLengthOk idem then throw (Fmt IdemLength [])
      else let name = normalizeZone requestedZone; fingerprint = ''reconcile-split-signer|'' @ name
      in if name = [] then throw (Fmt OneZoneRequired [])
      else bind snapshot (\<lambda>st.
         idempotent (sIdempotency st) idem fingerprint IdemReused (ret ())
           (bind (listZones c) (\<lambda>available.
            case find (\<lambda>z. bareZone (zName z) = name) available of
              None \<Rightarrow> throw (Fmt ZoneAbsent [AStr name])
            | Some zone \<Rightarrow>
                if zName zone = [] \<or> \<not> zDNSSEC zone then throw (Fmt ZoneAbsent [AStr name])
                else if \<not> selected c (zName zone) then throw (Fmt ZoneOutsideScope [AStr name])
                else bind (pureE (attestableWorkflow name
                             (mget (sWorkflows st) (workflowKey (zName zone) KindSplit)))) (\<lambda>w.
                     attest c zone name idem fingerprint w)))))"

end
