(* ===== verification/Views.thy ===== *)
theory Views
  imports Reconcile
begin

text \<open>
  The read-only requests of \<open>internal/controller/controller.go\<close>: \<open>Plan\<close>, \<open>Zones\<close>, \<open>Status\<close> and
  \<open>Audit\<close>. \<open>slices.SortFunc\<close> is the stable sort here; entries it compares as equal have the
  same zone (and kind), and their order is not specified by Go.
\<close>

section \<open>Plan\<close>

record rotationPlan =
  rpKind :: kind
  rpZones :: "string list"
  rpMutations :: "string list"

definition planMutations :: "kind \<Rightarrow> string list" where
  "planMutations kind =
     (case kind of
        KindZSK \<Rightarrow> [''publish inactive ZSK'', ''observe and wait authoritative DNSKEY TTL'',
          ''activate new ZSK'', ''cryptographically prove new zone signatures'', ''deactivate old ZSK'',
          ''wait persisted pre-switch zone TTL'', ''delete old ZSK'']
      | KindKSK \<Rightarrow> [''publish active KSK and prove double DNSKEY signatures'',
          ''observe and wait authoritative DNSKEY TTL'', ''replace InternetX material with new-only KSK'',
          ''observe authoritative parent and wait full DS TTL'',
          ''verify exact new-only DS through validating resolvers'', ''deactivate and delete old KSK'']
      | KindSplit \<Rightarrow> [''publish active KSK and inactive ZSK'', ''prove and wait DNSKEY propagation'',
          ''replace parent material and wait DS TTL'',
          ''activate ZSK and prove overlapping CSK/ZSK signatures'',
          ''wait zone TTL, deactivate CSK, wait zone TTL again'', ''verify and delete CSK'']
      | _ \<Rightarrow> [])"

definition Plan :: "kind \<Rightarrow> string list \<Rightarrow> rotationPlan" where
  "Plan kind zones = \<lparr>rpKind = kind, rpZones = zones, rpMutations = planMutations kind\<rparr>"

section \<open>Zones\<close>

record zoneStatus =
  zsZone :: string
  zsDNSSEC :: bool
  zsScheme :: string
  zsManaged :: bool
  zsEnrollmentStatus :: string
  zsBlockedReason :: "err option"
  zsWorkflows :: "workflow list"

text \<open>The switch over the phase of an enrollment; the other phases leave the status alone.\<close>

definition enrollmentStatus :: "workflow \<Rightarrow> string \<Rightarrow> string" where
  "enrollmentStatus w old =
     (case wPhase w of
        PhaseIdle \<Rightarrow> if wEnrollmentDisposition w = [] then ''managed'' else wEnrollmentDisposition w
      | PhaseEnrollDiscovered \<Rightarrow> ''candidate''
      | PhaseEnrollWaitPublish \<Rightarrow> ''waiting''
      | PhaseEnrollParentAdd \<Rightarrow> ''registrar_pending''
      | PhaseEnrollWaitParent \<Rightarrow> ''parent_wait''
      | PhaseBlocked \<Rightarrow> ''blocked''
      | _ \<Rightarrow> old)"

fun describeZone :: "string \<Rightarrow> workflow list \<Rightarrow> zoneStatus \<Rightarrow> zoneStatus" where
  "describeZone name [] zs = zs"
| "describeZone name (w # ws) zs =
     describeZone name ws
      (if wZone w \<noteq> name then zs
       else
        (let zs1 = zs\<lparr>zsWorkflows := zsWorkflows zs @ [w]\<rparr>;
             zs2 = (if wKind w = KindEnroll
                    then zs1\<lparr>zsManaged := wPhase w = PhaseIdle \<and> wEnrollmentDisposition w \<noteq> ''ineligible'',
                             zsEnrollmentStatus := enrollmentStatus w (zsEnrollmentStatus zs1)\<rparr>
                    else zs1)
         in if wPhase w = PhaseBlocked then zs2\<lparr>zsBlockedReason := wLastError w\<rparr> else zs2))"

definition shownZone :: "'w controller \<Rightarrow> state \<Rightarrow> zone \<Rightarrow> bool" where
  "shownZone c st z \<longleftrightarrow>
     (let enrollment = getWorkflow st (workflowKey (zName z) KindEnroll)
      in (zDNSSEC z \<and> selected c (zName z)) \<or> workflowActive enrollment \<or> wPhase enrollment = PhaseBlocked)"

definition zoneView :: "string \<Rightarrow> key list \<Rightarrow> workflow list \<Rightarrow> zoneStatus" where
  "zoneView name keys ws =
     (let scheme = keyScheme keys;
          zs = describeZone name ws
            \<lparr>zsZone = name, zsDNSSEC = True, zsScheme = scheme, zsManaged = False,
             zsEnrollmentStatus = ''disarmed'',
             zsBlockedReason = (if scheme = ''csk'' then Some (Fmt MigrationRequired []) else None),
             zsWorkflows = []\<rparr>
      in zs\<lparr>zsWorkflows := sort_key (\<lambda>w. kindStr (wKind w)) (zsWorkflows zs)\<rparr>)"

fun zoneViews :: "'w controller \<Rightarrow> state \<Rightarrow> zone list \<Rightarrow> ('w, zoneStatus list) io" where
  "zoneViews c st [] = ret []"
| "zoneViews c st (z # zs) =
     (if \<not> shownZone c st z then zoneViews c st zs
      else bind (listKeys c (zID z)) (\<lambda>keys.
           bind (rangeWorkflows c st) (\<lambda>ws.
           bind (zoneViews c st zs) (\<lambda>rest. ret (zoneView (zName z) keys ws # rest)))))"

text \<open>Active enrollments of zones that are not listed any more\<close>

definition vanishedViews :: "string list \<Rightarrow> workflow list \<Rightarrow> zoneStatus list" where
  "vanishedViews seen ws =
     map (\<lambda>w. \<lparr>zsZone = wZone w, zsDNSSEC = False, zsScheme = ''unknown'', zsManaged = False,
               zsEnrollmentStatus = (if wPhase w \<noteq> PhaseBlocked then ''candidate'' else ''blocked''),
               zsBlockedReason = wLastError w, zsWorkflows = [w]\<rparr>)
       (filter (\<lambda>w. wKind w = KindEnroll \<and> workflowActive w \<and> wZone w \<notin> set seen) ws)"

definition Zones :: "'w controller \<Rightarrow> ('w, zoneStatus list) io" where
  "Zones c =
     bind (listZones c) (\<lambda>zones.
     bind snapshot (\<lambda>st.
     bind (zoneViews c st zones) (\<lambda>out.
     bind (rangeWorkflows c st) (\<lambda>ws.
     ret (sort_key zsZone (out @ vanishedViews (map zName (filter (shownZone c st) zones)) ws))))))"

section \<open>Status\<close>

record controllerStatus =
  stMode :: string
  stReady :: bool
  stZones :: nat
  stBlocked :: nat
  stEnrollmentArmed :: bool
  stEnrolling :: nat
  stManaged :: nat
  stPendingNotifications :: nat

definition Status :: "'w controller \<Rightarrow> ('w, controllerStatus) io" where
  "Status c =
     bind (Zones c) (\<lambda>z.
     bind snapshot (\<lambda>st.
     let enrollments = filter (\<lambda>w. wKind w = KindEnroll) (mvals (sWorkflows st))
     in ret \<lparr>stMode = cfMode (cfg c), stReady = True, stZones = length z,
          stBlocked = length (filter (\<lambda>x. zsBlockedReason x \<noteq> None) z),
          stEnrollmentArmed = (\<not> timeIsZero (sEnrollmentArmedAt st)),
          stEnrolling = length (filter workflowActive enrollments),
          stManaged = length (filter (\<lambda>w. \<not> workflowActive w \<and> wEnrollmentDisposition w \<noteq> ''ineligible'') enrollments),
          stPendingNotifications = length (filter (\<lambda>n. timeIsZero (nDeliveredAt n)) (mvals (sNotifications st)))\<rparr>))"

section \<open>Audit\<close>

record auditResult =
  arZone :: string
  arScheme :: string
  arRegistrarMatch :: bool
  arError :: "err option"

text \<open>One zone; an error ends its entry, not the audit.\<close>

definition auditKeys :: "'w controller \<Rightarrow> zone \<Rightarrow> string \<Rightarrow> key list \<Rightarrow> ('w, bool) io" where
  "auditKeys c z scheme keys =
     bind (pureE (exactlyOneActive keys (if scheme = ''csk'' then ''csk'' else ''ksk''))) (\<lambda>k.
     bind (pureE (DNSSECDataForKey (libNewRR c) (zName z) k)) (\<lambda>expected.
     bind (domainDNSSEC c (zName z)) (\<lambda>remote.
     ret (dsEnabled remote \<and> sameMaterial (dsData remote) [expected]))))"

definition auditZone :: "'w controller \<Rightarrow> zone \<Rightarrow> ('w, auditResult) io" where
  "auditZone c z =
     bind (attempt (listKeys c (zID z))) (\<lambda>r.
     case r of
       Inl e \<Rightarrow> ret \<lparr>arZone = zName z, arScheme = [], arRegistrarMatch = False, arError = Some e\<rparr>
     | Inr keys \<Rightarrow>
         (let scheme = keyScheme keys
          in bind (attempt (auditKeys c z scheme keys)) (\<lambda>m.
             ret (case m of
               Inl e \<Rightarrow> \<lparr>arZone = zName z, arScheme = scheme, arRegistrarMatch = False, arError = Some e\<rparr>
             | Inr same \<Rightarrow> \<lparr>arZone = zName z, arScheme = scheme, arRegistrarMatch = same,
                          arError = (if same then None else Some (Fmt MaterialDiffers []))\<rparr>))))"

fun auditZones :: "'w controller \<Rightarrow> zone list \<Rightarrow> ('w, auditResult list) io" where
  "auditZones c [] = ret []"
| "auditZones c (z # zs) =
     (if \<not> zDNSSEC z \<or> \<not> selected c (zName z) then auditZones c zs
      else bind (auditZone c z) (\<lambda>r. bind (auditZones c zs) (\<lambda>rest. ret (r # rest))))"

definition Audit :: "'w controller \<Rightarrow> ('w, auditResult list) io" where
  "Audit c = bind (listZones c) (\<lambda>zones. bind (auditZones c zones) (\<lambda>out. ret (sort_key arZone out)))"

end
