(* ===== verification/Control.thy ===== *)
theory Control
  imports Operations Views
begin

text \<open>
  The control API on the Unix socket: the handlers of \<open>internal/control/server.go\<close>, and the
  requests that the commands of \<open>cmd/dnssecctl/main.go\<close> build for them. A request carries
  its body already decoded, or the error of the JSON decoder; the transport is left out.
\<close>

section \<open>Requests and responses\<close>

record rotationRequest =
  rqKind :: kind
  rqZones :: "string list"
  rqConfirm :: bool

record resumeRequest =
  rsKind :: kind
  rsZones :: "string list"
  rsPhase :: phase
  rsConfirm :: bool

record splitSignerTransitionRequest =
  ssZone :: string
  ssConfirm :: bool

record armEnrollmentRequest =
  aeConfirm :: bool

text \<open>The routes of \<open>New\<close>; the last argument of a POST is the \<open>Idempotency-Key\<close> header.\<close>

datatype (plugins only: code size) httpRequest =
    GetHealthz | GetReadyz | GetStatus | GetZones | GetAudit
  | PostPlan "err + rotationRequest"
  | PostTrigger "err + rotationRequest" string
  | PostResume "err + resumeRequest" string
  | PostReconcileSplitSigner "err + splitSignerTransitionRequest" string
  | PostArmEnrollment "err + armEnrollmentRequest" string

datatype (plugins only: code size) body =
    BodyStatus string
  | BodyError err
  | BodyController controllerStatus
  | BodyZones "zoneStatus list"
  | BodyAudit "auditResult list"
  | BodyPlan rotationPlan

type_synonym response = "int \<times> body"

definition writeError :: "int \<Rightarrow> err \<Rightarrow> response" where
  "writeError status e = (status, BodyError e)"

section \<open>Handlers\<close>

definition decode :: "err + rotationRequest \<Rightarrow> err + rotationRequest" where
  "decode body =
     (case body of
        Inl e \<Rightarrow> Inl e
      | Inr req \<Rightarrow>
          if rqKind req \<noteq> KindZSK \<and> rqKind req \<noteq> KindKSK \<and> rqKind req \<noteq> KindSplit
          then Inl (Fmt KindRequired [])
          else if length (rqZones req) = 0 then Inl (Fmt ZoneRequired [])
          else if length (rqZones req) > 100 then Inl (Fmt TooManyZones [])
          else Inr req)"

text \<open>\<open>if err := op; err != nil { writeError(...); return }; writeJSON(...)\<close>\<close>

definition respond :: "int \<Rightarrow> int \<Rightarrow> ('a \<Rightarrow> body) \<Rightarrow> ('w, 'a) io \<Rightarrow> ('w, response) io" where
  "respond failure success f m =
     bind (attempt m) (\<lambda>r. ret (case r of Inl e \<Rightarrow> writeError failure e | Inr x \<Rightarrow> (success, f x)))"

definition armEnrollment :: "'w controller \<Rightarrow> err + armEnrollmentRequest \<Rightarrow> string \<Rightarrow> ('w, response) io" where
  "armEnrollment c body key =
     (case body of
        Inl e \<Rightarrow> ret (writeError 400 e)
      | Inr req \<Rightarrow>
          if \<not> aeConfirm req then ret (writeError 400 (Fmt ConfirmRequired []))
          else respond 409 202 (\<lambda>_. BodyStatus ''armed'') (ArmEnrollment c (trimSpace key)))"

definition planHandler :: "err + rotationRequest \<Rightarrow> ('w, response) io" where
  "planHandler body =
     (case decode body of
        Inl e \<Rightarrow> ret (writeError 400 e)
      | Inr req \<Rightarrow> ret (200, BodyPlan (Plan (rqKind req) (rqZones req))))"

definition triggerHandler :: "'w controller \<Rightarrow> err + rotationRequest \<Rightarrow> string \<Rightarrow> ('w, response) io" where
  "triggerHandler c body key =
     (case decode body of
        Inl e \<Rightarrow> ret (writeError 400 e)
      | Inr req \<Rightarrow>
          if \<not> rqConfirm req then ret (writeError 400 (Fmt ConfirmRequired []))
          else respond 409 202 (\<lambda>_. BodyStatus ''accepted'')
                 (Trigger c (rqKind req) (rqZones req) (trimSpace key)))"

definition resumeHandler :: "'w controller \<Rightarrow> err + resumeRequest \<Rightarrow> string \<Rightarrow> ('w, response) io" where
  "resumeHandler c body key =
     (case body of
        Inl e \<Rightarrow> ret (writeError 400 e)
      | Inr req \<Rightarrow>
          if rsKind req \<noteq> KindSplit \<or> rsPhase req \<noteq> PhaseWaitPublish
          then ret (writeError 400 (Fmt OnlySplitResume []))
          else if length (rsZones req) = 0 \<or> length (rsZones req) > 100
          then ret (writeError 400 (Fmt ZoneCount []))
          else if \<not> rsConfirm req then ret (writeError 400 (Fmt ConfirmRequired []))
          else respond 409 202 (\<lambda>_. BodyStatus ''accepted'')
                 (Resume c (rsKind req) (rsZones req) (rsPhase req) (trimSpace key)))"

definition reconcileSplitSigner ::
  "'w controller \<Rightarrow> err + splitSignerTransitionRequest \<Rightarrow> string \<Rightarrow> ('w, response) io" where
  "reconcileSplitSigner c body key =
     (case body of
        Inl e \<Rightarrow> ret (writeError 400 e)
      | Inr req \<Rightarrow>
          if trimSpace (ssZone req) = [] then ret (writeError 400 (Fmt OneZoneRequired []))
          else if \<not> ssConfirm req then ret (writeError 400 (Fmt ConfirmRequired []))
          else respond 409 202 (\<lambda>_. BodyStatus ''attested'')
                 (ReconcileSplitSignerTransition c (ssZone req) (trimSpace key)))"

definition serve :: "'w controller \<Rightarrow> httpRequest \<Rightarrow> ('w, response) io" where
  "serve c req =
     (case req of
        GetHealthz \<Rightarrow> ret (200, BodyStatus ''ok'')
      | GetReadyz \<Rightarrow> respond 503 200 BodyController (Status c)
      | GetStatus \<Rightarrow> respond 502 200 BodyController (Status c)
      | GetZones \<Rightarrow> respond 502 200 BodyZones (Zones c)
      | GetAudit \<Rightarrow> respond 502 200 BodyAudit (Audit c)
      | PostPlan body \<Rightarrow> planHandler body
      | PostTrigger body key \<Rightarrow> triggerHandler c body key
      | PostResume body key \<Rightarrow> resumeHandler c body key
      | PostReconcileSplitSigner body key \<Rightarrow> reconcileSplitSigner c body key
      | PostArmEnrollment body key \<Rightarrow> armEnrollment c body key)"

section \<open>The commands of dnssecctl\<close>

definition kindOfStr :: "string \<Rightarrow> kind" where
  "kindOfStr s =
     (if s = ''zsk'' then KindZSK else if s = ''ksk'' then KindKSK else if s = ''split'' then KindSplit
      else if s = ''enroll'' then KindEnroll else KindOther s)"

definition parseKind :: "string \<Rightarrow> err + kind" where
  "parseKind v =
     (let k = kindOfStr (toLower v)
      in if k \<noteq> KindZSK \<and> k \<noteq> KindKSK \<and> k \<noteq> KindSplit then Inl (Fmt KindRequired []) else Inr k)"

fun strSplit :: "char \<Rightarrow> string \<Rightarrow> string \<Rightarrow> string list" where
  "strSplit sep acc [] = [rev acc]"
| "strSplit sep acc (ch # s) = (if ch = sep then rev acc # strSplit sep [] s else strSplit sep (ch # acc) s)"

definition cliZones :: "string list \<Rightarrow> string list" where
  "cliZones z = filter (\<lambda>v. v \<noteq> []) (map trimSpace (concat (map (strSplit (CHR 0x2C) []) z)))"

definition planCmd :: "string \<Rightarrow> string list \<Rightarrow> err + httpRequest" where
  "planCmd kind zones =
     (case parseKind kind of
        Inl e \<Rightarrow> Inl e
      | Inr k \<Rightarrow> Inr (PostPlan (Inr \<lparr>rqKind = k, rqZones = cliZones zones, rqConfirm = False\<rparr>)))"

definition triggerCmd :: "bool \<Rightarrow> string \<Rightarrow> string list \<Rightarrow> string \<Rightarrow> err + httpRequest" where
  "triggerCmd confirm kind zones idem =
     (if \<not> confirm then Inl (Fmt FlagRequired [])
      else case parseKind kind of
        Inl e \<Rightarrow> Inl e
      | Inr k \<Rightarrow> Inr (PostTrigger (Inr \<lparr>rqKind = k, rqZones = cliZones zones, rqConfirm = True\<rparr>) idem))"

definition resumeCmd :: "bool \<Rightarrow> string list \<Rightarrow> string \<Rightarrow> err + httpRequest" where
  "resumeCmd confirm zones idem =
     (if \<not> confirm then Inl (Fmt FlagRequired [])
      else Inr (PostResume (Inr \<lparr>rsKind = KindSplit, rsZones = cliZones zones,
                  rsPhase = PhaseWaitPublish, rsConfirm = True\<rparr>) idem))"

definition reconcileSplitSignerCmd :: "bool \<Rightarrow> string \<Rightarrow> string \<Rightarrow> err + httpRequest" where
  "reconcileSplitSignerCmd confirm zone idem =
     (if \<not> confirm then Inl (Fmt FlagRequired [])
      else Inr (PostReconcileSplitSigner (Inr \<lparr>ssZone = trimSpace zone, ssConfirm = True\<rparr>) idem))"

definition armEnrollmentCmd :: "bool \<Rightarrow> string \<Rightarrow> err + httpRequest" where
  "armEnrollmentCmd confirm idem =
     (if \<not> confirm then Inl (Fmt FlagRequired [])
      else Inr (PostArmEnrollment (Inr \<lparr>aeConfirm = True\<rparr>) idem))"

end
