(* ===== verification/Requests.thy ===== *)
theory Requests
  imports Ticks Control
begin

text \<open>
  What a request at the control API does to the document and to the outside: it only reads
  from the services, and hands at most one document to the store, which is a \<open>requestStep\<close>.
\<close>

section \<open>Reading\<close>

definition isRead :: "event \<Rightarrow> bool" where
  "isRead e \<longleftrightarrow> \<not> isWrite e \<and> \<not> isPersist e \<and> (case e of EvSend n r \<Rightarrow> False | _ \<Rightarrow> True)"

lemma isRead_simps [simp]:
  "isRead (EvListZones r1)" "isRead (EvGetZone zid r2)" "isRead (EvListKeys zid r3)"
  "isRead (EvDomainDNSSEC zn r4)" "isRead (EvJobStatus i r5)" "isRead (EvDNSKEY b zn ks r6)"
  "isRead (EvNoDS zn r7)" "isRead (EvDS zn ks r7)" "isRead (EvAuthDS zn ks r6)"
  "isRead (EvRRSIG b zn k r7)" "isRead (EvDNSKEYRRSIG b zn k r7)" "isRead (EvDelegation zn ns r7)"
  by (simp_all add: isRead_def)

definition quiet :: "'w sys \<Rightarrow> 'w sys \<Rightarrow> bool" where
  "quiet s t \<longleftrightarrow> sysState t = sysState s \<and> (\<exists>es. sysLog t = sysLog s @ es \<and> list_all isRead es)"

lemma quiet_refl [simp]: "quiet s s"
  by (simp add: quiet_def)

lemma quiet_same: "quiet s u \<Longrightarrow> sysState t = sysState u \<Longrightarrow> sysLog t = sysLog u \<Longrightarrow> quiet s t"
  by (simp add: quiet_def)

lemma quiet_read: "quiet s u \<Longrightarrow> sysState t = sysState u \<Longrightarrow> sysLog t = sysLog u @ [e] \<Longrightarrow> isRead e \<Longrightarrow> quiet s t"
  by (auto simp: quiet_def)

lemma quiet_trans: "quiet s t \<Longrightarrow> quiet t u \<Longrightarrow> quiet s u"
  by (auto simp: quiet_def)

lemma quiet_state: "quiet s t \<Longrightarrow> sysState t = sysState s"
  by (simp add: quiet_def)

text \<open>An operation that only reads, whatever the services answer\<close>

definition readonly :: "('w, 'a) io \<Rightarrow> bool" where
  "readonly m \<longleftrightarrow> (\<forall>s. wp m (\<lambda>r t. quiet s t) s)"

named_theorems reads \<open>operations that only read\<close>

lemma readonly_after:
  assumes "readonly m" "quiet s u" "\<And>t e. quiet s t \<Longrightarrow> Q (Inl e) t" "\<And>t x. quiet s t \<Longrightarrow> Q (Inr x) t"
  shows "wp m Q u"
proof (rule wp_mono)
  show "wp m (\<lambda>r t. quiet u t) u"
    using assms(1) by (simp add: readonly_def)
  fix r t
  assume "quiet u t"
  with assms(2) have "quiet s t" by (rule quiet_trans)
  then show "Q r t" by (cases r) (simp_all add: assms(3,4))
qed

lemma readonly_call: "(\<And>r. isRead (ev r)) \<Longrightarrow> readonly (call f ev)"
  unfolding readonly_def by (intro allI vcg) (erule quiet_read [OF quiet_refl], assumption, simp)+

lemma readonly_calls [reads]:
  "readonly (listZones c)" "readonly (listKeys c zid)" "readonly (getZone c zid)" "readonly (domainDNSSEC c zn)"
  "readonly (NoDSEvidence c zn)" "readonly (DSEvidence c zn ks)" "readonly (AuthoritativeDSEvidence c zn ks)"
  "readonly (DNSKEYEvidence c zn ks)" "readonly (RRSIGBy c zn k)" "readonly (DNSKEYRRSIGBy c zn k)"
  "readonly (DelegationEvidence c zn ns)"
  by (simp_all add: op_defs readonly_call)

lemma readonly_basic [reads]:
  "readonly (ret x)" "readonly (throw e)" "readonly (pureE r)" "readonly snapshot" "readonly (rangeWorkflows c st)"
  by (simp_all add: readonly_def wp_simps)

lemma readonly_clock [reads]: "readonly (clockNow c)"
  unfolding readonly_def by (intro allI vcg) (rule quiet_same [OF quiet_refl])

lemma readonly_bind [reads]:
  assumes "readonly m" "\<And>x. readonly (f x)"
  shows "readonly (bind m f)"
  unfolding readonly_def
  by (intro allI vcg_bind readonly_after [OF assms(1) quiet_refl] vcg_Inl vcg_Inr readonly_after [OF assms(2)])

lemma readonly_attempt [reads]: "readonly m \<Longrightarrow> readonly (attempt m)"
  by (simp add: readonly_def wp_simps)

lemma readonly_wrapErr [reads]: "readonly m \<Longrightarrow> readonly (wrapErr f m)"
  unfolding readonly_def by (intro allI vcg_wrapErr readonly_after [of m]) (auto simp: readonly_def)

lemma readonly_cases [reads]:
  "(b \<Longrightarrow> readonly m) \<Longrightarrow> (\<not> b \<Longrightarrow> readonly n) \<Longrightarrow> readonly (if b then m else n)"
  "(\<And>x. readonly (h x)) \<Longrightarrow> readonly (Let v h)"
  "readonly m \<Longrightarrow> (\<And>y. readonly (f y)) \<Longrightarrow> readonly (case_option m f found)"
  "(\<And>e. readonly (g e)) \<Longrightarrow> (\<And>y. readonly (f y)) \<Longrightarrow> readonly (case_sum g f result)"
  "(\<And>a b. readonly (k a b)) \<Longrightarrow> readonly (case_prod k pair)"
  by (auto split: option.split sum.split prod.split)

section \<open>The requests that only read\<close>

lemma zoneViews_reads [reads]: "readonly (zoneViews c st zs)"
  by (induction zs) (auto intro!: reads)

lemma auditZones_reads [reads]: "readonly (auditZones c zs)"
  by (induction zs) (auto simp: auditZone_def auditKeys_def intro!: reads)

lemma views_read [reads]: "readonly (Zones c)" "readonly (Status c)" "readonly (Audit c)"
  by (auto simp: Status_def Zones_def Audit_def intro!: reads)

lemma evidence_reads [reads]: "readonly (validateSplitSignerTransitionEvidence c zone keys w)"
  unfolding validateSplitSignerTransitionEvidence_def by (intro reads)

lemma triggerZones_reads [reads]: "readonly (triggerZones c k m names)"
  by (induction names) (auto intro!: reads)

lemma resumeZones_reads [reads]: "readonly (resumeZones c k st m names)"
  by (induction names) (auto intro!: reads)

section \<open>Documents written for requests\<close>

text \<open>One change to the workflow of each of several zones\<close>

definition inEach :: "kind \<Rightarrow> (string \<Rightarrow> workflow \<Rightarrow> workflow) \<Rightarrow> string list \<Rightarrow> state \<Rightarrow> state" where
  "inEach k f zones s =
     fold (\<lambda>z s. putWorkflow (workflowKey z k) (f z (getWorkflow s (workflowKey z k))) s) zones s"

definition triggeredWorkflow :: "kind \<Rightarrow> time \<Rightarrow> string \<Rightarrow> string \<Rightarrow> workflow \<Rightarrow> workflow" where
  "triggeredWorkflow k now idem zone w = startedWorkflow (w\<lparr>wZone := zone, wKind := k\<rparr>) now True idem"

lemma triggerState_each: "triggerState k now idem zones s = inEach k (triggeredWorkflow k now idem) zones s"
  by (induction zones arbitrary: s) (simp_all add: inEach_def triggeredWorkflow_def Let_def)

lemma resumeState_each: "resumeState k now items s = inEach k (\<lambda>z. resumedWorkflow now) (map fst items) s"
  by (induction items arbitrary: s) (simp_all add: inEach_def Let_def)

lemma inEach_at:
  assumes "\<And>z w. f z (f z w) = f z w"
  shows "mget (sWorkflows (inEach k f zones s)) (workflowKey z k) =
    (if z \<in> set zones then Some (f z (getWorkflow s (workflowKey z k))) else mget (sWorkflows s) (workflowKey z k))"
proof (induction zones arbitrary: s)
  case (Cons y ys)
  have "inEach k f (y # ys) s = inEach k f ys (putWorkflow (workflowKey y k) (f y (getWorkflow s (workflowKey y k))) s)"
    by (simp add: inEach_def)
  then show ?case
    by (simp only: Cons.IH) (auto simp: mget_putWorkflow getWorkflow_put assms)
qed (simp add: inEach_def)

lemma inEach_other: "j \<notin> (\<lambda>z. workflowKey z k) ` set zones \<Longrightarrow> mget (sWorkflows (inEach k f zones s)) j = mget (sWorkflows s) j"
  unfolding inEach_def by (induction zones arbitrary: s) (simp_all add: mget_putWorkflow)

lemma inEach_rest [simp]:
  "sVersion (inEach k f zones s) = sVersion s" "sNotifications (inEach k f zones s) = sNotifications s"
  "sEnrollmentArmedAt (inEach k f zones s) = sEnrollmentArmedAt s" "sIdempotency (inEach k f zones s) = sIdempotency s"
  unfolding inEach_def by (induction zones arbitrary: s) simp_all

lemma inEach_distinct [simp]:
  "distinct (map fst (sWorkflows s)) \<Longrightarrow> distinct (map fst (sWorkflows (inEach k f zones s)))"
  unfolding inEach_def by (induction zones arbitrary: s) simp_all

lemma recordIdem_sel [simp]:
  "sWorkflows (recordIdem idem fp s) = sWorkflows s" "sVersion (recordIdem idem fp s) = sVersion s"
  "sNotifications (recordIdem idem fp s) = sNotifications s"
  "sEnrollmentArmedAt (recordIdem idem fp s) = sEnrollmentArmedAt s"
  "sIdempotency (recordIdem idem fp s) = mput idem fp (sIdempotency s)"
  by (simp_all add: recordIdem_def)

lemma requestStep_refl: "requestStep p p"
  unfolding requestStep_def by (auto intro!: exI [of _ KindZSK] simp: namedKind_def)

lemma inEach_step:
  assumes "mget (sIdempotency p) idem = None" "namedKind k" "\<And>z w. f z (f z w) = f z w"
    and "\<And>z. z \<in> set zones \<Longrightarrow> operatorChange z k p
           (putWorkflow (workflowKey z k) (f z (getWorkflow p (workflowKey z k))) p)"
  shows "requestStep p (recordIdem idem fp (inEach k f zones p))"
proof -
  have "mget (sWorkflows (inEach k f zones p)) j = mget (sWorkflows p) j
      \<or> (\<exists>zn. j = workflowKey zn k \<and> operatorChange zn k p (recordIdem idem fp (inEach k f zones p)))" for j
  proof (cases "j \<in> (\<lambda>z. workflowKey z k) ` set zones")
    case True
    then obtain z where z: "z \<in> set zones" "j = workflowKey z k" by blast
    then have "operatorChange z k p (recordIdem idem fp (inEach k f zones p))"
      using assms(4) [OF z(1)] by (simp add: operatorChange_def inEach_at [OF assms(3)] mget_putWorkflow)
    with z show ?thesis by blast
  next
    case False
    then show ?thesis by (simp add: inEach_other)
  qed
  then show ?thesis
    unfolding requestStep_def using assms(1,2) by (auto simp: mget_mput)
qed

lemma baselineZones_rest [simp]:
  "sVersion (baselineZones zs now s) = sVersion s" "sNotifications (baselineZones zs now s) = sNotifications s"
  "sIdempotency (baselineZones zs now s) = sIdempotency s"
  by (induction zs arbitrary: s) (simp_all add: addIfMissing_def)

lemma baselineZones_distinct [simp]:
  "distinct (map fst (sWorkflows s)) \<Longrightarrow> distinct (map fst (sWorkflows (baselineZones zs now s)))"
  by (induction zs arbitrary: s) (simp_all add: addIfMissing_def)

lemma baselineZones_get:
  "mget (sWorkflows (baselineZones zs now s)) j = mget (sWorkflows s) j
   \<or> mget (sWorkflows s) j = None \<and> (\<exists>z. j = workflowKey (zName z) KindEnroll
       \<and> mget (sWorkflows (baselineZones zs now s)) j = Some (baselineWorkflow z now))"
proof (induction zs arbitrary: s)
  case (Cons z zs)
  let ?s = "if \<not> zDNSSEC z then s else addIfMissing (workflowKey (zName z) KindEnroll) (baselineWorkflow z now) s"
  have "mget (sWorkflows ?s) j = mget (sWorkflows s) j
      \<or> mget (sWorkflows s) j = None \<and> j = workflowKey (zName z) KindEnroll \<and> mget (sWorkflows ?s) j = Some (baselineWorkflow z now)"
    by (auto simp: addIfMissing_def mget_putWorkflow)
  with Cons.IH [of ?s] show ?case by auto
qed simp

lemma armState_step:
  assumes "mget (sIdempotency p) idem = None" "sEnrollmentArmedAt p = 0"
  shows "requestStep p (armState zs now idem p)"
proof -
  have "mget (sWorkflows (armState zs now idem p)) j = mget (sWorkflows p) j
      \<or> (\<exists>zn. j = workflowKey zn KindEnroll \<and> operatorChange zn KindEnroll p (armState zs now idem p))" for j
    using baselineZones_get [of zs now p j]
    by (auto simp: armState_def operatorChange_def baselineWorkflow_def keepsAttempts_def intro: operatorEdge.baseline)
  then show ?thesis
    unfolding requestStep_def using assms
    by (auto simp: armState_def mget_mput namedKind_def intro!: exI [of _ KindEnroll])
qed

section \<open>Every request\<close>

text \<open>A request reads, and then either leaves the document alone or persists one step.\<close>

definition requested :: "'w sys \<Rightarrow> 'w sys \<Rightarrow> bool" where
  "requested s t \<longleftrightarrow> quiet s t
     \<or> (\<exists>u. quiet s u \<and> sysLog t = sysLog u @ [EvPersist (sysState t)] \<and> requestStep (sysState s) (sysState t))"

lemma requested_quiet: "quiet s t \<Longrightarrow> requested s t"
  by (simp add: requested_def)

lemma readonly_requested: "readonly m \<Longrightarrow> wp m (\<lambda>r t. requested s t) s"
  by (rule readonly_after [OF _ quiet_refl]) (auto simp: requested_quiet)

lemma update_requested:
  fixes s u :: "'w sys"
  assumes "quiet s u"
    and "wp (fn (sysState s)) (\<lambda>r t. sysState t = sysState u \<and> sysLog t = sysLog u
           \<and> (\<forall>x. r = Inr x \<longrightarrow> requestStep (sysState s) x)) u"
  shows "wp (storeUpdate c fn) (\<lambda>r t. requested s t) u"
proof (rule vcg_storeUpdate, rule wp_mono)
  show "wp (fn (sysState u)) (\<lambda>r t. sysState t = sysState u \<and> sysLog t = sysLog u
           \<and> (\<forall>x. r = Inr x \<longrightarrow> requestStep (sysState s) x)) u"
    using assms by (simp add: quiet_state)
  fix r and t :: "'w sys"
  assume *: "sysState t = sysState u \<and> sysLog t = sysLog u \<and> (\<forall>x. r = Inr x \<longrightarrow> requestStep (sysState s) x)"
  then have "quiet s t" using assms(1) by (blast intro: quiet_same)
  with * show "case_sum (\<lambda>e. (\<lambda>t. requested s t)) (\<lambda>x. persisting x (\<lambda>r t. requested s t)) r t"
    by (cases r) (auto simp: requested_quiet persisting_def requested_def intro: quiet_same)
qed

lemma noneActive_none:
  assumes "rangesAll c" "\<And>e. Q (Inl e) u"
    and "(\<And>z i w. z \<in> set zones \<Longrightarrow> mget (sWorkflows p) i = Some w \<Longrightarrow> wZone w = z \<Longrightarrow> \<not> workflowActive w) \<Longrightarrow> Q (Inr ()) u"
  shows "wp (noneActive c p zones) Q u"
  using assms(3)
proof (induction zones)
  case Nil
  then show ?case by (simp add: wp_simps)
next
  case (Cons z zs)
  have "wp (noneActive c p zs) Q u"
    if "find (\<lambda>w. wZone w = z \<and> workflowActive w) (map snd (libRange c v (sWorkflows p))) = None" for v
  proof (rule Cons.IH, rule Cons.prems)
    fix y i w
    assume *: "\<And>z i w. z \<in> set zs \<Longrightarrow> mget (sWorkflows p) i = Some w \<Longrightarrow> wZone w = z \<Longrightarrow> \<not> workflowActive w"
      "y \<in> set (z # zs)" "mget (sWorkflows p) i = Some w" "wZone w = y"
    have "(i, w) \<in> set (libRange c v (sWorkflows p))"
      using *(3) assms(1) by (simp add: rangesAll_set mget_def map_of_SomeD)
    with that * show "\<not> workflowActive w" by (force simp: find_None_iff)
  qed
  then show ?case
    using assms(2) by (auto simp: wp_simps split: option.split)
qed

lemma vcg_idempotent [vcg]:
  "wp again Q s \<Longrightarrow> Q (Inl (Fmt conflict [])) s \<Longrightarrow> (mget m idem = None \<Longrightarrow> wp go Q s)
   \<Longrightarrow> wp (idempotent m idem fp conflict again go) Q s"
  by (simp add: idempotent_def wp_simps split: option.split)

text \<open>The syntax of a request up to its update\<close>

lemmas request_flow =
  vcg_bind vcg_Inl vcg_Inr vcg_if vcg_let vcg_option vcg_sum vcg_snapshot vcg_throw vcg_ret vcg_pureE vcg_idempotent

lemma triggered_twice: "triggeredWorkflow k now idem z (triggeredWorkflow k now idem z w) = triggeredWorkflow k now idem z w"
  by (simp add: triggeredWorkflow_def startedWorkflow_def)

lemma resumed_twice: "resumedWorkflow now (resumedWorkflow now w) = resumedWorkflow now w"
  by (simp add: resumedWorkflow_def)

lemma triggered_change:
  assumes "wfState p" "k \<in> rotationKinds"
    and "\<And>i w. mget (sWorkflows p) i = Some w \<Longrightarrow> wZone w = z \<Longrightarrow> \<not> workflowActive w"
  shows "operatorChange z k p (putWorkflow (workflowKey z k) (triggeredWorkflow k now idem z (getWorkflow p (workflowKey z k))) p)"
proof -
  have "operatorEdge k (map_option wPhase (mget (sWorkflows p) (workflowKey z k))) PhasePrepublish"
  proof (cases "mget (sWorkflows p) (workflowKey z k)")
    case None
    with assms(2) show ?thesis by (auto intro: operatorEdge.triggered_first)
  next
    case (Some w)
    then have wf: "wfWorkflow (workflowKey z k) w" using assms(1) by (simp add: wfState_iff)
    have "namedKind k" using assms(2) by (auto simp: namedKind_def)
    with wf have "wZone w = z" "validPhase (wKind w) (wPhase w)"
      by (auto simp: wfWorkflow_def workflowKey_inj)
    with assms(3) [OF Some] have "wPhase w = PhaseIdle"
      by (auto simp: workflowActive_def validPhase_kinds)
    with Some assms(2) show ?thesis by (auto intro: operatorEdge.triggered)
  qed
  with assms(3) show ?thesis
    by (auto simp: operatorChange_def mget_putWorkflow triggeredWorkflow_def startedWorkflow_def keepsAttempts_def)
qed

lemma Trigger_requested:
  assumes "wfState (sysState s)" "rangesAll c" "k \<in> rotationKinds"
  shows "wp (Trigger c k zones idem) (\<lambda>r t. requested s t) s"
proof -
  have upd: "wp (idempotent (sIdempotency p) idem fp IdemConflict (ret p)
       (bind (noneActive c p canonical) (\<lambda>_. ret (recordIdem idem fp (triggerState k now idem canonical p)))))
     (\<lambda>r t. sysState t = sysState u \<and> sysLog t = sysLog u \<and> (\<forall>x. r = Inr x \<longrightarrow> requestStep p x)) u"
    if "p = sysState s" for p fp canonical now u
    by (intro vcg noneActive_none [OF assms(2)])
      (use assms that in \<open>auto simp: requestStep_refl triggerState_each namedKind_def triggered_twice
         intro!: inEach_step triggered_change\<close>)
  show ?thesis
    unfolding Trigger_def
    by (intro request_flow readonly_after [OF readonly_calls(1)] readonly_after [OF triggerZones_reads]
        readonly_after [OF readonly_clock] update_requested upd)
      (auto simp: requested_quiet)
qed

lemma resumed_change:
  assumes "wfState p" "unchangedForResume KindSplit p item"
  shows "operatorChange (fst item) KindSplit p (putWorkflow (workflowKey (fst item) KindSplit)
    (resumedWorkflow now (getWorkflow p (workflowKey (fst item) KindSplit))) p)"
proof -
  obtain w where w: "mget (sWorkflows p) (workflowKey (fst item) KindSplit) = Some w" "wPhase w = PhaseBlocked"
    using assms(2) by (auto simp: unchangedForResume_def split: option.splits)
  then have "wfWorkflow (workflowKey (fst item) KindSplit) w" using assms(1) by (simp add: wfState_iff)
  then have "wZone w = fst item" "wKind w = KindSplit"
    by (auto simp: wfWorkflow_def workflowKey_inj namedKind_def)
  with w show ?thesis
    by (auto simp: operatorChange_def mget_putWorkflow resumedWorkflow_def keepsAttempts_def getWorkflow_def
        intro: operatorEdge.resumed)
qed

lemma Resume_requested:
  assumes "wfState (sysState s)"
  shows "wp (Resume c k zones phase idem) (\<lambda>r t. requested s t) s"
proof -
  have upd: "wp (idempotent (sIdempotency p) idem fp IdemConflict (ret p)
       (case find (\<lambda>item. \<not> unchangedForResume k p item) items of
          Some item \<Rightarrow> throw (Fmt ChangedDuringResume [AStr (fst item)])
        | None \<Rightarrow> ret (recordIdem idem fp (resumeState k now items p))))
     (\<lambda>r t. sysState t = sysState u \<and> sysLog t = sysLog u \<and> (\<forall>x. r = Inr x \<longrightarrow> requestStep p x)) u"
    if "p = sysState s" "k = KindSplit" for p fp items now u
    by (intro vcg)
      (use assms that in \<open>auto simp: requestStep_refl resumeState_each namedKind_def resumed_twice find_None_iff
         intro!: inEach_step resumed_change\<close>)
  show ?thesis
    unfolding Resume_def
    by (intro request_flow readonly_after [OF readonly_calls(1)] readonly_after [OF resumeZones_reads]
        readonly_after [OF readonly_clock] update_requested upd)
      (auto simp: requested_quiet)
qed

lemma attested_change:
  assumes "wfState p" "unchangedForAttest w (mget (sWorkflows p) (workflowKey zn KindSplit))"
  shows "operatorChange zn KindSplit p (putWorkflow (workflowKey zn KindSplit)
    (attestedWorkflow c now ttl (getWorkflow p (workflowKey zn KindSplit))) p)"
proof -
  obtain v where v: "mget (sWorkflows p) (workflowKey zn KindSplit) = Some v" "wPhase v = PhaseWaitNewSignature"
    using assms(2) by (auto simp: unchangedForAttest_def split: option.splits)
  then have "wfWorkflow (workflowKey zn KindSplit) v" using assms(1) by (simp add: wfState_iff)
  then have "wZone v = zn" "wKind v = KindSplit"
    by (auto simp: wfWorkflow_def workflowKey_inj namedKind_def)
  with v show ?thesis
    by (auto simp: operatorChange_def mget_putWorkflow attestedWorkflow_def keepsAttempts_def getWorkflow_def
        intro: operatorEdge.attested)
qed

lemma attested_twice: "attestedWorkflow c now ttl (attestedWorkflow c now ttl w) = attestedWorkflow c now ttl w"
  by (simp add: attestedWorkflow_def)

lemma attested_step:
  assumes "wfState p" "mget (sIdempotency p) idem = None"
    and "unchangedForAttest w (mget (sWorkflows p) (workflowKey zn KindSplit))"
  shows "requestStep p (recordIdem idem fp (putWorkflow (workflowKey zn KindSplit)
    (attestedWorkflow c now ttl (getWorkflow p (workflowKey zn KindSplit))) p))"
  using inEach_step [OF assms(2), of KindSplit "\<lambda>z. attestedWorkflow c now ttl" "[zn]"] attested_change [OF assms(1,3), of c now ttl]
  by (simp add: inEach_def namedKind_def attested_twice)

lemma Reconcile_requested:
  assumes "wfState (sysState s)"
  shows "wp (ReconcileSplitSignerTransition c zn idem) (\<lambda>r t. requested s t) s"
proof -
  have upd: "wp (idempotent (sIdempotency p) idem fp IdemConflict (ret p)
       (let key = workflowKey (zName zone) KindSplit
        in if \<not> unchangedForAttest w (mget (sWorkflows p) key)
           then throw (Fmt ChangedDuringReconcile [AStr (zName zone)])
           else ret (recordIdem idem fp (putWorkflow key (attestedWorkflow c now ttl (getWorkflow p key)) p))))
     (\<lambda>r t. sysState t = sysState u \<and> sysLog t = sysLog u \<and> (\<forall>x. r = Inr x \<longrightarrow> requestStep p x)) u"
    if "p = sysState s" for p fp now u zone w ttl
    by (intro vcg) (use assms that in \<open>auto simp: requestStep_refl attested_step\<close>)
  show ?thesis
    unfolding ReconcileSplitSignerTransition_def attest_def
    by (intro request_flow vcg_wrapErr readonly_after [OF readonly_calls(1)] readonly_after [OF readonly_calls(2)]
        readonly_after [OF evidence_reads] readonly_after [OF readonly_clock] update_requested upd)
      (auto simp: requested_quiet)
qed

lemma Arm_requested: "wp (ArmEnrollment c idem) (\<lambda>r t. requested s t) s"
  unfolding ArmEnrollment_def
  by (intro request_flow readonly_after [OF readonly_calls(1)] readonly_after [OF readonly_clock] update_requested)
    (auto simp: requested_quiet timeIsZero_def intro: armState_step)

lemma vcg_respond [vcg]:
  "wp m (\<lambda>r t. \<forall>x. Q (Inr x) t) s \<Longrightarrow> wp (respond failure success f m) Q s"
  unfolding respond_def by (intro vcg) (erule wp_mono, simp add: wp_simps del: split_paired_All)

lemma serve_requested:
  assumes "wfState (sysState s)" "rangesAll c"
  shows "wp (serve c req) (\<lambda>r t. requested s t) s"
proof (cases req)
  case (PostTrigger body key)
  have "rqKind x \<in> rotationKinds" if "decode body = Inr x" for x
    using that by (auto simp: decode_def split: sum.splits if_splits)
  then show ?thesis
    by (simp add: serve_def PostTrigger triggerHandler_def)
      (intro vcg; simp add: requested_quiet Trigger_requested assms)
qed (simp add: serve_def planHandler_def resumeHandler_def reconcileSplitSigner_def armEnrollment_def;
     intro vcg; simp add: requested_quiet readonly_requested reads Resume_requested Reconcile_requested Arm_requested assms)+

section \<open>Guards\<close>

lemma reads_lastPersist: "list_all isRead es \<Longrightarrow> lastPersist st es = st"
  by (induction es) (auto simp: isRead_def lastPersist_Cons)

context trace_guard begin

lemma quiet_since:
  assumes "\<And>st h e. isRead e \<Longrightarrow> G st h e" "quiet s t"
  shows "since G s t"
proof -
  obtain es where es: "sysLog t = sysLog s @ es" "list_all isRead es" "sysState t = sysState s"
    using assms(2) by (auto simp: quiet_def)
  then have "guarded (G (sysState s)) es"
    by (auto simp: guarded_def intro: assms(1))
  with es show ?thesis by (auto simp: since_def reads_lastPersist)
qed

lemma requested_since:
  assumes "\<And>st h e. isRead e \<Longrightarrow> G st h e" "requested s t"
    and "requestStep (sysState s) (sysState t) \<Longrightarrow> G (sysState s) [] (EvPersist (sysState t))"
  shows "since G s t"
  using assms(2) unfolding requested_def
proof (elim disjE exE conjE)
  fix u
  assume u: "quiet s u" "sysLog t = sysLog u @ [EvPersist (sysState t)]" "requestStep (sysState s) (sysState t)"
  show "since G s t"
    by (rule snoc [OF quiet_since [OF assms(1) u(1)] u(2)]) (use u assms(3) in \<open>simp_all add: quiet_state\<close>)
qed (rule quiet_since [OF assms(1)])

end

lemma tickGuard_read: "isRead e \<Longrightarrow> tickGuard c st h e"
  by (cases e) (simp_all add: isRead_def tickGuard_def writesGuard_def stepsGuard_def)

lemma serve_tick:
  assumes "wfState (sysState s)" "rangesAll c"
  shows "safely (tickGuard c) (serve c req) s"
  by (rule wp_mono [OF serve_requested [OF assms]])
    (auto intro: tg.requested_since tickGuard_read simp: docStep_def)

end
