(* ===== verification/Runs.thy ===== *)
theory Runs
  imports Requests
begin

text \<open>
  The life of the process: passes of the loop, requests at the control API, changes of the
  world between them, and crashes at any point of either, followed by a restart from the
  document that was persisted last. What is guarded in a pass and in a request is guarded in
  every life.
\<close>

datatype (plugins only: code size) activity = Pass | Request httpRequest

definition perform :: "'w controller \<Rightarrow> activity \<Rightarrow> ('w, unit) io" where
  "perform c a = (case a of Pass \<Rightarrow> Tick c | Request req \<Rightarrow> bind (serve c req) (\<lambda>_. ret ()))"

inductive life :: "'w controller \<Rightarrow> 'w sys \<Rightarrow> 'w sys \<Rightarrow> bool" for c :: "'w controller" and s0 :: "'w sys" where
  boot: "life c s0 s0"
| act: "life c s0 s \<Longrightarrow> perform c a s = (r, t) \<Longrightarrow> life c s0 t"
| elsewhere: "life c s0 s \<Longrightarrow> life c s0 (s\<lparr>sysWorld := w\<rparr>)"
| crash: "life c s0 s \<Longrightarrow> perform c a s = (r, t) \<Longrightarrow> sysLog t = sysLog s @ es @ lost \<Longrightarrow>
    life c s0 \<lparr>sysState = lastPersist (sysState s) es, sysWorld = w, sysLog = sysLog s @ es\<rparr>"

lemma life_pass: "life c s0 s \<Longrightarrow> Tick c s = (r, t) \<Longrightarrow> life c s0 t"
  by (rule life.act [of _ _ _ Pass]) (simp_all add: perform_def)

lemma wp_perform:
  assumes "wp (Tick c) (\<lambda>r t. P t) s" "\<And>req. wp (serve c req) (\<lambda>r t. P t) s"
  shows "wp (perform c a) (\<lambda>r t. P t) s"
proof (cases a)
  case Pass
  with assms(1) show ?thesis by (simp add: perform_def)
next
  case (Request req)
  have "wp (bind (serve c req) (\<lambda>_. ret ())) (\<lambda>r t. P t) s"
    by (intro vcg wp_after [OF assms(2)])
  then show ?thesis by (simp add: perform_def Request)
qed

lemma since_world: "since G s t \<Longrightarrow> since G s (t\<lparr>sysWorld := w\<rparr>)"
  by (simp add: since_def)

context trace_guard begin

lemma lives:
  assumes "life c s0 s" "\<And>u a. since G s0 u \<Longrightarrow> safely G (perform c a) u"
  shows "since G s0 s"
  using assms(1)
proof induction
  case boot
  show ?case by simp
next
  case (act s a r t)
  with assms(2) have "safely G (perform c a) s" by simp
  with act show ?case by (auto simp: wp_def intro: trans)
next
  case (elsewhere s w)
  then show ?case by (simp add: since_world)
next
  case (crash s a r t es lost w)
  with assms(2) have "safely G (perform c a) s" by simp
  with crash(2) have "since G s t" by (simp add: wp_def)
  then have "guarded (G (sysState s)) (es @ lost)"
    using crash(3) by (auto simp: since_def)
  then have "guarded (G (sysState s)) es"
    by (rule guarded_prefix)
  with crash.IH show ?case
    by (elim more) (simp_all add: guarded_from)
qed

end

lemma life_guarded:
  assumes "life c s0 s" "wfState (sysState s0)" "rangesAll c"
  shows "since (tickGuard c) s0 s"
  by (rule tg.lives [OF assms(1)]) (use assms(2,3) in \<open>auto intro!: wp_perform intro: Tick_tick serve_tick since_wf\<close>)

lemmas life_sinceD = sinceD [OF life_guarded]

section \<open>What every write is preceded by\<close>

lemma life_write:
  assumes "life c s0 s" "wfState (sysState s0)" "rangesAll c" "sysLog s = sysLog s0 @ h @ e # rest" "isWrite e"
  shows "\<exists>zone keys w h1 h2. h = h1 @ h2 \<and> underway c (sysState s0) zone keys w h1
           \<and> writeGuard c zone keys w (lastPersist (sysState s0) h1) h2 e"
  using life_sinceD [OF assms(1-4)] assms(5) unfolding tickGuard_def writesGuard_def by blast

text \<open>C1: In every life of the process, crashes and restarts included, DeleteKey is called only in
  the phase delete_old of a workflow on file, for the recorded old key, which is present and no
  longer active, after a different, active and published replacement has been proven to serve:
  its DNSKEY is visible, and its zone signature (ZSK), or its DNSKEY signature with the DS of
  every parent path (KSK), or all of these with the exact registrar material and the new ZSK
  (split) were confirmed since the key inventory was read.\<close>

theorem deletion_is_proven:
  assumes "life c s0 s" "wfState (sysState s0)" "rangesAll c"
    and "sysLog s = sysLog s0 @ h @ EvDeleteKey zid i r # rest"
  shows "\<exists>zone keys w h1 h2. h = h1 @ h2 \<and> underway c (sysState s0) zone keys w h1
    \<and> zid = zID zone \<and> wPhase w = PhaseDeleteOld \<and> deletionReady c zone keys w h2 i"
  using life_write [OF assms] by simp

text \<open>C5: A key is switched on only in activate_new, and it is the recorded replacement signer, so
  far inactive; for a split the exact prepublished inventory holds at that moment.\<close>

theorem activation_is_prepublished:
  assumes "life c s0 s" "wfState (sysState s0)" "rangesAll c"
    and "sysLog s = sysLog s0 @ h @ EvSetKey zid k True published r # rest"
  shows "\<exists>zone keys w h1 h2. h = h1 @ h2 \<and> underway c (sysState s0) zone keys w h1
    \<and> zid = zID zone \<and> published \<and> wPhase w = PhaseActivateNew \<and> activationReady c zone keys w k"
  using life_write [OF assms] by simp

text \<open>C6: A key is switched off only in deactivate_old: it is the recorded active old key, the
  replacement is active, published and proven by signatures and, where the parent points at it,
  by the DS, and for zone signers the current maximum zone TTL is no larger than the one that
  was waited for.\<close>

theorem deactivation_is_proven:
  assumes "life c s0 s" "wfState (sysState s0)" "rangesAll c"
    and "sysLog s = sysLog s0 @ h @ EvSetKey zid k False published r # rest"
  shows "\<exists>zone keys w h1 h2. h = h1 @ h2 \<and> underway c (sysState s0) zone keys w h1
    \<and> zid = zID zone \<and> published \<and> wPhase w = PhaseDeactivateOld \<and> deactivationReady c zone keys w h2 k"
  using life_write [OF assms] by simp

text \<open>C4: Every CreateKey happens in prepublish, when no adoptable candidate exists, directly after
  a document has been persisted that records the attempt for the slot; the slot had no recorded
  attempt.\<close>

theorem creation_is_recorded:
  assumes "life c s0 s" "wfState (sysState s0)" "rangesAll c"
    and "sysLog s = sysLog s0 @ h @ EvCreateKey zid typ alg active r # rest"
  shows "\<exists>zone keys w h1 h2. h = h1 @ h2 \<and> underway c (sysState s0) zone keys w h1
    \<and> zid = zID zone \<and> wPhase w = PhasePrepublish
    \<and> createReady c zone keys w (lastPersist (sysState s0) h1) h2 typ alg active"
  using life_write [OF assms] by simp

text \<open>C3: Every write to the registrar is preceded, as the last event, by a persisted document that
  records the attempt for that workflow, with the transaction id that is sent; no attempt was
  recorded before, and the evidence the phase asks for was collected since the inventory was
  read.\<close>

theorem submission_is_recorded:
  assumes "life c s0 s" "wfState (sysState s0)" "rangesAll c"
    and "sysLog s = sysLog s0 @ h @ EvUpdateDNSSEC zn data ctid r # rest"
  shows "\<exists>zone keys w h1 h2. h = h1 @ h2 \<and> underway c (sysState s0) zone keys w h1
    \<and> zn = zName zone \<and> ctid = wRegistrarCTID w \<and> ctid \<noteq> [] \<and> wRegistrarAttemptedAt w = 0
    \<and> justPersisted (lastPersist (sysState s0) h1) h2 (updateIntent c w)
    \<and> (if wPhase w = PhaseEnrollParentAdd then enrollmentReady c zone keys w h2 data
       else wPhase w = PhaseParentRemove \<and> replacementReady c zone keys w h2 data)"
  using life_write [OF assms] by simp

section \<open>Attempts happen once\<close>

text \<open>
  Unless the workflow reaches its end, the documents persisted in between keep the attempt.
\<close>

definition endsIn :: "string \<Rightarrow> event list \<Rightarrow> bool" where
  "endsIn j h \<longleftrightarrow> (\<exists>x. EvPersist x \<in> set h \<and> wPhase (getWorkflow x j) = PhaseIdle)"

text \<open>The fields that record an attempt\<close>

definition attemptFields :: "(workflow \<Rightarrow> time) set" where
  "attemptFields = {wRegistrarAttemptedAt, wNewKeyCreateAttemptedAt, wNewZSKCreateAttemptedAt}"

lemma slotAttempt_field: "slotAttempt zskSlot \<in> attemptFields"
  unfolding attemptFields_def slotAttempt_def by (cases zskSlot) (auto simp: fun_eq_iff)

lemma docStep_keeps:
  assumes "docStep p x" "mget (sWorkflows p) j = Some u" "wPhase (getWorkflow x j) \<noteq> PhaseIdle"
  shows "(\<exists>v. mget (sWorkflows x) j = Some v) \<and> keepsAttempts (getWorkflow p j) (getWorkflow x j)"
proof -
  consider (own) zn k where "ownStep zn k p x" | (boot) zn where "bootStep zn p x" | (outbox) "outboxStep p x"
      | (request) "requestStep p x"
    using assms(1) unfolding docStep_def by blast
  then show ?thesis
  proof cases
    case own
    then consider "mget (sWorkflows x) j = mget (sWorkflows p) j" | "j = workflowKey zn k"
        | "resetByEnrollment zn p x j"
      unfolding ownStep_def by blast
    then show ?thesis
    proof cases
      case 1
      with assms(2) show ?thesis by (simp add: getWorkflow_def keepsAttempts_def)
    next
      case 2
      then obtain v where "mget (sWorkflows x) j = Some v" "keepsAttempts (getWorkflow p j) v"
        using own unfolding ownStep_def by blast
      then show ?thesis by (simp add: getWorkflow_def)
    next
      case 3
      then have "wPhase (getWorkflow x j) = PhaseIdle"
        unfolding resetByEnrollment_def by (auto simp: getWorkflow_def)
      with assms(3) show ?thesis by simp
    qed
  next
    case boot
    then have "mget (sWorkflows x) j = Some u"
      using assms(2) unfolding bootStep_def by (metis option.distinct(1))
    with assms(2) show ?thesis by (simp add: getWorkflow_def keepsAttempts_def)
  next
    case outbox
    with assms(2) show ?thesis by (simp add: outboxStep_def getWorkflow_def keepsAttempts_def)
  next
    case request
    then consider "mget (sWorkflows x) j = mget (sWorkflows p) j"
        | zn k where "j = workflowKey zn k" "operatorChange zn k p x"
      unfolding requestStep_def by blast
    then show ?thesis
      by cases (use assms(2) in \<open>auto simp: operatorChange_def getWorkflow_def keepsAttempts_def\<close>)
  qed
qed

lemma attempts_kept:
  assumes "f \<in> attemptFields" "guarded (stepsGuard st) es" "mget (sWorkflows st) j = Some u" "f u \<noteq> 0" "\<not> endsIn j es"
  shows "(\<exists>v. mget (sWorkflows (lastPersist st es)) j = Some v) \<and> f (getWorkflow (lastPersist st es) j) = f u"
  using assms(2,5)
proof (induction es rule: rev_induct)
  case Nil
  then show ?case using assms(3) by (simp add: getWorkflow_def)
next
  case (snoc e es)
  then have "guarded (stepsGuard st) es" "\<not> endsIn j es"
    by (auto simp: endsIn_def)
  note IH = snoc.IH [OF this]
  show ?case
  proof (cases "isPersist e")
    case False
    with IH show ?thesis by (simp add: lastPersist_other)
  next
    case True
    then obtain x where e: "e = EvPersist x" by (cases e) auto
    then have step: "docStep (lastPersist st es) x" and idle: "wPhase (getWorkflow x j) \<noteq> PhaseIdle"
      using snoc.prems by (auto simp: stepsGuard_def endsIn_def)
    from IH obtain v where "mget (sWorkflows (lastPersist st es)) j = Some v" by blast
    from docStep_keeps [OF step this idle] IH idle assms(1,4)
    show ?thesis by (auto simp: e keepsAttempts_def attemptFields_def)
  qed
qed

lemma stepsGuard_append: "stepsGuard st (es @ h) e = stepsGuard (lastPersist st es) h e"
  by (cases e) (simp_all add: stepsGuard_def)

lemma life_steps:
  assumes "life c s0 s" "wfState (sysState s0)" "rangesAll c" "sysLog s = sysLog s0 @ h1 @ h2"
  shows "guarded (stepsGuard (lastPersist (sysState s0) h1)) h2"
proof -
  have "guarded (tickGuard c (sysState s0)) (h1 @ h2)"
    using life_guarded [OF assms(1-3)] assms(4) by (auto simp: since_def)
  then have "guarded (\<lambda>h. tickGuard c (sysState s0) (h1 @ h)) h2"
    by (simp add: guarded_append)
  then show ?thesis
    by (rule guarded_mono) (simp add: tickGuard_def stepsGuard_append)
qed

lemma justPersistedD:
  assumes "justPersisted st h P"
  obtains g x where "h = g @ [EvPersist x]" "P (lastPersist st g) x"
proof (cases h rule: rev_cases)
  case (snoc g e)
  with assms that show ?thesis by (cases e) (auto simp: justPersisted_def)
qed (use assms in \<open>simp add: justPersisted_def\<close>)

text \<open>The document persisted last is the first to record an attempt.\<close>

definition firstAttempt :: "(workflow \<Rightarrow> time) \<Rightarrow> string \<Rightarrow> state \<Rightarrow> state \<Rightarrow> bool" where
  "firstAttempt f j p x \<longleftrightarrow>
     (\<exists>v. mget (sWorkflows x) j = Some v) \<and> f (getWorkflow p j) = 0 \<and> f (getWorkflow x j) \<noteq> 0"

text \<open>Between two first attempts for one workflow, the workflow has reached its end.\<close>

lemma first_once:
  assumes l: "life c s0 s" "wfState (sysState s0)" "rangesAll c"
    and log: "sysLog s = sysLog s0 @ h1 @ e1 # pre @ e2 # post" and e1: "\<not> isPersist e1"
    and f: "f \<in> attemptFields"
    and k1: "justPersisted (sysState s0) h1 (firstAttempt f j)"
    and k2: "justPersisted (sysState s0) (h1 @ e1 # pre) (firstAttempt f j)"
  shows "endsIn j pre"
proof (rule ccontr)
  let ?st = "sysState s0"
  assume no: "\<not> endsIn j pre"
  obtain g x where x: "h1 = g @ [EvPersist x]" "firstAttempt f j (lastPersist ?st g) x"
    by (rule justPersistedD [OF k1])
  obtain g' x' where x': "h1 @ e1 # pre = g' @ [EvPersist x']" "firstAttempt f j (lastPersist ?st g') x'"
    by (rule justPersistedD [OF k2])
  obtain es where es: "pre = es @ [EvPersist x']" "g' = h1 @ e1 # es"
  proof (cases pre rule: rev_cases)
    case Nil
    with x'(1) e1 show ?thesis by auto
  next
    case (snoc es e)
    with x'(1) have "(h1 @ e1 # es) @ [e] = g' @ [EvPersist x']" by simp
    with snoc that show ?thesis by blast
  qed
  have "guarded (stepsGuard (lastPersist ?st (h1 @ [e1]))) (es @ EvPersist x' # e2 # post)"
    using log es by (intro life_steps [OF l]) simp
  then have "guarded (stepsGuard x) es"
    using x(1) e1 by (auto dest: guarded_prefix simp: lastPersist_other)
  moreover have "\<not> endsIn j es"
    using no es by (auto simp: endsIn_def)
  moreover obtain v where v: "mget (sWorkflows x) j = Some v" "f v \<noteq> 0"
    using x(2) by (auto simp: firstAttempt_def getWorkflow_def)
  ultimately have "f (getWorkflow (lastPersist x es) j) \<noteq> 0"
    using attempts_kept [OF f] by simp
  then show False
    using x'(2) es x(1) e1 by (simp add: firstAttempt_def lastPersist_Cons)
qed

lemma submission_first:
  assumes "life c s0 s" "wfState (sysState s0)" "rangesAll c" "0 \<notin> clockReadings c"
    and "sysLog s = sysLog s0 @ h @ EvUpdateDNSSEC zn data ctid r # rest"
  shows "\<exists>k. justPersisted (sysState s0) h (firstAttempt wRegistrarAttemptedAt (workflowKey zn k))"
proof -
  obtain zone keys w h1 h2 where h: "h = h1 @ h2" and u: "underway c (sysState s0) zone keys w h1"
    and zn: "zn = zName zone" and j: "justPersisted (lastPersist (sysState s0) h1) h2 (updateIntent c w)"
    using life_write [OF assms(1-3,5)] by auto
  obtain g x where g: "h2 = g @ [EvPersist x]" "updateIntent c w (lastPersist (sysState s0) (h1 @ g)) x"
    using justPersistedD [OF j] by auto
  have k: "keyOf w = workflowKey zn (wKind w)"
    using u zn by (simp add: underway_def onFile_def)
  have "firstAttempt wRegistrarAttemptedAt (workflowKey zn (wKind w)) (lastPersist (sysState s0) (h1 @ g)) x"
    using g(2) assms(4) unfolding updateIntent_def firstAttempt_def k Let_def
    by (metis mget_putWorkflow)
  then show ?thesis
    by (auto simp: h g(1) justPersisted_def butlast_append)
qed

lemma creation_first:
  assumes "life c s0 s" "wfState (sysState s0)" "rangesAll c" "0 \<notin> clockReadings c"
    and "sysLog s = sysLog s0 @ h @ EvCreateKey zid typ alg act r # rest"
  shows "\<exists>(zone :: zone) k zskSlot. zID zone = zid
    \<and> justPersisted (sysState s0) h (firstAttempt (slotAttempt zskSlot) (workflowKey (zName zone) k))"
proof -
  obtain zone keys w h1 h2 where h: "h = h1 @ h2" and u: "underway c (sysState s0) zone keys w h1"
    and zid: "zid = zID zone"
    and "createReady c zone keys w (lastPersist (sysState s0) h1) h2 typ alg act"
    using life_write [OF assms(1-3,5)] by auto
  then have j: "justPersisted (lastPersist (sysState s0) h1) h2 (createIntent c w)"
    by (simp add: createReady_def)
  obtain g x where g: "h2 = g @ [EvPersist x]" "createIntent c w (lastPersist (sysState s0) (h1 @ g)) x"
    using justPersistedD [OF j] by auto
  have k: "keyOf w = workflowKey (zName zone) (wKind w)"
    using u by (simp add: underway_def onFile_def)
  have "firstAttempt (slotAttempt (zskSlotOf w)) (keyOf w) (lastPersist (sysState s0) (h1 @ g)) x"
    using g(2) assms(4) unfolding createIntent_def firstAttempt_def Let_def
    by (metis mget_putWorkflow)
  then have "justPersisted (sysState s0) h (firstAttempt (slotAttempt (zskSlotOf w)) (workflowKey (zName zone) (wKind w)))"
    unfolding k by (auto simp: h g(1) justPersisted_def butlast_append)
  with zid show ?thesis by (intro exI conjI) simp_all
qed

text \<open>
  Two creations that recorded their attempts for the same slot of the same workflow are
  separated by the end of that workflow.
\<close>

lemma creation_again:
  assumes "life c s0 s" "wfState (sysState s0)" "rangesAll c"
    and "sysLog s = sysLog s0 @ h1 @ EvCreateKey z1 ty1 a1 b1 r1 # pre @ EvCreateKey z2 ty2 a2 b2 r2 # post"
    and "justPersisted (sysState s0) h1 (firstAttempt (slotAttempt sl) j)"
    and "justPersisted (sysState s0) (h1 @ EvCreateKey z1 ty1 a1 b1 r1 # pre) (firstAttempt (slotAttempt sl) j)"
  shows "endsIn j pre"
  by (rule first_once [OF assms(1-4) _ slotAttempt_field assms(5,6)]) simp

text \<open>C8: After a CreateKey for a zone there is no second one for the same workflow slot before that
  workflow has reached idle, whatever PowerDNS answered and wherever the process crashed.\<close>

theorem one_creation:
  assumes "life c s0 s" "wfState (sysState s0)" "rangesAll c" "0 \<notin> clockReadings c"
    and "sysLog s = sysLog s0 @ h1 @ EvCreateKey zid ty1 a1 b1 r1 # h2"
  shows "\<exists>(zone :: zone) k slot. zID zone = zid
    \<and> justPersisted (sysState s0) h1 (firstAttempt (slotAttempt slot) (workflowKey (zName zone) k))
    \<and> (\<forall>pre ty2 a2 b2 r2 post. h2 = pre @ EvCreateKey zid ty2 a2 b2 r2 # post \<longrightarrow>
         endsIn (workflowKey (zName zone) k) pre
         \<or> (\<exists>(zone' :: zone) k' slot'. (workflowKey (zName zone') k', slot') \<noteq> (workflowKey (zName zone) k, slot) \<and> zID zone' = zid
              \<and> justPersisted (sysState s0) (h1 @ EvCreateKey zid ty1 a1 b1 r1 # pre)
                  (firstAttempt (slotAttempt slot') (workflowKey (zName zone') k'))))"
proof -
  let ?e = "EvCreateKey zid ty1 a1 b1 r1" and ?j = "\<lambda>(zone :: zone) k. workflowKey (zName zone) k"
  obtain zone :: zone and k slot where k: "zID zone = zid"
      "justPersisted (sysState s0) h1 (firstAttempt (slotAttempt slot) (?j zone k))"
    using creation_first [OF assms] by blast
  have apart: "endsIn (?j zone k) pre
      \<or> (\<exists>(zone' :: zone) k' slot'. (?j zone' k', slot') \<noteq> (?j zone k, slot) \<and> zID zone' = zid
           \<and> justPersisted (sysState s0) (h1 @ ?e # pre) (firstAttempt (slotAttempt slot') (?j zone' k')))"
    if h2: "h2 = pre @ EvCreateKey zid ty2 a2 b2 r2 # post" for pre ty2 a2 b2 r2 post
  proof -
    have log: "sysLog s = sysLog s0 @ h1 @ ?e # pre @ EvCreateKey zid ty2 a2 b2 r2 # post"
      using assms(5) h2 by simp
    then have "sysLog s = sysLog s0 @ (h1 @ ?e # pre) @ EvCreateKey zid ty2 a2 b2 r2 # post"
      by simp
    then obtain zone' :: zone and k' slot' where again: "zID zone' = zid"
        "justPersisted (sysState s0) (h1 @ ?e # pre) (firstAttempt (slotAttempt slot') (?j zone' k'))"
      using creation_first [OF assms(1-4)] by blast
    show ?thesis
    proof (cases "(?j zone' k', slot') = (?j zone k, slot)")
      case True
      with again(2) have "justPersisted (sysState s0) (h1 @ ?e # pre) (firstAttempt (slotAttempt slot) (?j zone k))"
        by simp
      with creation_again [OF assms(1-3) log k(2)] show ?thesis by simp
    next
      case False
      with again show ?thesis by blast
    qed
  qed
  show ?thesis
    by (intro exI [of _ zone] exI [of _ k] exI [of _ slot] conjI k allI impI apart)
qed



text \<open>C10: If the document the process started from is well formed (distinct keys, every workflow
  filed under its own key, of a named kind and in a phase of that kind), so is the document
  after any life of the process.\<close>

theorem documents_well_formed:
  assumes "life c s0 s" "wfState (sysState s0)" "rangesAll c"
  shows "wfState (sysState s)"
  using since_wf [OF life_guarded [OF assms]] assms(2) by simp

end
