(* ===== verification/Single.thy ===== *)
theory Single
  imports Runs
begin

text \<open>
  At most one workflow of a zone is active. The exception is the bootstrap of an armed
  enrollment for a zone that is already being rotated; where that is excluded, the documents
  keep the promise through every pass and every crash.
\<close>

section \<open>Active workflows of a zone\<close>

definition activeIn :: "string \<Rightarrow> state \<Rightarrow> workflow list" where
  "activeIn zn st = filter (\<lambda>w. wZone w = zn \<and> workflowActive w) (mvals (sWorkflows st))"

text \<open>All active workflows of the zone are filed under one key, or under the key of one kind.\<close>

definition activeAt :: "string \<Rightarrow> state \<Rightarrow> string \<Rightarrow> bool" where
  "activeAt zn p j \<longleftrightarrow> (\<exists>v. mget (sWorkflows p) j = Some v \<and> wZone v = zn \<and> workflowActive v)"

definition sole :: "string \<Rightarrow> state \<Rightarrow> bool" where
  "sole zn p \<longleftrightarrow> (\<forall>i j. activeAt zn p i \<longrightarrow> activeAt zn p j \<longrightarrow> i = j)"

definition only :: "string \<Rightarrow> kind \<Rightarrow> state \<Rightarrow> bool" where
  "only zn k p \<longleftrightarrow> (\<forall>j. activeAt zn p j \<longrightarrow> j = workflowKey zn k)"

lemma only_sole: "only zn k p \<Longrightarrow> sole zn p"
  unfolding only_def sole_def by metis

lemma activeAt_cong: "sWorkflows p = sWorkflows q \<Longrightarrow> activeAt zn p j = activeAt zn q j"
  by (simp add: activeAt_def)

lemma activeAt_put:
  "activeAt zn (putWorkflow k v p) j \<longleftrightarrow>
     (if j = k then wZone v = zn \<and> workflowActive v else activeAt zn p j)"
  by (simp add: activeAt_def mget_putWorkflow)

lemma sole_fewer: "sole zn p \<Longrightarrow> (\<And>j. activeAt zn x j \<Longrightarrow> activeAt zn p j) \<Longrightarrow> sole zn x"
  by (simp add: sole_def)

lemma length_le_one: "distinct xs \<Longrightarrow> length xs \<le> 1 \<longleftrightarrow> (\<forall>x\<in>set xs. \<forall>y\<in>set xs. x = y)"
  by (cases xs; cases "tl xs") auto

lemma activeIn_sole:
  assumes "wfState p"
  shows "length (activeIn zn p) \<le> 1 \<longleftrightarrow> sole zn p"
proof -
  let ?P = "\<lambda>(j, w). wZone w = zn \<and> workflowActive w"
  have d: "distinct (map fst (filter ?P (sWorkflows p)))"
    using assms by (auto simp: wfState_def intro: distinct_map_filter)
  have at: "j \<in> set (map fst (filter ?P (sWorkflows p))) \<longleftrightarrow> activeAt zn p j" for j
    using assms by (force simp: activeAt_def mget_def wfState_def)
  have "length (activeIn zn p) = length (map fst (filter ?P (sWorkflows p)))"
    by (simp add: activeIn_def mvals_def filter_map comp_def case_prod_beta')
  then show ?thesis
    using length_le_one [OF d] by (simp only: at sole_def Ball_def) blast
qed

section \<open>Steps that keep it\<close>

text \<open>No enrollment can begin for the zone: it is switched off, not armed, or has begun.\<close>

definition noBegin :: "'w controller \<Rightarrow> string \<Rightarrow> state \<Rightarrow> bool" where
  "noBegin c zn p \<longleftrightarrow> \<not> ecEnabled (cfEnrollment (cfg c)) \<or> sEnrollmentArmedAt p = 0
     \<or> mget (sWorkflows p) (workflowKey zn KindEnroll) \<noteq> None"

definition soleStep :: "'w controller \<Rightarrow> state \<Rightarrow> state \<Rightarrow> bool" where
  "soleStep c p x \<longleftrightarrow> (\<forall>zn. noBegin c zn p \<longrightarrow> sole zn p \<longrightarrow> sole zn x)"

definition soleGuard :: "'w controller \<Rightarrow> state \<Rightarrow> event list \<Rightarrow> event \<Rightarrow> bool" where
  "soleGuard c st h e \<longleftrightarrow> (case e of EvPersist x \<Rightarrow> soleStep c (lastPersist st h) x | _ \<Rightarrow> True)"

lemma soleGuard_simps [simp]:
  "soleGuard c st h (EvPersist x) \<longleftrightarrow> soleStep c (lastPersist st h) x"
  "soleGuard c st h (EvListZones a1)"
  "soleGuard c st h (EvListKeys zid a3)"
  "soleGuard c st h (EvSend n a7)"
  by (simp_all add: soleGuard_def)

lemma soleGuard_shift: "soleGuard c (lastPersist st es) h e \<Longrightarrow> soleGuard c st (es @ h) e"
  by (cases e) (simp_all add: soleGuard_def)

interpretation og: trace_guard "soleGuard c" for c
  by unfold_locales (rule soleGuard_shift)

lemma activeAt_own:
  assumes "ownStep zn k p x" "activeAt zn' x j"
  shows "activeAt zn' p j \<or> zn' = zn \<and> j = workflowKey zn k"
proof (cases "j = workflowKey zn k")
  case True
  with assms show ?thesis by (auto simp: ownStep_def activeAt_def)
next
  case False
  with assms have "mget (sWorkflows x) j = mget (sWorkflows p) j \<or> resetByEnrollment zn p x j"
    by (auto simp: ownStep_def)
  with assms(2) show ?thesis
    by (auto simp: activeAt_def resetByEnrollment_def workflowActive_def)
qed

lemma own_only: "ownStep zn k p x \<Longrightarrow> only zn k p \<Longrightarrow> only zn k x"
  unfolding only_def by (blast dest: activeAt_own)

lemma own_soleStep: "ownStep zn k p x \<Longrightarrow> only zn k p \<Longrightarrow> soleStep c p x"
  unfolding soleStep_def
  by (metis activeAt_own own_only only_sole sole_fewer)

lemma steps_sole:
  assumes "guarded (stepGuard zn k st) es" "only zn k st"
  shows "only zn k (lastPersist st es) \<and> guarded (soleGuard c st) es"
  using assms(1)
proof (induction es rule: rev_induct)
  case (snoc e es)
  then have IH: "only zn k (lastPersist st es)" "guarded (soleGuard c st) es" by simp_all
  show ?case
  proof (cases "isPersist e")
    case True
    then obtain x where e: "e = EvPersist x" by (cases e) auto
    with snoc.prems have "ownStep zn k (lastPersist st es) x" by simp
    with IH e show ?thesis by (simp add: own_only own_soleStep)
  next
    case False
    then have "soleGuard c st es e" by (cases e) (simp_all add: soleGuard_def)
    with IH False show ?thesis by (simp add: lastPersist_other)
  qed
qed (simp add: assms(2))

lemma soleStep_same: "sWorkflows x = sWorkflows p \<Longrightarrow> soleStep c p x"
  by (simp add: soleStep_def sole_def activeAt_cong [of x p])

lemma soleStep_refl [simp]: "soleStep c p p"
  by (simp add: soleStep_same)

lemma soleStep_idle: "\<not> workflowActive v \<Longrightarrow> soleStep c p (putWorkflow k v p)"
  unfolding soleStep_def by (auto simp: activeAt_put elim!: sole_fewer split: if_splits)

lemma noBegin_put: "noBegin c zn p \<Longrightarrow> noBegin c zn (putWorkflow k v p)"
  by (auto simp: noBegin_def mget_putWorkflow)

text \<open>Steps that also begin no enrollment compose.\<close>

definition keepsSole :: "'w controller \<Rightarrow> state \<Rightarrow> state \<Rightarrow> bool" where
  "keepsSole c p x \<longleftrightarrow> soleStep c p x \<and> (\<forall>zn. noBegin c zn p \<longrightarrow> noBegin c zn x)"

lemma keepsSole_refl: "keepsSole c p p"
  by (simp add: keepsSole_def)

lemma keepsSole_trans: "keepsSole c p q \<Longrightarrow> soleStep c q x \<Longrightarrow> soleStep c p x"
  by (simp add: keepsSole_def soleStep_def)

lemma keepsSole_trans2: "keepsSole c p q \<Longrightarrow> keepsSole c q x \<Longrightarrow> keepsSole c p x"
  by (simp add: keepsSole_def soleStep_def)

lemma addIfMissing_sole: "\<not> workflowActive v \<Longrightarrow> keepsSole c p (addIfMissing k v p)"
  by (simp add: addIfMissing_def keepsSole_def soleStep_idle noBegin_put)

lemma idle_inactive [simp]: "\<not> workflowActive (idleWorkflow zn k now)"
  by (simp add: idleWorkflow_def workflowActive_def)

lemma bootstrapRoles_sole: "keepsSole c p (bootstrapRoles zone scheme now p)"
proof -
  have two: "keepsSole c p (addIfMissing i v (addIfMissing j u p))"
    if "\<not> workflowActive u" "\<not> workflowActive v" for i j u v
    using that by (rule keepsSole_trans2 [OF addIfMissing_sole addIfMissing_sole])
  show ?thesis
    unfolding bootstrapRoles_def
    by (cases "scheme = ''split''"; cases "scheme = ''csk''")
      (simp_all add: two addIfMissing_sole keepsSole_refl)
qed

text \<open>What an enrollment entry adds, it adds to its own zone, which had none.\<close>

lemma bootstrap_sole: "soleStep c p (bootstrapState c zone scheme keys now p)"
proof (cases "bootstrapState c zone scheme keys now p = bootstrapRoles zone scheme now p")
  case True
  then show ?thesis
    using bootstrapRoles_sole [of c p zone scheme now] by (simp add: keepsSole_def)
next
  case False
  let ?s = "bootstrapRoles zone scheme now p"
  from False have x: "bootstrapState c zone scheme keys now p =
      putWorkflow (workflowKey (zName zone) KindEnroll) (enrollEntry c zone scheme keys now ?s) ?s"
    and b: "\<not> noBegin c (zName zone) ?s"
    by (auto simp: bootstrapState_def Let_def noBegin_def timeIsZero_def split: if_splits)
  have "soleStep c ?s (bootstrapState c zone scheme keys now p)"
    unfolding soleStep_def x using b by (auto simp: activeAt_put elim!: sole_fewer split: if_splits)
  then show ?thesis
    by (rule keepsSole_trans [OF bootstrapRoles_sole])
qed

lemma activeAt_block:
  "activeAt zn' (blockState c zn k reason t1 t2 p) j \<longleftrightarrow>
     (if j = workflowKey zn k then zn' = zn else activeAt zn' p j)"
  by (auto simp: activeAt_def blockState_def Let_def mget_putWorkflow blockedWorkflow_def workflowActive_def)

lemma block_sole:
  assumes "\<And>j. activeAt zn p j \<Longrightarrow> j = workflowKey zn k \<or> \<not> sole zn p"
  shows "soleStep c p (blockState c' zn k reason t1 t2 p)"
  using assms unfolding soleStep_def sole_def activeAt_block by metis

section \<open>A pass\<close>

lemma active_range:
  assumes "rangesAll c" "wfState p" "activeAt zn p j"
  obtains v where "v \<in> set (filter (\<lambda>w. wZone w = zn \<and> workflowActive w) (map snd (libRange c w (sWorkflows p))))"
    "j = keyOf v" "wZone v = zn"
proof -
  obtain v where v: "mget (sWorkflows p) j = Some v" "wZone v = zn" "workflowActive v"
    using assms(3) by (auto simp: activeAt_def)
  then have "(j, v) \<in> set (libRange c w (sWorkflows p))"
    using assms(1,2) by (auto simp: rangesAll_set mget_def wfState_def)
  moreover have "j = keyOf v"
    using v(1) assms(2) by (auto simp: wfState_iff wfWorkflow_def)
  ultimately show ?thesis using v(2,3) by (intro that [of v]) (force, simp_all)
qed

lemma active_none:
  "rangesAll c \<Longrightarrow> wfState p \<Longrightarrow> filter (\<lambda>w. wZone w = zn \<and> workflowActive w) (map snd (libRange c w (sWorkflows p))) = []
   \<Longrightarrow> \<not> activeAt zn p j"
  by (metis active_range list.set_intros(1) empty_iff list.set(1))

lemma active_one:
  "rangesAll c \<Longrightarrow> wfState p \<Longrightarrow> filter (\<lambda>w. wZone w = zn \<and> workflowActive w) (map snd (libRange c w (sWorkflows p))) = [y]
   \<Longrightarrow> only zn (wKind y) p"
  unfolding only_def by (metis active_range empty_iff list.set(1) set_ConsD)

lemma advance_sole:
  assumes "current zone w u" "validPhase (wKind w) (wPhase w)" "only (zName zone) (wKind w) (sysState u)"
  shows "safely (soleGuard c) (advance c zone keys w) u"
proof (rule wp_mono [OF advance_steps [OF assms(1,2)]])
  fix r t
  assume "since (stepGuard (wZone w) (wKind w)) u t"
  moreover have "wZone w = zName zone" using assms(1) by (simp add: current_def)
  ultimately show "since (soleGuard c) u t"
    using steps_sole assms(3) by (fastforce simp: since_def)
qed

lemma started_sole:
  assumes "rangesAll c" "wfState p" "wZone v = zn"
    and "find (\<lambda>w. wZone w = zn \<and> workflowActive w) (map snd (libRange c w (sWorkflows p))) = None"
  shows "soleStep c p (putWorkflow j (startedWorkflow v now manual idem) p)"
proof -
  have none: "\<not> activeAt zn p i" for i
    using assms(4) by (intro active_none [OF assms(1,2)]) (auto simp: find_None_iff filter_empty_conv)
  show ?thesis
    unfolding soleStep_def sole_def
    using none by (auto simp: activeAt_put startedWorkflow_def assms(3) split: if_splits)
qed

lemma active_two:
  assumes "rangesAll c" "wfState p"
    and two: "filter (\<lambda>w. wZone w = zn \<and> workflowActive w) (map snd (libRange c w (sWorkflows p))) = y # z # ys"
  shows "\<not> sole zn p"
proof -
  define L where "L = libRange c w (sWorkflows p)"
  have set: "set L = set (sWorkflows p)"
    using assms(1) by (simp add: L_def rangesAll_set)
  have "mset (map fst L) = mset (map fst (sWorkflows p))"
    using assms(1) by (simp add: L_def rangesAll_def)
  then have "distinct (map fst L)"
    using assms(2) mset_eq_imp_distinct_iff [of "map fst L" "map fst (sWorkflows p)"] by (simp add: wfState_def)
  moreover have "map fst L = map keyOf (map snd L)"
    using assms(2) set by (auto simp: wfState_def wfWorkflow_def)
  ultimately have "distinct (map keyOf (map snd L))" by simp
  then have "distinct (map keyOf (filter (\<lambda>w. wZone w = zn \<and> workflowActive w) (map snd L)))"
    by (rule distinct_map_filter)
  then have "keyOf y \<noteq> keyOf z"
    by (simp add: two [folded L_def])
  moreover have "activeAt zn p (keyOf v)" if "v \<in> {y, z}" for v
  proof -
    have "v \<in> set (filter (\<lambda>w. wZone w = zn \<and> workflowActive w) (map snd L))"
      using that by (auto simp: two [folded L_def])
    then obtain j where j: "(j, v) \<in> set (sWorkflows p)" "wZone v = zn" "workflowActive v"
      by (auto simp: set)
    then have "mget (sWorkflows p) (keyOf v) = Some v"
      using assms(2) by (auto simp: mget_def wfState_def wfWorkflow_def)
    with j show ?thesis by (auto simp: activeAt_def)
  qed
  ultimately show ?thesis by (auto simp: sole_def)
qed

lemma start_sole:
  assumes "since (soleGuard c) s u" "wfState (sysState u)" "rangesAll c" "namedKind k"
  shows "wp (start c zn k False []) (\<lambda>r t. since (soleGuard c) s t) u"
proof -
  have zone: "wZone (case mget (sWorkflows (sysState u)) (workflowKey zn k) of
      None \<Rightarrow> zeroWorkflow\<lparr>wZone := zn, wKind := k\<rparr> | Some w \<Rightarrow> w) = zn"
    by (simp add: wf_get [OF assms(2) _ assms(4)] split: option.split)
  have step: "since (soleGuard c) s t"
    if "find (\<lambda>w. wZone w = zn \<and> workflowActive w) (map snd (libRange c w (sWorkflows (sysState u)))) = None"
      "sysState t = putWorkflow j (startedWorkflow (case mget (sWorkflows (sysState u)) (workflowKey zn k) of
        None \<Rightarrow> zeroWorkflow\<lparr>wZone := zn, wKind := k\<rparr> | Some w \<Rightarrow> w) now False []) (sysState u)"
      "sysLog t = sysLog u @ [EvPersist (sysState t)]" for w now j and t :: "'a sys"
    using that(2,3) started_sole [OF assms(3,2) zone that(1)]
    by (auto intro: og.snoc [OF assms(1)])
  show ?thesis
    unfolding start_def
    by (intro vcg) (use assms(1) in \<open>auto intro: og.same step\<close>)
qed

lemma reconcileZone_sole:
  assumes wf: "wfState (sysState s)" and r: "rangesAll c"
  shows "safely (soleGuard c) (reconcileZone c zone) s"
proof -
  let ?boot = "\<lambda>scheme keys now. bootstrapState c zone scheme keys now (sysState s)"
  have wf': "wfState (?boot scheme keys now)" for scheme keys now
    using wf docStep_bootstrap by (rule docStep_wf [rotated])
  have booted: "since (soleGuard c) s u"
    if "sysLog u = sysLog s @ [EvListKeys (zID zone) (Inr keys), EvPersist (sysState u)]"
      "sysState u = ?boot scheme keys now" for u keys scheme now
    using that by (simp add: since_simp bootstrap_sole)
  have start: "wp (start c (zName zone) k False []) (\<lambda>r t. since (soleGuard c) s t) u"
    if "sysLog u = sysLog s @ [EvListKeys (zID zone) (Inr keys), EvPersist (sysState u)]"
      and "sysState u = ?boot scheme keys now" and "namedKind k" for u keys scheme now k
    using that wf' r by (intro start_sole booted) auto
  have adv: "wp (advance c zone keys y) (\<lambda>r t. since (soleGuard c) s t) u"
    if "sysLog u = sysLog s @ [EvListKeys (zID zone) (Inr keys), EvPersist (sysState u)]"
      and "sysState u = ?boot scheme keys now"
      and "filter (\<lambda>w. wZone w = zName zone \<and> workflowActive w) (map snd (libRange c w (sWorkflows (sysState u)))) = [y]"
    for u keys scheme now y w
  proof (rule og.after [OF booted [OF that(1,2)] advance_sole])
    have "wfState (sysState u)" using wf' that(2) by simp
    with filed [OF r this that(3)] show "current zone y u" "validPhase (wKind y) (wPhase y)"
      by (auto simp: current_def getWorkflow_def wfWorkflow_def)
    show "only (zName zone) (wKind y) (sysState u)"
      by (rule active_one [OF r \<open>wfState (sysState u)\<close> that(3)])
  qed
  note one = active_one [OF r wf', unfolded only_def, rule_format]
  note two = active_two [OF r wf']
  note none = active_none [OF r wf']
  show ?thesis
    unfolding reconcileZone_def bootstrap_def listKeys_def
    apply (intro vcg)
    apply (auto simp: since_simp bootstrap_sole intro!: start adv block_sole dest: one two none)
    done
qed

lemma deliverLoop_sole: "since (soleGuard c) s u \<Longrightarrow> wp (deliverLoop c now st ids) (\<lambda>r t. since (soleGuard c) s t) u"
proof (induction ids arbitrary: u)
  case Nil
  then show ?case by (simp add: wp_simps)
next
  case (Cons i ids)
  have step: "soleStep c p (recordDelivery i now failure p)" for p failure
    by (rule soleStep_same) (simp add: recordDelivery_def split: option.split)
  show ?case
    unfolding deliverLoop.simps notifierSend_def
    by (intro vcg wp_after [OF Cons.IH]) (auto intro: og.more og.same Cons simp: step)
qed

lemma deliver_sole: "safely (soleGuard c) (deliverNotifications c) s"
proof -
  have step: "soleStep c p (deleteNotifications ids p)" for p ids
    by (rule soleStep_same) (simp add: deleteNotifications_def)
  show ?thesis
    unfolding deliverNotifications_def
    by (intro vcg wp_after [OF deliverLoop_sole]) (simp_all add: since_simp since_same step)
qed

text \<open>The two guards together carry the well-formedness through a pass.\<close>

definition passGuard :: "'w controller \<Rightarrow> state \<Rightarrow> event list \<Rightarrow> event \<Rightarrow> bool" where
  "passGuard c st h e \<longleftrightarrow> tickGuard c st h e \<and> soleGuard c st h e"

lemma since_passGuard: "since (passGuard c) s t \<longleftrightarrow> since (tickGuard c) s t \<and> since (soleGuard c) s t"
  by (auto simp: since_def guarded_def passGuard_def)

lemma reconcileZone_pass:
  assumes "wfState (sysState s)" "rangesAll c" "zDNSSEC zone" "validZoneName c (zName zone)"
  shows "safely (passGuard c) (reconcileZone c zone) s"
  unfolding since_passGuard
  by (rule wp_conj [OF reconcileZone_tick [OF assms] reconcileZone_sole [OF assms(1,2)]])

lemma passGuard_shift: "passGuard c (lastPersist st es) h e \<Longrightarrow> passGuard c st (es @ h) e"
  by (simp add: passGuard_def tg.shift soleGuard_shift)

interpretation pg: trace_guard "passGuard c" for c
  by unfold_locales (rule passGuard_shift)

lemma passGuard_simps [simp]:
  "passGuard c st h (EvPersist x) \<longleftrightarrow> docStep (lastPersist st h) x \<and> soleStep c (lastPersist st h) x"
  "passGuard c st h (EvListZones a1)"
  by (simp_all add: passGuard_def)

lemma pass_wf: "since (passGuard c) s t \<Longrightarrow> wfState (sysState s) \<Longrightarrow> wfState (sysState t)"
  by (auto simp: since_passGuard intro: since_wf)

lemma tickZones_pass:
  assumes "since (passGuard c) s u" "wfState (sysState s)" "rangesAll c"
  shows "wp (tickZones c st zs) (\<lambda>r t. since (passGuard c) s t) u"
  using assms(1)
proof (induction zs arbitrary: u)
  case Nil
  then show ?case by (simp add: wp_simps)
next
  case (Cons z zs)
  show ?case
    unfolding tickZones.simps
    by (intro vcg wp_after [OF Cons.IH] pg.run [OF _ reconcileZone_pass])
      (use assms(2,3) Cons.prems in \<open>auto simp: skipZone_def intro: pass_wf\<close>)
qed

lemma block_active: "activeAt zn p (workflowKey zn k) \<Longrightarrow> soleStep c p (blockState c' zn k reason t1 t2 p)"
  by (intro block_sole) (auto simp: sole_def)

lemma blockVanished_pass:
  assumes "since (passGuard c) s u"
    and "\<forall>w\<in>set ws. wKind w = KindEnroll \<longrightarrow> workflowActive w \<longrightarrow> activeAt (wZone w) (sysState u) (keyOf w)"
  shows "wp (blockVanished c seen ws) (\<lambda>r t. since (passGuard c) s t) u"
  using assms
proof (induction ws arbitrary: u)
  case Nil
  then show ?case by (simp add: wp_simps)
next
  case (Cons w ws)
  show ?case
    unfolding blockVanished.simps
    by (intro vcg wp_after [OF Cons.IH])
      (use Cons.prems in \<open>auto intro: pg.more pg.same simp: docStep_block activeAt_block block_active\<close>)
qed

lemma range_active:
  assumes "rangesAll c" "wfState p" "(a, w) \<in> set (libRange c v (sWorkflows p))" "workflowActive w" "wKind w = k"
  shows "activeAt (wZone w) p (workflowKey (wZone w) k)"
proof -
  have "mget (sWorkflows p) (keyOf w) = Some w"
    using assms(1-3) by (auto simp: rangesAll_set mget_def wfState_def wfWorkflow_def)
  with assms(4,5) show ?thesis by (auto simp: activeAt_def)
qed

lemma Tick_pass:
  assumes "wfState (sysState s)" "rangesAll c"
  shows "safely (passGuard c) (Tick c) s"
proof -
  have deliver: "safely (passGuard c) (deliverNotifications c) s"
    unfolding since_passGuard by (rule wp_conj [OF deliver_tick deliver_sole])
  show ?thesis
    unfolding Tick_def listZones_def
    apply (intro vcg wp_after [OF deliver] wp_after [OF tickZones_pass] wp_after [OF blockVanished_pass] ballI impI)
    apply (use assms in \<open>auto intro: pg.more range_active pass_wf simp: since_simp\<close>)
    done
qed

lemma soleGuard_read: "isRead e \<Longrightarrow> soleGuard c st h e"
  by (cases e) (simp_all add: isRead_def soleGuard_def)

lemma request_active:
  assumes "operatorChange z k p x" "activeAt zn x (workflowKey z k)" "wfState p" "namedKind k"
  shows "z = zn" "activeAt zn p j \<Longrightarrow> activeAt zn p (workflowKey z k)"
proof -
  obtain v where v: "mget (sWorkflows x) (workflowKey z k) = Some v" "wZone v = z"
    and edge: "operatorEdge k (map_option wPhase (mget (sWorkflows p) (workflowKey z k))) (wPhase v)"
    and fresh: "wPhase v = PhasePrepublish \<longrightarrow>
      (\<forall>j u. mget (sWorkflows p) j = Some u \<longrightarrow> wZone u = z \<longrightarrow> \<not> workflowActive u)"
    using assms(1) unfolding operatorChange_def by blast
  have "z = zn" and active: "workflowActive v"
    using assms(2) v unfolding activeAt_def by simp_all
  show "z = zn" by fact
  assume j: "activeAt zn p j"
  then have "wPhase v \<noteq> PhasePrepublish"
    using fresh \<open>z = zn\<close> unfolding activeAt_def by blast
  with edge active obtain u where u: "mget (sWorkflows p) (workflowKey z k) = Some u" "workflowActive u"
    unfolding workflowActive_def by cases auto
  moreover have "wfWorkflow (workflowKey z k) u"
    using u(1) assms(3) by (simp add: wfState_iff)
  then have "wZone u = z"
    using assms(4) workflowKey_inj [of k "wKind u" z "wZone u"] by (simp add: wfWorkflow_def)
  ultimately show "activeAt zn p (workflowKey z k)"
    using \<open>z = zn\<close> by (auto simp: activeAt_def)
qed

lemma request_sole:
  assumes "requestStep p x" "wfState p"
  shows "soleStep c p x"
  unfolding soleStep_def
proof (intro allI impI)
  fix zn
  assume one: "sole zn p"
  obtain k where k: "namedKind k" "\<And>j. mget (sWorkflows x) j = mget (sWorkflows p) j
      \<or> (\<exists>z. j = workflowKey z k \<and> operatorChange z k p x)"
    using assms(1) unfolding requestStep_def by blast
  have at: "activeAt zn p j \<or> j = workflowKey zn k \<and> (\<forall>i. activeAt zn p i \<longrightarrow> activeAt zn p j)" if "activeAt zn x j" for j
    using k(2) [of j]
  proof
    assume "mget (sWorkflows x) j = mget (sWorkflows p) j"
    with that show ?thesis by (simp add: activeAt_def)
  next
    assume "\<exists>z. j = workflowKey z k \<and> operatorChange z k p x"
    then obtain z where z: "j = workflowKey z k" "operatorChange z k p x" by blast
    from request_active [OF z(2) that [unfolded z(1)] assms(2) k(1)] z(1) show ?thesis by blast
  qed
  show "sole zn x"
    using one at unfolding sole_def by metis
qed

lemma serve_pass:
  assumes "wfState (sysState s)" "rangesAll c"
  shows "safely (passGuard c) (serve c req) s"
  by (rule wp_mono [OF serve_requested [OF assms]])
    (use assms in \<open>auto intro!: pg.requested_since simp: passGuard_def tickGuard_read soleGuard_read docStep_def request_sole\<close>)

lemma life_passes:
  assumes "life c s0 s" "wfState (sysState s0)" "rangesAll c"
  shows "since (passGuard c) s0 s"
  by (rule pg.lives [OF assms(1)]) (use assms(2,3) in \<open>auto intro!: wp_perform intro: Tick_pass serve_pass pass_wf\<close>)

section \<open>Every life\<close>

text \<open>The zone has had its enrollment, or enrollment is off. Once armed, enrollment stays armed.\<close>

definition closedTo :: "'w controller \<Rightarrow> string \<Rightarrow> state \<Rightarrow> bool" where
  "closedTo c zn p \<longleftrightarrow> \<not> ecEnabled (cfEnrollment (cfg c)) \<or> mget (sWorkflows p) (workflowKey zn KindEnroll) \<noteq> None"

lemma closedTo_step:
  assumes "docStep p x"
  shows "(closedTo c zn p \<longrightarrow> closedTo c zn x) \<and> (sEnrollmentArmedAt x = 0 \<longrightarrow> sEnrollmentArmedAt p = 0)"
proof -
  have "(mget (sWorkflows p) (workflowKey zn KindEnroll) \<noteq> None \<longrightarrow> mget (sWorkflows x) (workflowKey zn KindEnroll) \<noteq> None)
      \<and> (sEnrollmentArmedAt x = 0 \<longrightarrow> sEnrollmentArmedAt p = 0)"
  proof -
    consider (own) zn' k where "ownStep zn' k p x" | (boot) zn' where "bootStep zn' p x" | (outbox) "outboxStep p x"
      | (request) "requestStep p x"
      using assms unfolding docStep_def by blast
    then show ?thesis
    proof cases
      case own
      then show ?thesis unfolding ownStep_def resetByEnrollment_def by (metis option.distinct(1))
    next
      case boot
      then show ?thesis unfolding bootStep_def sameRest_def by metis
    next
      case outbox
      then show ?thesis by (simp add: outboxStep_def sameRest_def)
    next
      case request
      then show ?thesis unfolding requestStep_def operatorChange_def by (metis option.distinct(1))
    qed
  qed
  then show ?thesis by (auto simp: closedTo_def)
qed

lemma passes_sole:
  assumes "guarded (passGuard c st) es" "closedTo c zn st \<or> sEnrollmentArmedAt (lastPersist st es) = 0" "sole zn st"
  shows "(closedTo c zn st \<longrightarrow> closedTo c zn (lastPersist st es)) \<and> sole zn (lastPersist st es)"
  using assms(1,2)
proof (induction es rule: rev_induct)
  case (snoc e es)
  show ?case
  proof (cases "isPersist e")
    case True
    then obtain x where e: "e = EvPersist x" by (cases e) auto
    with snoc.prems have step: "docStep (lastPersist st es) x" "soleStep c (lastPersist st es) x" by simp_all
    note closed = closedTo_step [OF step(1), of c zn]
    have IH: "(closedTo c zn st \<longrightarrow> closedTo c zn (lastPersist st es)) \<and> sole zn (lastPersist st es)"
      using snoc.prems e closed by (intro snoc.IH) auto
    with snoc.prems e closed have "noBegin c zn (lastPersist st es)"
      by (auto simp: noBegin_def closedTo_def)
    with IH step(2) closed show ?thesis by (auto simp: e soleStep_def)
  next
    case False
    with snoc show ?thesis by (simp add: lastPersist_other)
  qed
qed (simp add: assms(3))

text \<open>C11: In any life of the process, operator requests included, a zone never has two active
  workflows, provided its initial document has at most one and no enrollment can newly begin for
  it: enrollment is off, or was not armed up to this point, or the zone had an enrollment entry
  from the start.\<close>

theorem one_active_per_zone:
  assumes "life c s0 s" "wfState (sysState s0)" "rangesAll c"
    and "\<not> ecEnabled (cfEnrollment (cfg c)) \<or> sEnrollmentArmedAt (sysState s) = 0
         \<or> mget (sWorkflows (sysState s0)) (workflowKey zn KindEnroll) \<noteq> None"
    and "length (activeIn zn (sysState s0)) \<le> 1"
  shows "length (activeIn zn (sysState s)) \<le> 1"
proof -
  have wf: "wfState (sysState s)"
    using life_passes [OF assms(1-3)] assms(2) by (rule pass_wf)
  obtain es where es: "sysState s = lastPersist (sysState s0) es" "guarded (passGuard c (sysState s0)) es"
    using life_passes [OF assms(1-3)] by (auto simp: since_def)
  moreover have "closedTo c zn (sysState s0) \<or> sEnrollmentArmedAt (lastPersist (sysState s0) es) = 0"
    using assms(4) es(1) by (auto simp: closedTo_def)
  moreover have "sole zn (sysState s0)"
    using assms(5) activeIn_sole [OF assms(2)] by blast
  ultimately have "sole zn (sysState s)"
    using passes_sole by metis
  with activeIn_sole [OF wf] show ?thesis by blast
qed

end
