(* ===== verification/Conduct.thy ===== *)
theory Conduct
  imports Single
begin

text \<open>
  How a pass behaves: what observe mode leaves alone, that no zone keeps another from being
  reconciled, when a workflow waits, how failures are retried, and how rotations start and
  end.
\<close>

section \<open>Observe mode\<close>

fun isListing :: "event \<Rightarrow> bool" where
  "isListing (EvListZones r) = True"
| "isListing (EvListKeys zid r) = True"
| "isListing _ = False"

interpretation qg: trace_guard "\<lambda>st h e. isListing e"
  by unfold_locales

lemma reconcileZone_observe:
  assumes "cfMode (cfg c) = ''observe''"
  shows "safely (\<lambda>st h e. isListing e) (reconcileZone c zone) s"
  unfolding reconcileZone_def listKeys_def
  by (intro vcg) (simp_all add: assms since_simp)

lemma tickZones_observe:
  assumes "cfMode (cfg c) = ''observe''" "since (\<lambda>st h e. isListing e) s u"
  shows "wp (tickZones c st zs) (\<lambda>r t. since (\<lambda>st h e. isListing e) s t) u"
  using assms(2)
proof (induction zs arbitrary: u)
  case Nil
  then show ?case by (simp add: wp_simps)
next
  case (Cons z zs)
  show ?case
    unfolding tickZones.simps
    by (intro vcg wp_after [OF Cons.IH] qg.run [OF _ reconcileZone_observe])
      (use assms(1) Cons.prems in auto)
qed

lemma Tick_observe:
  assumes "cfMode (cfg c) = ''observe''"
  shows "safely (\<lambda>st h e. isListing e) (Tick c) s"
  unfolding Tick_def listZones_def
  by (intro vcg wp_after [OF tickZones_observe]) (auto simp: assms since_simp since_same)

lemma since_listing: "since (\<lambda>st h e. isListing e) s t \<Longrightarrow> sysState t = sysState s"
proof -
  assume "since (\<lambda>st h e. isListing e) s t"
  then obtain es where es: "sysState t = lastPersist (sysState s) es" "guarded (\<lambda>h. isListing) es"
    by (auto simp: since_def)
  have "guarded (\<lambda>h. isListing) es \<Longrightarrow> lastPersist st es = st" for st
  proof (induction es rule: rev_induct)
    case (snoc e es)
    then show ?case by (cases e) auto
  qed simp
  with es show ?thesis by simp
qed

lemma guarded_all: "guarded (\<lambda>h. P) es \<longleftrightarrow> list_all P es"
  by (induction es rule: rev_induct) auto

text \<open>C35: In observe mode a pass leaves the document unchanged and makes no call but the listing of
  zones and keys.\<close>

theorem observe_mode_writes_nothing:
  assumes "cfMode (cfg c) = ''observe''" "Tick c s = (r, t)"
  shows "sysState t = sysState s \<and> (\<exists>es. sysLog t = sysLog s @ es \<and> list_all isListing es)"
proof -
  have "since (\<lambda>st h e. isListing e) s t"
    by (rule wpI [OF Tick_observe [OF assms(1)] assms(2)])
  then show ?thesis
    using since_listing by (auto simp: since_def guarded_all)
qed

section \<open>Every selected zone is reconciled\<close>

text \<open>Operations only ever add to the history, and within a zone no zones are listed.\<close>

named_theorems emits

fun inner :: "event \<Rightarrow> bool" where
  "inner (EvListZones r) = False"
| "inner _ = True"

definition adds :: "('w, 'a) io \<Rightarrow> bool" where
  "adds m \<longleftrightarrow> (\<forall>s. \<exists>es. sysLog (snd (m s)) = sysLog s @ es \<and> list_all inner es)"

lemma addsI: "(\<And>s. \<exists>es. sysLog (snd (m s)) = sysLog s @ es \<and> list_all inner es) \<Longrightarrow> adds m"
  by (simp add: adds_def)

lemma addsE: "adds m \<Longrightarrow> m s = (r, t) \<Longrightarrow> (\<And>es. sysLog t = sysLog s @ es \<Longrightarrow> list_all inner es \<Longrightarrow> P) \<Longrightarrow> P"
  unfolding adds_def by (metis snd_conv)

lemma adds_basic [emits]:
  "adds (ret x)" "adds (throw e)" "adds (pureE r)" "adds snapshot" "adds (clockNow c)" "adds (rangeWorkflows c st)"
  by (auto simp: adds_def ret_def throw_def pureE_def snapshot_def clockNow_def rangeWorkflows_def
      split: prod.splits)

lemma adds_call [emits]: "(\<And>r. inner (ev r)) \<Longrightarrow> adds (call f ev)"
  by (auto simp: adds_def call_def split: prod.splits)

lemma adds_bind [emits]:
  assumes "adds m" "\<And>x. adds (f x)"
  shows "adds (bind m f)"
proof (rule addsI)
  fix s
  obtain r t where mt: "m s = (r, t)" by (cases "m s")
  with assms(1) obtain es where es: "sysLog t = sysLog s @ es" "list_all inner es" by (rule addsE)
  show "\<exists>es. sysLog (snd (bind m f s)) = sysLog s @ es \<and> list_all inner es"
  proof (cases r)
    case (Inl e)
    with mt es show ?thesis by (simp add: bind_def)
  next
    case (Inr x)
    obtain fs where "sysLog (snd (f x t)) = sysLog t @ fs" "list_all inner fs"
      using assms(2) unfolding adds_def by blast
    with mt es Inr show ?thesis by (simp add: bind_def)
  qed
qed

lemma adds_attempt [emits]: "adds m \<Longrightarrow> adds (attempt m)"
  unfolding adds_def attempt_def by (auto split: prod.split) (metis snd_conv)

lemma adds_wrapErr [emits]: "adds m \<Longrightarrow> adds (wrapErr f m)"
  unfolding adds_def wrapErr_def by (auto split: prod.split sum.split) (metis snd_conv)+

lemma adds_storeUpdate [emits]:
  assumes "\<And>s. adds (fn s)"
  shows "adds (storeUpdate c fn)"
proof (rule addsI)
  fix s
  obtain r t where mt: "fn (sysState s) s = (r, t)" by (cases "fn (sysState s) s")
  with assms obtain es where "sysLog t = sysLog s @ es" "list_all inner es" by (rule addsE)
  with mt show "\<exists>es. sysLog (snd (storeUpdate c fn s)) = sysLog s @ es \<and> list_all inner es"
    by (simp add: storeUpdate_def split: sum.split prod.split)
qed

lemma adds_cases [emits]:
  "adds m \<Longrightarrow> adds n \<Longrightarrow> adds (if b then m else n)"
  "adds (f v) \<Longrightarrow> adds (Let v f)"
  "adds m \<Longrightarrow> (\<And>y. adds (f1 y)) \<Longrightarrow> adds (case_option m f1 y1)"
  "(\<And>e. adds (g e)) \<Longrightarrow> (\<And>z. adds (f2 z)) \<Longrightarrow> adds (case_sum g f2 z1)"
  "(\<And>a b. adds (h1 a b)) \<Longrightarrow> adds (case_prod h1 p)"
  "adds m \<Longrightarrow> (\<And>d ds. adds (h2 d ds)) \<Longrightarrow> adds (case_list m h2 l)"
  by (simp_all split: option.split sum.split prod.split list.split)

lemma adds_handlePhase [emits]: "adds (handlePhase c zone keys w)"
  unfolding handlePhase_def
  apply (cases "wPhase w")
  apply simp_all
  unfolding prepublish_def adoptOrCreate_def recordCreateAttempt_def classifyParent_def
    waitPublish_def activateNew_def waitNewSignature_def restartSplitWait_def
    validateSplitSignerTransitionEvidence_def deactivateOld_def deactivateRecorded_def
    deactivationEvidence_def switchOffOld_def parentReplace_def replaceMaterial_def ambiguousOrSubmit_def
    submitReplacement_def waitParentReplace_def reconcileUnavailableRegistrarJob_def waitRetire_def
    deleteOld_def deletionEvidence_def enrollDiscovered_def discoverInventory_def markIneligible_def
    classifyCandidate_def validateEnrollmentEvidence_def enrollWaitPublish_def enrollParentAdd_def
    enrollWrite_def submitEnrollment_def enrollWaitParent_def complete_def block_def
    transitionNow_def transitionAfter_def transition_def clearEvidence_def stampEvidence_def
    clearDNSKEYEvidence_def op_defs
  by (intro emits; simp)+

lemma adds_reconcileZone [emits]: "adds (reconcileZone c zone)"
  unfolding reconcileZone_def listKeys_def bootstrap_def start_def advance_def recordRetry_def block_def
  by (intro emits) simp_all


text \<open>The events of an operation that starts with a listing of the zone's keys\<close>

definition listed :: "string \<Rightarrow> event list \<Rightarrow> bool" where
  "listed zid es \<longleftrightarrow> (\<exists>r. EvListKeys zid r \<in> set es)"

lemma listed_append [simp]: "listed zid (es @ fs) \<longleftrightarrow> listed zid es \<or> listed zid fs"
  by (auto simp: listed_def)

lemma reconcileZone_lists:
  assumes "reconcileZone c zone s = (r, t)"
  shows "\<exists>es. sysLog t = sysLog s @ es \<and> list_all inner es \<and> listed (zID zone) es"
proof -
  obtain r1 u where u: "listKeys c (zID zone) s = (r1, u)" by (cases "listKeys c (zID zone) s")
  then have lu: "sysLog u = sysLog s @ [EvListKeys (zID zone) r1]"
    by (auto simp: listKeys_def call_def split: prod.splits)
  show ?thesis
  proof (cases r1)
    case (Inl e)
    with assms u lu show ?thesis by (auto simp: reconcileZone_def bind_def listed_def)
  next
    case (Inr keys)
    obtain m where m: "adds m" "m u = (r, t)"
    proof -
      have "\<exists>f. reconcileZone c zone = bind (listKeys c (zID zone)) f \<and> (\<forall>x. adds (f x))"
        unfolding reconcileZone_def bootstrap_def start_def advance_def recordRetry_def block_def
        by (rule exI, rule conjI, rule refl, intro allI emits)
      then obtain f where f: "reconcileZone c zone = bind (listKeys c (zID zone)) f" "\<forall>x. adds (f x)"
        by blast
      with assms u Inr have "f keys u = (r, t)" by (simp add: bind_def)
      with f(2) that show ?thesis by blast
    qed
    then obtain es where "sysLog t = sysLog u @ es" "list_all inner es" by (rule addsE)
    with lu show ?thesis by (auto simp: listed_def)
  qed
qed

definition lists :: "string list \<Rightarrow> 'w sys \<Rightarrow> 'w sys \<Rightarrow> bool" where
  "lists zids s t \<longleftrightarrow>
     (\<exists>es. sysLog t = sysLog s @ es \<and> list_all inner es \<and> list_all (\<lambda>zid. listed zid es) zids)"

lemma lists_trans:
  assumes "lists A s t" "lists B t u"
  shows "lists (A @ B) s u"
proof -
  obtain es fs where "sysLog t = sysLog s @ es" "list_all inner es" "list_all (\<lambda>zid. listed zid es) A"
      "sysLog u = sysLog t @ fs" "list_all inner fs" "list_all (\<lambda>zid. listed zid fs) B"
    using assms unfolding lists_def by blast
  then show ?thesis
    unfolding lists_def by (intro exI [of _ "es @ fs"]) (auto simp: list_all_iff)
qed

lemma adds_wp: "adds m \<Longrightarrow> wp m (\<lambda>r t. lists [] s t) s"
  by (auto simp: wp_conv lists_def adds_def)

lemma reconcileZone_wp: "wp (reconcileZone c zone) (\<lambda>r t. lists [zID zone] s t) s"
  by (auto simp: wp_def lists_def dest: reconcileZone_lists split: prod.split)

definition dueZone :: "'w controller \<Rightarrow> zone \<Rightarrow> bool" where
  "dueZone c z \<longleftrightarrow> zDNSSEC z \<and> validZoneName c (zName z) \<and> selected c (zName z)"

lemma not_due: "\<not> validZoneName c (zName z) \<Longrightarrow> \<not> dueZone c z" "skipZone c st z \<Longrightarrow> \<not> dueZone c z"
  by (auto simp: dueZone_def skipZone_def)

lemma tickZones_wp: "wp (tickZones c st zs) (\<lambda>r t. lists (map zID (filter (dueZone c) zs)) u t) u"
proof (induction zs arbitrary: u)
  case Nil
  then show ?case by (simp add: wp_simps lists_def)
next
  case (Cons z zs)
  have both: "lists (zID z # map zID (filter (dueZone c) zs)) u t"
    if "lists [zID z] u v" "lists (map zID (filter (dueZone c) zs)) v t" for v t :: "'a sys"
    using lists_trans [OF that] by simp
  then have one: "lists (map zID (filter (dueZone c) (z # zs))) u t"
    if "lists [zID z] u v" "lists (map zID (filter (dueZone c) zs)) v t" for v t :: "'a sys"
    using that by (force simp: lists_def)
  show ?case
    unfolding tickZones.simps
    by (intro vcg wp_after [OF Cons.IH] wp_after [OF reconcileZone_wp])
      (auto simp: not_due dest: one)
qed

lemma adds_deliver: "adds (deliverNotifications c)"
proof -
  have "adds (deliverLoop c now st ids)" for now st ids
    by (induction ids) (auto simp: notifierSend_def intro!: emits)
  then show ?thesis
    unfolding deliverNotifications_def by (intro emits) simp_all
qed

lemma adds_blockVanished: "adds (blockVanished c seen ws)"
  by (induction ws) (auto simp: block_def intro!: emits)

text \<open>The zones are listed once, and then every due zone is looked at.\<close>

definition passed :: "'w controller \<Rightarrow> 'w sys \<Rightarrow> 'w sys \<Rightarrow> bool" where
  "passed c s t \<longleftrightarrow> (\<exists>d l e. sysLog t = sysLog s @ d @ EvListZones l # e \<and> list_all inner (d @ e)
     \<and> (\<forall>zones. l = Inr zones \<longrightarrow> list_all (\<lambda>zid. listed zid e) (map zID (filter (dueZone c) zones))))"

lemma passed_error: "lists [] s t \<Longrightarrow> sysLog u = sysLog t @ [EvListZones (Inl e)] \<Longrightarrow> passed c s u"
  unfolding passed_def lists_def by (force intro: exI [of _ "[]"])

lemma passed_zones:
  assumes "lists [] s t" "sysLog u = sysLog t @ [EvListZones (Inr zones)]"
    "lists (map zID (filter (dueZone c) zones)) u v"
  shows "passed c s v"
proof -
  obtain d e where "sysLog t = sysLog s @ d" "list_all inner d" "sysLog v = sysLog u @ e" "list_all inner e"
      "list_all (\<lambda>zid. listed zid e) (map zID (filter (dueZone c) zones))"
    using assms(1,3) unfolding lists_def by blast
  then show ?thesis
    unfolding passed_def using assms(2)
    by (intro exI [of _ d] exI [of _ "Inr zones"] exI [of _ e]) simp
qed

lemma passed_more:
  assumes "passed c s t" "lists [] t u"
  shows "passed c s u"
proof -
  obtain d l e where "sysLog t = sysLog s @ d @ EvListZones l # e" "list_all inner (d @ e)"
      "\<forall>zones. l = Inr zones \<longrightarrow> list_all (\<lambda>zid. listed zid e) (map zID (filter (dueZone c) zones))"
    using assms(1) unfolding passed_def by blast
  moreover obtain f where "sysLog u = sysLog t @ f" "list_all inner f"
    using assms(2) unfolding lists_def by blast
  ultimately show ?thesis
    unfolding passed_def
    by (intro exI [of _ d] exI [of _ l] exI [of _ "e @ f"]) (auto simp: list_all_iff)
qed

lemma lists_refl: "sysLog t = sysLog s \<Longrightarrow> lists [] s t"
  by (simp add: lists_def)

lemma Tick_passed: "wp (Tick c) (\<lambda>r t. passed c s t) s"
  unfolding Tick_def listZones_def
  by (intro vcg wp_after [OF adds_wp [OF adds_deliver]] wp_after [OF tickZones_wp]
      wp_after [OF adds_wp [OF adds_blockVanished]])
    (auto intro: passed_error passed_zones passed_more lists_refl)

lemma not_inner: "list_all inner es \<Longrightarrow> EvListZones r \<notin> set es"
  by (induction es) auto

text \<open>C36: A pass that got the zone list reads the keys of every signed, validly named, selected
  zone: no error of another zone keeps it from being reconciled.\<close>

theorem every_zone_is_reconciled:
  assumes "Tick c s = (r, t)" "sysLog t = sysLog s @ es" "EvListZones (Inr zones) \<in> set es"
    and "z \<in> set zones" "zDNSSEC z" "validZoneName c (zName z)" "selected c (zName z)"
  shows "\<exists>keys. EvListKeys (zID z) keys \<in> set es"
proof -
  have "passed c s t" by (rule wpI [OF Tick_passed assms(1)])
  then obtain d l e where es: "es = d @ EvListZones l # e" and inner: "list_all inner (d @ e)"
      and due: "\<forall>zones. l = Inr zones \<longrightarrow> list_all (\<lambda>zid. listed zid e) (map zID (filter (dueZone c) zones))"
    using assms(2) unfolding passed_def by auto
  have "l = Inr zones"
    using es assms(3) inner by (auto simp: not_inner)
  with due assms(4-7) have "listed (zID z) e"
    by (auto simp: list_all_iff dueZone_def)
  then show ?thesis by (auto simp: es listed_def)
qed

section \<open>Waiting and retrying\<close>

text \<open>Before the next-action time of a workflow advance does nothing but read the clock.\<close>

theorem no_action_before_its_time:
  assumes "wNextActionAt w \<noteq> 0" "fst (apiNow c (sysWorld s)) < wNextActionAt w"
  shows "advance c zone keys w s = (Inr (), s\<lparr>sysWorld := snd (apiNow c (sysWorld s))\<rparr>)"
  using assms
  by (cases "apiNow c (sysWorld s)")
    (simp add: advance_def bind_def clockNow_def ret_def timeIsZero_def timeBefore_def)

lemma power_min_bounds: "1 \<le> (2 :: int) ^ min n 8" "(2 :: int) ^ min n 8 \<le> 256"
  using power_increasing [of "min n 8" 8 "2 :: int"] by simp_all

lemma minutes_in_range: "1 \<le> m \<Longrightarrow> m \<le> 256 \<Longrightarrow> i64_range (minute * m)"
  by (simp add: i64_range_def minute_def second_def)

lemma backoff_eq: "backoff n = 2 ^ min n 8 * minute"
proof -
  have "i64_range (minute * 2 ^ min n 8)"
    by (rule minutes_in_range) (rule power_min_bounds)+
  then show ?thesis
    by (simp add: backoff_def durMul_def i64_id mult.commute)
qed

text \<open>The delay after n attempts is 2 to the power of min(n, 8) minutes, without overflow: at
  least two minutes after the first failure and at most 256 minutes.\<close>

theorem retry_delays:
  "backoff n = 2 ^ min n 8 * minute \<and> 2 * minute \<le> backoff (Suc n) \<and> backoff (Suc n) \<le> 256 * minute"
proof -
  have "2 ^ 1 \<le> (2 :: int) ^ min (Suc n) 8"
    by (rule power_increasing) simp_all
  with power_min_bounds [of "Suc n"] show ?thesis by (simp add: backoff_eq minute_def second_def)
qed

text \<open>
  A failed phase is recorded on the workflow, with the delay, and its error is returned. When
  the record cannot be stored the document is left as the phase has left it.
\<close>

definition clockRead :: "'w controller \<Rightarrow> workflow \<Rightarrow> 'w sys \<Rightarrow> 'w sys" where
  "clockRead c w s = (if wNextActionAt w = 0 then s else s\<lparr>sysWorld := snd (apiNow c (sysWorld s))\<rparr>)"

definition retried :: "err \<Rightarrow> time \<Rightarrow> workflow \<Rightarrow> workflow" where
  "retried e now x = x\<lparr>wAttempts := Suc (wAttempts x), wLastError := Some e,
     wNextActionAt := now + 2 ^ min (Suc (wAttempts x)) 8 * minute\<rparr>"

lemma recordRetry_wp:
  assumes "k = keyOf w"
  shows "wp (recordRetry c w e) (\<lambda>r t. sysState t = sysState s \<or>
     (\<exists>now\<in>clockReadings c. sysState t = putWorkflow k (retried e now (getWorkflow (sysState s) k)) (sysState s))) s"
  unfolding recordRetry_def
  by (intro vcg) (auto simp: timeAdd_def backoff_eq retried_def assms)

text \<open>When a handler fails, advance returns its error, and the document either stays as the
  handler left it or gets one more attempt with the error and a later next-action time for
  exactly this workflow.\<close>

theorem failure_is_retried:
  assumes "wNextActionAt w = 0 \<or> wNextActionAt w \<le> fst (apiNow c (sysWorld s))" "knownPhase (wPhase w)"
    and "handlePhase c zone keys w (clockRead c w s) = (Inl e, u)" "advance c zone keys w s = (r, t)"
  shows "r = Inl e \<and> (sysState t = sysState u \<or>
    (\<exists>now\<in>clockReadings c. sysState t =
       putWorkflow (keyOf w) (retried e now (getWorkflow (sysState u) (keyOf w))) (sysState u)))"
proof -
  obtain q v where v: "recordRetry c w e u = (q, v)" by (cases "recordRetry c w e u")
  have "r = Inl e \<and> t = v"
    using assms v
    by (cases "apiNow c (sysWorld s)")
      (auto simp: advance_def bind_def attempt_def clockNow_def ret_def throw_def timeIsZero_def timeBefore_def
        clockRead_def split: if_splits)
  with wpI [OF recordRetry_wp [OF refl] v] show ?thesis by simp
qed

section \<open>Starting and ending\<close>

lemma filter_mput:
  assumes "distinct (map fst m)" "filter P (map snd m) = []" "P v"
  shows "filter P (map snd (mput k v m)) = [v]"
  using assms
proof (induction m)
  case (Cons p m)
  obtain j u where p: "p = (j, u)" by (cases p)
  show ?case
  proof (cases "j = k")
    case True
    then have "mput k v ((j, u) # m) = (k, v) # m" by (simp add: mput_def)
    with Cons.prems p show ?thesis by (simp split: if_splits)
  next
    case False
    then have "mput k v ((j, u) # m) = (j, u) # mput k v m" by (simp add: mput_def)
    with Cons p show ?thesis by (simp split: if_splits)
  qed
qed (simp add: mput_def)

lemma find_active:
  assumes "rangesAll c" "find (\<lambda>w. wZone w = zn \<and> workflowActive w) (map snd (libRange c v (sWorkflows p))) = None"
  shows "activeIn zn p = []"
  using assms by (auto simp: activeIn_def filter_empty_conv find_None_iff mvals_def rangesAll_set)

lemma activeIn_started:
  assumes "wfState p" "activeIn zn p = []" "wZone v = zn"
  shows "activeIn zn (putWorkflow j (startedWorkflow v now manual idem) p) = [startedWorkflow v now manual idem]"
proof -
  have "workflowActive (startedWorkflow v now manual idem)"
    by (simp add: workflowActive_def startedWorkflow_def)
  moreover have "wZone (startedWorkflow v now manual idem) = zn"
    using assms(3) by (simp add: startedWorkflow_def)
  ultimately show ?thesis
    using assms(1,2) by (auto simp: activeIn_def putWorkflow_def mvals_def wfState_def intro!: filter_mput)
qed

lemma activeIn_cong: "sWorkflows p = sWorkflows q \<Longrightarrow> activeIn zn p = activeIn zn q"
  by (simp add: activeIn_def)

text \<open>A successful start happens only for a zone without active workflow, and leaves the zone
  with exactly one, the started one, in prepublish.\<close>

theorem start_makes_one_active:
  assumes "start c zn k manual idem s = (Inr (), t)" "wfState (sysState s)" "rangesAll c" "namedKind k"
  shows "activeIn zn (sysState s) = []
    \<and> activeIn zn (sysState t) = [getWorkflow (sysState t) (workflowKey zn k)]
    \<and> wPhase (getWorkflow (sysState t) (workflowKey zn k)) = PhasePrepublish"
proof -
  let ?k = "workflowKey zn k"
  have good: "activeIn zn (sysState s) = [] \<and> activeIn zn x = [getWorkflow x ?k]
      \<and> wPhase (getWorkflow x ?k) = PhasePrepublish"
    if "find (\<lambda>w. wZone w = zn \<and> workflowActive w) (map snd (libRange c v (sWorkflows (sysState s)))) = None"
      "sWorkflows x = sWorkflows (putWorkflow ?k (startedWorkflow y now manual idem) (sysState s))" "wZone y = zn"
    for v x y now
    using activeIn_started [OF assms(2) find_active [OF assms(3) that(1)] that(3)] find_active [OF assms(3) that(1)]
    by (simp add: activeIn_cong [OF that(2)] getWorkflow_def that(2) mget_putWorkflow startedWorkflow_def)
  have zone: "wZone (case mget (sWorkflows (sysState s)) ?k of
      None \<Rightarrow> zeroWorkflow\<lparr>wZone := zn, wKind := k\<rparr> | Some w \<Rightarrow> w) = zn"
    by (simp add: wf_get [OF assms(2) _ assms(4)] split: option.split)
  have "wp (start c zn k manual idem) (\<lambda>r t. r = Inr () \<longrightarrow> activeIn zn (sysState s) = []
    \<and> activeIn zn (sysState t) = [getWorkflow (sysState t) ?k]
    \<and> wPhase (getWorkflow (sysState t) ?k) = PhasePrepublish) s"
    unfolding start_def
    by (intro vcg impI; (rule good)?) (auto simp: zone)
  from wpI [OF this assms(1)] show ?thesis by simp
qed

end
