(* ===== verification/Outbox.thy ===== *)
theory Outbox
  imports Ticks
begin

text \<open>
  The notification outbox: completing a rotation files its notification in the same document,
  delivery marks a notification only after it has been sent, and forgets it only after the
  retention period.
\<close>

section \<open>Delivery\<close>

text \<open>What a notification reports; delivery changes only the other fields.\<close>

definition report :: "notification \<Rightarrow> string \<times> string \<times> string \<times> kind \<times> time \<times> int \<times> int \<times> int \<times> string" where
  "report n = (nID n, nEvent n, nZone n, nKind n, nCompletedAt n, nOldKeyID n, nNewKeyID n, nNewZSKID n,
     nRegistrarSTID n)"

definition justSent :: "notification \<Rightarrow> event list \<Rightarrow> bool" where
  "justSent n h \<longleftrightarrow> (\<exists>g m. h = g @ [EvSend m (Inr ())] \<and> report m = report n)"

text \<open>
  What a document may do to the notification \<open>n\<close> of the document before: forget it when it was
  delivered longer than the retention period ago, or keep what it reports, and mark it as
  delivered when it has just been sent.
\<close>

definition noticeStep :: "'w controller \<Rightarrow> event list \<Rightarrow> notification \<Rightarrow> notification option \<Rightarrow> bool" where
  "noticeStep c h n r \<longleftrightarrow> (case r of
     None \<Rightarrow> nDeliveredAt n \<noteq> 0 \<and> (\<exists>now\<in>clockReadings c.
       ccIdempotencyRetention (cfController (cfg c)) < timeSub now (nDeliveredAt n))
   | Some m \<Rightarrow> report m = report n \<and> (nDeliveredAt m \<noteq> nDeliveredAt n \<longrightarrow> nDeliveredAt n = 0 \<and> justSent n h))"

definition outboxGuard :: "'w controller \<Rightarrow> state \<Rightarrow> event list \<Rightarrow> event \<Rightarrow> bool" where
  "outboxGuard c st h e \<longleftrightarrow> (case e of
     EvPersist x \<Rightarrow> (\<forall>i n. mget (sNotifications (lastPersist st h)) i = Some n \<longrightarrow>
       noticeStep c h n (mget (sNotifications x) i))
   | _ \<Rightarrow> True)"

lemma justSent_shift: "justSent n h \<Longrightarrow> justSent n (es @ h)"
  unfolding justSent_def by (metis append.assoc)

lemma noticeStep_shift: "noticeStep c h n r \<Longrightarrow> noticeStep c (es @ h) n r"
  by (cases r) (auto simp: noticeStep_def justSent_shift)

lemma outboxGuard_shift: "outboxGuard c (lastPersist st es) h e \<Longrightarrow> outboxGuard c st (es @ h) e"
  by (cases e) (auto simp: outboxGuard_def noticeStep_shift)

interpretation bg: trace_guard "outboxGuard c" for c
  by unfold_locales (rule outboxGuard_shift)

lemma outboxGuard_simps [simp]:
  "outboxGuard c st h (EvSend n r)"
  "outboxGuard c st h (EvPersist x) \<longleftrightarrow> (\<forall>i n. mget (sNotifications (lastPersist st h)) i = Some n \<longrightarrow>
     noticeStep c h n (mget (sNotifications x) i))"
  by (simp_all add: outboxGuard_def)

text \<open>The result of one delivery\<close>

definition tried :: "time \<Rightarrow> err option \<Rightarrow> notification \<Rightarrow> notification" where
  "tried now failure n =
     (case failure of
        None \<Rightarrow> n\<lparr>nDeliveredAt := now, nLastError := None, nNextAttemptAt := 0\<rparr>
      | Some e \<Rightarrow> n\<lparr>nAttempts := Suc (nAttempts n), nLastError := Some e,
                    nNextAttemptAt := timeAdd now (backoff (Suc (nAttempts n)))\<rparr>)"

lemma tried_sel [simp]:
  "report (tried now failure n) = report n"
  "nDeliveredAt (tried now failure n) = (if failure = None then now else nDeliveredAt n)"
  by (simp_all add: tried_def report_def split: option.split)

lemma mget_recordDelivery:
  "mget (sNotifications (recordDelivery i now failure p)) j =
     map_option (\<lambda>n. if j \<noteq> i \<or> nDeliveredAt n \<noteq> 0 then n else tried now failure n) (mget (sNotifications p) j)"
proof (cases "j = i")
  case True
  then show ?thesis
    by (cases "mget (sNotifications p) i"; cases failure)
      (simp_all add: recordDelivery_def mget_mput timeIsZero_def tried_def)
next
  case False
  then have "mget (sNotifications (recordDelivery i now failure p)) j = mget (sNotifications p) j"
    by (simp add: recordDelivery_def mget_mput split: option.split)
  with False show ?thesis by (simp add: option.map_ident)
qed

text \<open>The loop works on the snapshot \<open>st\<close>: the outbox still holds the same notifications.\<close>

definition agrees :: "state \<Rightarrow> state \<Rightarrow> bool" where
  "agrees st p \<longleftrightarrow> (\<forall>i. map_option report (mget (sNotifications p) i) = map_option report (mget (sNotifications st) i))"

lemma agrees_refl [simp]: "agrees p p"
  by (simp add: agrees_def)

lemma report_record [simp]:
  "map_option report (mget (sNotifications (recordDelivery i now failure p)) j) = map_option report (mget (sNotifications p) j)"
  by (cases "mget (sNotifications p) j") (simp_all add: mget_recordDelivery)

lemma agrees_record: "agrees st p \<Longrightarrow> agrees st (recordDelivery i now failure p)"
  by (simp add: agrees_def)

definition noticeOf :: "state \<Rightarrow> string \<Rightarrow> notification" where
  "noticeOf st i = (case mget (sNotifications st) i of None \<Rightarrow> zeroNotification | Some ev \<Rightarrow> ev)"

lemma record_step:
  assumes "agrees st p" "mget (sNotifications p) j = Some n"
    and "failure = None \<longrightarrow> h = g @ [EvSend (noticeOf st i) (Inr ())]"
  shows "noticeStep c h n (mget (sNotifications (recordDelivery i now failure p)) j)"
proof -
  have "map_option report (mget (sNotifications st) j) = Some (report n)"
    using assms(1,2) by (metis agrees_def option.simps(9))
  then have "report (noticeOf st j) = report n"
    by (auto simp: noticeOf_def)
  with assms(2,3) show ?thesis
    by (auto simp: mget_recordDelivery noticeStep_def justSent_def)
qed

lemma deliverLoop_outbox:
  assumes "since (outboxGuard c) s u" "agrees st (sysState u)"
  shows "wp (deliverLoop c now st ids) (\<lambda>r t. since (outboxGuard c) s t \<and> agrees st (sysState t)) u"
  using assms
proof (induction ids arbitrary: u)
  case Nil
  then show ?case by (simp add: wp_simps)
next
  case (Cons i ids)
  show ?case
    unfolding deliverLoop.simps notifierSend_def noticeOf_def [symmetric]
    apply (intro vcg wp_after [OF Cons.IH])
    apply (use Cons.prems in \<open>auto intro: bg.more bg.same agrees_record intro!: record_step\<close>)
    done
qed

text \<open>The purge\<close>

lemma mget_purge: "mget (sNotifications (deleteNotifications ids p)) i = (if i \<in> set ids then None else mget (sNotifications p) i)"
proof -
  have "mget (fold mdel ids m) i = (if i \<in> set ids then None else mget m i)" for m :: "(string \<times> notification) list"
    by (induction ids arbitrary: m) (simp_all add: mget_mdel)
  then show ?thesis by (simp add: deleteNotifications_def)
qed

lemma expired_iff:
  assumes "distinct (map fst (sNotifications p))"
  shows "i \<in> set (expiredNotifications d now p) \<longleftrightarrow>
     (\<exists>n. mget (sNotifications p) i = Some n \<and> nDeliveredAt n \<noteq> 0 \<and> d < timeSub now (nDeliveredAt n))"
  using assms by (force simp: expiredNotifications_def mget_def timeIsZero_def)

lemma purge_step:
  assumes "distinct (map fst (sNotifications p))" "mget (sNotifications p) i = Some n" "now \<in> clockReadings c"
  shows "noticeStep c h n (mget (sNotifications
     (deleteNotifications (expiredNotifications (ccIdempotencyRetention (cfController (cfg c))) now p) p)) i)"
  using assms by (auto simp: mget_purge expired_iff noticeStep_def)

lemma deliver_outbox:
  assumes "distinct (map fst (sNotifications (sysState s)))"
  shows "safely (outboxGuard c) (deliverNotifications c) s"
  unfolding deliverNotifications_def
  apply (intro vcg wp_after [OF deliverLoop_outbox])
  apply (use assms in \<open>auto simp: since_simp since_same purge_step\<close>)
  done

text \<open>C38: While notifications are delivered, a notification leaves the outbox only after its
  delivery was recorded longer ago than the retention, its report never changes, and it becomes
  delivered only right after a successful send.\<close>

theorem notifications_are_kept:
  assumes "deliverNotifications c s = (r, t)" "distinct (map fst (sNotifications (sysState s)))"
    and "sysLog t = sysLog s @ h @ EvPersist x # rest" "mget (sNotifications (lastPersist (sysState s) h)) i = Some n"
  shows "case mget (sNotifications x) i of
      None \<Rightarrow> nDeliveredAt n \<noteq> 0 \<and> (\<exists>now\<in>clockReadings c.
        ccIdempotencyRetention (cfController (cfg c)) < timeSub now (nDeliveredAt n))
    | Some m \<Rightarrow> report m = report n
        \<and> (nDeliveredAt m \<noteq> nDeliveredAt n \<longrightarrow> nDeliveredAt n = 0 \<and> justSent n h)"
proof -
  have "since (outboxGuard c) s t"
    by (rule wpI [OF deliver_outbox [OF assms(2)] assms(1)])
  from sinceD [OF this assms(3)] assms(4) show ?thesis
    by (simp add: noticeStep_def)
qed

section \<open>Every due notification is tried\<close>

definition sends :: "notification \<Rightarrow> 'w sys \<Rightarrow> 'w sys \<Rightarrow> bool" where
  "sends n s t \<longleftrightarrow> (\<exists>es res. sysLog t = sysLog s @ es \<and> EvSend n res \<in> set es)"

definition extends :: "'w sys \<Rightarrow> 'w sys \<Rightarrow> bool" where
  "extends s t \<longleftrightarrow> (\<exists>es. sysLog t = sysLog s @ es)"

lemma extends_simps [simp]: "extends s s" "sysLog t = sysLog s \<Longrightarrow> extends s t" "sysLog t = sysLog s @ es \<Longrightarrow> extends s t"
  by (simp_all add: extends_def)

lemma extends_trans: "extends s t \<Longrightarrow> extends t u \<Longrightarrow> extends s u"
  by (auto simp: extends_def)

lemma sends_before: "extends s t \<Longrightarrow> sends n t u \<Longrightarrow> sends n s u"
  unfolding extends_def sends_def by (metis append.assoc UnCI set_append)

lemma sends_after: "sends n s t \<Longrightarrow> extends t u \<Longrightarrow> sends n s u"
  unfolding extends_def sends_def by (metis append.assoc UnCI set_append)

lemma sends_world [simp]: "sends n (s\<lparr>sysWorld := w\<rparr>) t = sends n s t"
  by (simp add: sends_def)

lemma sends_log: "sends n t u \<Longrightarrow> sysLog t = sysLog s @ es \<Longrightarrow> sends n s u"
  by (rule sends_before [of s t]) simp_all

lemma deliverLoop_extends: "wp (deliverLoop c now st ids) (\<lambda>r t. extends u t) u"
proof (induction ids arbitrary: u)
  case Nil
  then show ?case by (simp add: wp_simps)
next
  case (Cons i ids)
  show ?case
    unfolding deliverLoop.simps notifierSend_def
    by (intro vcg wp_after [OF Cons.IH]) (erule extends_trans [rotated]; simp)+
qed

lemma deliverLoop_sends: "i \<in> set ids \<Longrightarrow> wp (deliverLoop c now st ids) (\<lambda>r t. sends (noticeOf st i) u t) u"
proof (induction ids arbitrary: u)
  case (Cons j ids)
  have sent: "sends (noticeOf st j) u t" if "sysLog t' = sysLog u @ EvSend (noticeOf st j) res # es" "extends t' t"
    for t t' res es
    using that by (auto simp: sends_def extends_def)
  show ?case
  proof (cases "i = j")
    case True
    show ?thesis
      unfolding True deliverLoop.simps notifierSend_def noticeOf_def [symmetric]
      by (intro vcg wp_after [OF deliverLoop_extends]) (rule sent; simp)+
  next
    case False
    with Cons.prems have "i \<in> set ids" by simp
    note IH = Cons.IH [OF this]
    show ?thesis
      unfolding deliverLoop.simps notifierSend_def
      by (intro vcg wp_after [OF IH]) (erule sends_before [rotated]; simp)+
  qed
qed simp

lemma wp_clockNow_exact:
  "wp (clockNow c) Q s = Q (Inr (fst (apiNow c (sysWorld s)))) (s\<lparr>sysWorld := snd (apiNow c (sysWorld s))\<rparr>)"
  by (simp add: wp_def clockNow_def split: prod.split)

lemma due_iff:
  assumes "mget (sNotifications p) i = Some n" "nDeliveredAt n = 0" "nNextAttemptAt n \<le> now"
  shows "i \<in> set (dueNotifications now p)"
  using assms by (force simp: dueNotifications_def mget_def timeIsZero_def timeBefore_def dest: map_of_SomeD)

text \<open>With delivery enabled, every undelivered notification whose time has come is sent in the
  pass, unless removing expired ones failed, which is reported and changes nothing.\<close>

theorem due_notifications_are_sent:
  assumes "deliverNotifications c s = (r, t)" "lcEnabled (ncLMTP (cfNotifications (cfg c)))"
    and "distinct (map fst (sNotifications (sysState s)))"
    and "mget (sNotifications (sysState s)) i = Some n" "nDeliveredAt n = 0"
    and "nNextAttemptAt n \<le> fst (apiNow c (sysWorld s))"
  shows "(\<exists>e. r = Inl e) \<and> sysState t = sysState s \<and> sysLog t = sysLog s
    \<or> (\<exists>es res. sysLog t = sysLog s @ es \<and> EvSend n res \<in> set es)"
proof -
  let ?now = "fst (apiNow c (sysWorld s))" and ?st = "sysState s"
  let ?x = "deleteNotifications (expiredNotifications (ccIdempotencyRetention (cfController (cfg c))) ?now ?st) ?st"
  have x: "mget (sNotifications ?x) i = Some n"
    using assms(3-5) by (simp add: mget_purge expired_iff)
  have n: "noticeOf ?st i = n" "noticeOf ?x i = n"
    using assms(4) x by (simp_all add: noticeOf_def)
  note loop = deliverLoop_sends [OF due_iff [OF assms(4-6)], where st = ?st, unfolded n]
    deliverLoop_sends [OF due_iff [OF x assms(5,6)], where st = ?x, unfolded n]
  have "wp (deliverNotifications c) (\<lambda>r t. (\<exists>e. r = Inl e) \<and> sysState t = ?st \<and> sysLog t = sysLog s \<or> sends n s t) s"
  proof (cases "expiredNotifications (ccIdempotencyRetention (cfController (cfg c))) ?now ?st = []")
    case True
    with assms(2) show ?thesis
      unfolding deliverNotifications_def wp_bind wp_clockNow_exact
      by (simp add: Let_def, intro vcg) (auto intro!: vcg wp_after [OF loop(1)])
  next
    case False
    with assms(2) show ?thesis
      unfolding deliverNotifications_def wp_bind wp_clockNow_exact
      by (simp add: Let_def, intro vcg) (auto intro!: vcg wp_after [OF loop(2)] dest: sends_log)
  qed
  from wpI [OF this assms(1)] show ?thesis by (simp add: sends_def)
qed

section \<open>Completion\<close>

text \<open>The notification of a completed workflow\<close>

definition completionNotice :: "workflow \<Rightarrow> time \<Rightarrow> notification \<Rightarrow> bool" where
  "completionNotice w now n \<longleftrightarrow> nEvent n = ''completed'' \<and> nZone n = wZone w \<and> nKind n = wKind w
     \<and> nCompletedAt n = now \<and> nOldKeyID n = wOldKeyID w \<and> nNewKeyID n = wNewKeyID w
     \<and> nNewZSKID n = wNewZSKID w \<and> nRegistrarSTID n = wRegistrarSTID w
     \<and> nDeliveredAt n = 0 \<and> nNextAttemptAt n \<le> now"

lemma completeState_own:
  "getWorkflow (completeState c w now ev p) (keyOf w) = completedWorkflow w (wLastCompletedAt (getWorkflow p (keyOf w))) now"
  by (simp add: completeState_def Let_def)

lemma completeState_notice:
  "lcEnabled (ncLMTP (cfNotifications (cfg c))) \<Longrightarrow>
     \<exists>n. mget (sNotifications (completeState c w now ev p)) ev = Some n \<and> completionNotice w now n"
  by (simp add: completeState_def Let_def mget_mput completionNotice_def zeroNotification_def)

lemma completedWorkflow_max: "wLastCompletedAt (completedWorkflow w prior now) = max now prior"
  by (simp add: completedWorkflow_def Let_def timeBefore_def)

lemma completedWorkflow_clean:
  "wRegistrarAttemptedAt (completedWorkflow w prior now) = 0 \<and> wRegistrarCTID (completedWorkflow w prior now) = []
   \<and> wNewKeyCreateAttemptedAt (completedWorkflow w prior now) = 0
   \<and> wNewZSKCreateAttemptedAt (completedWorkflow w prior now) = 0
   \<and> wOldKeyID (completedWorkflow w prior now) = 0"
  by (simp add: completedWorkflow_def Let_def zeroWorkflow_def)

lemma completeState_roles:
  assumes "wKind w = KindEnroll" "role \<in> {KindZSK, KindKSK}"
  shows "wPhase (getWorkflow (completeState c w now ev p) (workflowKey (wZone w) role)) = PhaseIdle
    \<and> wLastCompletedAt (getWorkflow (completeState c w now ev p) (workflowKey (wZone w) role)) = now"
  using assms by (auto simp: completeState_def resetRole_def Let_def getWorkflow_put)

text \<open>
  \<open>x\<close> follows from \<open>p\<close> by the completion of \<open>w\<close> at the time \<open>now\<close>: the workflow is idle with
  nothing left of its attempts, an enrollment restarts the intervals of both roles, and the
  notification is filed.
\<close>

definition completesAt :: "'w controller \<Rightarrow> workflow \<Rightarrow> time \<Rightarrow> state \<Rightarrow> state \<Rightarrow> bool" where
  "completesAt c w now p x \<longleftrightarrow>
     (let v = getWorkflow x (keyOf w)
      in wPhase v = PhaseIdle \<and> wLastCompletedAt v = max now (wLastCompletedAt (getWorkflow p (keyOf w)))
        \<and> wRegistrarAttemptedAt v = 0 \<and> wRegistrarCTID v = [] \<and> wNewKeyCreateAttemptedAt v = 0
        \<and> wNewZSKCreateAttemptedAt v = 0 \<and> wOldKeyID v = 0)
     \<and> (wKind w = KindEnroll \<longrightarrow> (\<forall>role\<in>{KindZSK, KindKSK}.
          wPhase (getWorkflow x (workflowKey (wZone w) role)) = PhaseIdle
          \<and> wLastCompletedAt (getWorkflow x (workflowKey (wZone w) role)) = now))
     \<and> (lcEnabled (ncLMTP (cfNotifications (cfg c))) \<longrightarrow>
          (\<exists>i n. mget (sNotifications x) i = Some n \<and> completionNotice w now n))"

lemma completeState_completes: "completesAt c w now p (completeState c w now ev p)"
  using completeState_notice [of c w now ev p] completeState_roles [of w _ c now ev p]
  by (auto simp: completesAt_def completeState_own completedWorkflow_max completedWorkflow_clean Let_def)

text \<open>C37: complete either changes nothing and fails, or persists exactly one document in which the
  workflow is idle, the rotation clocks of an enrolled zone are reset, and, when delivery is
  enabled, the completion event is in the outbox.\<close>

theorem completion_is_atomic:
  assumes "complete c w s = (r, t)"
  shows "(\<exists>e. r = Inl e) \<and> sysState t = sysState s \<and> sysLog t = sysLog s
    \<or> r = Inr () \<and> sysLog t = sysLog s @ [EvPersist (sysState t)]
      \<and> (\<exists>now\<in>clockReadings c. completesAt c w now (sysState s) (sysState t))"
proof -
  have "wp (complete c w) (\<lambda>r t. (\<exists>e. r = Inl e) \<and> sysState t = sysState s \<and> sysLog t = sysLog s
      \<or> r = Inr () \<and> sysLog t = sysLog s @ [EvPersist (sysState t)]
        \<and> (\<exists>now\<in>clockReadings c. completesAt c w now (sysState s) (sysState t))) s"
    unfolding complete_def by (intro vcg) (auto intro: completeState_completes)
  from wpI [OF this assms] show ?thesis .
qed

end
