(* ===== verification/Waits.thy ===== *)
theory Waits
  imports Ticks
begin

text \<open>
  The waits between the phases: how long they are, what they are measured by, and that their
  64-bit durations do not wrap for the values that occur.
\<close>

section \<open>Durations\<close>

text \<open>A wait that fits into 64 bits is not shortened by Go's wrap-around.\<close>

definition fits :: "duration \<Rightarrow> bool" where
  "fits d \<longleftrightarrow> 0 \<le> d \<and> d < 2 ^ 62"

lemma durAdd_fits: "fits a \<Longrightarrow> fits b \<Longrightarrow> durAdd a b = a + b"
  unfolding durAdd_def fits_def by (rule i64_id) (simp add: i64_range_def)

lemma fits_max: "fits a \<Longrightarrow> fits b \<Longrightarrow> fits (max a b)"
  by (simp add: fits_def max_def)

lemma seconds_fits: "0 \<le> n \<Longrightarrow> n < 2 ^ 32 \<Longrightarrow> fits (n * second)"
proof -
  assume "0 \<le> n" "n < 2 ^ 32"
  then have "n * second \<le> 2 ^ 32 * second"
    by (intro mult_right_mono) (simp_all add: second_def)
  with \<open>0 \<le> n\<close> show ?thesis by (simp add: fits_def second_def)
qed

lemma durMul_seconds: "0 \<le> n \<Longrightarrow> n < 2 ^ 32 \<Longrightarrow> durMul n second = n * second"
  using seconds_fits [of n] by (simp add: durMul_def i64_id i64_range_def fits_def)

lemma zoneWait_eq:
  assumes "fits (margin c)"
  shows "zoneWait c (durSeconds (maxTTL z)) = maxTTL z + margin c"
proof -
  let ?n = "durSeconds (maxTTL z)"
  have n: "0 \<le> ?n" "?n < 2 ^ 32"
    using durSeconds_maxTTL_bounds [of z] by simp_all
  have "zoneWait c ?n = ?n * second + margin c"
    using assms n by (simp only: zoneWait_def durMul_seconds seconds_fits durAdd_fits)
  moreover have "maxTTL z = ?n * second"
    by (simp add: maxTTL_eq)
  ultimately show ?thesis by simp
qed

text \<open>The zone TTL that the waits are measured by\<close>

text \<open>maxTTL of a zone is at least 86400 seconds and at least the TTL of every record set, and
  stays below 2^32 seconds.\<close>

theorem zone_ttl_bounds:
  "86400 * second \<le> maxTTL z \<and> maxTTL z < 2 ^ 32 * second \<and> (\<forall>r\<in>set (zRRsets z). uint (rTTL r) * second \<le> maxTTL z)"
proof -
  have "uint (rTTL r) \<le> uint (maxTTLLoop 86400 (zRRsets z))" if "r \<in> set (zRRsets z)" for r
    using that by (simp add: maxTTLLoop_eq flip: word_le_def)
  then show ?thesis
    using maxTTLLoop_bounds [of "zRRsets z"] by (simp add: maxTTL_eq second_def)
qed

section \<open>Publication\<close>

text \<open>
  The first successful observation of a publication is recorded, and the next action set
  to after the larger of the TTL and the configured minimum, plus the margin; only a later
  observation of the same evidence ends the phase.
\<close>

definition publicationWait :: "'w controller \<Rightarrow> duration \<Rightarrow> duration" where
  "publicationWait c ttl = max ttl (rcMinimumDNSKEYWait (cfRotation (cfg c))) + margin c"

text \<open>A successful wait_publish has seen every published key on the configured paths; the first
  time it schedules the next action after the larger of the observed TTL and the configured
  minimum plus the margin, the second time it goes on to the phase of its kind.\<close>

theorem publication_is_waited_for:
  assumes "waitPublish c zone keys w s = (Inr (), t)" "wZone w = zName zone" "sysLog t = sysLog s @ es"
    and "fits (margin c)" "fits (rcMinimumDNSKEYWait (cfRotation (cfg c)))"
  shows "\<exists>ttl. EvDNSKEY (\<not> initialSplit w) (zName zone) (publishedKeys keys) (Inr ttl) \<in> set es
    \<and> (let v = getWorkflow (sysState t) (keyOf w) in
        if wEvidenceAt w = 0
        then wPhase v = PhaseWaitPublish \<and> wDNSKEYTTL v = durSeconds ttl
          \<and> (fits ttl \<longrightarrow> (\<exists>now\<in>clockReadings c. wNextActionAt v = now + publicationWait c ttl))
        else wPhase v = (if wKind w \<in> {KindKSK, KindSplit} then PhaseParentRemove else PhaseActivateNew)
          \<and> wEvidenceAt v = 0)"
proof -
  have "wp (waitPublish c zone keys w) (\<lambda>r t. r = Inr () \<longrightarrow>
      (\<exists>es ttl. sysLog t = sysLog s @ es
        \<and> EvDNSKEY (\<not> initialSplit w) (zName zone) (publishedKeys keys) (Inr ttl) \<in> set es
        \<and> (let v = getWorkflow (sysState t) (keyOf w) in
            if wEvidenceAt w = 0
            then wPhase v = PhaseWaitPublish \<and> wDNSKEYTTL v = durSeconds ttl
              \<and> (fits ttl \<longrightarrow> (\<exists>now\<in>clockReadings c. wNextActionAt v = now + publicationWait c ttl))
            else wPhase v = (if wKind w \<in> {KindKSK, KindSplit} then PhaseParentRemove else PhaseActivateNew)
              \<and> wEvidenceAt v = 0))) s"
    unfolding waitPublish_def op_defs transitionNow_def transitionAfter_def clearEvidence_def stampEvidence_def
    apply (intro vcg)
    apply (auto simp: timeIsZero_def entered_def publicationWait_def timeAdd_def durAdd_fits fits_max assms(4,5) Let_def)
    done
  from wpI [OF this assms(1)] assms(3) show ?thesis by (auto simp: Let_def)
qed

section \<open>Retirement\<close>

lemma zoneWait_covers:
  assumes "fits (margin c)" "durSeconds (maxTTL z) \<le> n" "n < 2 ^ 32"
  shows "maxTTL z + margin c \<le> zoneWait c n"
proof -
  have n: "0 \<le> n" using assms(2) durSeconds_maxTTL_bounds [of z] by simp
  have "zoneWait c n = n * second + margin c"
    using assms(1,3) n by (simp only: zoneWait_def durMul_seconds seconds_fits durAdd_fits)
  moreover have "maxTTL z = durSeconds (maxTTL z) * second"
    by (simp add: maxTTL_eq)
  moreover have "durSeconds (maxTTL z) * second \<le> n * second"
    using assms(2) by (intro mult_right_mono) (simp_all add: second_def)
  ultimately show ?thesis by linarith
qed

lemma wait_bound:
  "now \<in> clockReadings c \<Longrightarrow> fits (margin c) \<Longrightarrow> \<not> n < durSeconds (maxTTL z) \<Longrightarrow> n < 2 ^ 32
   \<Longrightarrow> \<exists>now'\<in>clockReadings c. now' + (maxTTL z + margin c) \<le> now + zoneWait c n"
  using zoneWait_covers [of c z n] by (intro bexI [of _ now]) simp_all

text \<open>When deactivating the old zone signer succeeds, the next action is at least the current
  maximum zone TTL plus the margin away, with no 64-bit overflow.\<close>

theorem retirement_is_waited_for:
  assumes "deactivateRecorded c zone keys w s = (Inr (), t)" "wZone w = zName zone" "sysLog t = sysLog s @ es"
    and "fits (margin c)" "wZoneTTL w < 2 ^ 32" "wKind w \<noteq> KindKSK"
  shows "\<exists>detail. EvGetZone (zID zone) (Inr detail) \<in> set es
    \<and> (let v = getWorkflow (sysState t) (keyOf w) in
        (wPhase v = PhaseWaitRetire \<or> wPhase v = PhaseDeactivateOld \<and> wZoneTTL v = durSeconds (maxTTL detail))
        \<and> (\<exists>now\<in>clockReadings c. now + maxTTL detail + margin c \<le> wNextActionAt v))"
proof -
  have "wp (deactivateRecorded c zone keys w) (\<lambda>r t. r = Inr () \<longrightarrow>
      (\<exists>es detail. sysLog t = sysLog s @ es \<and> EvGetZone (zID zone) (Inr detail) \<in> set es
        \<and> (let v = getWorkflow (sysState t) (keyOf w) in
            (wPhase v = PhaseWaitRetire \<or> wPhase v = PhaseDeactivateOld \<and> wZoneTTL v = durSeconds (maxTTL detail))
            \<and> (\<exists>now\<in>clockReadings c. now + maxTTL detail + margin c \<le> wNextActionAt v)))) s"
    using assms(2,6)
    unfolding deactivateRecorded_def deactivationEvidence_def switchOffOld_def op_defs transitionNow_def
      transitionAfter_def stampEvidence_def
    apply (intro vcg)
    apply (auto simp: entered_def timeAdd_def Let_def add.assoc zoneWait_eq [OF assms(4)]
        intro!: wait_bound assms(4,5))
    done
  from wpI [OF this assms(1)] assms(3) show ?thesis by (auto simp: Let_def)
qed

end
