(* ===== verification/Scenario.thy ===== *)
theory Scenario
  imports Ticks
begin

text \<open>
  A concrete environment to run the controller in: one zone whose services answer every
  question favourably and without changing, and a parser for the short public keys used
  here. The properties are applied to runs of the controller in it.
\<close>

definition labRR :: "string \<Rightarrow> err + rr" where
  "labRR text =
     (let n = length text
      in if 6 \<le> n then
           Inr (RR_DNSKEY \<lparr>dkHdr = \<lparr>hName = ''z.'', hRrtype = 48, hClass = 1, hTtl = 300\<rparr>,
             dkFlags = (if take 3 (drop (n - 6) text) = ''257'' then 257 else 256), dkProtocol = 3,
             dkAlgorithm = 16, dkPublicKey = drop (n - 2) text\<rparr>)
         else Inl (Fmt JobUnavailableMismatch []))"

definition labZone :: zone where
  "labZone = \<lparr>zID = ''z.'', zName = ''z'', zKind = [], zDNSSEC = True, zRRsets = []\<rparr>"

definition labKey :: "int \<Rightarrow> string \<Rightarrow> bool \<Rightarrow> string \<Rightarrow> key" where
  "labKey i typ act text = \<lparr>kID = i, kKeyType = typ, kActive = act, kPublished = True, kDNSKEY = text,
     kDS = [], kAlgorithm = ''ED448'', kBits = 256\<rparr>"

definition labKSK :: key where "labKSK = labKey 1 ''ksk'' True ''257 K1''"
definition labZSK :: "bool \<Rightarrow> key" where "labZSK act = labKey 2 ''zsk'' act ''256 Z2''"
definition labNewZSK :: "bool \<Rightarrow> key" where "labNewZSK act = labKey 3 ''zsk'' act ''256 Z3''"
definition labNewKSK :: key where "labNewKSK = labKey 4 ''ksk'' True ''257 K4''"

definition labConfig :: "string \<Rightarrow> config" where
  "labConfig mode =
     \<lparr>cfMode = mode, cfLog = \<lparr>lgLevel = []\<rparr>,
      cfController = \<lparr>ccReconcileInterval = minute, ccPropagationMargin = hour, ccStateFile = [],
        ccSocket = [], ccIdempotencyRetention = 720 * hour\<rparr>,
      cfPowerDNS = \<lparr>pcURL = [], pcServerID = [], pcAPIKeyFile = [], pcTimeout = second\<rparr>,
      cfAutoDNS = \<lparr>acURL = [], acUsername = [], acPasswordFile = [], acContext = 4, acTimeout = second,
        acMinimumRequestInterval = second\<rparr>,
      cfDNS = \<lparr>dcResolvers = [], dcAuthoritativeServers = [], dcExpectedNameservers = [''n''],
        dcLocalAuthoritative = [], dcTimeout = second\<rparr>,
      cfRotation = \<lparr>rcAlgorithm = ''ED448'', rcZSKInterval = 720 * hour, rcKSKInterval = 8760 * hour,
        rcAutoMigrateCSK = False, rcMinimumDNSKEYWait = hour, rcMinimumParentWait = hour,
        rcIncludeZones = [], rcExcludeZones = []\<rparr>,
      cfEnrollment = \<lparr>ecEnabled = False, ecScope = [], ecDiscoveryGrace = hour, ecMaxPending = 1,
        ecMaxNewPerDay = 1, ecAllowedAlgorithms = [], ecIncludeZones = [], ecExcludeZones = []\<rparr>,
      cfNotifications = \<lparr>ncLMTP = \<lparr>lcEnabled = True, lcAddress = [], lcHostname = [], lcFrom = [], lcTo = [],
        lcTimeout = second\<rparr>\<rparr>\<rparr>"

definition labNow :: time where "labNow = 1000000000000000000"

text \<open>The registrar holds the material of \<open>held\<close>; the zone has the keys \<open>keys\<close>.\<close>

definition lab :: "string \<Rightarrow> key list \<Rightarrow> key list \<Rightarrow> unit controller" where
  "lab mode keys held =
     \<lparr>cfg = labConfig mode,
      apiListZones = \<lambda>w. (Inr [labZone], w),
      apiGetZone = \<lambda>zid w. (Inr labZone, w),
      apiListKeys = \<lambda>zid w. (Inr keys, w),
      apiCreateKey = \<lambda>zid typ alg act w. (Inr (labNewZSK act), w),
      apiSetKey = \<lambda>zid k act pub w. (Inr (), w),
      apiDeleteKey = \<lambda>zid i w. (Inr (), w),
      apiDomainDNSSEC = \<lambda>zn w. (Inr \<lparr>dsEnabled = True,
        dsData = concat (map (\<lambda>k. case DNSSECDataForKey labRR zn k of Inl e \<Rightarrow> [] | Inr d \<Rightarrow> [d]) held),
        dsOmitted = False\<rparr>, w),
      apiUpdateDNSSEC = \<lambda>zn data ctid w. (Inr \<lparr>jID = 7, jSTID = ''s'', jStatus = ''PENDING''\<rparr>, w),
      apiJobStatus = \<lambda>i w. (Inr ''SUCCESS'', w),
      apiDNSKEYEvidence = \<lambda>rec zn ks w. (Inr hour, w),
      apiNoDSEvidence = \<lambda>zn w. (Inr (), w),
      apiDSEvidence = \<lambda>zn ks w. (Inr (), w),
      apiAuthoritativeDSEvidence = \<lambda>zn ks w. (Inr hour, w),
      apiRRSIGBy = \<lambda>rec zn k w. (Inr (), w),
      apiDNSKEYRRSIGBy = \<lambda>rec zn k w. (Inr (), w),
      apiDelegationEvidence = \<lambda>zn ns w. (Inr (), w),
      apiSend = \<lambda>n w. (Inr (), w),
      apiNow = \<lambda>w. (labNow, w),
      apiWriteAtomic = \<lambda>x w. (Inr (), w),
      libNewRR = labRR,
      libIsDomainName = \<lambda>n. True,
      libSha256 = \<lambda>t. [],
      libRFC3339Nano = \<lambda>t. itoa t,
      libRange = \<lambda>w m. m\<rparr>"

text \<open>A document with one workflow of the zone in the given phase, beside the idle other role\<close>

definition labWorkflow :: "kind \<Rightarrow> phase \<Rightarrow> int \<Rightarrow> int \<Rightarrow> workflow" where
  "labWorkflow k p old new = zeroWorkflow\<lparr>wZone := ''z'', wKind := k, wPhase := p, wOldKeyID := old,
     wNewKeyID := new, wZoneTTL := 86400, wRegistrarCTID := (if k = KindKSK then ''ctid'' else [])\<rparr>"

definition labSys :: "workflow \<Rightarrow> unit sys" where
  "labSys w = \<lparr>sysState = \<lparr>sVersion = 1, sEnrollmentArmedAt = 0, sWorkflows = [(keyOf w, w)],
     sIdempotency = [], sNotifications = []\<rparr>, sysWorld = (), sysLog = []\<rparr>"

definition labTick :: "unit controller \<Rightarrow> workflow \<Rightarrow> event list" where
  "labTick c w = sysLog (snd (Tick c (labSys w)))"

section \<open>Running the controller by rewriting\<close>

text \<open>
  Every operation is rewritten only once it is applied to a system state; \<open>exec_cong\<close> keeps
  the simplifier out of what comes later. The zone, its keys and the workflow stay folded.
\<close>

named_theorems exec \<open>running the controller in the lab by rewriting\<close>

lemmas exec_basic [exec] =
  ret_def [THEN fun_cong] throw_def [THEN fun_cong] pureE_def [THEN fun_cong] bind_def [THEN fun_cong]
  attempt_def [THEN fun_cong] wrapErr_def [THEN fun_cong] call_def [THEN fun_cong] clockNow_def [THEN fun_cong]
  rangeWorkflows_def [THEN fun_cong] snapshot_def [THEN fun_cong] storeUpdate_def [THEN fun_cong]

lemmas exec_ops [exec] = op_defs
lemmas exec_tick [exec] =
  Tick_def [THEN fun_cong] tickZones.simps [THEN fun_cong] reconcileZone_def [THEN fun_cong] bootstrap_def [THEN fun_cong]
  advance_def [THEN fun_cong] handlePhase_def [THEN fun_cong] deliverNotifications_def [THEN fun_cong]
  deliverLoop.simps [THEN fun_cong] blockVanished.simps [THEN fun_cong] recordRetry_def [THEN fun_cong]
  parentReplace_def [THEN fun_cong] replaceMaterial_def [THEN fun_cong] ambiguousOrSubmit_def [THEN fun_cong]
  submitReplacement_def [THEN fun_cong] transitionNow_def [THEN fun_cong] transition_def [THEN fun_cong]
  prepublish_def [THEN fun_cong]
  adoptOrCreate_def [THEN fun_cong]
  recordCreateAttempt_def [THEN fun_cong]
  activateNew_def [THEN fun_cong]
  deactivateOld_def [THEN fun_cong]
  deactivateRecorded_def [THEN fun_cong]
  deactivationEvidence_def [THEN fun_cong]
  switchOffOld_def [THEN fun_cong]
  deleteOld_def [THEN fun_cong]
  deletionEvidence_def [THEN fun_cong]
  transitionAfter_def [THEN fun_cong]
  clearEvidence_def [THEN fun_cong]
  stampEvidence_def [THEN fun_cong]
  complete_def [THEN fun_cong]
  waitPublish_def [THEN fun_cong]

lemma exec_bind: "m = m' \<Longrightarrow> s = s' \<Longrightarrow> bind m f s = bind m' f s'"
  by simp
lemma exec_store: "s = s' \<Longrightarrow> storeUpdate c m s = storeUpdate c m s'"
  by simp

lemmas exec_cong = exec_bind exec_store

lemma lab_sel [exec]:
  "cfg (lab mode keys held) = labConfig mode"
  "apiListZones (lab mode keys held) = (\<lambda>w. (Inr [labZone], w))"
  "apiGetZone (lab mode keys held) = (\<lambda>zid w. (Inr labZone, w))"
  "apiListKeys (lab mode keys held) = (\<lambda>zid w. (Inr keys, w))"
  "apiCreateKey (lab mode keys held) = (\<lambda>zid typ alg act w. (Inr (labNewZSK act), w))"
  "apiSetKey (lab mode keys held) = (\<lambda>zid k act pub w. (Inr (), w))"
  "apiDeleteKey (lab mode keys held) = (\<lambda>zid i w. (Inr (), w))"
  "apiUpdateDNSSEC (lab mode keys held) = (\<lambda>zn data ctid w. (Inr \<lparr>jID = 7, jSTID = ''s'', jStatus = ''PENDING''\<rparr>, w))"
  "apiJobStatus (lab mode keys held) = (\<lambda>i w. (Inr ''SUCCESS'', w))"
  "apiDNSKEYEvidence (lab mode keys held) = (\<lambda>rec zn ks w. (Inr hour, w))"
  "apiNoDSEvidence (lab mode keys held) = (\<lambda>zn w. (Inr (), w))"
  "apiDSEvidence (lab mode keys held) = (\<lambda>zn ks w. (Inr (), w))"
  "apiAuthoritativeDSEvidence (lab mode keys held) = (\<lambda>zn ks w. (Inr hour, w))"
  "apiRRSIGBy (lab mode keys held) = (\<lambda>rec zn k w. (Inr (), w))"
  "apiDNSKEYRRSIGBy (lab mode keys held) = (\<lambda>rec zn k w. (Inr (), w))"
  "apiDelegationEvidence (lab mode keys held) = (\<lambda>zn ns w. (Inr (), w))"
  "apiSend (lab mode keys held) = (\<lambda>n w. (Inr (), w))"
  "apiNow (lab mode keys held) = (\<lambda>w. (labNow, w))"
  "apiWriteAtomic (lab mode keys held) = (\<lambda>x w. (Inr (), w))"
  "libNewRR (lab mode keys held) = labRR"
  "libIsDomainName (lab mode keys held) = (\<lambda>n. True)"
  "libSha256 (lab mode keys held) = (\<lambda>t. [])"
  "libRFC3339Nano (lab mode keys held) = (\<lambda>t. itoa t)"
  "libRange (lab mode keys held) = (\<lambda>w m. m)"
  by (simp_all add: lab_def)


lemma labConfig_sel [exec]:
  "cfMode (labConfig mode) = mode" "cfEnrollment (labConfig mode) = \<lparr>ecEnabled = False, ecScope = [], ecDiscoveryGrace = hour, ecMaxPending = 1,
        ecMaxNewPerDay = 1, ecAllowedAlgorithms = [], ecIncludeZones = [], ecExcludeZones = []\<rparr>"
  "lcEnabled (ncLMTP (cfNotifications (labConfig mode))) = True"
  "ccIdempotencyRetention (cfController (labConfig mode)) = 720 * hour"
  by (simp_all add: labConfig_def)

lemma labSys_eq [exec]:
  "labSys w = \<lparr>sysState = \<lparr>sVersion = 1, sEnrollmentArmedAt = 0, sWorkflows = [(keyOf w, w)], sIdempotency = [], sNotifications = []\<rparr>, sysWorld = (), sysLog = []\<rparr>"
  by (simp add: labSys_def)

lemma labWorkflow_sel [exec]:
  "wZone (labWorkflow k p old new) = ''z''" "wKind (labWorkflow k p old new) = k" "wPhase (labWorkflow k p old new) = p"
  "wOldKeyID (labWorkflow k p old new) = old" "wNewKeyID (labWorkflow k p old new) = new"
  "wNextActionAt (labWorkflow k p old new) = 0" "wRegistrarAttemptedAt (labWorkflow k p old new) = 0"
  "wNewKeyCreateAttemptedAt (labWorkflow k p old new) = 0" "wNewZSKID (labWorkflow k p old new) = 0"
  "wRegistrarCTID (labWorkflow k p old new) = (if k = KindKSK then ''ctid'' else [])"
  "wZoneTTL (labWorkflow k p old new) = 86400"
  by (simp_all add: labWorkflow_def zeroWorkflow_def)

lemma labZone_sel [exec]: "zName labZone = ''z''" "zID labZone = ''z.''" "zDNSSEC labZone"
  by (simp_all add: labZone_def)

lemma lab_zone_pure [exec]:
  "validZoneName (lab mode keys held) ''z''"
  "selected (lab mode keys held) ''z''"
  by (simp_all add: validZoneName_def lab_def selected_def labConfig_def)

lemmas exec_pure [exec] = expiredNotifications_def dueNotifications_def errorsJoin_def skipZone_def Let_def
  bootstrapState_def bootstrapRoles_def addIfMissing_def mget_def mput_def workflowKey_def workflowActive_def timeIsZero_def
  getWorkflow_def putWorkflow_def


lemma idle_sel [exec]:
  "wZone (idleWorkflow zn k now) = zn" "wKind (idleWorkflow zn k now) = k" "wPhase (idleWorkflow zn k now) = PhaseIdle"
  by (simp_all add: idleWorkflow_def)

lemma knownPhase_simps [exec]:
  "\<not> knownPhase PhaseIdle" "\<not> knownPhase (PhaseOther t)"
  "knownPhase PhasePrepublish" "knownPhase PhaseWaitPublish" "knownPhase PhaseActivateNew"
  "knownPhase PhaseWaitNewSignature" "knownPhase PhaseDeactivateOld" "knownPhase PhaseParentRemove"
  "knownPhase PhaseWaitParentRemove" "knownPhase PhaseWaitRetire" "knownPhase PhaseDeleteOld"
  "knownPhase PhaseEnrollDiscovered" "knownPhase PhaseEnrollWaitPublish" "knownPhase PhaseEnrollParentAdd"
  "knownPhase PhaseEnrollWaitParent" "knownPhase PhaseBlocked"
  by (simp_all add: knownPhase_def)

text \<open>The keys stay folded: their fields, and what the pure functions make of them\<close>

lemma lab_keys [exec]:
  "kID labKSK = 1" "kID (labZSK a) = 2" "kID (labNewZSK a) = 3" "kID labNewKSK = 4"
  "kActive labKSK" "kActive (labZSK a) = a" "kActive (labNewZSK a) = a" "kActive labNewKSK"
  "kPublished labKSK" "kPublished (labZSK a)" "kPublished (labNewZSK a)" "kPublished labNewKSK"
  "kKeyType labKSK = ''ksk''" "kKeyType (labZSK a) = ''zsk''" "kKeyType (labNewZSK a) = ''zsk''"
  "kKeyType labNewKSK = ''ksk''"
  "kAlgorithm labKSK = ''ED448''" "kAlgorithm (labZSK a) = ''ED448''" "kAlgorithm (labNewZSK a) = ''ED448''"
  "kAlgorithm labNewKSK = ''ED448''"
  by (simp_all add: labKSK_def labZSK_def labNewZSK_def labNewKSK_def labKey_def)

definition labData :: "16 word \<Rightarrow> string \<Rightarrow> dnssecData" where
  "labData flags text = \<lparr>dFlags = flags, dProtocol = 3, dAlgorithm = 16, dPublicKey = text\<rparr>"

lemma lab_data [exec]:
  "DNSSECDataForKey labRR ''z'' labKSK = Inr (labData 257 ''K1'')"
  "DNSSECDataForKey labRR ''z'' labNewKSK = Inr (labData 257 ''K4'')"
  "DNSSECDataForKey labRR ''z'' (labZSK True) = Inr (labData 256 ''Z2'')"
  "DNSSECDataForKey labRR ''z'' (labZSK False) = Inr (labData 256 ''Z2'')"
  "DNSSECDataForKey labRR ''z'' (labNewZSK True) = Inr (labData 256 ''Z3'')"
  "DNSSECDataForKey labRR ''z'' (labNewZSK False) = Inr (labData 256 ''Z3'')"
  by (code_simp, code_simp, code_simp, code_simp, code_simp, code_simp)

lemma lab_registrar [exec]:
  "apiDomainDNSSEC (lab mode keys [k]) = (\<lambda>zn w. (Inr \<lparr>dsEnabled = True,
     dsData = (case DNSSECDataForKey labRR zn k of Inl e \<Rightarrow> [] | Inr d \<Rightarrow> [d]), dsOmitted = False\<rparr>, w))"
  "apiDomainDNSSEC (lab mode keys []) = (\<lambda>zn w. (Inr \<lparr>dsEnabled = True, dsData = [], dsOmitted = False\<rparr>, w))"
  by (simp_all add: lab_def)

lemma lab_material [exec]:
  "sameMaterial [labData f a] [labData f b] \<longleftrightarrow> trimSpace a = trimSpace b"
  by (simp add: sameMaterial_mset materialKey_eq_iff labData_def)

lemma lab_trim [exec]: "trimSpace ''K1'' = ''K1''" "trimSpace ''K4'' = ''K4''"
  by (code_simp, code_simp)

lemma lab_ttl [exec]: "durSeconds (maxTTL labZone) = 86400"
  by (simp add: durSeconds_maxTTL labZone_def)

lemmas exec_keys [exec] = initialSplit_def publishedKeys_def recordedKeys_def byID.simps keyScheme_def activeOfType_def
  exactlyOneActive_def slotReused_def zoneWait_def margin_def jobSucceeded_def
  completeState_def completedWorkflow_sel

section \<open>Assumptions\<close>

text \<open>The lab satisfies the assumptions of the properties.\<close>

lemma lab_ranges: "rangesAll (lab mode keys held)"
  by (simp add: rangesAll_def lab_def)

lemma lab_clock: "clockReadings (lab mode keys held) = {labNow}"
  by (auto simp: clockReadings_def lab_def)

lemma lab_wf: "namedKind k \<Longrightarrow> validPhase k p \<Longrightarrow> wfState (sysState (labSys (labWorkflow k p old new)))"
  by (simp add: labSys_def labWorkflow_def wfState_def wfWorkflow_def)

end
