(* ===== verification/Witnesses.thy ===== *)
theory Witnesses
  imports Conduct Outbox Waits Scenario
begin

text \<open>
  The properties at concrete inputs: runs of the controller in the environment of
  \<open>Scenario\<close>, where every assumption holds and the event that the property is about occurs.
\<close>

section \<open>Runs that write\<close>

definition labEnd :: "unit controller \<Rightarrow> workflow \<Rightarrow> unit sys" where
  "labEnd c w = snd (Tick c (labSys w))"

lemma lab_life: "life c (labSys w) (labEnd c w)"
  by (rule life_pass [OF life.boot, of _ _ "fst (Tick c (labSys w))"]) (simp add: labEnd_def)

lemma lab_event:
  assumes "list_ex P (labTick c w)"
  obtains h e rest where "sysLog (labEnd c w) = sysLog (labSys w) @ h @ e # rest" "P e"
proof -
  obtain e where "e \<in> set (labTick c w)" "P e"
    using assms by (auto simp: list_ex_iff)
  then obtain h rest where "labTick c w = h @ e # rest"
    by (meson split_list)
  with \<open>P e\<close> show ?thesis
    by (intro that [of h e rest]) (simp_all add: labTick_def labEnd_def labSys_def)
qed

fun isDelete :: "event \<Rightarrow> bool" where
  "isDelete (EvDeleteKey zid i r) = (zid = ''z.'' \<and> i = 2)" | "isDelete _ = False"
fun isActivate :: "event \<Rightarrow> bool" where
  "isActivate (EvSetKey zid k act pub r) = (zid = ''z.'' \<and> act \<and> kID k = 3)" | "isActivate _ = False"
fun isDeactivate :: "event \<Rightarrow> bool" where
  "isDeactivate (EvSetKey zid k act pub r) = (zid = ''z.'' \<and> \<not> act \<and> kID k = 2)" | "isDeactivate _ = False"
fun isCreate :: "event \<Rightarrow> bool" where
  "isCreate (EvCreateKey zid typ alg act r) = (zid = ''z.'' \<and> typ = ''zsk'')" | "isCreate _ = False"
fun isUpdate :: "event \<Rightarrow> bool" where
  "isUpdate (EvUpdateDNSSEC zn data ctid r) = (zn = ''z'' \<and> ctid = ''ctid'')" | "isUpdate _ = False"

abbreviation "deleteLab \<equiv> lab ''enforce'' [labKSK, labZSK False, labNewZSK True] [labKSK]"
abbreviation "deleteFlow \<equiv> labWorkflow KindZSK PhaseDeleteOld 2 3"
abbreviation "activateLab \<equiv> lab ''enforce'' [labKSK, labZSK True, labNewZSK False] [labKSK]"
abbreviation "activateFlow \<equiv> labWorkflow KindZSK PhaseActivateNew 2 3"
abbreviation "deactivateLab \<equiv> lab ''enforce'' [labKSK, labZSK True, labNewZSK True] [labKSK]"
abbreviation "deactivateFlow \<equiv> labWorkflow KindZSK PhaseDeactivateOld 2 3"
abbreviation "createLab \<equiv> lab ''enforce'' [labKSK, labZSK True] [labKSK]"
abbreviation "createFlow \<equiv> labWorkflow KindZSK PhasePrepublish 2 0"
abbreviation "updateLab \<equiv> lab ''enforce'' [labKSK, labNewKSK, labZSK True] [labKSK]"
abbreviation "updateFlow \<equiv> labWorkflow KindKSK PhaseParentRemove 1 4"


lemma lab_update: "validatePrepublishInventory labRR ''z'' [labKSK, labNewKSK, labZSK True] updateFlow = None"
  by code_simp

lemma lab_retire: "retirementInventory labRR ''z'' [labKSK, labZSK False, labNewZSK True] deleteFlow
    = Inr [labNewZSK True, labKSK, labZSK False]"
  by code_simp

lemma lab_adopt:
  "adoptCandidates labRR ''z'' createFlow ''zsk'' ''ED448'' 2 False False False [labKSK, labZSK True] = Inr []"
  by code_simp

lemma lab_created:
  "checkCreated labRR ''z'' createFlow ''zsk'' ''ED448'' 2 False False False (labNewZSK False) = Inr (labNewZSK False)"
  by code_simp

lemmas lab_runs = lab_update lab_retire lab_adopt lab_created

lemma lab_deletes: "list_ex isDelete (labTick deleteLab deleteFlow)"
  by (simp add: labTick_def exec lab_runs cong: exec_cong split del: if_split)
lemma lab_activates: "list_ex isActivate (labTick activateLab activateFlow)"
  by (simp add: labTick_def exec lab_runs cong: exec_cong split del: if_split)
lemma lab_deactivates: "list_ex isDeactivate (labTick deactivateLab deactivateFlow)"
  by (simp add: labTick_def exec lab_runs cong: exec_cong split del: if_split)
lemma lab_creates: "list_ex isCreate (labTick createLab createFlow)"
  by (simp add: labTick_def exec lab_runs cong: exec_cong split del: if_split)
lemma lab_updates: "list_ex isUpdate (labTick updateLab updateFlow)"
  by (simp add: labTick_def exec lab_runs cong: exec_cong split del: if_split)

lemma lab_persists: "list_ex isPersist (labTick createLab createFlow)"
  by (simp add: labTick_def exec lab_runs cong: exec_cong split del: if_split)

lemmas lab_started = lab_life lab_wf lab_ranges

lemma flow_phases:
  "validPhase KindZSK PhaseDeleteOld" "validPhase KindZSK PhaseActivateNew" "validPhase KindZSK PhaseDeactivateOld"
  "validPhase KindZSK PhasePrepublish" "validPhase KindKSK PhaseParentRemove" "validPhase KindZSK PhaseIdle"
  by (simp_all add: validPhase_kinds)

lemma lab_clock_set: "0 \<notin> clockReadings (lab mode keys held)"
  by (simp add: lab_clock labNow_def)

theorem deletion_is_proven_witness:
  "\<exists>h r rest zone keys w h1 h2. sysLog (labEnd deleteLab deleteFlow) = h @ EvDeleteKey ''z.'' 2 r # rest
     \<and> h = h1 @ h2 \<and> underway deleteLab (sysState (labSys deleteFlow)) zone keys w h1
     \<and> wPhase w = PhaseDeleteOld \<and> deletionReady deleteLab zone keys w h2 2"
proof -
  obtain h e rest where log: "sysLog (labEnd deleteLab deleteFlow) = sysLog (labSys deleteFlow) @ h @ e # rest" "isDelete e"
    by (rule lab_event [OF lab_deletes])
  then obtain r where e: "e = EvDeleteKey ''z.'' 2 r" by (cases e) auto
  from deletion_is_proven [OF lab_life lab_wf lab_ranges log(1) [unfolded e]] log(1) e
  show ?thesis by (simp add: flow_phases labSys_def) blast
qed

theorem activation_is_prepublished_witness:
  "\<exists>h k r rest zone keys w h1 h2. sysLog (labEnd activateLab activateFlow) = h @ EvSetKey ''z.'' k True True r # rest
     \<and> h = h1 @ h2 \<and> underway activateLab (sysState (labSys activateFlow)) zone keys w h1
     \<and> wPhase w = PhaseActivateNew \<and> activationReady activateLab zone keys w k"
proof -
  obtain h e rest where log: "sysLog (labEnd activateLab activateFlow) = sysLog (labSys activateFlow) @ h @ e # rest" "isActivate e"
    by (rule lab_event [OF lab_activates])
  then obtain k p r where e: "e = EvSetKey ''z.'' k True p r" by (cases e) auto
  from activation_is_prepublished [OF lab_life lab_wf lab_ranges log(1) [unfolded e]] log(1) e
  show ?thesis by (simp add: flow_phases labSys_def) blast
qed

theorem deactivation_is_proven_witness:
  "\<exists>h k r rest zone keys w h1 h2. sysLog (labEnd deactivateLab deactivateFlow) = h @ EvSetKey ''z.'' k False True r # rest
     \<and> h = h1 @ h2 \<and> underway deactivateLab (sysState (labSys deactivateFlow)) zone keys w h1
     \<and> wPhase w = PhaseDeactivateOld \<and> deactivationReady deactivateLab zone keys w h2 k"
proof -
  obtain h e rest where log: "sysLog (labEnd deactivateLab deactivateFlow) = sysLog (labSys deactivateFlow) @ h @ e # rest" "isDeactivate e"
    by (rule lab_event [OF lab_deactivates])
  then obtain k p r where e: "e = EvSetKey ''z.'' k False p r" by (cases e) auto
  from deactivation_is_proven [OF lab_life lab_wf lab_ranges log(1) [unfolded e]] log(1) e
  show ?thesis by (simp add: flow_phases labSys_def) blast
qed

lemma lab_create_event:
  obtains h alg act r rest where
    "sysLog (labEnd createLab createFlow) = sysLog (labSys createFlow) @ h @ EvCreateKey ''z.'' ''zsk'' alg act r # rest"
proof -
  obtain h e rest where log: "sysLog (labEnd createLab createFlow) = sysLog (labSys createFlow) @ h @ e # rest" "isCreate e"
    by (rule lab_event [OF lab_creates])
  then obtain alg act r where "e = EvCreateKey ''z.'' ''zsk'' alg act r" by (cases e) auto
  with log(1) show ?thesis by (intro that) simp
qed

lemma lab_update_event:
  obtains h data r rest where
    "sysLog (labEnd updateLab updateFlow) = sysLog (labSys updateFlow) @ h @ EvUpdateDNSSEC ''z'' data ''ctid'' r # rest"
proof -
  obtain h e rest where log: "sysLog (labEnd updateLab updateFlow) = sysLog (labSys updateFlow) @ h @ e # rest" "isUpdate e"
    by (rule lab_event [OF lab_updates])
  then obtain data r where "e = EvUpdateDNSSEC ''z'' data ''ctid'' r" by (cases e) auto
  with log(1) show ?thesis by (intro that) simp
qed

theorem creation_is_recorded_witness:
  "\<exists>h alg act r rest zone keys w h1 h2. sysLog (labEnd createLab createFlow) = h @ EvCreateKey ''z.'' ''zsk'' alg act r # rest
     \<and> h = h1 @ h2 \<and> underway createLab (sysState (labSys createFlow)) zone keys w h1
     \<and> createReady createLab zone keys w (lastPersist (sysState (labSys createFlow)) h1) h2 ''zsk'' alg act"
proof -
  obtain h alg act r rest where log:
      "sysLog (labEnd createLab createFlow) = sysLog (labSys createFlow) @ h @ EvCreateKey ''z.'' ''zsk'' alg act r # rest"
    by (rule lab_create_event)
  from creation_is_recorded [OF lab_life lab_wf lab_ranges this] log
  show ?thesis by (simp add: flow_phases labSys_def) blast
qed

theorem submission_is_recorded_witness:
  "\<exists>h data r rest zone keys w h1 h2. sysLog (labEnd updateLab updateFlow) = h @ EvUpdateDNSSEC ''z'' data ''ctid'' r # rest
     \<and> h = h1 @ h2 \<and> underway updateLab (sysState (labSys updateFlow)) zone keys w h1
     \<and> justPersisted (lastPersist (sysState (labSys updateFlow)) h1) h2 (updateIntent updateLab w)"
proof -
  obtain h data r rest where log:
      "sysLog (labEnd updateLab updateFlow) = sysLog (labSys updateFlow) @ h @ EvUpdateDNSSEC ''z'' data ''ctid'' r # rest"
    by (rule lab_update_event)
  from submission_is_recorded [OF lab_life lab_wf lab_ranges this] log
  show ?thesis by (simp add: flow_phases labSys_def) blast
qed


theorem one_creation_witness:
  "\<exists>h alg act r (zone :: zone) k slot. zID zone = ''z.''
     \<and> justPersisted (sysState (labSys createFlow)) h (firstAttempt (slotAttempt slot) (workflowKey (zName zone) k))
     \<and> (\<exists>rest. sysLog (labEnd createLab createFlow) = h @ EvCreateKey ''z.'' ''zsk'' alg act r # rest)"
proof -
  obtain h alg act r rest where log:
      "sysLog (labEnd createLab createFlow) = sysLog (labSys createFlow) @ h @ EvCreateKey ''z.'' ''zsk'' alg act r # rest"
    by (rule lab_create_event)
  from one_creation [OF lab_life lab_wf lab_ranges lab_clock_set this] log
  show ?thesis by (simp add: flow_phases labSys_def) blast
qed


theorem documents_well_formed_witness: "wfState (sysState (labEnd deleteLab deleteFlow))"
  by (rule documents_well_formed [OF lab_life lab_wf lab_ranges]) (simp_all add: flow_phases)

theorem one_active_per_zone_witness: "length (activeIn ''z'' (sysState (labEnd deleteLab deleteFlow))) \<le> 1"
  by (rule one_active_per_zone [OF lab_life lab_wf lab_ranges])
    (simp_all add: flow_phases labConfig_sel lab_sel activeIn_def mvals_def labSys_def)

section \<open>Passes\<close>

abbreviation "observeLab \<equiv> lab ''observe'' [labKSK, labZSK False, labNewZSK True] [labKSK]"

lemma labEnd_run: "Tick c (labSys w) = (fst (Tick c (labSys w)), labEnd c w)"
  by (simp add: labEnd_def)

theorem observe_mode_writes_nothing_witness:
  "sysState (labEnd observeLab deleteFlow) = sysState (labSys deleteFlow)
   \<and> (\<exists>es. sysLog (labEnd observeLab deleteFlow) = sysLog (labSys deleteFlow) @ es \<and> list_all isListing es)"
  by (rule observe_mode_writes_nothing [OF _ labEnd_run]) (simp add: labConfig_sel lab_sel)

theorem every_zone_is_reconciled_witness:
  "\<exists>keys. EvListKeys ''z.'' keys \<in> set (labTick deleteLab deleteFlow)"
proof -
  have "EvListZones (Inr [labZone]) \<in> set (labTick deleteLab deleteFlow)"
    by (simp add: labTick_def exec lab_runs cong: exec_cong split del: if_split)
  from every_zone_is_reconciled [OF labEnd_run [of deleteLab deleteFlow] _ this, of labZone]
  show ?thesis
    by (simp add: labTick_def labSys_def labEnd_def labZone_sel lab_zone_pure)
qed

abbreviation "lostLab \<equiv> lab ''enforce'' [] [labKSK]"
abbreviation "retireFlow \<equiv> labWorkflow KindZSK PhaseWaitRetire 2 3"

theorem failure_is_retried_witness:
  "\<exists>r t. advance lostLab labZone [] retireFlow (labSys retireFlow) = (r, t)
     \<and> r = Inl (Fmt RecordedOldMissing [AInt 2])
     \<and> (sysState t = sysState (labSys retireFlow) \<or> (\<exists>now\<in>clockReadings lostLab. sysState t =
          putWorkflow (keyOf retireFlow) (retried (Fmt RecordedOldMissing [AInt 2]) now
            (getWorkflow (sysState (labSys retireFlow)) (keyOf retireFlow))) (sysState (labSys retireFlow))))"
proof -
  have w: "wNextActionAt retireFlow = 0" "knownPhase (wPhase retireFlow)"
    by (simp_all add: exec)
  have h: "handlePhase lostLab labZone [] retireFlow (clockRead lostLab retireFlow (labSys retireFlow))
      = (Inl (Fmt RecordedOldMissing [AInt 2]), labSys retireFlow)"
    by (simp add: exec clockRead_def waitRetire_def [THEN fun_cong] cong: exec_cong)
  obtain r t where a: "advance lostLab labZone [] retireFlow (labSys retireFlow) = (r, t)"
    by (cases "advance lostLab labZone [] retireFlow (labSys retireFlow)")
  from failure_is_retried [OF disjI1 [OF w(1)] w(2) h a] a show ?thesis by blast
qed

abbreviation "laterFlow \<equiv> deleteFlow\<lparr>wNextActionAt := labNow + 1\<rparr>"

theorem no_action_before_its_time_witness:
  "advance deleteLab labZone [labKSK] laterFlow (labSys laterFlow)
     = (Inr (), labSys laterFlow\<lparr>sysWorld := ()\<rparr>)"
  using no_action_before_its_time [of laterFlow deleteLab "labSys laterFlow" labZone "[labKSK]"]
  by (simp add: lab_sel labNow_def)

abbreviation "idleFlow \<equiv> labWorkflow KindZSK PhaseIdle 0 0"

theorem start_makes_one_active_witness:
  "\<exists>t. start createLab ''z'' KindZSK True ''request'' (labSys idleFlow) = (Inr (), t)
     \<and> activeIn ''z'' (sysState t) = [getWorkflow (sysState t) (workflowKey ''z'' KindZSK)]"
proof -
  have s: "fst (start createLab ''z'' KindZSK True ''request'' (labSys idleFlow)) = Inr ()"
    by (simp add: exec start_def [THEN fun_cong] cong: exec_cong)
  then obtain t where t: "start createLab ''z'' KindZSK True ''request'' (labSys idleFlow) = (Inr (), t)"
    by (metis prod.collapse)
  from start_makes_one_active [OF t lab_wf lab_ranges] t show ?thesis
    by (simp add: flow_phases)
qed

theorem completion_is_atomic_witness:
  "\<exists>t. complete deleteLab deleteFlow (labSys deleteFlow) = (Inr (), t)
     \<and> completesAt deleteLab deleteFlow labNow (sysState (labSys deleteFlow)) (sysState t)"
proof -
  have "fst (complete deleteLab deleteFlow (labSys deleteFlow)) = Inr ()"
    by (simp add: exec cong: exec_cong)
  then obtain t where t: "complete deleteLab deleteFlow (labSys deleteFlow) = (Inr (), t)"
    by (metis prod.collapse)
  from completion_is_atomic [OF t] t show ?thesis
    by (simp add: lab_clock)
qed

section \<open>Notifications and waits\<close>

abbreviation "notice \<equiv> zeroNotification\<lparr>nID := ''n'', nZone := ''z''\<rparr>"

definition noticeSys :: "unit sys" where
  "noticeSys = labSys idleFlow\<lparr>sysState := (sysState (labSys idleFlow))\<lparr>sNotifications := [(''n'', notice)]\<rparr>\<rparr>"

lemma notice_run:
  "fst (deliverNotifications createLab noticeSys) = Inr ()
   \<and> sysLog (snd (deliverNotifications createLab noticeSys)) = [EvSend notice (Inr ()),
       EvPersist (sysState noticeSys\<lparr>sNotifications := [(''n'', notice\<lparr>nDeliveredAt := labNow\<rparr>)]\<rparr>)]"
  by (simp add: noticeSys_def exec zeroNotification_def recordDelivery_def timeBefore_def cong: exec_cong)

theorem notifications_are_kept_witness:
  "\<exists>(x :: state) m. mget (sNotifications x) ''n'' = Some m \<and> nDeliveredAt m = labNow
     \<and> report m = report notice \<and> justSent notice [EvSend notice (Inr ())]"
proof -
  let ?x = "sysState noticeSys\<lparr>sNotifications := [(''n'', notice\<lparr>nDeliveredAt := labNow\<rparr>)]\<rparr>"
  have "case mget (sNotifications ?x) ''n'' of
      None \<Rightarrow> nDeliveredAt notice \<noteq> 0 \<and> (\<exists>now\<in>clockReadings createLab.
        ccIdempotencyRetention (cfController (cfg createLab)) < timeSub now (nDeliveredAt notice))
    | Some m \<Rightarrow> report m = report notice
        \<and> (nDeliveredAt m \<noteq> nDeliveredAt notice \<longrightarrow> nDeliveredAt notice = 0 \<and> justSent notice [EvSend notice (Inr ())])"
    by (rule notifications_are_kept [OF surjective_pairing, where s = noticeSys and i = "''n''" and rest = "[]"])
      (simp_all add: notice_run, simp_all add: noticeSys_def labSys_def mget_def)
  then show ?thesis
    by (intro exI [of _ ?x] exI [of _ "notice\<lparr>nDeliveredAt := labNow\<rparr>"])
      (simp add: mget_def labNow_def zeroNotification_def)
qed

theorem due_notifications_are_sent_witness:
  "\<exists>es res. sysLog (snd (deliverNotifications createLab noticeSys)) = sysLog noticeSys @ es \<and> EvSend notice res \<in> set es"
proof -
  have "mget (sNotifications (sysState noticeSys)) ''n'' = Some notice"
    "distinct (map fst (sNotifications (sysState noticeSys)))"
    by (simp_all add: noticeSys_def labSys_def mget_def)
  from due_notifications_are_sent [OF surjective_pairing, of createLab, OF _ this(2,1)]
  show ?thesis
    using notice_run by (simp add: lab_sel labConfig_sel zeroNotification_def labNow_def)
qed

abbreviation "publishFlow \<equiv> labWorkflow KindZSK PhaseWaitPublish 2 3"

lemma publish_inventory: "validatePrepublishInventory labRR ''z'' [labKSK, labZSK True, labNewZSK False] publishFlow = None"
  by code_simp

theorem publication_is_waited_for_witness:
  "\<exists>t. waitPublish activateLab labZone [labKSK, labZSK True, labNewZSK False] publishFlow (labSys publishFlow) = (Inr (), t)
     \<and> wPhase (getWorkflow (sysState t) (keyOf publishFlow)) = PhaseWaitPublish
     \<and> (\<exists>ttl. wNextActionAt (getWorkflow (sysState t) (keyOf publishFlow)) = labNow + publicationWait activateLab ttl \<or> \<not> fits ttl)"
proof -
  let ?run = "waitPublish activateLab labZone [labKSK, labZSK True, labNewZSK False] publishFlow (labSys publishFlow)"
  have "fst ?run = Inr ()"
    by (simp add: exec publish_inventory dnskeyEvidenceFor_def cong: exec_cong)
  then obtain t where t: "?run = (Inr (), t)"
    by (metis prod.collapse)
  moreover have "wEvidenceAt publishFlow = 0"
    by (simp add: labWorkflow_def zeroWorkflow_def)
  moreover have "sysLog t = sysLog (labSys publishFlow) @ sysLog t"
    by (simp add: labSys_def)
  ultimately show ?thesis
    using publication_is_waited_for [OF t]
    by (simp add: exec lab_clock fits_def labConfig_def hour_def minute_def second_def) blast
qed

abbreviation "bigZone \<equiv> labZone\<lparr>zRRsets := [\<lparr>rName = ''z'', rType = ''A'', rTTL = 172800, rRecords = []\<rparr>]\<rparr>"

theorem zone_ttl_bounds_witness: "86400 * second \<le> maxTTL bigZone \<and> 172800 * second \<le> maxTTL bigZone"
  using zone_ttl_bounds [of bigZone] by simp

theorem retirement_is_waited_for_witness:
  "\<exists>t detail. deactivateRecorded deactivateLab labZone [labKSK, labZSK True, labNewZSK True] deactivateFlow (labSys deactivateFlow)
       = (Inr (), t)
     \<and> labNow + maxTTL detail + margin deactivateLab \<le> wNextActionAt (getWorkflow (sysState t) (keyOf deactivateFlow))"
proof -
  let ?run = "deactivateRecorded deactivateLab labZone [labKSK, labZSK True, labNewZSK True] deactivateFlow (labSys deactivateFlow)"
  have "fst ?run = Inr ()"
    by (simp add: exec cong: exec_cong)
  then obtain t where t: "?run = (Inr (), t)"
    by (metis prod.collapse)
  moreover have "sysLog t = sysLog (labSys deactivateFlow) @ sysLog t"
    by (simp add: labSys_def)
  moreover have "fits (margin deactivateLab)"
    by (simp add: exec fits_def labConfig_def hour_def minute_def second_def)
  ultimately show ?thesis
    using retirement_is_waited_for [OF t] by (simp add: lab_clock labWorkflow_sel labZone_sel Let_def) blast
qed

section \<open>Overlapping workflows\<close>

text \<open>Enrollment has been armed; it is now enabled for a zone that is being rotated.\<close>

definition overlapLab :: "unit controller" where
  "overlapLab = activateLab\<lparr>cfg := (labConfig ''enforce'')\<lparr>cfEnrollment :=
     \<lparr>ecEnabled = True, ecScope = ''all_selected'', ecDiscoveryGrace = hour, ecMaxPending = 3,
      ecMaxNewPerDay = 3, ecAllowedAlgorithms = [''ED448''], ecIncludeZones = [], ecExcludeZones = []\<rparr>\<rparr>\<rparr>"

definition overlapSys :: "unit sys" where
  "overlapSys = labSys activateFlow\<lparr>sysState := (sysState (labSys activateFlow))\<lparr>sEnrollmentArmedAt := 1\<rparr>\<rparr>"

lemma overlap_state:
  "map wKind (activeIn ''z'' (bootstrapState overlapLab labZone ''unknown'' [labKSK, labZSK True, labNewZSK False] labNow
     (sysState overlapSys))) = [KindZSK, KindEnroll]"
  by code_simp


end
