(* ===== verification/Operator.thy ===== *)
theory Operator
  imports Runs Waits
begin

text \<open>
  What the requests of the operator promise: they change the document only, and only after
  the checks; an accepted request may be repeated; what was armed, resumed or attested rests
  on evidence that was collected for it.
\<close>

section \<open>Requests change the document only\<close>

fun changes :: "httpRequest \<Rightarrow> bool" where
  "changes (PostTrigger body key) = True"
| "changes (PostResume body key) = True"
| "changes (PostReconcileSplitSigner body key) = True"
| "changes (PostArmEnrollment body key) = True"
| "changes _ = False"

lemma serve_reads: "\<not> changes req \<Longrightarrow> readonly (serve c req)"
  by (cases req) (auto simp: serve_def planHandler_def respond_def writeError_def intro!: reads)


section \<open>Repeated requests\<close>

text \<open>Every document keeps the idempotency keys of the one before.\<close>

lemma docStep_idempotency:
  "docStep p x \<Longrightarrow> mget (sIdempotency p) i = Some fp \<Longrightarrow> mget (sIdempotency x) i = Some fp"
  by (auto simp: docStep_def ownStep_def bootStep_def outboxStep_def sameRest_def requestStep_def)

lemma steps_invariant:
  assumes "guarded (tickGuard c st) es" "P st" "\<And>p x. docStep p x \<Longrightarrow> P p \<Longrightarrow> P x"
  shows "P (lastPersist st es)"
  using assms(1)
proof (induction es rule: rev_induct)
  case (snoc e es)
  then show ?case
    by (cases e) (auto simp: lastPersist_other tickGuard_def stepsGuard_def intro: assms(3))
qed (simp add: assms(2))

lemma life_invariant:
  assumes "life c s0 s" "wfState (sysState s0)" "rangesAll c" "P (sysState s0)" "\<And>p x. docStep p x \<Longrightarrow> P p \<Longrightarrow> P x"
  shows "P (sysState s)"
  using life_guarded [OF assms(1-3)] steps_invariant [of c "sysState s0" _ P] assms(4,5) by (auto simp: since_def)

text \<open>The idempotency key of a request and the fingerprint it is filed under\<close>

fun requestKey :: "httpRequest \<Rightarrow> string" where
  "requestKey (PostTrigger body key) = trimSpace key"
| "requestKey (PostResume body key) = trimSpace key"
| "requestKey (PostReconcileSplitSigner body key) = trimSpace key"
| "requestKey (PostArmEnrollment body key) = trimSpace key"
| "requestKey _ = []"

fun requestFingerprint :: "httpRequest \<Rightarrow> string" where
  "requestFingerprint (PostTrigger (Inr q) key) = triggerFingerprint (rqKind q) (normalizeZones (rqZones q))"
| "requestFingerprint (PostResume (Inr q) key) = resumeFingerprint (rsKind q) (rsPhase q) (normalizeZones (rsZones q))"
| "requestFingerprint (PostReconcileSplitSigner (Inr q) key) = ''reconcile-split-signer|'' @ normalizeZone (ssZone q)"
| "requestFingerprint (PostArmEnrollment body key) = ''enrollment-arm''"
| "requestFingerprint _ = []"

text \<open>The four requests with an accepted answer have recorded their key.\<close>

definition recorded :: "string \<Rightarrow> string \<Rightarrow> 'w sys \<Rightarrow> bool" where
  "recorded idem fp t \<longleftrightarrow> mget (sIdempotency (sysState t)) idem = Some fp"

lemma update_recorded:
  assumes "wp (fn (sysState u)) (\<lambda>r t. \<forall>x. r = Inr x \<longrightarrow> mget (sIdempotency x) idem = Some fp) u"
  shows "wp (storeUpdate c fn) (\<lambda>r t. \<forall>x. r = Inr x \<longrightarrow> recorded idem fp t) u"
  by (rule vcg_storeUpdate, rule wp_mono [OF assms])
    (auto simp: persisting_def recorded_def split: sum.split)


text \<open>Any request that asks for the key of another one is refused.\<close>

lemmas run_basic =
  bind_def snapshot_def throw_def ret_def idempotent_def attempt_def Let_def

lemma serve_refuses:
  assumes "recorded (requestKey req) fp u" "changes req" "fp \<noteq> requestFingerprint req"
  shows "\<exists>st e. serve c req u = (Inr (st, BodyError e), u) \<and> st \<in> {400, 409}"
proof (cases req)
  case (PostTrigger body key)
  with assms show ?thesis
    by (auto simp: serve_def triggerHandler_def respond_def writeError_def decode_def Trigger_def recorded_def run_basic
        split: sum.splits)
next
  case (PostResume body key)
  with assms show ?thesis
    by (auto simp: serve_def resumeHandler_def respond_def writeError_def Resume_def recorded_def run_basic
        split: sum.splits)
next
  case (PostReconcileSplitSigner body key)
  with assms show ?thesis
    by (auto simp: serve_def reconcileSplitSigner_def respond_def writeError_def ReconcileSplitSignerTransition_def
        recorded_def run_basic split: sum.splits)
next
  case (PostArmEnrollment body key)
  with assms show ?thesis
    by (auto simp: serve_def armEnrollment_def respond_def writeError_def ArmEnrollment_def recorded_def run_basic
        split: sum.splits)
qed (use assms in simp_all)

text \<open>An accepted request has recorded its key, and is accepted again as long as the key is kept.\<close>

definition accepts :: "('w, unit) io \<Rightarrow> string \<Rightarrow> string \<Rightarrow> bool" where
  "accepts m idem fp \<longleftrightarrow> (\<forall>s t. m s = (Inr (), t) \<longrightarrow>
     recorded idem fp t \<and> (\<forall>u. recorded idem fp u \<longrightarrow> m u = (Inr (), u)))"

lemma acceptsI:
  assumes "\<And>s. wp m (\<lambda>r t. r = Inr () \<longrightarrow> recorded idem fp t) s"
    and "\<And>s t u. m s = (Inr (), t) \<Longrightarrow> recorded idem fp u \<Longrightarrow> m u = (Inr (), u)"
  shows "accepts m idem fp"
  unfolding accepts_def using assms by (auto dest: wpI)

lemma vcg_idempotent_same:
  "(mget m idem = Some fp \<Longrightarrow> wp again Q s) \<Longrightarrow> Q (Inl (Fmt conflict [])) s \<Longrightarrow> (mget m idem = None \<Longrightarrow> wp go Q s)
   \<Longrightarrow> wp (idempotent m idem fp conflict again go) Q s"
  by (simp add: idempotent_def wp_simps split: option.split)

lemma wp_any: "(\<And>t e. Q (Inl e) t) \<Longrightarrow> (\<And>t x. Q (Inr x) t) \<Longrightarrow> wp m Q s"
  unfolding wp_def by (metis (mono_tags, lifting) case_prod_conv old.sum.exhaust surj_pair)

lemmas accept_flow =
  vcg_bind vcg_Inl vcg_Inr vcg_if vcg_let vcg_option vcg_sum vcg_snapshot vcg_throw vcg_ret vcg_pureE vcg_idempotent_same
  vcg_storeUpdate vcg_persisting

lemma Trigger_accepts: "accepts (Trigger c k zones idem) idem (triggerFingerprint k (normalizeZones zones))"
proof (rule acceptsI)
  show "wp (Trigger c k zones idem) (\<lambda>r t. r = Inr () \<longrightarrow> recorded idem (triggerFingerprint k (normalizeZones zones)) t) s" for s
    unfolding Trigger_def
    by (intro accept_flow wp_any [of _ "listZones c"] wp_any [of _ "triggerZones c k m names" for m names]
        wp_any [of _ "clockNow c"] wp_any [of _ "noneActive c p zs" for p zs])
      (auto simp: recorded_def)
qed (auto simp: Trigger_def recorded_def run_basic split: if_splits)

lemma Resume_accepts: "accepts (Resume c k zones ph idem) idem (resumeFingerprint k ph (normalizeZones zones))"
proof (rule acceptsI)
  show "wp (Resume c k zones ph idem) (\<lambda>r t. r = Inr () \<longrightarrow> recorded idem (resumeFingerprint k ph (normalizeZones zones)) t) s" for s
    unfolding Resume_def
    by (intro accept_flow wp_any [of _ "listZones c"] wp_any [of _ "resumeZones c k st m names" for st m names]
        wp_any [of _ "clockNow c"])
      (auto simp: recorded_def)
qed (auto simp: Resume_def recorded_def run_basic split: if_splits)

lemma Reconcile_accepts:
  "accepts (ReconcileSplitSignerTransition c zn idem) idem (''reconcile-split-signer|'' @ normalizeZone zn)"
proof (rule acceptsI)
  show "wp (ReconcileSplitSignerTransition c zn idem)
      (\<lambda>r t. r = Inr () \<longrightarrow> recorded idem (''reconcile-split-signer|'' @ normalizeZone zn) t) s" for s
    unfolding ReconcileSplitSignerTransition_def attest_def
    by (intro accept_flow vcg_wrapErr wp_any [of _ "listZones c"] wp_any [of _ "listKeys c zid" for zid] wp_any [of _ "clockNow c"]
        wp_any [of _ "validateSplitSignerTransitionEvidence c z ks w" for z ks w])
      (auto simp: recorded_def)
qed (auto simp: ReconcileSplitSignerTransition_def recorded_def run_basic split: if_splits)

lemma Arm_accepts: "accepts (ArmEnrollment c idem) idem ''enrollment-arm''"
proof (rule acceptsI)
  show "wp (ArmEnrollment c idem) (\<lambda>r t. r = Inr () \<longrightarrow> recorded idem ''enrollment-arm'' t) s" for s
    unfolding ArmEnrollment_def
    by (intro accept_flow wp_any [of _ "listZones c"] wp_any [of _ "clockNow c"])
      (auto simp: recorded_def armState_def)
qed (auto simp: ArmEnrollment_def recorded_def run_basic split: if_splits)

lemma acceptsD:
  "accepts m idem fp \<Longrightarrow> m s = (Inr (), t) \<Longrightarrow>
    recorded idem fp t \<and> (\<forall>u. recorded idem fp u \<longrightarrow> m u = (Inr (), u))"
  unfolding accepts_def by blast

lemma respond_accepted: "respond 409 202 f m s = (Inr (202, b), t) \<longleftrightarrow> (\<exists>x. m s = (Inr x, t) \<and> b = f x)"
  by (auto simp: respond_def bind_def attempt_def ret_def writeError_def split: prod.splits sum.splits)

lemma serve_accepted:
  assumes "serve c req s = (Inr (202, b), t)"
  shows "changes req \<and> recorded (requestKey req) (requestFingerprint req) t
    \<and> (\<forall>u. recorded (requestKey req) (requestFingerprint req) u \<longrightarrow> serve c req u = (Inr (202, b), u))"
proof (cases req)
  case (PostTrigger body key)
  with assms obtain q where q: "decode body = Inr q" "rqConfirm q" "b = BodyStatus ''accepted''"
      "Trigger c (rqKind q) (rqZones q) (trimSpace key) s = (Inr (), t)"
    by (auto simp: serve_def triggerHandler_def respond_accepted writeError_def ret_def split: sum.splits if_splits)
  then have "body = Inr q" by (auto simp: decode_def split: sum.splits if_splits)
  with q PostTrigger show ?thesis
    using acceptsD [OF Trigger_accepts q(4)]
    by (simp add: serve_def triggerHandler_def respond_accepted)
next
  case (PostResume body key)
  with assms show ?thesis
    by (auto simp: serve_def resumeHandler_def respond_accepted writeError_def ret_def
        split: sum.splits if_splits dest: Resume_accepts [THEN acceptsD])
next
  case (PostReconcileSplitSigner body key)
  with assms show ?thesis
    by (auto simp: serve_def reconcileSplitSigner_def respond_accepted writeError_def ret_def
        split: sum.splits if_splits dest: Reconcile_accepts [THEN acceptsD])
next
  case (PostArmEnrollment body key)
  with assms show ?thesis
    by (auto simp: serve_def armEnrollment_def respond_accepted writeError_def ret_def
        split: sum.splits if_splits dest: Arm_accepts [THEN acceptsD])
qed (use assms in \<open>auto simp: serve_def planHandler_def respond_def writeError_def bind_def attempt_def ret_def
       split: sum.splits prod.splits\<close>)

text \<open>C24: A request that was accepted is accepted again with the same answer and without any effect
  at any later point of the life of the process, crashes and restarts included; any other
  changing request under its idempotency key is refused without any effect.\<close>

theorem accepted_request_is_repeatable:
  assumes "serve c req s = (Inr (202, b), t)" "wfState (sysState s)" "rangesAll c" "life c t u"
  shows "serve c req u = (Inr (202, b), u)
    \<and> (\<forall>other. changes other \<and> requestKey other = requestKey req \<and> requestFingerprint other \<noteq> requestFingerprint req
         \<longrightarrow> (\<exists>st e. serve c other u = (Inr (st, BodyError e), u) \<and> st \<in> {400, 409}))"
proof -
  have "life c s t"
    by (rule life.act [OF life.boot, where a = "Request req"]) (simp add: perform_def bind_def ret_def assms(1))
  then have "wfState (sysState t)"
    using life_guarded assms(2,3) since_wf by blast
  moreover have accepted: "recorded (requestKey req) (requestFingerprint req) t"
      "\<And>v. recorded (requestKey req) (requestFingerprint req) v \<Longrightarrow> serve c req v = (Inr (202, b), v)"
    using serve_accepted [OF assms(1)] by blast+
  ultimately have "recorded (requestKey req) (requestFingerprint req) u"
    using life_invariant [OF assms(4) _ assms(3), of "\<lambda>p. mget (sIdempotency p) (requestKey req) = Some (requestFingerprint req)"]
      docStep_idempotency by (auto simp: recorded_def)
  then show ?thesis
    using accepted(2) serve_refuses by metis
qed

section \<open>What an accepted request has checked\<close>

lemma zonesByName_get:
  "mget (zonesByName f zs m) name = Some z \<Longrightarrow>
     mget m name = Some z \<or> z \<in> set zs \<and> (f (zName z) = name \<or> trimSuffix (f (zName z)) ''.'' = name)"
  by (induction zs arbitrary: m) (fastforce simp: mget_mput split: if_splits)+

text \<open>
  A request for a fresh key that succeeded has read from the services, in the order \<open>es\<close>, and
  then persisted one document.
\<close>

definition after :: "(event list \<Rightarrow> 'a \<Rightarrow> bool) \<Rightarrow> 'w sys \<Rightarrow> err + 'a \<Rightarrow> 'w sys \<Rightarrow> bool" where
  "after P u r t \<longleftrightarrow> (\<forall>x. r = Inr x \<longrightarrow> sysState t = sysState u \<and> (\<exists>es. sysLog t = sysLog u @ es \<and> P es x))"

definition triggerable :: "'w controller \<Rightarrow> kind \<Rightarrow> event list \<Rightarrow> zone \<Rightarrow> bool" where
  "triggerable c k es z \<longleftrightarrow> zDNSSEC z \<and> selected c (zName z)
     \<and> (\<exists>keys. EvListKeys (zID z) (Inr keys) \<in> set es \<and> keyScheme keys = (if k = KindSplit then ''csk'' else ''split''))"

lemma triggerable_more: "triggerable c k es z \<Longrightarrow> set es \<subseteq> set fs \<Longrightarrow> triggerable c k fs z"
  by (auto simp: triggerable_def)

lemma triggerZones_checks:
  "wp (triggerZones c k m names) (after (\<lambda>es zs. list_all2 (\<lambda>name zn. \<exists>z. mget m name = Some z \<and> zName z = zn
       \<and> triggerable c k es z) names zs) u) u"
proof (induction names arbitrary: u)
  case Nil
  show ?case by (simp add: wp_simps after_def)
next
  case (Cons name names)
  show ?case
    unfolding triggerZones.simps op_defs
    apply (intro vcg)
    apply (simp_all add: after_def)
    apply (rule wp_mono [OF Cons.IH])
    apply (auto simp: after_def wp_simps triggerable_def split: sum.split)
    apply (auto elim!: list_all2_mono)
    done
qed

lemma wp_post: "wp m (after P u) u \<Longrightarrow> (\<And>e t. Q (Inl e) t) \<Longrightarrow>
    (\<And>t x es. sysState t = sysState u \<Longrightarrow> sysLog t = sysLog u @ es \<Longrightarrow> P es x \<Longrightarrow> Q (Inr x) t) \<Longrightarrow> wp m Q u"
  by (erule wp_mono) (auto simp: after_def split: sum.splits, metis sum.exhaust)

lemma list_all2_in: "list_all2 P xs ys \<Longrightarrow> x \<in> set xs \<Longrightarrow> \<exists>y\<in>set ys. P x y"
  by (induction rule: list_all2_induct) auto

lemma triggered_at:
  "z \<in> set zones \<Longrightarrow> mget (sWorkflows (triggerState k now idem zones p)) (workflowKey z k)
     = Some (triggeredWorkflow k now idem z (getWorkflow p (workflowKey z k)))"
  by (simp add: triggerState_each inEach_at triggered_twice)

text \<open>The evidence a trigger of the zone \<open>z\<close> under the name \<open>name\<close> has found, and its effect\<close>

definition triggeredFrom ::
  "'w controller \<Rightarrow> kind \<Rightarrow> string \<Rightarrow> string \<Rightarrow> state \<Rightarrow> event list \<Rightarrow> state \<Rightarrow> zone \<Rightarrow> bool" where
  "triggeredFrom c k idem name p es x z \<longleftrightarrow>
     (\<exists>listed. EvListZones (Inr listed) \<in> set es \<and> z \<in> set listed)
     \<and> (zName z = name \<or> trimSuffix (zName z) ''.'' = name) \<and> triggerable c k es z
     \<and> (\<forall>j v. mget (sWorkflows p) j = Some v \<and> wZone v = zName z \<longrightarrow> \<not> workflowActive v)
     \<and> (\<exists>now\<in>clockReadings c. mget (sWorkflows x) (workflowKey (zName z) k)
          = Some (triggeredWorkflow k now idem (zName z) (getWorkflow p (workflowKey (zName z) k))))"

lemma triggeredFromI:
  assumes "list_all2 (\<lambda>name zn. \<exists>z. mget (zonesByName (\<lambda>x. x) listed []) name = Some z \<and> zName z = zn \<and> triggerable c k es z) names zs"
    and "name \<in> set names" "now \<in> clockReadings c"
    and "\<And>z i w. z \<in> set zs \<Longrightarrow> mget (sWorkflows p) i = Some w \<Longrightarrow> wZone w = z \<Longrightarrow> \<not> workflowActive w"
    and "x = recordIdem idem fp (triggerState k now idem zs p)"
  shows "\<exists>z. triggeredFrom c k idem name p (EvListZones (Inr listed) # es) x z"
proof -
  obtain z where z: "zName z \<in> set zs" "mget (zonesByName (\<lambda>x. x) listed []) name = Some z" "triggerable c k es z"
    using list_all2_in [OF assms(1,2)] by blast
  moreover have "triggerable c k (EvListZones (Inr listed) # es) z"
    using z(3) by (rule triggerable_more) auto
  moreover have "z \<in> set listed \<and> (zName z = name \<or> trimSuffix (zName z) ''.'' = name)"
    using zonesByName_get [OF z(2)] by (simp add: mget_def)
  ultimately have "triggeredFrom c k idem name p (EvListZones (Inr listed) # es) x z"
    unfolding triggeredFrom_def using assms(3-5) triggered_at [OF z(1)] by auto
  then show ?thesis ..
qed

text \<open>C25: A trigger under a fresh key that succeeds has found, for every requested zone, a listed,
  signed, selected zone of that name with the key scheme the kind needs and no active workflow,
  and leaves its workflow in prepublish, marked manual, with this idempotency key.\<close>

theorem trigger_is_checked:
  assumes "Trigger c k zones idem s = (Inr (), t)" "mget (sIdempotency (sysState s)) idem = None" "rangesAll c"
  shows "\<exists>es. sysLog t = sysLog s @ es @ [EvPersist (sysState t)]
    \<and> (\<forall>name\<in>set (normalizeZones zones). \<exists>z. triggeredFrom c k idem name (sysState s) es (sysState t) z)"
proof -
  have "wp (Trigger c k zones idem) (\<lambda>r t. r = Inr () \<longrightarrow> (\<exists>es. sysLog t = sysLog s @ es @ [EvPersist (sysState t)]
    \<and> (\<forall>name\<in>set (normalizeZones zones). \<exists>z. triggeredFrom c k idem name (sysState s) es (sysState t) z))) s"
    using assms(2)
    unfolding Trigger_def listZones_def
    apply (intro accept_flow vcg_call vcg_clockNow wp_post [OF triggerZones_checks] noneActive_none [OF assms(3)])
    apply simp_all
    apply (auto intro!: exI [of _ "_ # _"] triggeredFromI)
    done
  from wpI [OF this assms(1)] show ?thesis by simp
qed

section \<open>Resuming\<close>

text \<open>The evidence a resume of the zone \<open>z\<close> has found for its recorded workflow \<open>w\<close>\<close>

definition resumable :: "'w controller \<Rightarrow> state \<Rightarrow> event list \<Rightarrow> zone \<Rightarrow> workflow \<Rightarrow> bool" where
  "resumable c p es z w \<longleftrightarrow> zDNSSEC z \<and> selected c (zName z)
     \<and> mget (sWorkflows p) (workflowKey (zName z) KindSplit) = Some w \<and> wPhase w = PhaseBlocked
     \<and> wParentMode w = parentModeInitial \<and> distinct [0, wOldKeyID w, wNewKeyID w, wNewZSKID w]
     \<and> wRegistrarAttemptedAt w = 0 \<and> wRegistrarJobID w = 0 \<and> wRegistrarCTID w = []
     \<and> (\<exists>keys. EvListKeys (zID z) (Inr keys) \<in> set es
          \<and> validatePrepublishInventory (libNewRR c) (zName z) keys w = None)
     \<and> registrarSeen (zName z) disabledEmpty es \<and> provenNoDS (zName z) es"

lemma resumable_more: "resumable c p es z w \<Longrightarrow> set es \<subseteq> set fs \<Longrightarrow> resumable c p fs z w"
  by (auto simp: resumable_def evidence_defs)

lemma resumeZones_checks:
  "wp (resumeZones c KindSplit p m names) (after (\<lambda>es items. list_all2 (\<lambda>name item. \<exists>z. mget m name = Some z
       \<and> zName z = fst item \<and> resumable c p es z (snd item)) names items) u) u"
proof (induction names arbitrary: u)
  case Nil
  show ?case by (simp add: wp_simps after_def)
next
  case (Cons name names)
  show ?case
    unfolding resumeZones.simps op_defs
    apply (intro vcg)
    apply (simp_all add: after_def)
    apply (rule wp_mono [OF Cons.IH])
    apply (auto simp: after_def wp_simps resumable_def evidence_defs resumableWorkflow_def timeIsZero_def
        split: sum.split option.splits if_splits)
    apply (blast | (erule list_all2_mono, blast))+
    done
qed

text \<open>The evidence for one requested name, and the effect of the resume on its workflow\<close>

definition resumedFrom ::
  "'w controller \<Rightarrow> string \<Rightarrow> state \<Rightarrow> event list \<Rightarrow> state \<Rightarrow> zone \<Rightarrow> bool" where
  "resumedFrom c name p es x z \<longleftrightarrow>
     (\<exists>listed. EvListZones (Inr listed) \<in> set es \<and> z \<in> set listed)
     \<and> (toLower (zName z) = name \<or> trimSuffix (toLower (zName z)) ''.'' = name)
     \<and> (\<exists>w. resumable c p es z w
          \<and> (\<exists>now\<in>clockReadings c. mget (sWorkflows x) (workflowKey (zName z) KindSplit) = Some (resumedWorkflow now w)))"

lemma resumedFromI:
  assumes "list_all2 (\<lambda>name item. \<exists>z. mget (zonesByName toLower listed []) name = Some z \<and> zName z = fst item
      \<and> resumable c p es z (snd item)) names items"
    and "name \<in> set names" "now \<in> clockReadings c" "x = recordIdem idem fp (resumeState KindSplit now items p)"
  shows "\<exists>z. resumedFrom c name p (EvListZones (Inr listed) # es) x z"
proof -
  obtain z item where z: "item \<in> set items" "mget (zonesByName toLower listed []) name = Some z" "zName z = fst item"
      "resumable c p es z (snd item)"
    using list_all2_in [OF assms(1,2)] by blast
  moreover have "resumable c p (EvListZones (Inr listed) # es) z (snd item)"
    using z(4) by (rule resumable_more) auto
  moreover have "z \<in> set listed \<and> (toLower (zName z) = name \<or> trimSuffix (toLower (zName z)) ''.'' = name)"
    using zonesByName_get [OF z(2)] by (simp add: mget_def)
  moreover have "mget (sWorkflows x) (workflowKey (zName z) KindSplit) = Some (resumedWorkflow now (snd item))"
    using z by (auto simp: assms(4) resumeState_each inEach_at resumed_twice resumable_def getWorkflow_def)
  ultimately have "resumedFrom c name p (EvListZones (Inr listed) # es) x z"
    unfolding resumedFrom_def using assms(3) by auto
  then show ?thesis ..
qed


section \<open>Attesting\<close>

text \<open>The live evidence for a signer transition\<close>

definition signerProven :: "'w controller \<Rightarrow> zone \<Rightarrow> key list \<Rightarrow> workflow \<Rightarrow> event list \<Rightarrow> bool" where
  "signerProven c z keys w es \<longleftrightarrow>
     (\<exists>newKSK newZSK. splitSignerKeys (libNewRR c) (zName z) keys w = Inr (newKSK, newZSK)
        \<and> registrarSeen (zName z) (holdsOnly c (zName z) newKSK) es
        \<and> provenAuthDS (zName z) newKSK es \<and> provenDS (zName z) newKSK es
        \<and> provenDNSKEY True (zName z) (publishedKeys keys) es \<and> provenDNSKEYRRSIG True (zName z) newKSK es
        \<and> provenRRSIG True (zName z) newZSK es
        \<and> provenDelegation (zName z) (dcExpectedNameservers (cfDNS (cfg c))) es)"

lemma signer_evidence:
  "wp (validateSplitSignerTransitionEvidence c z keys w) (after (\<lambda>es ttl. signerProven c z keys w es
     \<and> (\<exists>detail. EvGetZone (zID z) (Inr detail) \<in> set es \<and> ttl = durSeconds (maxTTL detail))) u) u"
  unfolding validateSplitSignerTransitionEvidence_def op_defs
  by (intro vcg) (auto simp: after_def signerProven_def evidence_defs)

definition attestedFrom ::
  "'w controller \<Rightarrow> string \<Rightarrow> state \<Rightarrow> event list \<Rightarrow> state \<Rightarrow> zone \<Rightarrow> workflow \<Rightarrow> bool" where
  "attestedFrom c name p es x z w \<longleftrightarrow>
     (\<exists>listed. EvListZones (Inr listed) \<in> set es \<and> z \<in> set listed) \<and> bareZone (zName z) = name
     \<and> zDNSSEC z \<and> selected c (zName z)
     \<and> mget (sWorkflows p) (workflowKey (zName z) KindSplit) = Some w \<and> wPhase w = PhaseWaitNewSignature
     \<and> wSplitSignerTransitionAt w = 0 \<and> wRegistrarAttemptedAt w \<noteq> 0
     \<and> (\<exists>keys. EvListKeys (zID z) (Inr keys) \<in> set es \<and> signerProven c z keys w es)
     \<and> (\<exists>detail now. EvGetZone (zID z) (Inr detail) \<in> set es \<and> now \<in> clockReadings c
          \<and> mget (sWorkflows x) (workflowKey (zName z) KindSplit)
              = Some (attestedWorkflow c now (max (wZoneTTL w) (durSeconds (maxTTL detail))) w)
          \<and> (fits (margin c) \<and> wZoneTTL w < 2 ^ 32 \<longrightarrow> now + maxTTL detail + margin c \<le>
               wNextActionAt (attestedWorkflow c now (max (wZoneTTL w) (durSeconds (maxTTL detail))) w)))"

lemma attestable:
  "attestableWorkflow name (mget m k) = Inr w \<Longrightarrow> mget m k = Some w \<and> wPhase w = PhaseWaitNewSignature
     \<and> wSplitSignerTransitionAt w = 0 \<and> wRegistrarAttemptedAt w \<noteq> 0"
  by (auto simp: attestableWorkflow_def timeIsZero_def split: option.splits if_splits)

lemma attestedFromI:
  assumes "find (\<lambda>z. bareZone (zName z) = name) listed = Some z" "zDNSSEC z" "selected c (zName z)"
    and "attestableWorkflow name (mget (sWorkflows p) (workflowKey (zName z) KindSplit)) = Inr w"
    and "signerProven c z keys w es" "EvGetZone (zID z) (Inr detail) \<in> set es" "now \<in> clockReadings c"
    and "x = recordIdem idem fp (putWorkflow (workflowKey (zName z) KindSplit)
           (attestedWorkflow c now ttl (getWorkflow p (workflowKey (zName z) KindSplit))) p)"
    and "ttl = (if durSeconds (maxTTL detail) < wZoneTTL w then wZoneTTL w else durSeconds (maxTTL detail))"
  shows "attestedFrom c name p (EvListZones (Inr listed) # EvListKeys (zID z) (Inr keys) # es) x z w"
proof -
  have "z \<in> set listed" "bareZone (zName z) = name"
    using assms(1) by (auto simp: find_Some_iff)
  moreover have "ttl = max (wZoneTTL w) (durSeconds (maxTTL detail))"
    using assms(9) by simp
  moreover have "now + maxTTL detail + margin c \<le> wNextActionAt (attestedWorkflow c now ttl w)"
    if "fits (margin c)" "wZoneTTL w < 2 ^ 32"
    using zoneWait_covers [OF that(1), of detail ttl] that(2) durSeconds_maxTTL_bounds [of detail] calculation(3)
    by (simp add: attestedWorkflow_def timeAdd_def)
  moreover have "signerProven c z keys w (EvListZones (Inr listed) # EvListKeys (zID z) (Inr keys) # es)"
    using assms(5) by (auto simp: signerProven_def evidence_defs)
  ultimately show ?thesis
    unfolding attestedFrom_def using assms(2,3,6-8) attestable [OF assms(4)]
    by (auto simp: mget_putWorkflow getWorkflow_def)
qed

text \<open>C27: An attestation under a fresh key that succeeds rests on the complete live evidence of the
  signer transition of a split in wait_new_signature that was never attested before, and the
  next action is at least the current maximum zone TTL plus the margin away.\<close>

theorem attestation_is_proven:
  assumes "ReconcileSplitSignerTransition c zn idem s = (Inr (), t)" "mget (sIdempotency (sysState s)) idem = None"
  shows "\<exists>es z w. sysLog t = sysLog s @ es @ [EvPersist (sysState t)]
    \<and> attestedFrom c (normalizeZone zn) (sysState s) es (sysState t) z w"
proof -
  have "wp (ReconcileSplitSignerTransition c zn idem) (\<lambda>r t. r = Inr () \<longrightarrow>
      (\<exists>es z w. sysLog t = sysLog s @ es @ [EvPersist (sysState t)]
    \<and> attestedFrom c (normalizeZone zn) (sysState s) es (sysState t) z w)) s"
    using assms(2)
    unfolding ReconcileSplitSignerTransition_def attest_def listZones_def listKeys_def
    apply (intro accept_flow vcg_wrapErr vcg_call vcg_clockNow wp_post [OF signer_evidence])
    apply (simp_all split del: if_split)
    apply (elim conjE exE, intro exI, rule attestedFromI, (assumption | rule refl | simp)+)
    done
  from wpI [OF this assms(1)] show ?thesis by simp
qed

section \<open>Arming\<close>

text \<open>A zone that is not enrolling: its enrollment entry is idle or blocked.\<close>

definition notEnrolling :: "string \<Rightarrow> state \<Rightarrow> bool" where
  "notEnrolling zn p \<longleftrightarrow>
     (\<exists>w. mget (sWorkflows p) (workflowKey zn KindEnroll) = Some w \<and> wPhase w \<in> {PhaseIdle, PhaseBlocked})"

lemma notEnrolling_simps [simp]:
  "notEnrolling zn (recordIdem idem fp p) = notEnrolling zn p"
  "notEnrolling zn (p\<lparr>sEnrollmentArmedAt := a\<rparr>) = notEnrolling zn p"
  by (simp_all add: notEnrolling_def)

lemma notEnrolling_step:
  assumes "docStep p x" "notEnrolling zn p"
  shows "notEnrolling zn x"
proof -
  let ?k = "workflowKey zn KindEnroll"
  obtain w where w: "mget (sWorkflows p) ?k = Some w" "wPhase w = PhaseIdle \<or> wPhase w = PhaseBlocked"
    using assms(2) by (auto simp: notEnrolling_def)
  consider (own) zn' k where "namedKind k" "ownStep zn' k p x" | (boot) zn' where "bootStep zn' p x"
    | (outbox) "outboxStep p x" | (request) "requestStep p x"
    using assms(1) unfolding docStep_def by blast
  then show ?thesis
  proof cases
    case own
    show ?thesis
    proof (cases "?k = workflowKey zn' k")
      case True
      with own(1) have "zn' = zn" "k = KindEnroll"
        by (auto simp: workflowKey_inj namedKind_def)
      with own(2) w show ?thesis
        by (auto simp: ownStep_def notEnrolling_def getWorkflow_def)
    next
      case False
      with own(2) w show ?thesis
        by (auto simp: ownStep_def notEnrolling_def resetByEnrollment_def workflowKey_inj namedKind_def)
    qed
  next
    case boot
    then have "mget (sWorkflows x) ?k = mget (sWorkflows p) ?k"
      using w(1) unfolding bootStep_def by (metis option.distinct(1))
    with w show ?thesis by (simp add: notEnrolling_def)
  next
    case outbox
    with w show ?thesis by (auto simp: outboxStep_def notEnrolling_def)
  next
    case request
    then obtain k where "namedKind k" "mget (sWorkflows x) ?k = mget (sWorkflows p) ?k
        \<or> (\<exists>zn'. ?k = workflowKey zn' k \<and> operatorChange zn' k p x)"
      unfolding requestStep_def by blast
    with w show ?thesis
      by (auto simp: notEnrolling_def workflowKey_inj namedKind_def operatorChange_def)
  qed
qed

lemma baselineZones_keeps:
  "mget (sWorkflows p) j = Some w \<Longrightarrow> mget (sWorkflows (baselineZones zs now p)) j = Some w"
  using baselineZones_get [of zs now p j] by auto

lemma baselineZones_covers:
  assumes "z \<in> set zs" "zDNSSEC z" "mget (sWorkflows p) (workflowKey (zName z) KindEnroll) = None"
  shows "notEnrolling (zName z) (baselineZones zs now p)"
proof -
  have "mget (sWorkflows (baselineZones zs now p)) (workflowKey (zName z) KindEnroll) \<noteq> None"
    using assms(1)
  proof (induction zs arbitrary: p)
    case (Cons y ys)
    then show ?case
    proof (cases "z = y")
      case True
      with assms(2) obtain v where
        "mget (sWorkflows (addIfMissing (workflowKey (zName y) KindEnroll) (baselineWorkflow y now) p)) (workflowKey (zName z) KindEnroll) = Some v"
        by (cases "mget (sWorkflows p) (workflowKey (zName z) KindEnroll)") (auto simp: addIfMissing_def mget_putWorkflow)
      with True assms(2) show ?thesis by (simp add: baselineZones_keeps)
    qed auto
  qed simp
  with assms(3) baselineZones_get [of zs now p "workflowKey (zName z) KindEnroll"] show ?thesis
    by (auto simp: notEnrolling_def baselineWorkflow_def)
qed

text \<open>C28: Once enrollment has been armed, a signed zone that was listed at that moment and had no
  enrollment entry is never enrolled automatically, in any later life of the process: its
  enrollment entry stays idle (or blocked).\<close>

theorem baseline_is_never_enrolled:
  assumes "ArmEnrollment c idem s = (Inr (), t)" "mget (sIdempotency (sysState s)) idem = None"
    and "wfState (sysState s)" "rangesAll c" "life c t u"
  shows "sEnrollmentArmedAt (sysState t) \<in> clockReadings c \<and> (\<exists>es listed. sysLog t = sysLog s @ es @ [EvPersist (sysState t)]
    \<and> EvListZones (Inr listed) \<in> set es
    \<and> (\<forall>z\<in>set listed. zDNSSEC z \<and> mget (sWorkflows (sysState s)) (workflowKey (zName z) KindEnroll) = None
          \<longrightarrow> notEnrolling (zName z) (sysState u)))"
proof -
  have "wp (ArmEnrollment c idem) (\<lambda>r t. r = Inr () \<longrightarrow> sEnrollmentArmedAt (sysState t) \<in> clockReadings c
    \<and> (\<exists>es listed. sysLog t = sysLog s @ es @ [EvPersist (sysState t)] \<and> EvListZones (Inr listed) \<in> set es
    \<and> (\<forall>z\<in>set listed. zDNSSEC z \<and> mget (sWorkflows (sysState s)) (workflowKey (zName z) KindEnroll) = None
          \<longrightarrow> notEnrolling (zName z) (sysState t)))) s"
    using assms(2)
    unfolding ArmEnrollment_def listZones_def
    apply (intro accept_flow vcg_call vcg_clockNow)
    apply (auto simp: armState_def intro: baselineZones_covers)
    done
  from wpI [OF this assms(1)]
  have armed: "sEnrollmentArmedAt (sysState t) \<in> clockReadings c" "\<exists>es listed. sysLog t = sysLog s @ es @ [EvPersist (sysState t)]
    \<and> EvListZones (Inr listed) \<in> set es
    \<and> (\<forall>z\<in>set listed. zDNSSEC z \<and> mget (sWorkflows (sysState s)) (workflowKey (zName z) KindEnroll) = None
          \<longrightarrow> notEnrolling (zName z) (sysState t))" by simp_all
  have "requested s t" using wpI [OF Arm_requested assms(1)] .
  then have "wfState (sysState t)"
    using assms(3) by (auto simp: requested_def quiet_def intro: requestStep_wf)
  then have "notEnrolling zn (sysState t) \<Longrightarrow> notEnrolling zn (sysState u)" for zn
    using life_invariant [OF assms(5) _ assms(4), of "notEnrolling zn"] notEnrolling_step by blast
  with armed show ?thesis by blast
qed

end
