(* ===== verification/Desk.thy ===== *)
theory Desk
  imports Operator Scenario
begin

text \<open>
  The requests of the operator in the environment of \<open>Scenario\<close>: one request of every kind is
  accepted there, and the properties of \<open>Operator\<close> are applied to it.
\<close>

section \<open>Requests in the lab\<close>

definition deskKey :: string where "deskKey = ''operator-20260717''"

definition deskLab :: "key list \<Rightarrow> key list \<Rightarrow> unit controller" where
  "deskLab keys held = lab ''enforce'' keys held\<lparr>cfg := (labConfig ''enforce'')\<lparr>cfEnrollment :=
     \<lparr>ecEnabled = True, ecScope = ''all_selected'', ecDiscoveryGrace = hour, ecMaxPending = 3,
      ecMaxNewPerDay = 3, ecAllowedAlgorithms = [''ED448''], ecIncludeZones = [], ecExcludeZones = []\<rparr>\<rparr>\<rparr>"

definition emptyLab :: "key list \<Rightarrow> unit controller" where
  "emptyLab keys = deskLab keys []\<lparr>apiDomainDNSSEC := \<lambda>zn w. (Inr \<lparr>dsEnabled = False, dsData = [], dsOmitted = False\<rparr>, w)\<rparr>"

definition labCSK :: key where "labCSK = labKey 1 ''csk'' True ''257 K1''"

definition splitFlow :: "phase \<Rightarrow> workflow" where
  "splitFlow p = (labWorkflow KindSplit p 1 4)\<lparr>wNewZSKID := 3, wParentMode := parentModeInitial\<rparr>"

abbreviation "triggerDesk \<equiv> deskLab [labKSK, labZSK True] [labKSK]"
abbreviation "triggerRequest \<equiv> PostTrigger (Inr \<lparr>rqKind = KindZSK, rqZones = ['' Z. ''], rqConfirm = True\<rparr>) deskKey"
abbreviation "idleFlow \<equiv> labWorkflow KindZSK PhaseIdle 0 0"
abbreviation "resumeDesk \<equiv> emptyLab [labCSK, labNewKSK, labNewZSK False]"
abbreviation "resumeFlow \<equiv> splitFlow PhaseBlocked"
abbreviation "attestDesk \<equiv> deskLab [labKSK, labNewKSK, labNewZSK True] [labNewKSK]"
abbreviation "attestFlow \<equiv> (splitFlow PhaseWaitNewSignature)\<lparr>wRegistrarAttemptedAt := 1, wRegistrarCTID := ''ctid''\<rparr>"

lemma desk_accepts:
  "fst (serve triggerDesk triggerRequest (labSys idleFlow)) = Inr (202, BodyStatus ''accepted'')"
  by code_simp
lemma desk_trigger: "fst (Trigger triggerDesk KindZSK ['' Z. ''] deskKey (labSys idleFlow)) = Inr ()"
  by code_simp
lemma desk_resume: "fst (Resume resumeDesk KindSplit [''z''] PhaseWaitPublish deskKey (labSys resumeFlow)) = Inr ()"
  by code_simp
lemma desk_signers:
  "splitSignerKeys labRR ''z'' [labKSK, labNewKSK, labNewZSK True] attestFlow = Inr (labNewKSK, labNewZSK True)"
  by code_simp

lemma desk_sel:
  "selected (deskLab keys held) ''z''" "cfMode (cfg (deskLab keys held)) = ''enforce''"
  "apiListZones (deskLab keys held) = apiListZones (lab ''enforce'' keys held)"
  "apiGetZone (deskLab keys held) = apiGetZone (lab ''enforce'' keys held)"
  "apiListKeys (deskLab keys held) = apiListKeys (lab ''enforce'' keys held)"
  "apiDomainDNSSEC (deskLab keys held) = apiDomainDNSSEC (lab ''enforce'' keys held)"
  "apiDNSKEYEvidence (deskLab keys held) = apiDNSKEYEvidence (lab ''enforce'' keys held)"
  "apiDSEvidence (deskLab keys held) = apiDSEvidence (lab ''enforce'' keys held)"
  "apiAuthoritativeDSEvidence (deskLab keys held) = apiAuthoritativeDSEvidence (lab ''enforce'' keys held)"
  "apiRRSIGBy (deskLab keys held) = apiRRSIGBy (lab ''enforce'' keys held)"
  "apiDNSKEYRRSIGBy (deskLab keys held) = apiDNSKEYRRSIGBy (lab ''enforce'' keys held)"
  "apiDelegationEvidence (deskLab keys held) = apiDelegationEvidence (lab ''enforce'' keys held)"
  "apiNow (deskLab keys held) = apiNow (lab ''enforce'' keys held)"
  "apiWriteAtomic (deskLab keys held) = apiWriteAtomic (lab ''enforce'' keys held)"
  "libNewRR (deskLab keys held) = labRR" "libRange (deskLab keys held) = libRange (lab ''enforce'' keys held)"
  by (simp_all add: deskLab_def labConfig_def lab_def selected_def)

lemma desk_flow:
  "wZone (splitFlow p) = ''z''" "wKind (splitFlow p) = KindSplit" "wPhase (splitFlow p) = p"
  by (simp_all add: splitFlow_def labWorkflow_def)

lemmas desk_ops = ReconcileSplitSignerTransition_def [THEN fun_cong] attest_def [THEN fun_cong]
  validateSplitSignerTransitionEvidence_def [THEN fun_cong] idempotent_def

lemma desk_pure:
  "normalizeZone ''z'' = ''z''" "bareZone ''z'' = ''z''" "idemLengthOk deskKey"
  "attestableWorkflow ''z'' (Some attestFlow) = Inr attestFlow" "unchangedForAttest attestFlow (Some attestFlow)"
  by (code_simp, code_simp, code_simp, code_simp, code_simp)

lemma desk_attest: "fst (ReconcileSplitSignerTransition attestDesk ''z'' deskKey (labSys attestFlow)) = Inr ()"
  by (simp add: desk_ops desk_sel desk_flow desk_pure desk_signers exec cong: exec_cong split del: if_split)
lemma desk_enrollment:
  "ecEnabled (cfEnrollment (cfg (deskLab keys held)))" "ecScope (cfEnrollment (cfg (deskLab keys held))) = ''all_selected''"
  by (simp_all add: deskLab_def)

lemma desk_arm: "fst (ArmEnrollment triggerDesk deskKey (labSys idleFlow)) = Inr ()"
  "\<exists>x. sysLog (snd (ArmEnrollment triggerDesk deskKey (labSys idleFlow))) = [EvListZones (Inr [labZone]), EvPersist x]"
  by (simp_all add: ArmEnrollment_def [THEN fun_cong] idempotent_def desk_sel desk_enrollment desk_pure exec
      cong: exec_cong split del: if_split)

section \<open>The properties at work\<close>

lemma desk_ranges: "rangesAll (deskLab keys held)"
  by (simp add: rangesAll_def deskLab_def lab_def)

lemma run_pair: "fst p = r \<Longrightarrow> p = (r, snd p)"
  by auto

lemma desk_fresh: "mget (sIdempotency (sysState (labSys w))) deskKey = None"
  by (simp add: labSys_def mget_def)

lemma desk_wf: "wfState (sysState (labSys idleFlow))"
  by (rule lab_wf) (simp_all add: namedKind_def validPhase_kinds)


theorem accepted_request_is_repeatable_witness:
  "fst (serve triggerDesk triggerRequest (snd (serve triggerDesk triggerRequest (labSys idleFlow)))) = Inr (202, BodyStatus ''accepted'')"
  using accepted_request_is_repeatable [OF run_pair [OF desk_accepts] desk_wf desk_ranges life.boot] by simp

lemma desk_names: "normalizeZones ['' Z. ''] = [''z'']" "normalizeZones [''z''] = [''z'']" "normalizeZone ''z'' = ''z''"
  by (code_simp, code_simp, code_simp)

theorem trigger_is_checked_witness:
  "\<exists>es z. triggeredFrom triggerDesk KindZSK deskKey ''z'' (sysState (labSys idleFlow)) es
     (sysState (snd (Trigger triggerDesk KindZSK ['' Z. ''] deskKey (labSys idleFlow)))) z"
  using trigger_is_checked [OF run_pair [OF desk_trigger] desk_fresh desk_ranges] by (auto simp: desk_names)


theorem attestation_is_proven_witness:
  "\<exists>es z w. attestedFrom attestDesk ''z'' (sysState (labSys attestFlow)) es
     (sysState (snd (ReconcileSplitSignerTransition attestDesk ''z'' deskKey (labSys attestFlow)))) z w"
  using attestation_is_proven [OF run_pair [OF desk_attest] desk_fresh] by (auto simp: desk_names)

theorem baseline_is_never_enrolled_witness:
  "notEnrolling ''z'' (sysState (snd (ArmEnrollment triggerDesk deskKey (labSys idleFlow))))"
proof -
  obtain x where "sysLog (snd (ArmEnrollment triggerDesk deskKey (labSys idleFlow))) = [EvListZones (Inr [labZone]), EvPersist x]"
    using desk_arm(2) ..
  moreover have "mget (sWorkflows (sysState (labSys idleFlow))) (workflowKey ''z'' KindEnroll) = None"
    by code_simp
  ultimately show ?thesis
    using baseline_is_never_enrolled [OF run_pair [OF desk_arm(1)] desk_fresh desk_wf desk_ranges life.boot]
    by (auto simp: labSys_def labZone_def append_eq_Cons_conv)
qed

end
