(* ===== verification/Evidence.thy ===== *)
theory Evidence
  imports Dns Effects
begin

text \<open>
  The pure part of \<open>internal/dnsprobe/probe.go\<close>: what a DNS response proves. The library
  \<open>miekg/dns\<close> and the cryptography behind it are parameters, the fields of \<open>dnsLib\<close>.
\<close>

section \<open>Messages and the library\<close>

text \<open>The question that \<open>query\<close> builds, and the part of a response that the code reads\<close>

record dnsQuery =
  qName :: string
  qType :: "16 word"
  qRecursionDesired :: bool
  qAuthenticatedData :: bool
  qUDPSize :: "16 word"
  qDo :: bool

record dnsMsg =
  mRcode :: int
  mAuthenticatedData :: bool
  mAuthoritative :: bool
  mAnswer :: "rr list"
  mNs :: "rr list"
  mExtra :: "rr list"

text \<open>
  \<open>dns.NewRR\<close>; \<open>DNSKEY.ToDS(dns.SHA256)\<close>; \<open>DNSKEY.KeyTag\<close>; \<open>RRSIG.Verify\<close>;
  \<open>RRSIG.ValidityPeriod\<close>; \<open>NSEC3.Match\<close>; \<open>NSEC3.Cover\<close>; \<open>dns.IsSubDomain\<close>;
  \<open>dns.SplitDomainName\<close>; \<open>dns.RcodeToString\<close>
\<close>

record dnsLib =
  dlNewRR :: "string \<Rightarrow> err + rr"
  dlToDS :: "dnskeyRR \<Rightarrow> dsRR option"
  dlKeyTag :: "dnskeyRR \<Rightarrow> 16 word"
  dlVerify :: "rrsigRR \<Rightarrow> dnskeyRR \<Rightarrow> rr list \<Rightarrow> err option"
  dlValidityPeriod :: "rrsigRR \<Rightarrow> time \<Rightarrow> bool"
  dlMatch :: "nsec3RR \<Rightarrow> string \<Rightarrow> bool"
  dlCover :: "nsec3RR \<Rightarrow> string \<Rightarrow> bool"
  dlIsSubDomain :: "string \<Rightarrow> string \<Rightarrow> bool"
  dlSplitDomainName :: "string \<Rightarrow> string list"
  dlRcodeToString :: "int \<Rightarrow> string"

text \<open>The record types the code names, \<open>dns.ClassINET\<close>\<close>

abbreviation (input) "typeA \<equiv> (1 :: 16 word)"
abbreviation (input) "typeNS \<equiv> (2 :: 16 word)"
abbreviation (input) "typeCNAME \<equiv> (5 :: 16 word)"
abbreviation (input) "typeSOA \<equiv> (6 :: 16 word)"
abbreviation (input) "typeAAAA \<equiv> (28 :: 16 word)"
abbreviation (input) "typeDS \<equiv> (43 :: 16 word)"
abbreviation (input) "typeDNSKEY \<equiv> (48 :: 16 word)"
abbreviation (input) "classINET \<equiv> (1 :: 16 word)"

text \<open>\<open>rr.Header()\<close>\<close>

fun rrHdr :: "rr \<Rightarrow> rrHeader" where
  "rrHdr (RR_DNSKEY k) = dkHdr k"
| "rrHdr (RR_DS d) = dsHdr d"
| "rrHdr (RR_RRSIG s) = sgHdr s"
| "rrHdr (RR_NSEC n) = nsHdr n"
| "rrHdr (RR_NSEC3 n) = n3Hdr n"
| "rrHdr (RR_NS h t) = h"
| "rrHdr (RR_SOA h) = h"
| "rrHdr (RR_A h a) = h"
| "rrHdr (RR_AAAA h a) = h"
| "rrHdr (RR_Other h) = h"

section \<open>Helpers at the end of the file\<close>

definition sameOwnerClass :: "rrHeader \<Rightarrow> string \<Rightarrow> bool" where
  "sameOwnerClass h owner \<longleftrightarrow> hClass h = classINET \<and> equalFold (fqdn (hName h)) (fqdn owner)"

definition dnskeyKey :: "dnskeyRR \<Rightarrow> string" where
  "dnskeyKey k =
     itoa (uint (dkFlags k)) @ ''/'' @ itoa (uint (dkProtocol k)) @ ''/'' @ itoa (uint (dkAlgorithm k)) @ ''/'' @ dkPublicKey k"

definition dsKey :: "dsRR \<Rightarrow> string" where
  "dsKey ds =
     itoa (uint (dsKeyTag ds)) @ ''/'' @ itoa (uint (dsAlgorithm ds)) @ ''/'' @ itoa (uint (dsDigestType ds)) @ ''/''
     @ toUpper (dsDigest ds)"

fun rrsetTTLLoop :: "16 word \<Rightarrow> rr list \<Rightarrow> 32 word \<Rightarrow> 32 word" where
  "rrsetTTLLoop typ [] ttl = ttl"
| "rrsetTTLLoop typ (r # rrs) ttl =
     rrsetTTLLoop typ rrs
       (if hRrtype (rrHdr r) = typ \<and> (ttl = 0 \<or> ttl < hTtl (rrHdr r)) then hTtl (rrHdr r) else ttl)"

definition rrsetTTL :: "rr list \<Rightarrow> 16 word \<Rightarrow> 32 word" where
  "rrsetTTL rrs typ = rrsetTTLLoop typ rrs 0"

definition hasType :: "rr list \<Rightarrow> 16 word \<Rightarrow> bool" where
  "hasType rrs typ \<longleftrightarrow> list_ex (\<lambda>r. hRrtype (rrHdr r) = typ) rrs"

text \<open>\<open>unique\<close> keeps the first of equal strings.\<close>

fun uniqueLoop :: "string list \<Rightarrow> string list \<Rightarrow> string list" where
  "uniqueLoop seen [] = []"
| "uniqueLoop seen (x # xs) = (if x \<in> set seen then uniqueLoop seen xs else x # uniqueLoop (x # seen) xs)"

definition unique :: "string list \<Rightarrow> string list" where
  "unique xs = uniqueLoop [] xs"

section \<open>Expected material\<close>

fun expectedDNSKEYs :: "dnsLib \<Rightarrow> string \<Rightarrow> key list \<Rightarrow> err + dnskeyRR list" where
  "expectedDNSKEYs lib zone [] = Inr []"
| "expectedDNSKEYs lib zone (key # keys) =
     (case keyRR (dlNewRR lib) zone key of
        Inl e \<Rightarrow> Inl e
      | Inr rr \<Rightarrow> (case expectedDNSKEYs lib zone keys of Inl e \<Rightarrow> Inl e | Inr out \<Rightarrow> Inr (rr # out)))"

fun expectedDSLoop :: "dnsLib \<Rightarrow> string \<Rightarrow> key list \<Rightarrow> err + string list" where
  "expectedDSLoop lib zone [] = Inr []"
| "expectedDSLoop lib zone (key # keys) =
     (case keyRR (dlNewRR lib) zone key of
        Inl e \<Rightarrow> Inl e
      | Inr rr \<Rightarrow>
          (case dlToDS lib rr of
             None \<Rightarrow> Inl (Fmt DeriveDS [AInt (kID key)])
           | Some ds \<Rightarrow>
              (case expectedDSLoop lib zone keys of Inl e \<Rightarrow> Inl e | Inr out \<Rightarrow> Inr (dsKey ds # out))))"

definition expectedDS :: "dnsLib \<Rightarrow> string \<Rightarrow> key list \<Rightarrow> err + string list" where
  "expectedDS lib zone keys = (case expectedDSLoop lib zone keys of Inl e \<Rightarrow> Inl e | Inr out \<Rightarrow> Inr (sort out))"

section \<open>Checks of a response\<close>

text \<open>The loop over the answer that collects one kind of records, with their owner checked\<close>

fun dnskeyTexts :: "string \<Rightarrow> rr list \<Rightarrow> err + string list" where
  "dnskeyTexts owner [] = Inr []"
| "dnskeyTexts owner (RR_DNSKEY k # rrs) =
     (if \<not> sameOwnerClass (dkHdr k) owner then Inl (Fmt DNSKEYOwner [])
      else case dnskeyTexts owner rrs of Inl e \<Rightarrow> Inl e | Inr got \<Rightarrow> Inr (dnskeyKey k # got))"
| "dnskeyTexts owner (_ # rrs) = dnskeyTexts owner rrs"

definition verifyDNSKEYSet :: "dnsMsg \<Rightarrow> dnskeyRR list \<Rightarrow> bool \<Rightarrow> bool \<Rightarrow> string \<Rightarrow> err option" where
  "verifyDNSKEYSet r want requireAD requireAA owner =
     (if requireAD \<and> \<not> mAuthenticatedData r then Some (Fmt LacksAD [])
      else if requireAA \<and> \<not> mAuthoritative r then Some (Fmt LacksAA [])
      else case dnskeyTexts owner (mAnswer r) of
        Inl e \<Rightarrow> Some e
      | Inr got \<Rightarrow>
         (let expected = sort (map dnskeyKey want); got = sort got
          in if got \<noteq> expected then Some (Fmt DNSKEYSetMismatch [AStrs got, AStrs expected]) else None))"

fun dsTexts :: "string \<Rightarrow> rr list \<Rightarrow> err + string list" where
  "dsTexts owner [] = Inr []"
| "dsTexts owner (RR_DS d # rrs) =
     (if \<not> sameOwnerClass (dsHdr d) owner then Inl (Fmt DSOwner [])
      else case dsTexts owner rrs of Inl e \<Rightarrow> Inl e | Inr got \<Rightarrow> Inr (dsKey d # got))"
| "dsTexts owner (_ # rrs) = dsTexts owner rrs"

definition exactDS :: "dnsMsg \<Rightarrow> string list \<Rightarrow> string \<Rightarrow> bool \<Rightarrow> err option" where
  "exactDS r want owner requireAA =
     (if requireAA \<and> \<not> mAuthoritative r then Some (Fmt LacksAA [])
      else case dsTexts owner (mAnswer r) of
        Inl e \<Rightarrow> Some e
      | Inr got \<Rightarrow>
         (let got = sort got
          in if got \<noteq> want then Some (Fmt DSSetMismatch [AStrs got, AStrs want]) else None))"

text \<open>The covered records, and the signatures that name the key\<close>

fun coveredBy :: "dnsLib \<Rightarrow> 16 word \<Rightarrow> dnskeyRR \<Rightarrow> string \<Rightarrow> rr list \<Rightarrow> err + (rr list \<times> rrsigRR list)" where
  "coveredBy lib typ key owner [] = Inr ([], [])"
| "coveredBy lib typ key owner (a # rrs) =
     (if hRrtype (rrHdr a) = typ \<and> \<not> sameOwnerClass (rrHdr a) owner then Inl (Fmt CoveredOwner [])
      else case coveredBy lib typ key owner rrs of
        Inl e \<Rightarrow> Inl e
      | Inr (rrset, sigs) \<Rightarrow>
          Inr (if hRrtype (rrHdr a) = typ then a # rrset else rrset,
               case a of
                 RR_RRSIG s \<Rightarrow>
                   if sgTypeCovered s = typ \<and> sgKeyTag s = dlKeyTag lib key \<and> sgAlgorithm s = dkAlgorithm key
                   then s # sigs else sigs
               | _ \<Rightarrow> sigs))"

definition verifySignature ::
  "dnsLib \<Rightarrow> dnsMsg \<Rightarrow> 16 word \<Rightarrow> dnskeyRR \<Rightarrow> bool \<Rightarrow> bool \<Rightarrow> string \<Rightarrow> time \<Rightarrow> err option" where
  "verifySignature lib r typ key requireAD requireAA owner now =
     (if requireAD \<and> \<not> mAuthenticatedData r then Some (Fmt LacksAD [])
      else if requireAA \<and> \<not> mAuthoritative r then Some (Fmt LacksAA [])
      else case coveredBy lib typ key owner (mAnswer r) of
        Inl e \<Rightarrow> Some e
      | Inr (rrset, sigs) \<Rightarrow>
          if rrset = [] then Some (Fmt CoveredAbsent [])
          else if list_ex (\<lambda>sig. sameOwnerClass (sgHdr sig) owner \<and> dlValidityPeriod lib sig now
                 \<and> dlVerify lib sig key rrset = None) sigs
          then None else Some (Fmt NoValidRRSIG []))"

section \<open>Delegations and denial of existence\<close>

fun nsTargets :: "string \<Rightarrow> rr list \<Rightarrow> string list" where
  "nsTargets name [] = []"
| "nsTargets name (RR_NS h t # rrs) =
     (if equalFold (fqdn (hName h)) name then toLower (fqdn t) # nsTargets name rrs else nsTargets name rrs)"
| "nsTargets name (_ # rrs) = nsTargets name rrs"

definition delegatedNS :: "dnsMsg \<Rightarrow> string \<Rightarrow> string list" where
  "delegatedNS response name = sortCompact (nsTargets name (mAnswer response) @ nsTargets name (mNs response))"

definition delegationWithoutDS :: "16 word list \<Rightarrow> bool" where
  "delegationWithoutDS types \<longleftrightarrow>
     typeNS \<in> set types \<and> typeDS \<notin> set types \<and> typeSOA \<notin> set types \<and> typeCNAME \<notin> set types"

definition sameNSEC3Parameters :: "nsec3RR \<Rightarrow> nsec3RR \<Rightarrow> bool" where
  "sameNSEC3Parameters a b \<longleftrightarrow>
     n3Hash a = n3Hash b \<and> n3Iterations a = n3Iterations b \<and> equalFold (n3Salt a) (n3Salt b)"

definition validDenialSignature ::
  "dnsLib \<Rightarrow> dnsMsg \<Rightarrow> rr \<Rightarrow> string \<Rightarrow> dnskeyRR list \<Rightarrow> time \<Rightarrow> bool" where
  "validDenialSignature lib response rr parent keys now \<longleftrightarrow>
     sameOwnerClass (rrHdr rr) (hName (rrHdr rr)) \<and> dlIsSubDomain lib parent (hName (rrHdr rr))
     \<and> list_ex (\<lambda>candidate. case candidate of
         RR_RRSIG sig \<Rightarrow>
           sgTypeCovered sig = hRrtype (rrHdr rr) \<and> equalFold (hName (sgHdr sig)) (hName (rrHdr rr))
           \<and> equalFold (sgSignerName sig) parent \<and> dlValidityPeriod lib sig now
           \<and> list_ex (\<lambda>key. dlKeyTag lib key = sgKeyTag sig \<and> dkAlgorithm key = sgAlgorithm sig
                \<and> dlVerify lib sig key [rr] = None) keys
       | _ \<Rightarrow> False) (mNs response)"

text \<open>The first loop: a record that denies the DS itself; the NSEC3 records seen are kept.\<close>

definition deniesDS :: "dnsLib \<Rightarrow> dnsMsg \<Rightarrow> string \<Rightarrow> string \<Rightarrow> dnskeyRR list \<Rightarrow> time \<Rightarrow> rr \<Rightarrow> bool" where
  "deniesDS lib response name parent keys now rr =
     (case rr of
        RR_NSEC n \<Rightarrow> equalFold (fqdn (hName (nsHdr n))) (fqdn name) \<and> delegationWithoutDS (nsTypeBitMap n)
          \<and> validDenialSignature lib response rr parent keys now
      | RR_NSEC3 n \<Rightarrow> dlMatch lib n name \<and> delegationWithoutDS (n3TypeBitMap n)
          \<and> validDenialSignature lib response rr parent keys now
      | _ \<Rightarrow> False)"

fun nsec3Records :: "rr list \<Rightarrow> nsec3RR list" where
  "nsec3Records [] = []"
| "nsec3Records (RR_NSEC3 n # rrs) = n # nsec3Records rrs"
| "nsec3Records (_ # rrs) = nsec3Records rrs"

definition optOutCover ::
  "dnsLib \<Rightarrow> dnsMsg \<Rightarrow> string \<Rightarrow> dnskeyRR list \<Rightarrow> time \<Rightarrow> nsec3RR \<Rightarrow> string \<Rightarrow> nsec3RR \<Rightarrow> bool" where
  "optOutCover lib response parent keys now match nextCloser cover \<longleftrightarrow>
     and (n3Flags cover) 1 \<noteq> 0 \<and> sameNSEC3Parameters match cover \<and> dlCover lib cover nextCloser
     \<and> validDenialSignature lib response (RR_NSEC3 cover) parent keys now"

text \<open>The second loop, over the enclosers from the closest on; the indices are those of the source.\<close>

fun closestEncloser ::
  "dnsLib \<Rightarrow> dnsMsg \<Rightarrow> string \<Rightarrow> dnskeyRR list \<Rightarrow> time \<Rightarrow> nsec3RR list \<Rightarrow> string list \<Rightarrow> nat list \<Rightarrow> err option" where
  "closestEncloser lib response parent keys now nsec3s labels [] = Some (Fmt NoDenialProof [])"
| "closestEncloser lib response parent keys now nsec3s labels (i # is) =
     (let closest = fqdn (strJoin ''.'' (drop i labels));
          rest = closestEncloser lib response parent keys now nsec3s labels is
      in if \<not> dlIsSubDomain lib parent closest then rest
         else case find (\<lambda>match. dlMatch lib match closest
                 \<and> validDenialSignature lib response (RR_NSEC3 match) parent keys now) nsec3s of
           None \<Rightarrow> rest
         | Some match \<Rightarrow>
             let nextCloser = fqdn (strJoin ''.'' (drop (i - 1) labels))
             in if list_ex (optOutCover lib response parent keys now match nextCloser) nsec3s then None
                else Some (Fmt NoOptOutCover []))"

definition verifyNoDSProof ::
  "dnsLib \<Rightarrow> dnsMsg \<Rightarrow> string \<Rightarrow> string \<Rightarrow> dnskeyRR list \<Rightarrow> time \<Rightarrow> err option" where
  "verifyNoDSProof lib response name parent keys now =
     (if list_ex (deniesDS lib response name parent keys now) (mNs response) then None
      else let labels = dlSplitDomainName lib name
           in closestEncloser lib response parent keys now (nsec3Records (mNs response)) labels [1..<length labels])"

end
