(* ===== verification/Probe.thy ===== *)
theory Probe
  imports Evidence
begin

text \<open>
  The probe of \<open>internal/dnsprobe/probe.go\<close> behind the observer interface: which servers it
  asks, and what it makes of their answers. An operation acts on \<open>net\<close>: the network of unknown
  type and the history of the exchanges, which the code never reads.
\<close>

section \<open>The network\<close>

text \<open>
  \<open>exchanger.ExchangeContext\<close>, \<open>ctx.Err()\<close>, the clock, and the order in which \<open>range\<close> visits
  the map of name servers
\<close>

record 'v probe =
  prResolvers :: "string list"
  prAuthoritative :: "string list"
  prLocal :: string
  prExchange :: "dnsQuery \<Rightarrow> string \<Rightarrow> 'v \<Rightarrow> (err + dnsMsg) \<times> 'v"
  prCtxErr :: "'v \<Rightarrow> err option"
  prNow :: "'v \<Rightarrow> time \<times> 'v"
  prRange :: "'v \<Rightarrow> (string \<times> bool) list \<Rightarrow> (string \<times> bool) list"
  prLib :: dnsLib

record 'v net =
  netWorld :: 'v
  netLog :: "(string \<times> dnsQuery \<times> (err + dnsMsg)) list"

definition exchangeContext :: "'v probe \<Rightarrow> dnsQuery \<Rightarrow> string \<Rightarrow> ('v net, dnsMsg) opn" where
  "exchangeContext p m server = (\<lambda>s. case prExchange p m server (netWorld s) of
     (r, w) \<Rightarrow> (r, s\<lparr>netWorld := w, netLog := netLog s @ [(server, m, r)]\<rparr>))"

definition ctxErr :: "'v probe \<Rightarrow> ('v net, err option) opn" where
  "ctxErr p = (\<lambda>s. (Inr (prCtxErr p (netWorld s)), s))"

definition probeNow :: "'v probe \<Rightarrow> ('v net, time) opn" where
  "probeNow p = (\<lambda>s. case prNow p (netWorld s) of (t, w) \<Rightarrow> (Inr t, s\<lparr>netWorld := w\<rparr>))"

definition rangeNames :: "'v probe \<Rightarrow> (string \<times> bool) list \<Rightarrow> ('v net, string list) opn" where
  "rangeNames p names = (\<lambda>s. (Inr (map fst (prRange p (netWorld s) names)), s))"

text \<open>\<open>if err := ...; err != nil { return err }\<close> for a check that returns an error or nil\<close>

definition check :: "err option \<Rightarrow> ('v net, unit) opn" where
  "check r = (case r of None \<Rightarrow> ret () | Some e \<Rightarrow> throw e)"

text \<open>A Go panic ends the operation like an error that nobody handles.\<close>

definition IndexOutOfRange :: msg where
  "IndexOutOfRange = ''runtime error: index out of range''"

section \<open>query\<close>

definition question :: "string \<Rightarrow> 16 word \<Rightarrow> bool \<Rightarrow> dnsQuery" where
  "question name typ recursive =
     \<lparr>qName = name, qType = typ, qRecursionDesired = recursive, qAuthenticatedData = recursive,
      qUDPSize = 1232, qDo = True\<rparr>"

text \<open>The loop of attempts, by the number of attempts that may follow this one\<close>

fun exchangeLoop :: "'v probe \<Rightarrow> dnsQuery \<Rightarrow> string \<Rightarrow> nat \<Rightarrow> ('v net, dnsMsg) opn" where
  "exchangeLoop p m server 0 =
     bind (attempt (exchangeContext p m server)) (\<lambda>r.
     case r of
       Inr x \<Rightarrow> ret x
     | Inl e \<Rightarrow> bind (ctxErr p) (\<lambda>c. case c of Some d \<Rightarrow> throw d | None \<Rightarrow> throw e))"
| "exchangeLoop p m server (Suc n) =
     bind (attempt (exchangeContext p m server)) (\<lambda>r.
     case r of
       Inr x \<Rightarrow> ret x
     | Inl e \<Rightarrow> bind (ctxErr p) (\<lambda>c. case c of Some d \<Rightarrow> throw d | None \<Rightarrow> exchangeLoop p m server n))"

definition query :: "'v probe \<Rightarrow> string \<Rightarrow> string \<Rightarrow> 16 word \<Rightarrow> bool \<Rightarrow> ('v net, dnsMsg) opn" where
  "query p server name typ recursive =
     bind (exchangeLoop p (question name typ recursive) server 2) (\<lambda>r.
     if mRcode r \<noteq> 0 then throw (Fmt RcodeError [AStr (dlRcodeToString (prLib p) (mRcode r))])
     else ret r)"

section \<open>referralServers\<close>

text \<open>\<open>net.JoinHostPort\<close> of the standard library\<close>

definition joinHostPort :: "string \<Rightarrow> string \<Rightarrow> string" where
  "joinHostPort host port =
     (if CHR 0x3A \<in> set host then ''['' @ host @ '']:'' @ port else host @ '':'' @ port)"

text \<open>The map from the names of the servers to whether they lie below the delegated zone\<close>

fun referralNames :: "dnsLib \<Rightarrow> rr list \<Rightarrow> (string \<times> bool) list \<Rightarrow> (string \<times> bool) list" where
  "referralNames lib [] names = names"
| "referralNames lib (RR_NS h t # rrs) names =
     (let owner = toLower (fqdn (hName h)); target = toLower (fqdn t)
      in referralNames lib rrs (mput target (dlIsSubDomain lib owner target) names))"
| "referralNames lib (_ # rrs) names = referralNames lib rrs names"

fun glueServers :: "(string \<times> bool) list \<Rightarrow> rr list \<Rightarrow> string list" where
  "glueServers names [] = []"
| "glueServers names (RR_A h a # rrs) =
     (if mget names (toLower (hName h)) = Some True then joinHostPort a ''53'' # glueServers names rrs
      else glueServers names rrs)"
| "glueServers names (RR_AAAA h a # rrs) =
     (if mget names (toLower (hName h)) = Some True then joinHostPort a ''53'' # glueServers names rrs
      else glueServers names rrs)"
| "glueServers names (_ # rrs) = glueServers names rrs"

fun addressServers :: "rr list \<Rightarrow> string list" where
  "addressServers [] = []"
| "addressServers (RR_A h a # rrs) = joinHostPort a ''53'' # addressServers rrs"
| "addressServers (RR_AAAA h a # rrs) = joinHostPort a ''53'' # addressServers rrs"
| "addressServers (_ # rrs) = addressServers rrs"

fun resolveTargets :: "'v probe \<Rightarrow> (string \<times> 16 word) list \<Rightarrow> ('v net, string list) opn" where
  "resolveTargets p [] = ret []"
| "resolveTargets p ((name, typ) # targets) =
     (case prResolvers p of
        [] \<Rightarrow> throw (Fmt IndexOutOfRange [])
      | resolver # _ \<Rightarrow>
          bind (attempt (query p resolver name typ True)) (\<lambda>r.
          bind (resolveTargets p targets) (\<lambda>rest.
          ret ((case r of Inl e \<Rightarrow> [] | Inr resp \<Rightarrow> addressServers (mAnswer resp)) @ rest))))"

definition referralServers :: "'v probe \<Rightarrow> dnsMsg \<Rightarrow> ('v net, string list) opn" where
  "referralServers p r =
     (let names = referralNames (prLib p) (mNs r) [];
          out = glueServers names (mExtra r)
      in if out \<noteq> [] then ret (unique out)
         else bind (rangeNames p names) (\<lambda>ns.
              bind (resolveTargets p (concat (map (\<lambda>n. [(n, typeA), (n, typeAAAA)]) ns))) (\<lambda>found.
              ret (unique found))))"

section \<open>dnskeyEvidence\<close>

fun authoritativeDNSKEY ::
  "'v probe \<Rightarrow> string \<Rightarrow> dnskeyRR list \<Rightarrow> string list \<Rightarrow> 32 word \<Rightarrow> ('v net, 32 word) opn" where
  "authoritativeDNSKEY p name expected [] ttl = ret ttl"
| "authoritativeDNSKEY p name expected (server # servers) ttl =
     bind (wrapErr (Wrap AuthDNSKEYVia [AStr server]) (query p server name typeDNSKEY False)) (\<lambda>r.
     bind (wrapErr (Wrap AuthDNSKEYVia [AStr server]) (check (verifyDNSKEYSet r expected False True name))) (\<lambda>_.
     let observed = rrsetTTL (mAnswer r) typeDNSKEY
     in authoritativeDNSKEY p name expected servers (if ttl < observed then observed else ttl)))"

fun recursiveDNSKEY :: "'v probe \<Rightarrow> string \<Rightarrow> dnskeyRR list \<Rightarrow> string list \<Rightarrow> ('v net, unit) opn" where
  "recursiveDNSKEY p name expected [] = ret ()"
| "recursiveDNSKEY p name expected (resolver # resolvers) =
     bind (wrapErr (Wrap RecursiveDNSKEYVia [AStr resolver]) (query p resolver name typeDNSKEY True)) (\<lambda>r.
     bind (wrapErr (Wrap RecursiveDNSKEYVia [AStr resolver])
             (check (verifyDNSKEYSet r expected True False name))) (\<lambda>_.
     recursiveDNSKEY p name expected resolvers))"

definition dnskeyEvidence :: "'v probe \<Rightarrow> string \<Rightarrow> bool \<Rightarrow> key list \<Rightarrow> ('v net, duration) opn" where
  "dnskeyEvidence p zone includeResolvers keys =
     (let name = fqdn zone in
      bind (pureE (expectedDNSKEYs (prLib p) name keys)) (\<lambda>expected.
      bind (wrapErr (Wrap LocalDNSKEYVia []) (query p (prLocal p) name typeDNSKEY False)) (\<lambda>local.
      bind (wrapErr (Wrap LocalDNSKEYVia []) (check (verifyDNSKEYSet local expected False True name))) (\<lambda>_.
      bind (authoritativeDNSKEY p name expected (prAuthoritative p) (rrsetTTL (mAnswer local) typeDNSKEY)) (\<lambda>ttl.
      bind (if includeResolvers then recursiveDNSKEY p name expected (prResolvers p) else ret ()) (\<lambda>_.
      if ttl = 0 then throw (Fmt ProbeTTLZero []) else ret (durMul (uint ttl) second)))))))"

section \<open>Signatures\<close>

text \<open>The loop over one group of servers; \<open>f\<close> is what \<open>fmt.Errorf\<close> does with a failed check.\<close>

fun signedBy ::
  "'v probe \<Rightarrow> string \<Rightarrow> 16 word \<Rightarrow> dnskeyRR \<Rightarrow> bool \<Rightarrow> string list \<Rightarrow> ('v net, unit) opn" where
  "signedBy p name typ rr recursive [] = ret ()"
| "signedBy p name typ rr recursive (server # servers) =
     bind (query p server name typ recursive) (\<lambda>r.
     bind (probeNow p) (\<lambda>now.
     bind (wrapErr (Wrap (if recursive then RecursiveSignatureVia else AuthSignatureVia) [AStr server])
             (check (verifySignature (prLib p) r typ rr recursive (\<not> recursive) name now))) (\<lambda>_.
     signedBy p name typ rr recursive servers)))"

definition signatureEvidence ::
  "'v probe \<Rightarrow> string \<Rightarrow> 16 word \<Rightarrow> key \<Rightarrow> bool \<Rightarrow> ('v net, unit) opn" where
  "signatureEvidence p name typ key includeResolvers =
     bind (pureE (keyRR (dlNewRR (prLib p)) name key)) (\<lambda>rr.
     bind (wrapErr (Wrap LocalSignature []) (query p (prLocal p) name typ False)) (\<lambda>local.
     bind (probeNow p) (\<lambda>now.
     bind (wrapErr (Wrap LocalSignature []) (check (verifySignature (prLib p) local typ rr False True name now))) (\<lambda>_.
     bind (signedBy p name typ rr False (prAuthoritative p)) (\<lambda>_.
     if includeResolvers then signedBy p name typ rr True (prResolvers p) else ret ())))))"

section \<open>DSEvidence\<close>

fun recursiveDS :: "'v probe \<Rightarrow> string \<Rightarrow> string list \<Rightarrow> string list \<Rightarrow> ('v net, unit) opn" where
  "recursiveDS p name want [] = ret ()"
| "recursiveDS p name want (resolver # resolvers) =
     bind (wrapErr (Wrap RecursiveDSVia [AStr resolver]) (query p resolver name typeDS True)) (\<lambda>r.
     if \<not> mAuthenticatedData r then throw (Fmt RecursiveDSLacksAD [AStr resolver])
     else bind (wrapErr (Wrap RecursiveDSVia [AStr resolver]) (check (exactDS r want name False))) (\<lambda>_.
          recursiveDS p name want resolvers))"

definition probeDSEvidence :: "'v probe \<Rightarrow> string \<Rightarrow> key list \<Rightarrow> ('v net, unit) opn" where
  "probeDSEvidence p zone keys =
     (let name = fqdn zone in
      bind (pureE (expectedDS (prLib p) name keys)) (\<lambda>want. recursiveDS p name want (prResolvers p)))"

end
