(* ===== verification/Lookup.thy ===== *)
theory Lookup
  imports Probe
begin

text \<open>
  The iterative lookups of \<open>internal/dnsprobe/probe.go\<close>: from the root servers down to the
  servers of the parent zone, and the proofs collected there. Each lookup makes at most twelve
  rounds; a round asks all servers of one level.
\<close>

definition rootServers :: "string list" where
  "rootServers = [''198.41.0.4:53'', ''[2001:503:ba3e::2:30]:53'']"

definition maxDepth :: nat where
  "maxDepth = 12"

section \<open>NoDSEvidence\<close>

text \<open>The owner of the first SOA of the authority section\<close>

fun soaOwner :: "rr list \<Rightarrow> string" where
  "soaOwner [] = []"
| "soaOwner (RR_SOA h # rrs) = fqdn (hName h)"
| "soaOwner (_ # rrs) = soaOwner rrs"

fun parentKeys :: "string \<Rightarrow> rr list \<Rightarrow> err + dnskeyRR list" where
  "parentKeys parent [] = Inr []"
| "parentKeys parent (RR_DNSKEY k # rrs) =
     (if \<not> sameOwnerClass (dkHdr k) parent then Inl (Fmt ParentDNSKEYOwner [])
      else case parentKeys parent rrs of Inl e \<Rightarrow> Inl e | Inr keys \<Rightarrow> Inr (k # keys))"
| "parentKeys parent (_ # rrs) = parentKeys parent rrs"

definition verifyNoDS :: "'v probe \<Rightarrow> dnsMsg \<Rightarrow> string \<Rightarrow> string \<Rightarrow> bool \<Rightarrow> ('v net, unit) opn" where
  "verifyNoDS p response name resolver requireAA =
     (if requireAA \<and> \<not> mAuthoritative response then throw (Fmt LacksAA [])
      else if hasType (mAnswer response) typeDS then throw (Fmt DSPresent [])
      else let parent = soaOwner (mNs response)
      in if parent = [] \<or> \<not> dlIsSubDomain (prLib p) parent name \<or> equalFold parent name
         then throw (Fmt NoParentSOA [])
         else
         bind (wrapErr (Wrap ParentDNSKEYQuery []) (query p resolver parent typeDNSKEY True)) (\<lambda>keysResponse.
         if \<not> mAuthenticatedData keysResponse then throw (Fmt ParentDNSKEYLacksAD [])
         else
         bind (pureE (parentKeys parent (mAnswer keysResponse))) (\<lambda>keys.
         if keys = [] then throw (Fmt ParentDNSKEYEmpty [])
         else bind (probeNow p) (\<lambda>now. check (verifyNoDSProof (prLib p) response name parent keys now)))))"

fun recursiveNoDS :: "'v probe \<Rightarrow> string \<Rightarrow> string list \<Rightarrow> ('v net, unit) opn" where
  "recursiveNoDS p name [] = ret ()"
| "recursiveNoDS p name (resolver # resolvers) =
     bind (wrapErr (Wrap RecursiveNoDSVia [AStr resolver]) (query p resolver name typeDS True)) (\<lambda>r.
     bind (wrapErr (Wrap RecursiveNoDSVia [AStr resolver]) (verifyNoDS p r name resolver False)) (\<lambda>_.
     recursiveNoDS p name resolvers))"

text \<open>One round: the number of proofs, the referrals and the last error\<close>

fun noDSRound ::
  "'v probe \<Rightarrow> string \<Rightarrow> string \<Rightarrow> string list \<Rightarrow> nat \<Rightarrow> string list \<Rightarrow> err option \<Rightarrow>
   ('v net, nat \<times> string list \<times> err option) opn" where
  "noDSRound p name resolver [] verified referrals lastErr = ret (verified, referrals, lastErr)"
| "noDSRound p name resolver (server # servers) verified referrals lastErr =
     bind (attempt (query p server name typeDS False)) (\<lambda>q.
     case q of
       Inl e \<Rightarrow> noDSRound p name resolver servers verified referrals (Some e)
     | Inr r \<Rightarrow>
         if hasType (mAnswer r) typeDS then throw (Fmt ParentHasDS [AStr name])
         else if hasType (mNs r) typeSOA then
           bind (attempt (verifyNoDS p r name resolver True)) (\<lambda>v.
           case v of
             Inl e \<Rightarrow> noDSRound p name resolver servers verified referrals (Some (Wrap ParentNoDSVia [AStr server] e))
           | Inr _ \<Rightarrow> noDSRound p name resolver servers (Suc verified) referrals lastErr)
         else
           bind (referralServers p r) (\<lambda>next.
           noDSRound p name resolver servers verified (referrals @ next) lastErr))"

fun noDSLookup :: "'v probe \<Rightarrow> string \<Rightarrow> string \<Rightarrow> nat \<Rightarrow> string list \<Rightarrow> ('v net, unit) opn" where
  "noDSLookup p name resolver 0 servers = throw (Fmt NoDSDepth [])"
| "noDSLookup p name resolver (Suc depth) servers =
     bind (noDSRound p name resolver servers 0 [] None) (\<lambda>(verified, referrals, lastErr).
     if 2 \<le> verified then ret ()
     else if 0 < verified then throw (Fmt OnlyNoDSProofs [AInt (int verified)])
     else let servers' = unique referrals
     in if servers' = [] then throw (case lastErr of Some e \<Rightarrow> e | None \<Rightarrow> Fmt NoDSNoReferral [])
        else noDSLookup p name resolver depth servers')"

definition probeNoDSEvidence :: "'v probe \<Rightarrow> string \<Rightarrow> ('v net, unit) opn" where
  "probeNoDSEvidence p zone =
     (let name = fqdn zone in
      case prResolvers p of
        resolver # _ # _ \<Rightarrow>
          bind (recursiveNoDS p name (prResolvers p)) (\<lambda>_. noDSLookup p name resolver maxDepth rootServers)
      | _ \<Rightarrow> throw (Fmt TwoResolvers []))"

section \<open>DelegationEvidence\<close>

definition expectedNS :: "string list \<Rightarrow> string list" where
  "expectedNS expected = sortCompact (map (\<lambda>item. toLower (fqdn (trimSpace item))) expected)"

fun delegationRound ::
  "'v probe \<Rightarrow> string \<Rightarrow> string list \<Rightarrow> string list \<Rightarrow> nat \<Rightarrow> string list \<Rightarrow> err option \<Rightarrow>
   ('v net, nat \<times> string list \<times> err option) opn" where
  "delegationRound p name want [] verified referrals lastErr = ret (verified, referrals, lastErr)"
| "delegationRound p name want (server # servers) verified referrals lastErr =
     bind (attempt (query p server name typeNS False)) (\<lambda>q.
     case q of
       Inl e \<Rightarrow> delegationRound p name want servers verified referrals (Some e)
     | Inr response \<Rightarrow>
         let got = delegatedNS response name
         in if got \<noteq> [] then
              (if got \<noteq> want then throw (Fmt DelegationMismatch [AStr server, AStrs got, AStrs want])
               else delegationRound p name want servers (Suc verified) referrals lastErr)
            else
              bind (referralServers p response) (\<lambda>next.
              delegationRound p name want servers verified (referrals @ next) lastErr))"

fun delegationLookup :: "'v probe \<Rightarrow> string \<Rightarrow> string list \<Rightarrow> nat \<Rightarrow> string list \<Rightarrow> ('v net, unit) opn" where
  "delegationLookup p name want 0 servers = throw (Fmt DelegationDepth [])"
| "delegationLookup p name want (Suc depth) servers =
     bind (delegationRound p name want servers 0 [] None) (\<lambda>(verified, referrals, lastErr).
     if 2 \<le> verified then ret ()
     else if 0 < verified then throw (Fmt OnlyDelegations [AInt (int verified)])
     else let servers' = unique referrals
     in if servers' = [] then throw (case lastErr of Some e \<Rightarrow> e | None \<Rightarrow> Fmt DelegationNoReferral [])
        else delegationLookup p name want depth servers')"

definition probeDelegationEvidence :: "'v probe \<Rightarrow> string \<Rightarrow> string list \<Rightarrow> ('v net, unit) opn" where
  "probeDelegationEvidence p zone expected =
     (let name = fqdn zone; want = expectedNS expected
      in if length want < 2 then throw (Fmt TwoNameservers [])
         else delegationLookup p name want maxDepth rootServers)"

section \<open>AuthoritativeDSEvidence\<close>

text \<open>One round: the number of exact answers, their largest TTL, the referrals and the last error\<close>

fun dsRound ::
  "'v probe \<Rightarrow> string \<Rightarrow> string list \<Rightarrow> string list \<Rightarrow> nat \<Rightarrow> 32 word \<Rightarrow> string list \<Rightarrow> err option \<Rightarrow>
   ('v net, nat \<times> 32 word \<times> string list \<times> err option) opn" where
  "dsRound p name want [] answers maxTTL referrals lastErr = ret (answers, maxTTL, referrals, lastErr)"
| "dsRound p name want (server # servers) answers maxTTL referrals lastErr =
     bind (attempt (query p server name typeDS False)) (\<lambda>q.
     case q of
       Inl e \<Rightarrow> dsRound p name want servers answers maxTTL referrals (Some e)
     | Inr r \<Rightarrow>
         if hasType (mAnswer r) typeDS then
           (case exactDS r want name True of
              Some e \<Rightarrow> dsRound p name want servers answers maxTTL referrals (Some (Wrap ParentDSVia [AStr server] e))
            | None \<Rightarrow>
                let ttl = rrsetTTL (mAnswer r) typeDS
                in dsRound p name want servers (Suc answers) (if maxTTL < ttl then ttl else maxTTL) referrals lastErr)
         else
           bind (referralServers p r) (\<lambda>next.
           if next \<noteq> [] then dsRound p name want servers answers maxTTL (referrals @ next) lastErr
           else if hasType (mNs r) typeSOA then throw (Fmt ParentHasNoDS [AStr name])
           else dsRound p name want servers answers maxTTL referrals lastErr))"

fun dsLookup :: "'v probe \<Rightarrow> string \<Rightarrow> string list \<Rightarrow> nat \<Rightarrow> string list \<Rightarrow> ('v net, duration) opn" where
  "dsLookup p name want 0 servers = throw (Fmt DSDepth [])"
| "dsLookup p name want (Suc depth) servers =
     bind (dsRound p name want servers 0 0 [] None) (\<lambda>(answers, maxTTL, referrals, lastErr).
     if 2 \<le> answers \<and> 0 < maxTTL then ret (durMul (uint maxTTL) second)
     else if 0 < answers then throw (Fmt OnlyDSAnswers [AInt (int answers)])
     else case lastErr of
       Some e \<Rightarrow> throw e
     | None \<Rightarrow>
         let servers' = unique referrals
         in if servers' = [] then throw (Fmt DSNoReferral []) else dsLookup p name want depth servers')"

definition probeAuthoritativeDSEvidence :: "'v probe \<Rightarrow> string \<Rightarrow> key list \<Rightarrow> ('v net, duration) opn" where
  "probeAuthoritativeDSEvidence p zone keys =
     (let name = fqdn zone in
      bind (pureE (expectedDS (prLib p) name keys)) (\<lambda>want. dsLookup p name want maxDepth rootServers))"

section \<open>The observer interface\<close>

definition probeDNSKEYEvidence :: "'v probe \<Rightarrow> bool \<Rightarrow> string \<Rightarrow> key list \<Rightarrow> ('v net, duration) opn" where
  "probeDNSKEYEvidence p recursive zone keys = dnskeyEvidence p zone recursive keys"

definition probeRRSIGBy :: "'v probe \<Rightarrow> bool \<Rightarrow> string \<Rightarrow> key \<Rightarrow> ('v net, unit) opn" where
  "probeRRSIGBy p recursive zone key = signatureEvidence p (fqdn zone) typeSOA key recursive"

definition probeDNSKEYRRSIGBy :: "'v probe \<Rightarrow> bool \<Rightarrow> string \<Rightarrow> key \<Rightarrow> ('v net, unit) opn" where
  "probeDNSKEYRRSIGBy p recursive zone key = signatureEvidence p (fqdn zone) typeDNSKEY key recursive"

end
