(* ===== verification/Observed.thy ===== *)
theory Observed
  imports Lookup Waits
begin

text \<open>
  What the evidence of the probe means: which servers answered what when an operation of the
  observer interface succeeds, whatever the network does.
\<close>

section \<open>Exchanges\<close>

type_synonym exchanges = "(string \<times> dnsQuery \<times> (err + dnsMsg)) set"

text \<open>
  An operation that began in \<open>u\<close>, and the exchanges it added; each reply came from the network in
  some state of it.
\<close>

definition replies :: "'v probe \<Rightarrow> (string \<times> dnsQuery \<times> (err + dnsMsg)) list \<Rightarrow> bool" where
  "replies p es \<longleftrightarrow> (\<forall>(server, q, r)\<in>set es. \<exists>w. fst (prExchange p q server w) = r)"

lemma replies_append [simp]: "replies p (es @ fs) \<longleftrightarrow> replies p es \<and> replies p fs"
  by (simp add: replies_def ball_Un)

lemma replies_Nil [simp]: "replies p []"
  by (simp add: replies_def)

lemma replies_Cons: "replies p [e] \<Longrightarrow> replies p es \<Longrightarrow> replies p (e # es)"
  by (simp add: replies_def)

definition learns :: "'v probe \<Rightarrow> (exchanges \<Rightarrow> 'a \<Rightarrow> bool) \<Rightarrow> 'v net \<Rightarrow> err + 'a \<Rightarrow> 'v net \<Rightarrow> bool" where
  "learns p P u r t \<longleftrightarrow> (\<exists>es. netLog t = netLog u @ es \<and> replies p es \<and> (\<forall>x. r = Inr x \<longrightarrow> P (set es) x))"

lemma wp_learns:
  assumes "wp m (learns p P u) u"
    and "\<And>t e es. netLog t = netLog u @ es \<Longrightarrow> replies p es \<Longrightarrow> Q (Inl e) t"
    and "\<And>t x es. netLog t = netLog u @ es \<Longrightarrow> replies p es \<Longrightarrow> P (set es) x \<Longrightarrow> Q (Inr x) t"
  shows "wp m Q u"
proof (rule wp_mono [OF assms(1)])
  fix r t
  assume "learns p P u r t"
  then show "Q r t" by (cases r) (auto simp: learns_def assms(2,3))
qed

lemma learns_calls:
  "wp m (learns p P u) u \<Longrightarrow> m u = (Inr x, t) \<Longrightarrow> \<exists>es. netLog t = netLog u @ es \<and> replies p es \<and> P (set es) x"
  by (auto simp: learns_def dest!: wpI)

lemma learnsD: "wp m (learns p P u) u \<Longrightarrow> m u = (Inr x, t) \<Longrightarrow> netLog t = netLog u @ es \<Longrightarrow> P (set es) x"
  by (auto simp: learns_def dest!: wpI)

text \<open>\<open>answered E server name typ recursive m\<close>: the server answered the question without error.\<close>

definition answered :: "exchanges \<Rightarrow> string \<Rightarrow> string \<Rightarrow> 16 word \<Rightarrow> bool \<Rightarrow> dnsMsg \<Rightarrow> bool" where
  "answered E server name typ recursive m \<longleftrightarrow> (server, question name typ recursive, Inr m) \<in> E \<and> mRcode m = 0"

lemma answered_more: "answered E server name typ recursive m \<Longrightarrow> E \<subseteq> F \<Longrightarrow> answered F server name typ recursive m"
  by (auto simp: answered_def)

lemma answered_set [simp]:
  "answered (E \<union> F) server name typ recursive m \<longleftrightarrow> answered E server name typ recursive m \<or> answered F server name typ recursive m"
  by (auto simp: answered_def)

lemma wp_exchange:
  assumes "\<And>t e. netLog t = netLog u @ [(server, m, Inl e)] \<Longrightarrow> replies p [(server, m, Inl e)] \<Longrightarrow> Q (Inl e) t"
    and "\<And>t x. netLog t = netLog u @ [(server, m, Inr x)] \<Longrightarrow> replies p [(server, m, Inr x)] \<Longrightarrow> Q (Inr x) t"
  shows "wp (exchangeContext p m server) Q u"
proof -
  obtain r w where r: "prExchange p m server (netWorld u) = (r, w)" by fastforce
  then have "replies p [(server, m, r)]"
    by (auto simp: replies_def intro: exI [of _ "netWorld u"])
  with r show ?thesis by (cases r) (auto simp: wp_def exchangeContext_def intro: assms)
qed

lemma wp_ctxErr: "(\<And>c. Q (Inr c) u) \<Longrightarrow> wp (ctxErr p) Q u"
  by (simp add: wp_def ctxErr_def)

text \<open>A time that the clock has shown in some state of the network\<close>

definition clockReading :: "'v probe \<Rightarrow> time \<Rightarrow> bool" where
  "clockReading p now \<longleftrightarrow> (\<exists>w. now = fst (prNow p w))"

lemma wp_probeNow:
  "(\<And>t now. netLog t = netLog u \<Longrightarrow> clockReading p now \<Longrightarrow> Q (Inr now) t) \<Longrightarrow> wp (probeNow p) Q u"
proof -
  assume Q: "\<And>t now. netLog t = netLog u \<Longrightarrow> clockReading p now \<Longrightarrow> Q (Inr now) t"
  obtain now w where now: "prNow p (netWorld u) = (now, w)" by fastforce
  then have "clockReading p now" by (metis clockReading_def fst_conv)
  then show ?thesis by (simp add: wp_def probeNow_def now Q)
qed

lemma wp_rangeNames: "(\<And>ns. Q (Inr ns) u) \<Longrightarrow> wp (rangeNames p names) Q u"
  by (simp add: wp_def rangeNames_def)

lemma wp_check: "(\<And>e. r = Some e \<Longrightarrow> Q (Inl e) u) \<Longrightarrow> (r = None \<Longrightarrow> Q (Inr ()) u) \<Longrightarrow> wp (check r) Q u"
  by (cases r) (simp_all add: check_def wp_simps)

lemmas net_vcg = vcg_bind vcg_Inl vcg_Inr vcg_if vcg_let vcg_option vcg_sum vcg_prod vcg_throw vcg_ret vcg_pureE
  vcg_attempt vcg_wrapErr wp_ctxErr wp_probeNow wp_rangeNames wp_check

lemma exchangeLoop_learns:
  "wp (exchangeLoop p m server n) (learns p (\<lambda>E x. (server, m, Inr x) \<in> E) u) u"
proof (induction n arbitrary: u)
  case 0
  show ?case
    unfolding exchangeLoop.simps
    by (intro net_vcg wp_exchange) (simp_all add: learns_def)
next
  case (Suc n)
  show ?case
    unfolding exchangeLoop.simps
    by (intro net_vcg wp_exchange wp_learns [OF Suc.IH]) (auto simp: learns_def replies_Cons)
qed

lemma query_learns:
  "wp (query p server name typ recursive) (learns p (\<lambda>E m. answered E server name typ recursive m) u) u"
  unfolding query_def
  by (intro net_vcg wp_learns [OF exchangeLoop_learns]) (auto simp: learns_def answered_def)

lemmas wp_query = wp_learns [OF query_learns]

lemma resolveTargets_learns: "wp (resolveTargets p targets) (learns p (\<lambda>E x. True) u) u"
proof (induction targets arbitrary: u)
  case Nil
  show ?case by (simp add: wp_simps learns_def)
next
  case (Cons target targets)
  obtain name ty where t: "target = (name, ty)" by (cases target)
  show ?case
    unfolding t resolveTargets.simps
    by (intro net_vcg vcg_list wp_query wp_learns [OF Cons.IH]) (auto simp: learns_def)
qed

lemma set_uniqueLoop: "set (uniqueLoop seen xs) = set xs - set seen"
  by (induction seen xs rule: uniqueLoop.induct) auto

lemma distinct_uniqueLoop: "distinct (uniqueLoop seen xs)"
  by (induction seen xs rule: uniqueLoop.induct) (auto simp: set_uniqueLoop)

lemma unique_simps [simp]: "distinct (unique xs)" "set (unique xs) = set xs"
  by (simp_all add: unique_def set_uniqueLoop distinct_uniqueLoop)

lemma referralServers_learns: "wp (referralServers p r) (learns p (\<lambda>E next. distinct next) u) u"
  unfolding referralServers_def
  by (intro net_vcg wp_learns [OF resolveTargets_learns]) (auto simp: learns_def)

lemmas wp_referral = wp_learns [OF referralServers_learns]

section \<open>What a response shows\<close>

text \<open>The records of one type in a section\<close>

fun dnskeysOf :: "rr list \<Rightarrow> dnskeyRR list" where
  "dnskeysOf [] = []"
| "dnskeysOf (RR_DNSKEY k # rrs) = k # dnskeysOf rrs"
| "dnskeysOf (_ # rrs) = dnskeysOf rrs"

fun dssOf :: "rr list \<Rightarrow> dsRR list" where
  "dssOf [] = []"
| "dssOf (RR_DS d # rrs) = d # dssOf rrs"
| "dssOf (_ # rrs) = dssOf rrs"

definition ofType :: "16 word \<Rightarrow> rr list \<Rightarrow> rr list" where
  "ofType typ rrs = filter (\<lambda>r. hRrtype (rrHdr r) = typ) rrs"

text \<open>The content of a DNSKEY record; the text the code compares determines it.\<close>

definition dnskeyContent :: "dnskeyRR \<Rightarrow> 16 word \<times> 8 word \<times> 8 word \<times> string" where
  "dnskeyContent k = (dkFlags k, dkProtocol k, dkAlgorithm k, dkPublicKey k)"

lemma dnskeyKey_iff: "dnskeyKey k = dnskeyKey k' \<longleftrightarrow> dnskeyContent k = dnskeyContent k'"
  by (auto simp: dnskeyKey_def dnskeyContent_def split_at_sep slash_notin_itoa word_uint_eq_iff)

lemma mset_image_iff:
  assumes "\<And>x y. f x = f y \<longleftrightarrow> g x = g y"
  shows "mset (map f xs) = mset (map f ys) \<longleftrightarrow> mset (map g xs) = mset (map g ys)"
proof -
  define h where "h v = g (inv_into UNIV f v)" for v
  define h' where "h' v = f (inv_into UNIV g v)" for v
  have h: "h (f x) = g x" for x
    using assms [of "inv_into UNIV f (f x)" x] by (simp add: h_def f_inv_into_f)
  have h': "h' (g x) = f x" for x
    using assms [of "inv_into UNIV g (g x)" x] by (simp add: h'_def f_inv_into_f)
  show ?thesis
  proof
    assume "mset (map f xs) = mset (map f ys)"
    then have "image_mset h (mset (map f xs)) = image_mset h (mset (map f ys))" by (simp only:)
    then show "mset (map g xs) = mset (map g ys)" by (simp add: h multiset.map_comp comp_def)
  next
    assume "mset (map g xs) = mset (map g ys)"
    then have "image_mset h' (mset (map g xs)) = image_mset h' (mset (map g ys))" by (simp only:)
    then show "mset (map f xs) = mset (map f ys)" by (simp add: h' multiset.map_comp comp_def)
  qed
qed

lemma dnskeyTexts_eq:
  "dnskeyTexts owner rrs =
     (if \<forall>k\<in>set (dnskeysOf rrs). sameOwnerClass (dkHdr k) owner then Inr (map dnskeyKey (dnskeysOf rrs))
      else Inl (Fmt DNSKEYOwner []))"
  by (induction owner rrs rule: dnskeyTexts.induct) auto

lemma dsTexts_eq:
  "dsTexts owner rrs =
     (if \<forall>d\<in>set (dssOf rrs). sameOwnerClass (dsHdr d) owner then Inr (map dsKey (dssOf rrs))
      else Inl (Fmt DSOwner []))"
  by (induction owner rrs rule: dsTexts.induct) auto

text \<open>The response carries exactly the expected keys, all owned by \<open>owner\<close>, from a trusted source.\<close>

definition showsKeys :: "dnskeyRR list \<Rightarrow> string \<Rightarrow> bool \<Rightarrow> dnsMsg \<Rightarrow> bool" where
  "showsKeys want owner recursive m \<longleftrightarrow>
     (if recursive then mAuthenticatedData m else mAuthoritative m)
     \<and> (\<forall>k\<in>set (dnskeysOf (mAnswer m)). sameOwnerClass (dkHdr k) owner)
     \<and> mset (map dnskeyContent (dnskeysOf (mAnswer m))) = mset (map dnskeyContent want)"

lemma verifyDNSKEYSet_iff:
  "verifyDNSKEYSet m want recursive (\<not> recursive) owner = None \<longleftrightarrow> showsKeys want owner recursive m"
proof -
  have "sort (map dnskeyKey (dnskeysOf (mAnswer m))) = sort (map dnskeyKey want)
      \<longleftrightarrow> mset (map dnskeyContent (dnskeysOf (mAnswer m))) = mset (map dnskeyContent want)"
    unfolding sort_eq_iff_mset by (rule mset_image_iff) (rule dnskeyKey_iff)
  then show ?thesis
    by (auto simp: verifyDNSKEYSet_def showsKeys_def Let_def dnskeyTexts_eq)
qed

definition showsDS :: "string list \<Rightarrow> string \<Rightarrow> dnsMsg \<Rightarrow> bool" where
  "showsDS want owner m \<longleftrightarrow>
     (\<forall>d\<in>set (dssOf (mAnswer m)). sameOwnerClass (dsHdr d) owner)
     \<and> mset (map dsKey (dssOf (mAnswer m))) = mset want"

lemma exactDS_iff:
  assumes "sorted want"
  shows "exactDS m want owner requireAA = None \<longleftrightarrow> (requireAA \<longrightarrow> mAuthoritative m) \<and> showsDS want owner m"
proof -
  have "sort (map dsKey (dssOf (mAnswer m))) = want \<longleftrightarrow> mset (map dsKey (dssOf (mAnswer m))) = mset want"
    using assms sort_eq_iff_mset [of "map dsKey (dssOf (mAnswer m))" want] by (simp add: sorted_sort_id)
  then show ?thesis
    by (auto simp: exactDS_def showsDS_def Let_def dsTexts_eq)
qed

text \<open>A signature by the key over the complete set of the records of the type\<close>

definition signedMsg :: "dnsLib \<Rightarrow> 16 word \<Rightarrow> dnskeyRR \<Rightarrow> string \<Rightarrow> time \<Rightarrow> bool \<Rightarrow> dnsMsg \<Rightarrow> bool" where
  "signedMsg lib typ key owner now recursive m \<longleftrightarrow>
     (if recursive then mAuthenticatedData m else mAuthoritative m)
     \<and> ofType typ (mAnswer m) \<noteq> [] \<and> (\<forall>a\<in>set (ofType typ (mAnswer m)). sameOwnerClass (rrHdr a) owner)
     \<and> (\<exists>sig. RR_RRSIG sig \<in> set (mAnswer m) \<and> sgTypeCovered sig = typ \<and> sgKeyTag sig = dlKeyTag lib key
          \<and> sgAlgorithm sig = dkAlgorithm key \<and> sameOwnerClass (sgHdr sig) owner \<and> dlValidityPeriod lib sig now
          \<and> dlVerify lib sig key (ofType typ (mAnswer m)) = None)"

definition matchingSigs :: "dnsLib \<Rightarrow> 16 word \<Rightarrow> dnskeyRR \<Rightarrow> rr list \<Rightarrow> rrsigRR set" where
  "matchingSigs lib typ key rrs =
     {s. RR_RRSIG s \<in> set rrs \<and> sgTypeCovered s = typ \<and> sgKeyTag s = dlKeyTag lib key \<and> sgAlgorithm s = dkAlgorithm key}"

lemma coveredBy_eq:
  "case coveredBy lib typ key owner rrs of
     Inl e \<Rightarrow> \<not> (\<forall>a\<in>set (ofType typ rrs). sameOwnerClass (rrHdr a) owner)
   | Inr (rrset, sigs) \<Rightarrow> rrset = ofType typ rrs \<and> (\<forall>a\<in>set rrset. sameOwnerClass (rrHdr a) owner)
       \<and> set sigs = matchingSigs lib typ key rrs"
proof (induction rrs)
  case Nil
  show ?case by (simp add: ofType_def matchingSigs_def)
next
  case (Cons a rrs)
  have "matchingSigs lib typ key (a # rrs) = matchingSigs lib typ key rrs \<union>
      (case a of RR_RRSIG s \<Rightarrow> if sgTypeCovered s = typ \<and> sgKeyTag s = dlKeyTag lib key \<and> sgAlgorithm s = dkAlgorithm key
         then {s} else {} | _ \<Rightarrow> {})"
    by (cases a) (auto simp: matchingSigs_def)
  with Cons.IH show ?case
    by (cases a; cases "coveredBy lib typ key owner rrs") (auto simp: ofType_def)
qed

lemma verifySignature_iff:
  "verifySignature lib m typ key recursive (\<not> recursive) owner now = None \<longleftrightarrow> signedMsg lib typ key owner now recursive m"
  using coveredBy_eq [of "typ" "mAnswer m" owner lib key]
  by (cases "coveredBy lib typ key owner (mAnswer m)")
    (auto simp: verifySignature_def signedMsg_def list_ex_iff matchingSigs_def split: if_splits)

lemmas verified_simps [simp] =
  verifyDNSKEYSet_iff [where recursive = False, simplified] verifyDNSKEYSet_iff [where recursive = True, simplified]
  verifySignature_iff [where recursive = False, simplified] verifySignature_iff [where recursive = True, simplified]

section \<open>DNSKEY evidence\<close>

lemma larger: "(if a < b then b else a) = max a (b :: 'a :: linorder)"
  by (auto simp: max_def)

lemma rrsetTTLLoop_ge:
  "ttl \<le> rrsetTTLLoop typ rrs ttl \<and> (\<forall>r\<in>set (ofType typ rrs). hTtl (rrHdr r) \<le> rrsetTTLLoop typ rrs ttl)"
proof (induction rrs arbitrary: ttl)
  case Nil
  show ?case by (simp add: ofType_def)
next
  case (Cons r rrs)
  let ?t = "if hRrtype (rrHdr r) = typ \<and> (ttl = 0 \<or> ttl < hTtl (rrHdr r)) then hTtl (rrHdr r) else ttl"
  have "ttl \<le> ?t" "hRrtype (rrHdr r) = typ \<Longrightarrow> hTtl (rrHdr r) \<le> ?t"
    by auto
  with Cons.IH [of ?t] show ?case
    by (auto simp: ofType_def intro: order_trans)
qed

lemma rrsetTTL_ge: "r \<in> set (ofType typ rrs) \<Longrightarrow> hTtl (rrHdr r) \<le> rrsetTTL rrs typ"
  using rrsetTTLLoop_ge by (simp add: rrsetTTL_def)

text \<open>The server showed exactly the expected keys, with no TTL above \<open>ttl\<close>.\<close>

definition keysAt :: "exchanges \<Rightarrow> string \<Rightarrow> dnskeyRR list \<Rightarrow> bool \<Rightarrow> 32 word \<Rightarrow> string \<Rightarrow> bool" where
  "keysAt E name want recursive ttl server \<longleftrightarrow>
     (\<exists>m. answered E server name typeDNSKEY recursive m \<and> showsKeys want name recursive m
        \<and> (\<not> recursive \<longrightarrow> rrsetTTL (mAnswer m) typeDNSKEY \<le> ttl))"

lemma keysAtI:
  "answered E server name typeDNSKEY recursive m \<Longrightarrow> showsKeys want name recursive m
   \<Longrightarrow> (\<not> recursive \<Longrightarrow> rrsetTTL (mAnswer m) typeDNSKEY \<le> ttl) \<Longrightarrow> keysAt E name want recursive ttl server"
  by (auto simp: keysAt_def)

lemma keysAt_set [simp]:
  "keysAt (E \<union> F) name want recursive ttl server \<longleftrightarrow>
     keysAt E name want recursive ttl server \<or> keysAt F name want recursive ttl server"
  by (auto simp: keysAt_def)

lemma authoritativeDNSKEY_learns:
  "wp (authoritativeDNSKEY p name want servers ttl)
     (learns p (\<lambda>E x. ttl \<le> x \<and> (\<forall>server\<in>set servers. keysAt E name want False x server)) u) u"
proof (induction servers arbitrary: u ttl)
  case Nil
  show ?case by (simp add: wp_simps learns_def)
next
  case (Cons server servers)
  show ?case
    unfolding authoritativeDNSKEY.simps larger
    by (intro net_vcg wp_query wp_learns [OF Cons.IH]) (auto simp: learns_def intro: keysAtI)
qed

lemma recursiveDNSKEY_learns:
  "wp (recursiveDNSKEY p name want servers) (learns p (\<lambda>E x. \<forall>server\<in>set servers. keysAt E name want True 0 server) u) u"
proof (induction servers arbitrary: u)
  case Nil
  show ?case by (simp add: wp_simps learns_def)
next
  case (Cons server servers)
  show ?case
    unfolding recursiveDNSKEY.simps
    by (intro net_vcg wp_query wp_learns [OF Cons.IH]) (auto simp: learns_def intro: keysAtI)
qed

definition keysEverywhere :: "'v probe \<Rightarrow> string \<Rightarrow> bool \<Rightarrow> key list \<Rightarrow> exchanges \<Rightarrow> duration \<Rightarrow> bool" where
  "keysEverywhere p zone recursive keys E d \<longleftrightarrow>
     (\<exists>want ttl. expectedDNSKEYs (prLib p) (fqdn zone) keys = Inr want \<and> d = uint ttl * second \<and> 0 < d
        \<and> (\<forall>server\<in>set (prLocal p # prAuthoritative p). keysAt E (fqdn zone) want False ttl server)
        \<and> (recursive \<longrightarrow> (\<forall>resolver\<in>set (prResolvers p). keysAt E (fqdn zone) want True 0 resolver)))"

lemma word_seconds: "durMul (uint (w :: 32 word)) second = uint w * second"
  by (rule durMul_seconds) (simp_all add: uint_lt2p [where x = w, simplified])

lemma word_seconds_pos: "w \<noteq> 0 \<Longrightarrow> 0 < uint (w :: 32 word) * second"
  using uint_0_iff [of w] uint_ge_0 [of w] by (simp add: second_def order_less_le)

lemma keysEverywhereI:
  assumes "expectedDNSKEYs (prLib p) (fqdn zone) keys = Inr want" "d = durMul (uint ttl) second" "ttl \<noteq> 0"
    and "answered E (prLocal p) (fqdn zone) typeDNSKEY False m" "showsKeys want (fqdn zone) False m"
      "rrsetTTL (mAnswer m) typeDNSKEY \<le> ttl"
    and "\<forall>server\<in>set (prAuthoritative p). keysAt E (fqdn zone) want False ttl server"
    and "recursive \<longrightarrow> (\<forall>resolver\<in>set (prResolvers p). keysAt E (fqdn zone) want True 0 resolver)"
  shows "keysEverywhere p zone recursive keys E d"
proof -
  have "keysAt E (fqdn zone) want False ttl (prLocal p)"
    using assms by (auto intro: keysAtI)
  with assms show ?thesis
    unfolding keysEverywhere_def by (auto simp: word_seconds word_seconds_pos)
qed

lemma dnskeyEvidence_learns:
  "wp (dnskeyEvidence p zone recursive keys) (learns p (keysEverywhere p zone recursive keys) u) u"
  unfolding dnskeyEvidence_def
  apply (intro net_vcg wp_query wp_learns [OF authoritativeDNSKEY_learns] wp_learns [OF recursiveDNSKEY_learns])
  apply (auto simp: learns_def intro!: keysEverywhereI)
  done

text \<open>When the DNSKEY evidence succeeds, the local and every configured authoritative server
  has answered authoritatively, and every resolver with authenticated data, with exactly the
  expected DNSKEY set; the TTL returned is positive and the largest one answered by an
  authoritative server.\<close>

theorem dnskey_evidence_is_complete:
  assumes "probeDNSKEYEvidence p recursive zone keys u = (Inr d, t)" "netLog t = netLog u @ es"
  shows "keysEverywhere p zone recursive keys (set es) d"
  using learnsD [OF dnskeyEvidence_learns] assms by (simp add: probeDNSKEYEvidence_def)

section \<open>Signatures\<close>

definition signatureAt ::
  "'v probe \<Rightarrow> exchanges \<Rightarrow> string \<Rightarrow> 16 word \<Rightarrow> dnskeyRR \<Rightarrow> bool \<Rightarrow> string \<Rightarrow> bool" where
  "signatureAt p E name typ rr recursive server \<longleftrightarrow>
     (\<exists>m now. clockReading p now \<and> answered E server name typ recursive m
        \<and> signedMsg (prLib p) typ rr name now recursive m)"

lemma signatureAtI:
  "clockReading p now \<Longrightarrow> answered E server name typ recursive m \<Longrightarrow> signedMsg (prLib p) typ rr name now recursive m
   \<Longrightarrow> signatureAt p E name typ rr recursive server"
  by (auto simp: signatureAt_def)

lemma signatureAt_set [simp]:
  "signatureAt p (E \<union> F) name typ rr recursive server \<longleftrightarrow>
     signatureAt p E name typ rr recursive server \<or> signatureAt p F name typ rr recursive server"
  by (auto simp: signatureAt_def)

lemma signedBy_learns:
  "wp (signedBy p name typ rr recursive servers)
     (learns p (\<lambda>E x. \<forall>server\<in>set servers. signatureAt p E name typ rr recursive server) u) u"
proof (induction servers arbitrary: u)
  case Nil
  show ?case by (simp add: wp_simps learns_def)
next
  case (Cons server servers)
  show ?case
    unfolding signedBy.simps
    by (intro net_vcg wp_query wp_learns [OF Cons.IH])
      (auto simp: learns_def verifySignature_iff intro: signatureAtI)
qed

definition signedEverywhere :: "'v probe \<Rightarrow> string \<Rightarrow> 16 word \<Rightarrow> bool \<Rightarrow> key \<Rightarrow> exchanges \<Rightarrow> bool" where
  "signedEverywhere p name typ recursive key E \<longleftrightarrow>
     (\<exists>rr. keyRR (dlNewRR (prLib p)) name key = Inr rr
        \<and> (\<forall>server\<in>set (prLocal p # prAuthoritative p). signatureAt p E name typ rr False server)
        \<and> (recursive \<longrightarrow> (\<forall>resolver\<in>set (prResolvers p). signatureAt p E name typ rr True resolver)))"

lemma signatureEvidence_learns:
  "wp (signatureEvidence p name typ key recursive) (learns p (\<lambda>E x. signedEverywhere p name typ recursive key E) u) u"
  unfolding signatureEvidence_def
  by (intro net_vcg wp_query wp_learns [OF signedBy_learns])
    (auto simp: learns_def signedEverywhere_def intro: signatureAtI)

text \<open>When the signature evidence succeeds, every configured server has answered with the
  record set and a signature over it by the expected key that verifies and is valid at the time
  it was checked.\<close>

theorem signature_evidence_is_complete:
  assumes "(if zoneData then probeRRSIGBy p recursive zone key else probeDNSKEYRRSIGBy p recursive zone key) u = (Inr x, t)"
    and "netLog t = netLog u @ es"
  shows "signedEverywhere p (fqdn zone) (if zoneData then typeSOA else typeDNSKEY) recursive key (set es)"
  using learnsD [OF signatureEvidence_learns] assms
  by (cases zoneData) (simp_all add: probeRRSIGBy_def probeDNSKEYRRSIGBy_def)

section \<open>DS evidence\<close>

lemma expectedDS_sorted: "expectedDS lib name keys = Inr want \<Longrightarrow> sorted want"
  by (auto simp: expectedDS_def split: sum.splits)

definition dsAt :: "exchanges \<Rightarrow> string \<Rightarrow> string list \<Rightarrow> bool \<Rightarrow> string \<Rightarrow> bool" where
  "dsAt E name want recursive server \<longleftrightarrow>
     (\<exists>m. answered E server name typeDS recursive m \<and> showsDS want name m
        \<and> (if recursive then mAuthenticatedData m else mAuthoritative m))"

lemma dsAt_set [simp]:
  "dsAt (E \<union> F) name want recursive server \<longleftrightarrow> dsAt E name want recursive server \<or> dsAt F name want recursive server"
  by (auto simp: dsAt_def)

lemma recursiveDS_learns:
  assumes "sorted want"
  shows "wp (recursiveDS p name want servers) (learns p (\<lambda>E x. \<forall>server\<in>set servers. dsAt E name want True server) u) u"
proof (induction servers arbitrary: u)
  case Nil
  show ?case by (simp add: wp_simps learns_def)
next
  case (Cons server servers)
  show ?case
    unfolding recursiveDS.simps
    by (intro net_vcg wp_query wp_learns [OF Cons.IH])
      (auto simp: learns_def exactDS_iff [OF assms] dsAt_def)
qed

text \<open>The texts of the DS records that the keys stand for\<close>

definition dsOfKeys :: "'v probe \<Rightarrow> string \<Rightarrow> key list \<Rightarrow> string list \<Rightarrow> bool" where
  "dsOfKeys p zone keys want \<longleftrightarrow>
     (\<exists>dss. list_all2 (\<lambda>key ds. \<exists>rr. keyRR (dlNewRR (prLib p)) (fqdn zone) key = Inr rr \<and> dlToDS (prLib p) rr = Some ds) keys dss
        \<and> want = sort (map dsKey dss))"

lemma expectedDS_keys: "expectedDS (prLib p) (fqdn zone) keys = Inr want \<Longrightarrow> dsOfKeys p zone keys want"
proof -
  have "expectedDSLoop (prLib p) (fqdn zone) keys = Inr out \<Longrightarrow>
      \<exists>dss. list_all2 (\<lambda>key ds. \<exists>rr. keyRR (dlNewRR (prLib p)) (fqdn zone) key = Inr rr \<and> dlToDS (prLib p) rr = Some ds) keys dss
        \<and> out = map dsKey dss" for out
    by (induction keys arbitrary: out) (force split: sum.splits option.splits)+
  then show "expectedDS (prLib p) (fqdn zone) keys = Inr want \<Longrightarrow> dsOfKeys p zone keys want"
    by (auto simp: expectedDS_def dsOfKeys_def split: sum.splits)
qed

lemma probeDSEvidence_learns:
  "wp (probeDSEvidence p zone keys)
     (learns p (\<lambda>E x. \<exists>want. expectedDS (prLib p) (fqdn zone) keys = Inr want \<and> (\<forall>resolver\<in>set (prResolvers p). dsAt E (fqdn zone) want True resolver)) u) u"
  unfolding probeDSEvidence_def
  apply (intro net_vcg)
   apply (simp add: learns_def)
  apply (rule wp_learns [OF recursiveDS_learns], erule expectedDS_sorted)
   apply (auto simp: learns_def)
  done

text \<open>One round of the lookup counts servers that gave the exact answer.\<close>

definition dsAuthAt :: "exchanges \<Rightarrow> string \<Rightarrow> string list \<Rightarrow> 32 word \<Rightarrow> string \<Rightarrow> bool" where
  "dsAuthAt E name want ttl server \<longleftrightarrow>
     (\<exists>m. answered E server name typeDS False m \<and> showsDS want name m \<and> mAuthoritative m
        \<and> rrsetTTL (mAnswer m) typeDS \<le> ttl)"

lemma dsAuthAt_set [simp]:
  "dsAuthAt (E \<union> F) name want ttl server \<longleftrightarrow> dsAuthAt E name want ttl server \<or> dsAuthAt F name want ttl server"
  by (auto simp: dsAuthAt_def)

text \<open>At least \<open>n\<close> of the servers satisfy \<open>P\<close>.\<close>

definition many :: "nat \<Rightarrow> string list \<Rightarrow> (string \<Rightarrow> bool) \<Rightarrow> bool" where
  "many n servers P \<longleftrightarrow> n \<le> length (filter P servers)"

lemma many_mono: "many n servers P \<Longrightarrow> (\<And>x. P x \<Longrightarrow> Q x) \<Longrightarrow> many n servers Q"
  unfolding many_def
  by (induction servers arbitrary: n) (fastforce split: if_splits simp: Suc_le_eq)+

lemma many_two:
  assumes "many n servers P" "2 \<le> n" "distinct servers"
  shows "\<exists>a b. a \<noteq> b \<and> P a \<and> P b"
proof -
  have "2 \<le> length (filter P servers)" "distinct (filter P servers)"
    using assms by (simp_all add: many_def)
  then obtain a b rest where "filter P servers = a # b # rest" "a \<noteq> b"
    by (cases "filter P servers"; cases "tl (filter P servers)") auto
  then have "a \<noteq> b" "{a, b} \<subseteq> set (filter P servers)"
    by (simp_all del: set_filter)
  then show ?thesis by auto
qed

lemma many_zero [simp]: "many 0 servers P"
  by (simp add: many_def)

lemma many_skip: "many n servers P \<Longrightarrow> (\<And>x. P x \<Longrightarrow> Q x) \<Longrightarrow> many n (server # servers) Q"
  by (drule many_mono, assumption) (auto simp: many_def)

lemma many_count:
  "many (k - Suc n) servers P \<Longrightarrow> Q server \<Longrightarrow> (\<And>x. P x \<Longrightarrow> Q x) \<Longrightarrow> Suc n \<le> k \<Longrightarrow> many (k - n) (server # servers) Q"
  by (drule many_mono, assumption) (auto simp: many_def)

lemma dsRound_learns:
  assumes "sorted want"
  shows "wp (dsRound p name want servers n ttl refs e) (learns p (\<lambda>E (n', ttl', refs', e'). n \<le> n' \<and> ttl \<le> ttl'
     \<and> many (n' - n) servers (dsAuthAt E name want ttl')) u) u"
proof (induction servers arbitrary: n ttl refs e u)
  case Nil
  show ?case by (simp add: wp_simps learns_def)
next
  case (Cons server servers)
  show ?case
    unfolding dsRound.simps larger
    apply (intro net_vcg wp_query wp_referral wp_learns [OF Cons.IH])
    apply (auto simp: learns_def elim!: many_skip)
    apply (auto simp: exactDS_iff [OF assms] dsAuthAt_def elim!: many_count)
    done
qed

definition dsConfirmed :: "exchanges \<Rightarrow> string \<Rightarrow> string list \<Rightarrow> duration \<Rightarrow> bool" where
  "dsConfirmed E name want d \<longleftrightarrow>
     (\<exists>ttl a b. d = uint ttl * second \<and> 0 < d \<and> a \<noteq> b \<and> dsAuthAt E name want ttl a \<and> dsAuthAt E name want ttl b)"

lemma dsConfirmedI:
  assumes "many n servers (dsAuthAt E name want ttl)" "2 \<le> n" "0 < ttl" "distinct servers"
  shows "dsConfirmed E name want (durMul (uint ttl) second)"
proof -
  have "ttl \<noteq> 0" using assms(3) by auto
  with many_two [OF assms(1,2,4)] show ?thesis
    unfolding dsConfirmed_def word_seconds using word_seconds_pos by blast
qed

lemma dsConfirmed_set: "dsConfirmed E name want d \<Longrightarrow> dsConfirmed (E \<union> F) name want d" "dsConfirmed F name want d \<Longrightarrow> dsConfirmed (E \<union> F) name want d"
  by (auto simp: dsConfirmed_def)

lemma dsLookup_learns:
  assumes "sorted want" "distinct servers"
  shows "wp (dsLookup p name want depth servers) (learns p (\<lambda>E d. dsConfirmed E name want d) u) u"
  using assms(2)
proof (induction depth arbitrary: servers u)
  case 0
  show ?case by (simp add: wp_simps learns_def)
next
  case (Suc depth)
  show ?case
    unfolding dsLookup.simps
    by (intro net_vcg wp_learns [OF dsRound_learns [OF assms(1)]] wp_learns [OF Suc.IH])
      (auto simp: learns_def Suc.prems intro: dsConfirmedI dsConfirmed_set)
qed

lemma roots_distinct: "distinct rootServers"
  by (simp add: rootServers_def)

lemma probeAuthoritativeDSEvidence_learns:
  "wp (probeAuthoritativeDSEvidence p zone keys)
     (learns p (\<lambda>E d. \<exists>want. expectedDS (prLib p) (fqdn zone) keys = Inr want \<and> dsConfirmed E (fqdn zone) want d) u) u"
  unfolding probeAuthoritativeDSEvidence_def
  apply (intro net_vcg)
   apply (simp add: learns_def)
  apply (rule wp_learns [OF dsLookup_learns [OF _ roots_distinct]], erule expectedDS_sorted)
   apply (auto simp: learns_def)
  done


section \<open>Delegation\<close>

definition delegatedAt :: "exchanges \<Rightarrow> string \<Rightarrow> string list \<Rightarrow> string \<Rightarrow> bool" where
  "delegatedAt E name want server \<longleftrightarrow>
     (\<exists>m. answered E server name typeNS False m \<and> delegatedNS m name = want)"

lemma delegatedAt_set [simp]:
  "delegatedAt (E \<union> F) name want server \<longleftrightarrow> delegatedAt E name want server \<or> delegatedAt F name want server"
  by (auto simp: delegatedAt_def)

lemma delegationRound_learns:
  "wp (delegationRound p name want servers n refs e) (learns p (\<lambda>E (n', refs', e'). n \<le> n'
     \<and> many (n' - n) servers (delegatedAt E name want)) u) u"
proof (induction servers arbitrary: n refs e u)
  case Nil
  show ?case by (simp add: wp_simps learns_def)
next
  case (Cons server servers)
  show ?case
    unfolding delegationRound.simps
    apply (intro net_vcg wp_query wp_referral wp_learns [OF Cons.IH])
    apply (auto simp: learns_def elim!: many_skip)
    apply (auto simp: delegatedAt_def elim!: many_count)
    done
qed

definition delegationConfirmed :: "exchanges \<Rightarrow> string \<Rightarrow> string list \<Rightarrow> bool" where
  "delegationConfirmed E name want \<longleftrightarrow> (\<exists>a b. a \<noteq> b \<and> delegatedAt E name want a \<and> delegatedAt E name want b)"

lemma delegationConfirmed_set:
  "delegationConfirmed E name want \<Longrightarrow> delegationConfirmed (E \<union> F) name want"
  "delegationConfirmed F name want \<Longrightarrow> delegationConfirmed (E \<union> F) name want"
  by (auto simp: delegationConfirmed_def)

lemma delegationLookup_learns:
  assumes "distinct servers"
  shows "wp (delegationLookup p name want depth servers) (learns p (\<lambda>E x. delegationConfirmed E name want) u) u"
  using assms
proof (induction depth arbitrary: servers u)
  case 0
  show ?case by (simp add: wp_simps learns_def)
next
  case (Suc depth)
  show ?case
    unfolding delegationLookup.simps
    by (intro net_vcg wp_learns [OF delegationRound_learns] wp_learns [OF Suc.IH])
      (auto simp: learns_def Suc.prems delegationConfirmed_def dest: many_two)
qed

text \<open>When the delegation evidence succeeds, at least two different servers have answered with
  exactly the expected name servers of the zone, of which there are at least two.\<close>

theorem delegation_evidence_is_exact:
  assumes "probeDelegationEvidence p zone expected u = (Inr x, t)" "netLog t = netLog u @ es"
  shows "delegationConfirmed (set es) (fqdn zone) (expectedNS expected) \<and> 2 \<le> length (expectedNS expected)"
proof -
  have "wp (probeDelegationEvidence p zone expected)
      (learns p (\<lambda>E x. delegationConfirmed E (fqdn zone) (expectedNS expected) \<and> 2 \<le> length (expectedNS expected)) u) u"
    unfolding probeDelegationEvidence_def
    by (intro net_vcg wp_learns [OF delegationLookup_learns [OF roots_distinct]]) (auto simp: learns_def)
  from learnsD [OF this] assms show ?thesis by blast
qed

section \<open>Absence of a DS\<close>

text \<open>
  A proof of absence: a signed NSEC or NSEC3 record at the name of the delegation that lists NS
  and no DS; or a signed match of an encloser of the name together with a signed opt-out record
  of the same parameters that covers the next closer name. The signatures are by keys of the
  parent.
\<close>

definition denialProof ::
  "dnsLib \<Rightarrow> dnsMsg \<Rightarrow> string \<Rightarrow> string \<Rightarrow> dnskeyRR list \<Rightarrow> time \<Rightarrow> bool" where
  "denialProof lib m name parent keys now \<longleftrightarrow>
     (\<exists>rr\<in>set (mNs m). validDenialSignature lib m rr parent keys now
        \<and> ((\<exists>n. rr = RR_NSEC n \<and> equalFold (fqdn (hName (nsHdr n))) (fqdn name) \<and> delegationWithoutDS (nsTypeBitMap n))
           \<or> (\<exists>n. rr = RR_NSEC3 n \<and> dlMatch lib n name \<and> delegationWithoutDS (n3TypeBitMap n))))
     \<or> (\<exists>i match cover. 0 < i \<and> i < length (dlSplitDomainName lib name)
        \<and> RR_NSEC3 match \<in> set (mNs m) \<and> RR_NSEC3 cover \<in> set (mNs m)
        \<and> dlIsSubDomain lib parent (fqdn (strJoin ''.'' (drop i (dlSplitDomainName lib name))))
        \<and> dlMatch lib match (fqdn (strJoin ''.'' (drop i (dlSplitDomainName lib name))))
        \<and> validDenialSignature lib m (RR_NSEC3 match) parent keys now
        \<and> optOutCover lib m parent keys now match (fqdn (strJoin ''.'' (drop (i - 1) (dlSplitDomainName lib name)))) cover)"

lemma nsec3Records_iff: "n \<in> set (nsec3Records rrs) \<longleftrightarrow> RR_NSEC3 n \<in> set rrs"
  by (induction rrs rule: nsec3Records.induct) auto

lemma closestEncloser_sound:
  "closestEncloser lib m parent keys now nsec3s labels is = None \<Longrightarrow>
     \<exists>i\<in>set is. \<exists>match\<in>set nsec3s. \<exists>cover\<in>set nsec3s.
        dlIsSubDomain lib parent (fqdn (strJoin ''.'' (drop i labels)))
        \<and> dlMatch lib match (fqdn (strJoin ''.'' (drop i labels)))
        \<and> validDenialSignature lib m (RR_NSEC3 match) parent keys now
        \<and> optOutCover lib m parent keys now match (fqdn (strJoin ''.'' (drop (i - 1) labels))) cover"
proof (induction "is")
  case (Cons i js)
  then show ?case
    by (fastforce simp: Let_def list_ex_iff find_Some_iff split: if_splits option.splits)
qed simp

lemma verifyNoDSProof_sound:
  "verifyNoDSProof lib m name parent keys now = None \<Longrightarrow> denialProof lib m name parent keys now"
proof -
  assume none: "verifyNoDSProof lib m name parent keys now = None"
  show ?thesis
  proof (cases "list_ex (deniesDS lib m name parent keys now) (mNs m)")
    case True
    then obtain rr where "rr \<in> set (mNs m)" "deniesDS lib m name parent keys now rr"
      by (auto simp: list_ex_iff)
    then have "\<exists>rr\<in>set (mNs m). validDenialSignature lib m rr parent keys now
        \<and> ((\<exists>n. rr = RR_NSEC n \<and> equalFold (fqdn (hName (nsHdr n))) (fqdn name) \<and> delegationWithoutDS (nsTypeBitMap n))
           \<or> (\<exists>n. rr = RR_NSEC3 n \<and> dlMatch lib n name \<and> delegationWithoutDS (n3TypeBitMap n)))"
      by (intro bexI [of _ rr]) (auto simp: deniesDS_def split: rr.splits)
    then show ?thesis by (simp add: denialProof_def)
  next
    case False
    with none have "closestEncloser lib m parent keys now (nsec3Records (mNs m)) (dlSplitDomainName lib name)
        [1..<length (dlSplitDomainName lib name)] = None"
      by (simp add: verifyNoDSProof_def Let_def)
    from closestEncloser_sound [OF this] obtain i match cover where
      "i \<in> set [1..<length (dlSplitDomainName lib name)]" "match \<in> set (nsec3Records (mNs m))"
      "cover \<in> set (nsec3Records (mNs m))"
      "dlIsSubDomain lib parent (fqdn (strJoin ''.'' (drop i (dlSplitDomainName lib name))))"
      "dlMatch lib match (fqdn (strJoin ''.'' (drop i (dlSplitDomainName lib name))))"
      "validDenialSignature lib m (RR_NSEC3 match) parent keys now"
      "optOutCover lib m parent keys now match (fqdn (strJoin ''.'' (drop (i - 1) (dlSplitDomainName lib name)))) cover"
      by blast
    then show ?thesis
      unfolding denialProof_def by (intro disjI2 exI [of _ i] exI [of _ match] exI [of _ cover]) (simp add: nsec3Records_iff)
  qed
qed

text \<open>
  The server answered the question for the DS with such a proof; the resolver vouched for the
  keys of the parent, which lies above the zone.
\<close>

definition absenceAt :: "'v probe \<Rightarrow> exchanges \<Rightarrow> string \<Rightarrow> string \<Rightarrow> bool \<Rightarrow> string \<Rightarrow> bool" where
  "absenceAt p E name resolver recursive server \<longleftrightarrow>
     (\<exists>m km keys now parent. clockReading p now \<and> parent = soaOwner (mNs m)
        \<and> answered E server name typeDS recursive m \<and> (recursive \<or> mAuthoritative m)
        \<and> \<not> hasType (mAnswer m) typeDS
        \<and> dlIsSubDomain (prLib p) parent name \<and> \<not> equalFold parent name
        \<and> answered E resolver parent typeDNSKEY True km \<and> mAuthenticatedData km
        \<and> parentKeys parent (mAnswer km) = Inr keys \<and> keys \<noteq> []
        \<and> denialProof (prLib p) m name parent keys now)"

lemma absenceAt_more: "absenceAt p E name resolver recursive server \<Longrightarrow> E \<subseteq> F \<Longrightarrow> absenceAt p F name resolver recursive server"
  unfolding absenceAt_def by (meson answered_more)

lemma verifyNoDS_learns:
  "wp (verifyNoDS p m name resolver aa) (learns p (\<lambda>E x. \<forall>F server. answered F server name typeDS (\<not> aa) m \<longrightarrow>
     absenceAt p (F \<union> E) name resolver (\<not> aa) server) u) u"
  unfolding verifyNoDS_def
  apply (intro net_vcg wp_query)
  apply (auto simp: learns_def absenceAt_def dest!: verifyNoDSProof_sound)
  done

lemma absenceAt_here:
  "\<forall>F server. answered F server name typeDS recursive m \<longrightarrow> absenceAt p (F \<union> E) name resolver recursive server
   \<Longrightarrow> answered F server name typeDS recursive m \<Longrightarrow> F \<union> E \<subseteq> G \<Longrightarrow> absenceAt p G name resolver recursive server"
  by (blast intro: absenceAt_more)

lemmas wp_verifyNoDS = wp_learns [OF verifyNoDS_learns]

lemma recursiveNoDS_learns:
  "wp (recursiveNoDS p name resolvers)
     (learns p (\<lambda>E x. \<forall>resolver\<in>set resolvers. absenceAt p E name resolver True resolver) u) u"
proof (induction resolvers arbitrary: u)
  case Nil
  show ?case by (simp add: wp_simps learns_def)
next
  case (Cons resolver resolvers)
  show ?case
    unfolding recursiveNoDS.simps
    by (intro net_vcg wp_query wp_verifyNoDS wp_learns [OF Cons.IH])
      (auto simp: learns_def elim: absenceAt_here absenceAt_more)
qed

lemma noDSRound_learns:
  "wp (noDSRound p name resolver servers n refs e) (learns p (\<lambda>E (n', refs', e'). n \<le> n'
     \<and> many (n' - n) servers (absenceAt p E name resolver False)) u) u"
proof (induction servers arbitrary: n refs e u)
  case Nil
  show ?case by (simp add: wp_simps learns_def)
next
  case (Cons server servers)
  show ?case
    unfolding noDSRound.simps
    apply (intro net_vcg wp_query wp_referral wp_verifyNoDS wp_learns [OF Cons.IH])
    apply (auto simp: learns_def elim!: many_skip elim: absenceAt_more)
    apply (auto elim!: many_count elim: absenceAt_here absenceAt_more)
    done
qed

definition absenceConfirmed :: "'v probe \<Rightarrow> exchanges \<Rightarrow> string \<Rightarrow> string \<Rightarrow> bool" where
  "absenceConfirmed p E name resolver \<longleftrightarrow>
     (\<exists>a b. a \<noteq> b \<and> absenceAt p E name resolver False a \<and> absenceAt p E name resolver False b)"

lemma absenceConfirmed_more: "absenceConfirmed p E name resolver \<Longrightarrow> E \<subseteq> F \<Longrightarrow> absenceConfirmed p F name resolver"
  unfolding absenceConfirmed_def by (blast intro: absenceAt_more)

lemma absenceConfirmedI:
  "many n servers (absenceAt p E name resolver False) \<Longrightarrow> 2 \<le> n \<Longrightarrow> distinct servers \<Longrightarrow> absenceConfirmed p E name resolver"
  unfolding absenceConfirmed_def by (rule many_two)

lemma noDSLookup_learns:
  assumes "distinct servers"
  shows "wp (noDSLookup p name resolver depth servers) (learns p (\<lambda>E x. absenceConfirmed p E name resolver) u) u"
  using assms
proof (induction depth arbitrary: servers u)
  case 0
  show ?case by (simp add: wp_simps learns_def)
next
  case (Suc depth)
  show ?case
    unfolding noDSLookup.simps
    by (intro net_vcg wp_learns [OF noDSRound_learns] wp_learns [OF Suc.IH])
      (auto simp: learns_def Suc.prems elim: absenceConfirmedI absenceConfirmed_more)
qed

text \<open>C16: When the absence of a DS is reported, every one of at least two resolvers and at least
  two different parent servers have given an NSEC or NSEC3 proof of it that is signed by a key
  of the parent which a resolver has authenticated.\<close>

theorem no_ds_evidence_is_proven:
  assumes "probeNoDSEvidence p zone u = (Inr x, t)" "netLog t = netLog u @ es"
  shows "2 \<le> length (prResolvers p)
    \<and> (\<forall>resolver\<in>set (prResolvers p). absenceAt p (set es) (fqdn zone) resolver True resolver)
    \<and> absenceConfirmed p (set es) (fqdn zone) (hd (prResolvers p))"
proof -
  have "wp (probeNoDSEvidence p zone) (learns p (\<lambda>E x. 2 \<le> length (prResolvers p)
      \<and> (\<forall>resolver\<in>set (prResolvers p). absenceAt p E (fqdn zone) resolver True resolver)
      \<and> absenceConfirmed p E (fqdn zone) (hd (prResolvers p))) u) u"
    unfolding probeNoDSEvidence_def
    by (intro net_vcg vcg_list wp_learns [OF recursiveNoDS_learns] wp_learns [OF noDSLookup_learns [OF roots_distinct]])
      (auto simp: learns_def elim: absenceAt_more absenceConfirmed_more)
  from learnsD [OF this] assms show ?thesis by blast
qed

end
