(* ===== verification/Assured.thy ===== *)
theory Assured
  imports Runs Observed
begin

text \<open>
  The controller with the probe behind its observer interface. Every evidence in the history of
  the controller was returned by a call of the probe; so what the writes of the controller rest
  on is what the servers answered.
\<close>

section \<open>Events and the calls behind them\<close>

text \<open>The result in the event is one that the interface has returned.\<close>

fun authentic :: "'w controller \<Rightarrow> event \<Rightarrow> bool" where
  "authentic c (EvDNSKEY b zn ks r) \<longleftrightarrow> (\<exists>w. fst (apiDNSKEYEvidence c b zn ks w) = r)"
| "authentic c (EvNoDS zn r) \<longleftrightarrow> (\<exists>w. fst (apiNoDSEvidence c zn w) = r)"
| "authentic c (EvDS zn ks r) \<longleftrightarrow> (\<exists>w. fst (apiDSEvidence c zn ks w) = r)"
| "authentic c (EvAuthDS zn ks r) \<longleftrightarrow> (\<exists>w. fst (apiAuthoritativeDSEvidence c zn ks w) = r)"
| "authentic c (EvRRSIG b zn k r) \<longleftrightarrow> (\<exists>w. fst (apiRRSIGBy c b zn k w) = r)"
| "authentic c (EvDNSKEYRRSIG b zn k r) \<longleftrightarrow> (\<exists>w. fst (apiDNSKEYRRSIGBy c b zn k w) = r)"
| "authentic c (EvDelegation zn ns r) \<longleftrightarrow> (\<exists>w. fst (apiDelegationEvidence c zn ns w) = r)"
| "authentic c _ \<longleftrightarrow> True"

definition attested :: "'w controller \<Rightarrow> 'w sys \<Rightarrow> 'w sys \<Rightarrow> bool" where
  "attested c s t \<longleftrightarrow> (\<exists>es. sysLog t = sysLog s @ es \<and> list_all (authentic c) es)"

definition genuine :: "'w controller \<Rightarrow> ('w, 'a) io \<Rightarrow> bool" where
  "genuine c m \<longleftrightarrow> (\<forall>s. attested c s (snd (m s)))"

named_theorems genuine \<open>operations whose evidence comes from the interfaces\<close>

lemma attested_trans: "attested c s t \<Longrightarrow> attested c t u \<Longrightarrow> attested c s u"
  by (auto simp: attested_def)

lemma attested_same: "sysLog t = sysLog s \<Longrightarrow> attested c s t"
  by (simp add: attested_def)

lemma genuineD: "genuine c m \<Longrightarrow> m s = (r, t) \<Longrightarrow> attested c s t"
  unfolding genuine_def by (metis snd_conv)

lemma genuineI: "(\<And>s r t. m s = (r, t) \<Longrightarrow> attested c s t) \<Longrightarrow> genuine c m"
  unfolding genuine_def by (metis prod.collapse)

lemma genuine_call:
  assumes "\<And>w. authentic c (ev (fst (f w)))"
  shows "genuine c (call f ev)"
proof (rule genuineI)
  fix s r t
  assume "call f ev s = (r, t)"
  then have "sysLog t = sysLog s @ [ev (fst (f (sysWorld s)))]"
    by (auto simp: call_def split: prod.splits)
  with assms show "attested c s t" by (simp add: attested_def)
qed

lemma genuine_calls [genuine]:
  "genuine c (listZones c)" "genuine c (getZone c zid)" "genuine c (listKeys c zid)"
  "genuine c (createKey c zid typ' alg active)" "genuine c (setKey c zid k active published)" "genuine c (deleteKey c zid i)"
  "genuine c (domainDNSSEC c zn)" "genuine c (updateDNSSEC c zn data ctid)" "genuine c (jobStatus c i)"
  "genuine c (DNSKEYEvidence c zn ks)" "genuine c (AuthoritativeDNSKEYEvidence c zn ks)" "genuine c (NoDSEvidence c zn)"
  "genuine c (DSEvidence c zn ks)" "genuine c (AuthoritativeDSEvidence c zn ks)" "genuine c (RRSIGBy c zn k)"
  "genuine c (AuthoritativeRRSIGBy c zn k)" "genuine c (DNSKEYRRSIGBy c zn k)" "genuine c (AuthoritativeDNSKEYRRSIGBy c zn k)"
  "genuine c (DelegationEvidence c zn ns)" "genuine c (notifierSend c n)"
  "genuine c (dnskeyEvidenceFor c w zn ks)" "genuine c (checkSignatureFor c w zn k)"
  unfolding op_defs by (rule genuine_call; auto)+

lemma genuine_basic [genuine]:
  "genuine c (ret x)" "genuine c (throw e)" "genuine c (pureE r)" "genuine c snapshot" "genuine c (rangeWorkflows c st)"
  "genuine c (clockNow c)"
  by (auto intro!: genuineI attested_same
      simp: ret_def throw_def pureE_def snapshot_def rangeWorkflows_def clockNow_def split: prod.splits)

lemma genuine_bind [genuine]:
  assumes "genuine c m" "\<And>x. genuine c (f x)"
  shows "genuine c (bind m f)"
  by (rule genuineI)
    (auto simp: bind_def split: prod.splits sum.splits intro: attested_trans genuineD [OF assms(1)] genuineD [OF assms(2)])

lemma genuine_wrap [genuine]:
  "genuine c m \<Longrightarrow> genuine c (attempt m)" "genuine c m \<Longrightarrow> genuine c (wrapErr f m)"
  by (rule genuineI, auto simp: attempt_def wrapErr_def split: prod.splits sum.splits dest: genuineD)+

lemma genuine_cases [genuine]:
  "(b \<Longrightarrow> genuine c m) \<Longrightarrow> (\<not> b \<Longrightarrow> genuine c n) \<Longrightarrow> genuine c (if b then m else n)"
  "(\<And>x. genuine c (h x)) \<Longrightarrow> genuine c (Let v h)"
  "genuine c m \<Longrightarrow> (\<And>y. genuine c (k y)) \<Longrightarrow> genuine c (case_option m k found)"
  "(\<And>e. genuine c (g e)) \<Longrightarrow> (\<And>y. genuine c (k y)) \<Longrightarrow> genuine c (case_sum g k result)"
  "(\<And>x y. genuine c (p x y)) \<Longrightarrow> genuine c (case_prod p pair)"
  "genuine c m \<Longrightarrow> (\<And>y ys. genuine c (l y ys)) \<Longrightarrow> genuine c (case_list m l xs)"
  by (auto split: option.split sum.split prod.split list.split)

lemma genuine_storeUpdate [genuine]:
  assumes "\<And>st. genuine c (fn st)"
  shows "genuine c (storeUpdate c fn)"
proof (rule genuineI)
  fix s r t
  assume run: "storeUpdate c fn s = (r, t)"
  obtain x u where fn: "fn (sysState s) s = (x, u)" by fastforce
  then have "attested c s u" by (rule genuineD [OF assms])
  moreover have "attested c u t"
    using run fn by (auto simp: storeUpdate_def attested_def split: sum.splits prod.splits)
  ultimately show "attested c s t" by (rule attested_trans)
qed

section \<open>The operations of the controller\<close>

lemma transition_genuine [genuine]: "(\<And>x. genuine c (mutate x)) \<Longrightarrow> genuine c (transition c w p t mutate)"
  unfolding transition_def by (intro genuine)

lemma transitions_genuine [genuine]:
  "genuine c (block c zn k e)" "genuine c (complete c w)" "genuine c (start c zn k manual idem)"
  "genuine c (recordRetry c w e)" "genuine c (recordCreateAttempt c w slot)" "genuine c (bootstrap c zone scheme keys)"
  unfolding block_def complete_def start_def recordRetry_def recordCreateAttempt_def bootstrap_def
  by (intro genuine)+

lemma timed_genuine [genuine]:
  "(\<And>x. genuine c (mutate x)) \<Longrightarrow> genuine c (transitionNow c w p mutate)"
  "(\<And>x. genuine c (mutate x)) \<Longrightarrow> genuine c (transitionAfter c w p wait mutate)"
  "genuine c (clearEvidence x)" "genuine c (stampEvidence c f x)" "genuine c (clearDNSKEYEvidence x)"
  unfolding transitionNow_def transitionAfter_def clearEvidence_def stampEvidence_def clearDNSKEYEvidence_def
  by (intro genuine; assumption)+

lemma rotation_parts_genuine [genuine]:
  "genuine c (adoptOrCreate c zone keys w role alg old active csk slot)" "genuine c (classifyParent c zone w k)"
  "genuine c (validateSplitSignerTransitionEvidence c zone keys w)" "genuine c (restartSplitWait c w ttl)"
  "genuine c (deactivationEvidence c zone keys w k)" "genuine c (switchOffOld c zone w k)"
  "genuine c (submitReplacement c zone w d)" "genuine c (reconcileUnavailableRegistrarJob c zn k e)"
  "genuine c (deletionEvidence c zone keys w k ks)"
  unfolding adoptOrCreate_def classifyParent_def validateSplitSignerTransitionEvidence_def restartSplitWait_def
    deactivationEvidence_def switchOffOld_def submitReplacement_def reconcileUnavailableRegistrarJob_def deletionEvidence_def
  by (intro genuine)+

lemma rotation_genuine [genuine]:
  "genuine c (prepublish c zone keys w)" "genuine c (waitPublish c zone keys w)" "genuine c (activateNew c zone keys w)"
  "genuine c (waitNewSignature c zone keys w)" "genuine c (deactivateOld c zone keys w)"
  "genuine c (parentReplace c zone keys w)" "genuine c (waitParentReplace c zone keys w)"
  "genuine c (waitRetire c zone keys w)" "genuine c (deleteOld c zone keys w)"
  unfolding prepublish_def waitPublish_def activateNew_def waitNewSignature_def deactivateOld_def deactivateRecorded_def
    parentReplace_def replaceMaterial_def ambiguousOrSubmit_def waitParentReplace_def waitRetire_def deleteOld_def Let_def
  by (intro genuine)+

lemma enrollment_parts_genuine [genuine]:
  "genuine c (validateEnrollmentEvidence c zn keys ksk zsk parent)" "genuine c (markIneligible c w)"
  "genuine c (classifyCandidate c zone keys w ksk zsk)" "genuine c (submitEnrollment c zone w d)"
  unfolding validateEnrollmentEvidence_def markIneligible_def classifyCandidate_def submitEnrollment_def
  by (intro genuine)+

lemma enrollment_genuine [genuine]:
  "genuine c (enrollDiscovered c zone keys w)" "genuine c (enrollWaitPublish c zone keys w)"
  "genuine c (enrollParentAdd c zone keys w)" "genuine c (enrollWaitParent c zone keys w)"
  unfolding enrollDiscovered_def discoverInventory_def enrollWaitPublish_def enrollParentAdd_def enrollWrite_def enrollWaitParent_def
  by (intro genuine)+

lemma handlePhase_genuine [genuine]: "genuine c (handlePhase c zone keys w)"
  by (cases "wPhase w") (simp_all add: handlePhase_def genuine)

lemma reconcileZone_genuine [genuine]: "genuine c (reconcileZone c zone)"
  unfolding reconcileZone_def advance_def by (intro genuine)

lemma deliverLoop_genuine [genuine]: "genuine c (deliverLoop c now st ids)"
  by (induction ids) (simp_all del: split_paired_All, (intro genuine, assumption?)+)

lemma tickZones_genuine [genuine]: "genuine c (tickZones c st zs)"
  by (induction zs) (auto intro!: genuine)

lemma blockVanished_genuine [genuine]: "genuine c (blockVanished c seen ws)"
  by (induction ws) (auto intro!: genuine)

lemma Tick_genuine: "genuine c (Tick c)"
  unfolding Tick_def deliverNotifications_def by (intro genuine)


lemma views_genuine [genuine]: "genuine c (Zones c)" "genuine c (Status c)" "genuine c (Audit c)"
proof -
  have "genuine c (zoneViews c st zs)" for st zs
    by (induction zs) (auto intro!: genuine)
  then show "genuine c (Zones c)"
    unfolding Zones_def by (intro genuine)
  have "genuine c (auditZones c zs)" for zs
    by (induction zs) (auto simp: auditZone_def auditKeys_def intro!: genuine)
  then show "genuine c (Audit c)"
    unfolding Audit_def by (intro genuine)
  from \<open>genuine c (Zones c)\<close> show "genuine c (Status c)"
    unfolding Status_def by (intro genuine)
qed

lemma request_loops_genuine [genuine]:
  "genuine c (triggerZones c k m names)" "genuine c (noneActive c st names)" "genuine c (resumeZones c k st m names)"
  by (induction names) (auto intro!: genuine)

lemma idempotent_genuine [genuine]:
  "genuine c again \<Longrightarrow> genuine c go \<Longrightarrow> genuine c (idempotent m idem fp conflict again go)"
  unfolding idempotent_def by (intro genuine)

lemma requests_genuine [genuine]:
  "genuine c (ArmEnrollment c idem)" "genuine c (Trigger c k zones idem)" "genuine c (Resume c k zones ph idem)"
  "genuine c (ReconcileSplitSignerTransition c zn idem)"
  unfolding ArmEnrollment_def Trigger_def Resume_def ReconcileSplitSignerTransition_def attest_def
  by (intro genuine)+

lemma respond_genuine [genuine]: "genuine c m \<Longrightarrow> genuine c (respond failure ok f m)"
  unfolding respond_def by (intro genuine)

lemma serve_genuine: "genuine c (serve c req)"
  by (cases req)
    (simp_all add: serve_def armEnrollment_def planHandler_def triggerHandler_def resumeHandler_def reconcileSplitSigner_def
      genuine split: sum.split)

lemma perform_genuine: "genuine c (perform c a)"
  unfolding perform_def by (cases a) (simp_all add: Tick_genuine genuine serve_genuine)

theorem life_attested:
  assumes "life c s0 s"
  shows "attested c s0 s"
  using assms
proof induction
  case (act s a r t)
  then show ?case by (blast intro: attested_trans genuineD [OF perform_genuine])
next
  case (crash s a r t es lost w)
  have "attested c s t"
    by (rule genuineD [OF perform_genuine crash(2)])
  then have "list_all (authentic c) es"
    using crash(3) by (auto simp: attested_def)
  with crash.IH show ?case by (auto simp: attested_def)
qed (auto simp: attested_def)

lemma life_authentic: "life c s0 s \<Longrightarrow> sysLog s = sysLog s0 @ es \<Longrightarrow> e \<in> set es \<Longrightarrow> authentic c e"
  by (auto simp: attested_def list_all_iff dest!: life_attested)

section \<open>An observer that can be relied on\<close>

text \<open>
  What the controller needs of its observer: a method that returns without error has shown what it is
  asked for. The deletion of a key then rests on what was shown, whatever that means for the observer.
\<close>

locale observer =
  fixes c :: "'w controller"
    and keysShown :: "string \<Rightarrow> key list \<Rightarrow> bool"
    and signatureShown :: "string \<Rightarrow> 16 word \<Rightarrow> key \<Rightarrow> bool"
    and parentShown :: "string \<Rightarrow> key \<Rightarrow> bool"
  assumes keys_shown: "fst (apiDNSKEYEvidence c True zn ks w) = Inr d \<Longrightarrow> keysShown zn ks"
    and zone_signature_shown: "fst (apiRRSIGBy c True zn k w) = Inr () \<Longrightarrow> signatureShown zn typeSOA k"
    and key_signature_shown: "fst (apiDNSKEYRRSIGBy c True zn k w) = Inr () \<Longrightarrow> signatureShown zn typeDNSKEY k"
    and parent_shown: "fst (apiDSEvidence c zn [k] v) = Inr () \<Longrightarrow> fst (apiAuthoritativeDSEvidence c zn [k] w) = Inr d
      \<Longrightarrow> parentShown zn k"
begin

lemma shown_event:
  "authentic c (EvDNSKEY True zn ks (Inr d)) \<Longrightarrow> keysShown zn ks"
  "authentic c (EvRRSIG True zn k (Inr ())) \<Longrightarrow> signatureShown zn typeSOA k"
  "authentic c (EvDNSKEYRRSIG True zn k (Inr ())) \<Longrightarrow> signatureShown zn typeDNSKEY k"
  "authentic c (EvDS zn [k] (Inr ())) \<Longrightarrow> authentic c (EvAuthDS zn [k] (Inr d)) \<Longrightarrow> parentShown zn k"
  by (auto dest: keys_shown zone_signature_shown key_signature_shown parent_shown)

lemma deletion_rests:
  assumes "life c s0 s" "wfState (sysState s0)" "rangesAll c"
    and "sysLog s = sysLog s0 @ h @ EvDeleteKey zid i r # rest"
  shows "\<exists>zone keys w h1 h2 k. h = h1 @ h2 \<and> underway c (sysState s0) zone keys w h1 \<and> zid = zID zone \<and> i = wOldKeyID w \<and> wPhase w = PhaseDeleteOld
    \<and> byID keys (wNewKeyID w) = Some k \<and> serving k
    \<and> (\<exists>ks. k \<in> set ks \<and> keysShown (zName zone) ks)
    \<and> (if wKind w = KindZSK then signatureShown (zName zone) typeSOA k
       else signatureShown (zName zone) typeDNSKEY k \<and> parentShown (zName zone) k)
    \<and> (wKind w = KindSplit \<longrightarrow> (\<exists>z. byID keys (wNewZSKID w) = Some z \<and> signatureShown (zName zone) typeSOA z))"
proof -
  obtain zone keys w h1 h2 where w: "h = h1 @ h2" "underway c (sysState s0) zone keys w h1" "zid = zID zone"
      "wPhase w = PhaseDeleteOld" "deletionReady c zone keys w h2 i"
    using life_write [OF assms] by auto
  have auth: "authentic c e" if "e \<in> set h2" for e
    by (rule life_authentic [OF assms(1,4)]) (simp add: w(1) that)
  from w(5) obtain k where k: "byID keys (wNewKeyID w) = Some k" "i = wOldKeyID w" "serving k"
      "\<exists>ks. provenDNSKEY True (zName zone) ks h2 \<and> k \<in> set ks"
      "wKind w = KindZSK \<and> provenRRSIG True (zName zone) k h2
       \<or> wKind w = KindKSK \<and> parentReady (zName zone) k h2
       \<or> wKind w = KindSplit \<and> parentReady (zName zone) k h2
           \<and> (\<exists>z. byID keys (wNewZSKID w) = Some z \<and> provenRRSIG True (zName zone) z h2)"
    unfolding deletionReady_def by (auto split: option.splits)
  have "\<exists>ks. k \<in> set ks \<and> keysShown (zName zone) ks"
    using k(4) by (auto simp: provenDNSKEY_def dest!: auth shown_event)
  moreover have "signatureShown (zName zone) typeSOA x" if "provenRRSIG True (zName zone) x h2" for x
    using that by (auto simp: provenRRSIG_def dest!: auth shown_event)
  moreover have "signatureShown (zName zone) typeDNSKEY k \<and> parentShown (zName zone) k" if "parentReady (zName zone) k h2"
    using that unfolding parentReady_def evidence_defs by (blast dest: auth intro: shown_event)
  ultimately show ?thesis
    using w k by (intro exI [of _ zone] exI [of _ keys] exI [of _ w] exI [of _ h1] exI [of _ h2] exI [of _ k]) auto
qed

end

section \<open>The controller with the probe\<close>

text \<open>
  The observer of the controller is the probe: what a method returns is what the probe returns
  on the network, a part of the world of the controller.
\<close>

definition watches :: "'v probe \<Rightarrow> ('w \<Rightarrow> 'v net) \<Rightarrow> 'w controller \<Rightarrow> bool" where
  "watches p network c \<longleftrightarrow>
     (\<forall>recursive zone ks w. fst (apiDNSKEYEvidence c recursive zone ks w) = fst (probeDNSKEYEvidence p recursive zone ks (network w)))
     \<and> (\<forall>zone w. fst (apiNoDSEvidence c zone w) = fst (probeNoDSEvidence p zone (network w)))
     \<and> (\<forall>zone ks w. fst (apiDSEvidence c zone ks w) = fst (probeDSEvidence p zone ks (network w)))
     \<and> (\<forall>zone ks w. fst (apiAuthoritativeDSEvidence c zone ks w) = fst (probeAuthoritativeDSEvidence p zone ks (network w)))
     \<and> (\<forall>recursive zone k w. fst (apiRRSIGBy c recursive zone k w) = fst (probeRRSIGBy p recursive zone k (network w)))
     \<and> (\<forall>recursive zone k w. fst (apiDNSKEYRRSIGBy c recursive zone k w) = fst (probeDNSKEYRRSIGBy p recursive zone k (network w)))
     \<and> (\<forall>zone expected w. fst (apiDelegationEvidence c zone expected w) = fst (probeDelegationEvidence p zone expected (network w)))"

text \<open>\<open>confirmed p P\<close>: the network has answered questions of the probe, and the answers satisfy \<open>P\<close>.\<close>

definition confirmed :: "'v probe \<Rightarrow> (exchanges \<Rightarrow> bool) \<Rightarrow> bool" where
  "confirmed p P \<longleftrightarrow> (\<exists>es. replies p es \<and> P (set es))"

lemma confirmedI:
  assumes "\<And>u. wp m (learns p P u) u" "fst (m w) = Inr x"
  shows "confirmed p (\<lambda>E. P E x)"
proof -
  have "m w = (Inr x, snd (m w))" using assms(2) by (cases "m w") simp
  from learns_calls [OF assms(1) this] show ?thesis by (auto simp: confirmed_def)
qed

text \<open>The evidence for a key: what the configured servers have answered\<close>

definition keysServed :: "'v probe \<Rightarrow> string \<Rightarrow> key list \<Rightarrow> bool" where
  "keysServed p zn ks \<longleftrightarrow> (\<exists>d. confirmed p (\<lambda>E. keysEverywhere p zn True ks E d))"

definition signatureServed :: "'v probe \<Rightarrow> string \<Rightarrow> 16 word \<Rightarrow> key \<Rightarrow> bool" where
  "signatureServed p zn ty k \<longleftrightarrow> confirmed p (signedEverywhere p (fqdn zn) ty True k)"

definition dsServed :: "'v probe \<Rightarrow> string \<Rightarrow> key \<Rightarrow> bool" where
  "dsServed p zn k \<longleftrightarrow> (\<exists>want d. dsOfKeys p zn [k] want
     \<and> confirmed p (\<lambda>E. \<forall>resolver\<in>set (prResolvers p). dsAt E (fqdn zn) want True resolver)
     \<and> confirmed p (\<lambda>E. dsConfirmed E (fqdn zn) want d))"

lemma confirmed_mono: "confirmed p P \<Longrightarrow> (\<And>E. P E \<Longrightarrow> Q E) \<Longrightarrow> confirmed p Q"
  by (auto simp: confirmed_def)

lemma ds_shown:
  assumes "fst (probeDSEvidence p zn [k] w) = Inr ()" "fst (probeAuthoritativeDSEvidence p zn [k] w') = Inr d"
  shows "dsServed p zn k"
proof -
  from confirmedI [OF probeDSEvidence_learns assms(1)] obtain want where want:
      "expectedDS (prLib p) (fqdn zn) [k] = Inr want"
      "confirmed p (\<lambda>E. \<forall>resolver\<in>set (prResolvers p). dsAt E (fqdn zn) want True resolver)"
    by (auto simp: confirmed_def)
  moreover have "confirmed p (\<lambda>E. dsConfirmed E (fqdn zn) want d)"
    using confirmedI [OF probeAuthoritativeDSEvidence_learns assms(2)] want(1) by (auto simp: confirmed_def)
  ultimately show ?thesis
    unfolding dsServed_def using expectedDS_keys by blast
qed

lemma probe_observes:
  assumes "watches p network c"
  shows "observer c (keysServed p) (signatureServed p) (dsServed p)"
proof
  show "keysServed p zn ks" if "fst (apiDNSKEYEvidence c True zn ks w) = Inr d" for zn ks w d
    using assms that by (auto simp: watches_def keysServed_def probeDNSKEYEvidence_def
        dest!: confirmedI [OF dnskeyEvidence_learns])
  show "signatureServed p zn typeSOA k" if "fst (apiRRSIGBy c True zn k w) = Inr ()" for zn k w
    using assms that by (auto simp: watches_def signatureServed_def probeRRSIGBy_def
        dest!: confirmedI [OF signatureEvidence_learns])
  show "signatureServed p zn typeDNSKEY k" if "fst (apiDNSKEYRRSIGBy c True zn k w) = Inr ()" for zn k w
    using assms that by (auto simp: watches_def signatureServed_def probeDNSKEYRRSIGBy_def
        dest!: confirmedI [OF signatureEvidence_learns])
  show "dsServed p zn k" if "fst (apiDSEvidence c zn [k] v) = Inr ()" "fst (apiAuthoritativeDSEvidence c zn [k] w) = Inr d"
    for zn k v w d
    using assms that by (auto simp: watches_def intro: ds_shown)
qed


end
