(* ===== verification/Netlab.thy ===== *)
theory Netlab
  imports Observed
begin

text \<open>
  A small network for the probe: two root servers, two servers of the parent zone \<open>t.\<close>, two
  resolvers and the servers of the zone \<open>z.t.\<close>, and the properties of the probe at work there.
\<close>

definition netKey :: key where
  "netKey = \<lparr>kID = 1, kKeyType = ''ksk'', kActive = True, kPublished = True, kDNSKEY = ''K'', kDS = [],
     kAlgorithm = ''ED448'', kBits = 456\<rparr>"

definition netHdr :: "string \<Rightarrow> 16 word \<Rightarrow> rrHeader" where
  "netHdr name ty = \<lparr>hName = name, hRrtype = ty, hClass = 1, hTtl = 300\<rparr>"

definition netDNSKEY :: "string \<Rightarrow> dnskeyRR" where
  "netDNSKEY name = \<lparr>dkHdr = netHdr name typeDNSKEY, dkFlags = 257, dkProtocol = 3, dkAlgorithm = 16, dkPublicKey = ''K''\<rparr>"

definition netDS :: "string \<Rightarrow> dsRR" where
  "netDS name = \<lparr>dsHdr = netHdr name typeDS, dsKeyTag = 7, dsAlgorithm = 16, dsDigestType = 2, dsDigest = ''a''\<rparr>"

definition netSig :: "string \<Rightarrow> 16 word \<Rightarrow> string \<Rightarrow> rr" where
  "netSig name ty signer = RR_RRSIG \<lparr>sgHdr = netHdr name 46, sgTypeCovered = ty, sgAlgorithm = 16, sgLabels = 2,
     sgOrigTtl = 300, sgExpiration = 9, sgInception = 1, sgKeyTag = 7, sgSignerName = signer, sgSignature = []\<rparr>"

definition netMsg :: "rr list \<Rightarrow> rr list \<Rightarrow> rr list \<Rightarrow> dnsMsg" where
  "netMsg ans auth extra = \<lparr>mRcode = 0, mAuthenticatedData = True, mAuthoritative = True, mAnswer = ans,
     mNs = auth, mExtra = extra\<rparr>"

text \<open>The answers; \<open>hasDS\<close> says whether the parent has a DS, or proves by NSEC that it has none.\<close>

definition netAnswer :: "bool \<Rightarrow> dnsQuery \<Rightarrow> string \<Rightarrow> dnsMsg" where
  "netAnswer hasDS q server =
     (let name = qName q; ty = qType q in
      if server \<in> set rootServers then
        netMsg [] [RR_NS (netHdr ''t.'' typeNS) ''m.t.'', RR_NS (netHdr ''t.'' typeNS) ''n.t.'']
          [RR_A (netHdr ''m.t.'' typeA) ''1'', RR_A (netHdr ''n.t.'' typeA) ''2'']
      else if ty = typeDNSKEY then netMsg [RR_DNSKEY (netDNSKEY name), netSig name typeDNSKEY name] [] []
      else if ty = typeSOA then netMsg [RR_SOA (netHdr name typeSOA), netSig name typeSOA name] [] []
      else if ty = typeNS then netMsg [] [RR_NS (netHdr name typeNS) ''B.'', RR_NS (netHdr name typeNS) ''a.''] []
      else if hasDS then netMsg [RR_DS (netDS name)] [] []
      else netMsg [] [RR_SOA (netHdr ''t.'' typeSOA),
             RR_NSEC \<lparr>nsHdr = netHdr name 47, nsNextDomain = [], nsTypeBitMap = [typeNS]\<rparr>,
             netSig name 47 ''t.''] [])"

definition netLib :: dnsLib where
  "netLib = \<lparr>dlNewRR = (\<lambda>t. Inr (RR_DNSKEY (netDNSKEY ''z.t.''))), dlToDS = (\<lambda>k. Some (netDS ''z.t.'')),
     dlKeyTag = (\<lambda>k. 7), dlVerify = (\<lambda>sig k rrs. None), dlValidityPeriod = (\<lambda>sig now. True),
     dlMatch = (\<lambda>n t. False), dlCover = (\<lambda>n t. False),
     dlIsSubDomain = (\<lambda>a b. a = drop (length b - length a) b), dlSplitDomainName = (\<lambda>t. []), dlRcodeToString = (\<lambda>i. [])\<rparr>"

text \<open>The servers listed in \<open>down\<close> do not answer.\<close>

definition netProbe :: "bool \<Rightarrow> string list \<Rightarrow> unit probe" where
  "netProbe hasDS down =
     \<lparr>prResolvers = [''r1'', ''r2''], prAuthoritative = [''a1''], prLocal = ''l'',
      prExchange = (\<lambda>q server w. if server \<in> set down then (Inl (Ext ''timeout''), w) else (Inr (netAnswer hasDS q server), w)),
      prCtxErr = (\<lambda>w. None), prNow = (\<lambda>w. (5, w)), prRange = (\<lambda>w m. m), prLib = netLib\<rparr>"

definition net0 :: "unit net" where
  "net0 = \<lparr>netWorld = (), netLog = []\<rparr>"

lemma net0_log [simp]: "netLog net0 = []"
  by (simp add: net0_def)

lemma net_run: "fst (m s) = r \<Longrightarrow> m s = (r, snd (m s))"
  by (cases "m s") simp

theorem dnskey_evidence_is_complete_witness:
  "keysEverywhere (netProbe True []) ''z.t'' True [netKey]
     (set (netLog (snd (probeDNSKEYEvidence (netProbe True []) True ''z.t'' [netKey] net0)))) (300 * second)"
proof (rule dnskey_evidence_is_complete)
  show "probeDNSKEYEvidence (netProbe True []) True ''z.t'' [netKey] net0 =
    (Inr (300 * second), snd (probeDNSKEYEvidence (netProbe True []) True ''z.t'' [netKey] net0))"
    by (rule net_run) code_simp
qed simp

theorem signature_evidence_is_complete_witness:
  "signedEverywhere (netProbe True []) (fqdn ''z.t'') typeSOA True netKey
     (set (netLog (snd (probeRRSIGBy (netProbe True []) True ''z.t'' netKey net0))))"
proof -
  have "probeRRSIGBy (netProbe True []) True ''z.t'' netKey net0 =
    (Inr (), snd (probeRRSIGBy (netProbe True []) True ''z.t'' netKey net0))"
    by (rule net_run) code_simp
  then show ?thesis
    using signature_evidence_is_complete [where zoneData = True and u = net0] by simp
qed


theorem delegation_evidence_is_exact_witness:
  "delegationConfirmed (set (netLog (snd (probeDelegationEvidence (netProbe True []) ''z.t'' ['' A'', ''b.''] net0))))
     (fqdn ''z.t'') (expectedNS ['' A'', ''b.'']) \<and> 2 \<le> length (expectedNS ['' A'', ''b.''])"
proof (rule delegation_evidence_is_exact)
  show "probeDelegationEvidence (netProbe True []) ''z.t'' ['' A'', ''b.''] net0 =
    (Inr (), snd (probeDelegationEvidence (netProbe True []) ''z.t'' ['' A'', ''b.''] net0))"
    by (rule net_run) code_simp
qed simp

lemma no_ds_run:
  assumes "fst (recursiveNoDS p (fqdn zone) (prResolvers p) net0) = Inr ()"
    and "\<And>l. fst (noDSLookup p (fqdn zone) (hd (prResolvers p)) maxDepth rootServers \<lparr>netWorld = (), netLog = l\<rparr>) = Inr ()"
    and "2 \<le> length (prResolvers p)"
  shows "fst (probeNoDSEvidence p zone net0) = Inr ()"
proof -
  obtain t where t: "recursiveNoDS p (fqdn zone) (prResolvers p) net0 = (Inr (), t)"
    using assms(1) by (cases "recursiveNoDS p (fqdn zone) (prResolvers p) net0") simp
  have "t = \<lparr>netWorld = (), netLog = netLog t\<rparr>" by simp
  then have "fst (noDSLookup p (fqdn zone) (hd (prResolvers p)) maxDepth rootServers t) = Inr ()"
    using assms(2) by metis
  with t assms(3) show ?thesis
    by (cases "prResolvers p"; cases "tl (prResolvers p)") (auto simp: probeNoDSEvidence_def bind_def Let_def simp del: recursiveNoDS.simps)
qed

theorem no_ds_evidence_is_proven_witness:
  "2 \<le> length (prResolvers (netProbe False []))
    \<and> list_all (\<lambda>resolver. absenceAt (netProbe False []) (set (netLog (snd (probeNoDSEvidence (netProbe False []) ''z.t'' net0))))
         (fqdn ''z.t'') resolver True resolver) (prResolvers (netProbe False []))
    \<and> absenceConfirmed (netProbe False []) (set (netLog (snd (probeNoDSEvidence (netProbe False []) ''z.t'' net0))))
         (fqdn ''z.t'') (hd (prResolvers (netProbe False [])))"
proof -
  have "probeNoDSEvidence (netProbe False []) ''z.t'' net0 =
    (Inr (), snd (probeNoDSEvidence (netProbe False []) ''z.t'' net0))"
    by (rule net_run, rule no_ds_run) code_simp+
  from no_ds_evidence_is_proven [OF this] show ?thesis
    by (simp add: list_all_iff)
qed

section \<open>An unreachable root server\<close>

text \<open>The server does not answer, whatever it is asked and however often.\<close>

definition unreachable :: "'v probe \<Rightarrow> string \<Rightarrow> bool" where
  "unreachable p server \<longleftrightarrow> (\<forall>q w. \<exists>e. fst (prExchange p q server w) = Inl e)"

lemma exchange_unreachable:
  "unreachable p server \<Longrightarrow> wp (exchangeContext p m server) (\<lambda>r t. \<exists>e. r = Inl e) u"
  by (simp add: wp_def exchangeContext_def unreachable_def split: prod.split) (metis fst_conv)

lemma exchangeLoop_unreachable:
  "unreachable p server \<Longrightarrow> wp (exchangeLoop p m server n) (\<lambda>r t. \<exists>e. r = Inl e) u"
proof (induction n arbitrary: u)
  case 0
  show ?case
    unfolding exchangeLoop.simps
    by (intro net_vcg wp_mono [OF exchange_unreachable [OF 0]]) (auto intro!: net_vcg)
next
  case (Suc n)
  show ?case
    unfolding exchangeLoop.simps
    by (intro net_vcg wp_mono [OF exchange_unreachable [OF Suc.prems]]) (auto intro!: net_vcg Suc)
qed

lemma query_unreachable:
  "unreachable p server \<Longrightarrow> wp (query p server name ty recursive) (\<lambda>r t. \<exists>e. r = Inl e) u"
  unfolding query_def by (intro net_vcg wp_mono [OF exchangeLoop_unreachable]) auto

text \<open>A round that asks an unreachable server counts fewer answers than servers and keeps an error.\<close>

lemma dsRound_unreachable:
  "wp (dsRound p name want servers n ttl refs e)
     (\<lambda>r t. \<forall>n' ttl' refs' e'. r = Inr (n', ttl', refs', e') \<longrightarrow>
        n' \<le> n + length (filter (\<lambda>s. \<not> unreachable p s) servers)
        \<and> (e \<noteq> None \<or> (\<exists>s\<in>set servers. unreachable p s) \<longrightarrow> e' \<noteq> None)) u"
proof (induction servers arbitrary: n ttl refs e u)
  case Nil
  show ?case by (simp add: wp_simps)
next
  case (Cons server servers)
  show ?case
  proof (cases "unreachable p server")
    case True
    show ?thesis
      unfolding dsRound.simps
      by (intro net_vcg wp_mono [OF query_unreachable [OF True]]) (auto intro!: net_vcg wp_mono [OF Cons.IH])
  next
    case False
    show ?thesis
      unfolding dsRound.simps
      apply (intro net_vcg wp_query wp_referral wp_mono [OF Cons.IH])
      apply (auto simp: False)
      done
  qed
qed

lemma wp_bind_cases:
  "wp m P s \<Longrightarrow> (\<And>e t. P (Inl e) t \<Longrightarrow> Q (Inl e) t) \<Longrightarrow> (\<And>x t. P (Inr x) t \<Longrightarrow> wp (f x) Q t) \<Longrightarrow> wp (bind m f) Q s"
  by (cases "m s"; cases "fst (m s)") (fastforce simp: wp_def bind_def)+

text \<open>The authoritative DS lookup fails whenever one of the two root servers it starts from
  does not answer, although the delegation and no-DS lookups go on with the other one.\<close>

theorem ds_evidence_needs_every_root:
  assumes "unreachable p root" "root \<in> set rootServers"
  shows "\<exists>e. fst (probeAuthoritativeDSEvidence p zone keys u) = Inl e"
proof -
  have few: "length (filter (\<lambda>s. \<not> unreachable p s) rootServers) \<le> 1"
    using assms by (auto simp: rootServers_def)
  have some: "\<exists>s\<in>set rootServers. unreachable p s"
    using assms by blast
  have "wp (dsLookup p (fqdn zone) want maxDepth rootServers) (\<lambda>r t. \<exists>e. r = Inl e) v" for want v
    unfolding maxDepth_def numeral_eq_Suc dsLookup.simps
    apply (rule wp_bind_cases [OF dsRound_unreachable])
     apply simp
    apply (intro net_vcg)
    using few some by fastforce+
  then have "wp (probeAuthoritativeDSEvidence p zone keys) (\<lambda>r t. \<exists>e. r = Inl e) u"
    unfolding probeAuthoritativeDSEvidence_def by (intro net_vcg) auto
  then show ?thesis by (simp add: wp_conv)
qed

text \<open>The other lookups go on with the servers that do answer.\<close>

theorem ds_evidence_needs_every_root_witness:
  "(\<exists>e. fst (probeAuthoritativeDSEvidence (netProbe True [rootServers ! 1]) ''z.t'' [netKey] net0) = Inl e)
   \<and> fst (probeDelegationEvidence (netProbe True [rootServers ! 1]) ''z.t'' [''a'', ''b''] net0) = Inr ()
   \<and> fst (probeNoDSEvidence (netProbe False [rootServers ! 1]) ''z.t'' net0) = Inr ()"
proof (intro conjI)
  show "\<exists>e. fst (probeAuthoritativeDSEvidence (netProbe True [rootServers ! 1]) ''z.t'' [netKey] net0) = Inl e"
    by (rule ds_evidence_needs_every_root [where root = "rootServers ! 1"])
      (simp_all add: unreachable_def netProbe_def rootServers_def)
  show "fst (probeDelegationEvidence (netProbe True [rootServers ! 1]) ''z.t'' [''a'', ''b''] net0) = Inr ()"
    by code_simp
  show "fst (probeNoDSEvidence (netProbe False [rootServers ! 1]) ''z.t'' net0) = Inr ()"
    by (rule no_ds_run) code_simp+
qed

end
