(* ===== verification/Assembly.thy ===== *)
theory Assembly
  imports Assured Netlab Witnesses
begin

text \<open>
  A pass of the controller with the probe in a small network: the old zone signer of the
  laboratory is deleted after the probe has asked the servers.
\<close>

definition liveRR :: "key \<Rightarrow> rr" where
  "liveRR k = (case keyRR labRR ''z.'' k of Inr rr \<Rightarrow> RR_DNSKEY (rr\<lparr>dkHdr := netHdr ''z.'' typeDNSKEY\<rparr>) | Inl e \<Rightarrow> RR_Other (netHdr [] 0))"

definition liveKeys :: "key list" where
  "liveKeys = [labKSK, labZSK False, labNewZSK True]"

definition liveAnswer :: "dnsQuery \<Rightarrow> dnsMsg" where
  "liveAnswer q =
     (if qType q = typeDNSKEY then netMsg (map liveRR liveKeys) [] []
      else netMsg [RR_SOA (netHdr ''z.'' typeSOA), netSig ''z.'' typeSOA ''z.''] [] [])"

definition liveProbe :: "unit probe" where
  "liveProbe =
     \<lparr>prResolvers = [''r''], prAuthoritative = [''a''], prLocal = ''l'', prExchange = (\<lambda>q server w. (Inr (liveAnswer q), w)),
      prCtxErr = (\<lambda>w. None), prNow = (\<lambda>w. (5, w)), prRange = (\<lambda>w m. m), prLib = netLib\<lparr>dlNewRR := labRR\<rparr>\<rparr>"

definition live :: "unit net controller" where
  "live =
     \<lparr>cfg = labConfig ''enforce'',
      apiListZones = \<lambda>w. (Inr [labZone], w),
      apiGetZone = \<lambda>zid w. (Inr labZone, w),
      apiListKeys = \<lambda>zid w. (Inr liveKeys, w),
      apiCreateKey = \<lambda>zid typ alg act w. (Inr (labNewZSK act), w),
      apiSetKey = \<lambda>zid k act pub w. (Inr (), w),
      apiDeleteKey = \<lambda>zid i w. (Inr (), w),
      apiDomainDNSSEC = \<lambda>zn w. (Inl (Ext []), w),
      apiUpdateDNSSEC = \<lambda>zn data ctid w. (Inl (Ext []), w),
      apiJobStatus = \<lambda>i w. (Inl (Ext []), w),
      apiDNSKEYEvidence = probeDNSKEYEvidence liveProbe,
      apiNoDSEvidence = probeNoDSEvidence liveProbe,
      apiDSEvidence = probeDSEvidence liveProbe,
      apiAuthoritativeDSEvidence = probeAuthoritativeDSEvidence liveProbe,
      apiRRSIGBy = probeRRSIGBy liveProbe,
      apiDNSKEYRRSIGBy = probeDNSKEYRRSIGBy liveProbe,
      apiDelegationEvidence = probeDelegationEvidence liveProbe,
      apiSend = \<lambda>n w. (Inr (), w),
      apiNow = \<lambda>w. (labNow, w),
      apiWriteAtomic = \<lambda>x w. (Inr (), w),
      libNewRR = labRR,
      libIsDomainName = \<lambda>n. True,
      libSha256 = \<lambda>t. [],
      libRFC3339Nano = \<lambda>t. itoa t,
      libRange = \<lambda>w m. m\<rparr>"

lemma live_watches: "watches liveProbe (\<lambda>w. w) live"
  by (simp add: watches_def live_def)

definition liveSys :: "unit net sys" where
  "liveSys = \<lparr>sysState = sysState (labSys deleteFlow), sysWorld = net0, sysLog = []\<rparr>"

text \<open>The two calls of the probe, in any state of the network\<close>

lemma live_keys_seen:
  "fst (probeDNSKEYEvidence liveProbe True ''z'' [labNewZSK True, labKSK, labZSK False] \<lparr>netWorld = (), netLog = l\<rparr>) = Inr (300 * second)"
  by code_simp

lemma live_signature_seen:
  "fst (probeRRSIGBy liveProbe True ''z'' (labNewZSK True) \<lparr>netWorld = (), netLog = l\<rparr>) = Inr ()"
  by code_simp

definition afterKeys :: "unit net \<Rightarrow> unit net" where
  "afterKeys w = snd (probeDNSKEYEvidence liveProbe True ''z'' [labNewZSK True, labKSK, labZSK False] w)"

definition afterSignature :: "unit net \<Rightarrow> unit net" where
  "afterSignature w = snd (probeRRSIGBy liveProbe True ''z'' (labNewZSK True) w)"

lemma live_sel [exec]:
  "cfg live = labConfig ''enforce''"
  "apiListZones live = (\<lambda>w. (Inr [labZone], w))"
  "apiListKeys live = (\<lambda>zid w. (Inr [labKSK, labZSK False, labNewZSK True], w))"
  "apiDeleteKey live = (\<lambda>zid i w. (Inr (), w))"
  "apiSend live = (\<lambda>n w. (Inr (), w))"
  "apiNow live = (\<lambda>w. (labNow, w))"
  "apiWriteAtomic live = (\<lambda>x w. (Inr (), w))"
  "libNewRR live = labRR"
  "libRange live = (\<lambda>w m. m)"
  "validZoneName live ''z''"
  "selected live ''z''"
  "apiDNSKEYEvidence live True ''z'' [labNewZSK True, labKSK, labZSK False] w =
     (Inr (300 * second), afterKeys w)"
  "apiRRSIGBy live True ''z'' (labNewZSK True) w = (Inr (), afterSignature w)"
  apply (simp_all add: live_def liveKeys_def validZoneName_def selected_def labConfig_def afterKeys_def afterSignature_def)
  apply (rule net_run, cases w, simp add: live_keys_seen)
  apply (rule net_run, cases w, simp add: live_signature_seen)
  done

lemma live_deletes: "list_ex isDelete (sysLog (snd (Tick live liveSys)))"
  by (simp add: liveSys_def exec lab_runs cong: exec_cong split del: if_split)

lemma live_wf: "wfState (sysState liveSys)"
  by (simp add: liveSys_def lab_wf flow_phases)


end
