(* ===== verification/Paths.thy ===== *)
theory Paths
  imports Errors "HOL-Library.Sublist"
begin

text \<open>
  What the code uses of Go's \<open>path/filepath\<close> and \<open>net\<close> on Unix: \<open>Clean\<close>, \<open>IsAbs\<close>, \<open>Rel\<close>,
  \<open>Dir\<close>, \<open>SplitHostPort\<close>, and some more of \<open>strings\<close>.
\<close>

section \<open>Strings\<close>

abbreviation (input) slash :: char where "slash \<equiv> CHR 0x2F"
abbreviation (input) colon :: char where "colon \<equiv> CHR 0x3A"

fun splitAt :: "char \<Rightarrow> string \<Rightarrow> string list" where
  "splitAt sep [] = [[]]"
| "splitAt sep (c # s) =
     (if c = sep then [] # splitAt sep s
      else case splitAt sep s of [] \<Rightarrow> [[c]] | x # xs \<Rightarrow> (c # x) # xs)"

definition hasPrefix :: "string \<Rightarrow> string \<Rightarrow> bool" where
  "hasPrefix s p \<longleftrightarrow> take (length p) s = p"

definition containsAny :: "string \<Rightarrow> char list \<Rightarrow> bool" where
  "containsAny s chars \<longleftrightarrow> list_ex (\<lambda>c. c \<in> set chars) s"

text \<open>\<open>strings.TrimRight(s, cutset)\<close> for a one-character cutset\<close>

definition trimRight :: "string \<Rightarrow> char \<Rightarrow> string" where
  "trimRight s c = rev (dropWhile (\<lambda>x. x = c) (rev s))"

definition lineBreaks :: "char list" where
  "lineBreaks = [CHR 0x0D, CHR 0x0A]"

section \<open>Paths\<close>

definition isAbs :: "string \<Rightarrow> bool" where
  "isAbs path \<longleftrightarrow> hasPrefix path ''/''"

text \<open>The elements that \<open>Clean\<close> keeps, last one first\<close>

definition cleanStep :: "bool \<Rightarrow> string list \<Rightarrow> string \<Rightarrow> string list" where
  "cleanStep rooted stack e =
     (if e = [] \<or> e = ''.'' then stack
      else if e = ''..'' then
        (case stack of
           [] \<Rightarrow> if rooted then [] else [''..'']
         | prev # rest \<Rightarrow> if prev = ''..'' then ''..'' # stack else rest)
      else e # stack)"

definition cleanElems :: "string \<Rightarrow> string list" where
  "cleanElems path = rev (foldl (cleanStep (isAbs path)) [] (splitAt slash path))"

definition clean :: "string \<Rightarrow> string" where
  "clean path =
     (let elems = cleanElems path
      in if isAbs path then slash # strJoin ''/'' elems
         else if elems = [] then ''.'' else strJoin ''/'' elems)"

text \<open>\<open>Rel(base, target)\<close>: the error of an impossible request carries no information here.\<close>

definition RelImpossible :: msg where
  "RelImpossible = ''Rel: can't make target relative to base''"

fun relElems :: "string list \<Rightarrow> string list \<Rightarrow> string list \<times> string list" where
  "relElems (b # bs) (t # ts) = (if b = t then relElems bs ts else (b # bs, t # ts))"
| "relElems bs ts = (bs, ts)"

definition rel :: "string \<Rightarrow> string \<Rightarrow> err + string" where
  "rel base target =
     (if clean base = clean target then Inr ''.''
      else if isAbs base \<noteq> isAbs target then Inl (Fmt RelImpossible [])
      else case relElems (cleanElems base) (cleanElems target) of
        (bs, ts) \<Rightarrow>
          if bs \<noteq> [] \<and> hd bs = ''..'' then Inl (Fmt RelImpossible [])
          else Inr (strJoin ''/'' (replicate (length bs) ''..'' @ ts)))"

text \<open>\<open>Dir\<close>: all but the last element, cleaned\<close>

definition dir :: "string \<Rightarrow> string" where
  "dir path = clean (rev (dropWhile (\<lambda>c. c \<noteq> slash) (rev path)))"

section \<open>Host and port\<close>

definition MissingPort :: msg where "MissingPort = ''missing port in address''"
definition TooManyColons :: msg where "TooManyColons = ''too many colons in address''"
definition MissingBracket :: msg where "MissingBracket = ''missing ']' in address''"
definition UnexpectedOpen :: msg where "UnexpectedOpen = ''unexpected '[' in address''"
definition UnexpectedClose :: msg where "UnexpectedClose = ''unexpected ']' in address''"

text \<open>The text before and after the last colon; before and after the first closing bracket\<close>

fun lastColon :: "string \<Rightarrow> (string \<times> string) option" where
  "lastColon [] = None"
| "lastColon (c # s) =
     (case lastColon s of
        Some (a, b) \<Rightarrow> Some (c # a, b)
      | None \<Rightarrow> if c = colon then Some ([], s) else None)"

fun firstBracket :: "string \<Rightarrow> (string \<times> string) option" where
  "firstBracket [] = None"
| "firstBracket (c # s) =
     (if c = CHR 0x5D then Some ([], s)
      else case firstBracket s of Some (a, b) \<Rightarrow> Some (c # a, b) | None \<Rightarrow> None)"

definition checkBrackets :: "string \<Rightarrow> string \<Rightarrow> string \<times> string \<Rightarrow> err + (string \<times> string)" where
  "checkBrackets afterOpen afterClose result =
     (if CHR 0x5B \<in> set afterOpen then Inl (Fmt UnexpectedOpen [])
      else if CHR 0x5D \<in> set afterClose then Inl (Fmt UnexpectedClose [])
      else Inr result)"

definition splitHostPort :: "string \<Rightarrow> err + (string \<times> string)" where
  "splitHostPort hostport =
     (case lastColon hostport of
        None \<Rightarrow> Inl (Fmt MissingPort [])
      | Some (before, port) \<Rightarrow>
          if hasPrefix hostport ''['' then
            (case firstBracket (tl hostport) of
               None \<Rightarrow> Inl (Fmt MissingBracket [])
             | Some (host, rest) \<Rightarrow>
                 if rest = [] then Inl (Fmt MissingPort [])
                 else if rest = colon # port then checkBrackets (host @ CHR 0x5D # rest) rest (host, port)
                 else if hd rest = colon then Inl (Fmt TooManyColons [])
                 else Inl (Fmt MissingPort []))
          else if colon \<in> set before then Inl (Fmt TooManyColons [])
          else checkBrackets hostport hostport (before, port))"

section \<open>Cleaned paths\<close>

lemma splitAt_nonempty [simp]: "splitAt sep s \<noteq> []"
  by (cases s) (auto split: list.split)

lemma splitAt_no_sep: "e \<in> set (splitAt sep s) \<Longrightarrow> sep \<notin> set e"
proof (induction sep s arbitrary: e rule: splitAt.induct)
  case (2 sep c s)
  then show ?case
    by (cases "splitAt sep s") (auto split: if_splits)
qed simp

text \<open>A cleaned absolute path has ordinary elements only: none is empty, \<open>.\<close> or \<open>..\<close>.\<close>

definition plainElem :: "string \<Rightarrow> bool" where
  "plainElem e \<longleftrightarrow> e \<noteq> [] \<and> e \<noteq> ''.'' \<and> e \<noteq> ''..'' \<and> slash \<notin> set e"

lemma cleanStep_plain:
  "\<forall>e\<in>set stack. plainElem e \<Longrightarrow> slash \<notin> set e \<Longrightarrow> \<forall>e\<in>set (cleanStep True stack e). plainElem e"
  by (cases stack) (auto simp: cleanStep_def plainElem_def)

lemma foldl_clean_plain:
  "\<forall>e\<in>set stack. plainElem e \<Longrightarrow> \<forall>e\<in>set es. slash \<notin> set e \<Longrightarrow> \<forall>e\<in>set (foldl (cleanStep True) stack es). plainElem e"
proof (induction es arbitrary: stack)
  case (Cons e es)
  have "\<forall>e\<in>set (cleanStep True stack e). plainElem e"
    by (rule cleanStep_plain) (use Cons.prems in auto)
  from Cons.IH [OF this] Cons.prems show ?case by simp
qed simp

lemma cleanElems_plain: "isAbs path \<Longrightarrow> e \<in> set (cleanElems path) \<Longrightarrow> plainElem e"
  using foldl_clean_plain [of "[]" "splitAt slash path"] splitAt_no_sep by (auto simp: cleanElems_def)

lemma strJoin_Cons: "strJoin sep (x # xs) = (if xs = [] then x else x @ sep @ strJoin sep xs)"
  by (cases xs) auto

lemma splitAt_append: "sep \<notin> set x \<Longrightarrow> splitAt sep (x @ sep # y) = x # splitAt sep y"
  by (induction x) auto

lemma splitAt_plain: "sep \<notin> set x \<Longrightarrow> splitAt sep x = [x]"
  by (induction x) auto

lemma splitAt_strJoin:
  "xs \<noteq> [] \<Longrightarrow> \<forall>x\<in>set xs. sep \<notin> set x \<Longrightarrow> splitAt sep (strJoin [sep] xs) = xs"
  by (induction xs) (auto simp: strJoin_Cons splitAt_append splitAt_plain)

lemma strJoin_inject:
  assumes "\<forall>x\<in>set xs. plainElem x" "\<forall>y\<in>set ys. plainElem y" "strJoin ''/'' xs = strJoin ''/'' ys"
  shows "xs = ys"
proof -
  have empty: "strJoin ''/'' zs = [] \<longleftrightarrow> zs = []" if "\<forall>z\<in>set zs. plainElem z" for zs
    using that by (cases zs) (auto simp: strJoin_Cons plainElem_def)
  show ?thesis
  proof (cases "xs = [] \<or> ys = []")
    case True
    then show ?thesis using assms empty by metis
  next
    case False
    then have "splitAt slash (strJoin ''/'' xs) = xs"
      using assms(1) by (intro splitAt_strJoin) (simp_all add: plainElem_def)
    moreover have "splitAt slash (strJoin ''/'' ys) = ys"
      using False assms(2) by (intro splitAt_strJoin) (simp_all add: plainElem_def)
    ultimately show ?thesis using assms(3) by metis
  qed
qed

lemma clean_abs: "isAbs path \<Longrightarrow> clean path = slash # strJoin ''/'' (cleanElems path)"
  by (simp add: clean_def Let_def)

lemma clean_eq_iff: "isAbs p \<Longrightarrow> isAbs q \<Longrightarrow> clean p = clean q \<longleftrightarrow> cleanElems p = cleanElems q"
  using cleanElems_plain by (auto simp: clean_abs intro!: strJoin_inject)

lemma relElems_prefix: "relElems bs ts = ([], us) \<longleftrightarrow> ts = bs @ us"
  by (induction bs ts arbitrary: us rule: relElems.induct) auto

lemma relElems_first: "relElems bs ts = (rs, us) \<Longrightarrow> set rs \<subseteq> set bs \<and> set us \<subseteq> set ts"
  by (induction bs ts rule: relElems.induct) (auto split: if_splits)

text \<open>A path with an ordinary first element does not lead upwards.\<close>

definition upwards :: "string \<Rightarrow> bool" where
  "upwards path \<longleftrightarrow> path = ''..'' \<or> hasPrefix path ''../''"

lemma upwards_plain: "\<forall>e\<in>set es. plainElem e \<Longrightarrow> \<not> upwards (strJoin ''/'' es)"
proof (cases es)
  case (Cons e es')
  assume plain: "\<forall>e\<in>set es. plainElem e"
  then have e: "e \<noteq> ''..''" "slash \<notin> set e" using Cons by (auto simp: plainElem_def)
  have "\<not> hasPrefix (e @ rest) ''../''" if "rest = [] \<or> (\<exists>r. rest = slash # r)" for rest
  proof
    assume "hasPrefix (e @ rest) ''../''"
    then obtain z where z: "e @ rest = ''..'' @ slash # z"
      unfolding hasPrefix_def by (metis append_Cons append_Nil append_take_drop_id)
    show False
    proof (cases "rest = []")
      case True
      with z e(2) show False by auto
    next
      case False
      with that have "\<exists>r. rest = slash # r" by auto
      then obtain r where "rest = slash # r" by blast
      with z have "splitAt slash (e @ slash # r) = splitAt slash (''..'' @ slash # z)" by simp
      then show False using e by (simp add: splitAt_append)
    qed
  qed
  from this [of "if es' = [] then [] else slash # strJoin ''/'' es'"] e(1) Cons show ?thesis
    using e by (auto simp: upwards_def strJoin_Cons dest!: arg_cong [where f = "\<lambda>s. slash \<in> set s"])
qed (simp add: upwards_def hasPrefix_def)

lemma upwards_replicate: "upwards (strJoin ''/'' (replicate (Suc n) ''..'' @ es))"
  by (auto simp: upwards_def hasPrefix_def strJoin_Cons)

text \<open>Whether a path lies below a root that is absolute\<close>

lemma rel_upwards:
  assumes "isAbs root" "isAbs path"
  shows "(\<exists>r. rel root path = Inr r \<and> \<not> upwards r) \<longleftrightarrow> prefix (cleanElems root) (cleanElems path)"
proof (cases "cleanElems root = cleanElems path")
  case True
  then have "rel root path = Inr ''.''"
    using assms by (simp add: rel_def clean_eq_iff)
  with True show ?thesis by (simp add: upwards_def hasPrefix_def)
next
  case False
  obtain bs ts where split: "relElems (cleanElems root) (cleanElems path) = (bs, ts)" by fastforce
  have plain: "\<forall>e\<in>set bs. plainElem e" "\<forall>e\<in>set ts. plainElem e"
    using relElems_first [OF split] cleanElems_plain [OF assms(1)] cleanElems_plain [OF assms(2)] by auto
  then have rel: "rel root path = Inr (strJoin ''/'' (replicate (length bs) ''..'' @ ts))"
    using assms False split by (cases bs) (auto simp: rel_def clean_eq_iff plainElem_def)
  show ?thesis
  proof (cases bs)
    case Nil
    then show ?thesis
      using rel upwards_plain [OF plain(2)] split by (auto simp: relElems_prefix prefix_def)
  next
    case (Cons b bs')
    then have "\<not> prefix (cleanElems root) (cleanElems path)"
      using split relElems_prefix [of "cleanElems root" "cleanElems root @ us" us for us] by (auto simp: prefix_def)
    then show ?thesis
      using rel upwards_replicate [of "length bs'" ts] Cons by simp
  qed
qed

text \<open>\<open>Clean\<close> is idempotent on absolute paths.\<close>

lemma foldl_clean_id: "\<forall>e\<in>set es. plainElem e \<Longrightarrow> foldl (cleanStep True) stack es = rev es @ stack"
  by (induction es arbitrary: stack) (auto simp: cleanStep_def plainElem_def)

lemma cleanElems_join:
  assumes "\<forall>e\<in>set es. plainElem e"
  shows "cleanElems (slash # strJoin ''/'' es) = es"
proof -
  have "splitAt slash (strJoin ''/'' es) = (if es = [] then [[]] else es)"
    using assms by (simp add: splitAt_strJoin plainElem_def)
  then show ?thesis
    using assms foldl_clean_id [of es "[]"] by (auto simp: cleanElems_def isAbs_def hasPrefix_def cleanStep_def)
qed

lemma clean_twice: "isAbs path \<Longrightarrow> isAbs (clean path) \<and> cleanElems (clean path) = cleanElems path"
  using cleanElems_join [of "cleanElems path"] cleanElems_plain [of path] by (simp add: clean_abs isAbs_def hasPrefix_def)

text \<open>The elements of a cleaned path never hold a slash.\<close>

lemma cleanStep_slash:
  "\<forall>e\<in>set stack. e \<noteq> [] \<and> slash \<notin> set e \<Longrightarrow> slash \<notin> set e \<Longrightarrow> \<forall>e\<in>set (cleanStep rooted stack e). e \<noteq> [] \<and> slash \<notin> set e"
  by (cases stack) (auto simp: cleanStep_def)

lemma cleanElems_slash: "e \<in> set (cleanElems path) \<Longrightarrow> e \<noteq> [] \<and> slash \<notin> set e"
proof -
  have "\<forall>e\<in>set (foldl (cleanStep (isAbs path)) stack es). e \<noteq> [] \<and> slash \<notin> set e"
    if "\<forall>e\<in>set stack. e \<noteq> [] \<and> slash \<notin> set e" "\<forall>e\<in>set es. slash \<notin> set e" for stack es
    using that
  proof (induction es arbitrary: stack)
    case (Cons e es)
    have "\<forall>e\<in>set (cleanStep (isAbs path) stack e). e \<noteq> [] \<and> slash \<notin> set e"
      by (rule cleanStep_slash) (use Cons.prems in auto)
    from Cons.IH [OF this] Cons.prems show ?case by simp
  qed simp
  from this [of "[]" "splitAt slash path"] splitAt_no_sep
  show "e \<in> set (cleanElems path) \<Longrightarrow> e \<noteq> [] \<and> slash \<notin> set e" by (auto simp: cleanElems_def)
qed

lemma isAbs_clean: "isAbs (clean path) \<longleftrightarrow> isAbs path"
proof (cases "isAbs path")
  case False
  have "\<not> isAbs (strJoin ''/'' (cleanElems path))"
    using cleanElems_slash [of "hd (cleanElems path)" path]
    by (cases "cleanElems path"; cases "hd (cleanElems path)") (auto simp: isAbs_def hasPrefix_def strJoin_Cons)
  with False show ?thesis by (auto simp: clean_def Let_def isAbs_def hasPrefix_def)
qed (simp add: clean_twice)

end
