(* ===== verification/Validate.thy ===== *)
theory Validate
  imports Paths Config Effects
begin

text \<open>
  \<open>internal/config/config.go\<close>: defaults, loading and validation of the configuration, and
  \<open>ReadSecret\<close>. Parameters are \<open>url.Parse\<close>, \<open>net.ParseIP\<close>, \<open>mail.ParseAddress\<close>,
  \<open>dns.IsDomainName\<close>, the file system of \<open>ReadSecret\<close>, and \<open>viper\<close>, which reads the file.
\<close>

section \<open>Libraries\<close>

record url =
  urScheme :: string
  urHost :: string
  urHostname :: string

record ipAddr =
  ipLoopback :: bool
  ipPrivate :: bool

record configLib =
  clParseURL :: "string \<Rightarrow> err + url"
  clParseIP :: "string \<Rightarrow> ipAddr option"
  clIsDomainName :: "string \<Rightarrow> bool"
  clParseAddress :: "string \<Rightarrow> err + string"

text \<open>\<open>if bad { return err }\<close>, and a sequence of such checks\<close>

definition reject :: "bool \<Rightarrow> err \<Rightarrow> err option" where
  "reject bad e = (if bad then Some e else None)"

fun firstOf :: "err option list \<Rightarrow> err option" where
  "firstOf [] = None"
| "firstOf (None # checks) = firstOf checks"
| "firstOf (Some e # checks) = Some e"

section \<open>Defaults\<close>

datatype setting = SetString string | SetInt int | SetBool bool | SetStrings "string list"

definition setDefaults :: "(string \<times> setting) list" where
  "setDefaults =
     [(''mode'', SetString ''observe''),
      (''log.level'', SetString ''info''),
      (''controller.reconcile_interval'', SetString ''1m''),
      (''controller.propagation_margin'', SetString ''2h''),
      (''controller.state_file'', SetString ''/var/lib/dnssec-keyrotation/state.json''),
      (''controller.socket'', SetString ''/run/dnssec-keyrotation/control.sock''),
      (''controller.idempotency_retention'', SetString ''8760h''),
      (''powerdns.server_id'', SetString ''localhost''),
      (''powerdns.timeout'', SetString ''10s''),
      (''autodns.url'', SetString ''https://api.autodns.com/v1''),
      (''autodns.context'', SetInt 4),
      (''autodns.timeout'', SetString ''20s''),
      (''autodns.minimum_request_interval'', SetString ''500ms''),
      (''dns.timeout'', SetString ''5s''),
      (''dns.local_authoritative'', SetString ''127.0.0.1:53''),
      (''rotation.algorithm'', SetString ''ECDSAP256SHA256''),
      (''rotation.zsk_interval'', SetString ''720h''),
      (''rotation.ksk_interval'', SetString ''4368h''),
      (''rotation.minimum_dnskey_wait'', SetString ''24h''),
      (''rotation.minimum_parent_wait'', SetString ''48h''),
      (''enrollment.enabled'', SetBool False),
      (''enrollment.scope'', SetString ''none''),
      (''enrollment.discovery_grace'', SetString ''24h''),
      (''enrollment.max_pending'', SetInt 10),
      (''enrollment.max_new_per_day'', SetInt 5),
      (''enrollment.allowed_algorithms'', SetStrings [''ECDSAP256SHA256'']),
      (''notifications.lmtp.enabled'', SetBool False),
      (''notifications.lmtp.timeout'', SetString ''10s'')]"

section \<open>Helpers\<close>

definition pathWithin :: "string \<Rightarrow> string \<Rightarrow> bool" where
  "pathWithin path root =
     (case rel root (clean path) of Inl e \<Rightarrow> False | Inr r \<Rightarrow> r \<noteq> ''..'' \<and> \<not> hasPrefix r ''../'')"

definition parseMailbox :: "configLib \<Rightarrow> string \<Rightarrow> err + string" where
  "parseMailbox lib value =
     (if containsAny value lineBreaks then Inl (Fmt MailboxBreaks [])
      else case clParseAddress lib value of
        Inl e \<Rightarrow> Inl e
      | Inr address \<Rightarrow> if address = [] then Inl (Fmt MailboxEmpty []) else Inr address)"

section \<open>Validate\<close>

definition millisecond :: duration where
  "millisecond = 1000000"

definition validateController :: "config \<Rightarrow> err option" where
  "validateController c = firstOf
     [reject (cfMode c \<noteq> ''observe'' \<and> cfMode c \<noteq> ''enforce'') (Fmt ModeInvalid []),
      reject (ccReconcileInterval (cfController c) < 10 * second) (Fmt IntervalShort []),
      reject (ccPropagationMargin (cfController c) < minute) (Fmt MarginShort []),
      reject (ccIdempotencyRetention (cfController c) < 24 * hour) (Fmt RetentionShort []),
      reject (\<not> isAbs (ccStateFile (cfController c)) \<or> \<not> isAbs (ccSocket (cfController c))) (Fmt PathsAbsolute []),
      reject (\<not> pathWithin (ccStateFile (cfController c)) ''/var/lib/dnssec-keyrotation'') (Fmt StateFilePath []),
      reject (\<not> pathWithin (ccSocket (cfController c)) ''/run/dnssec-keyrotation'') (Fmt SocketPath [])]"

definition validateURLs :: "configLib \<Rightarrow> config \<Rightarrow> err option" where
  "validateURLs lib c = firstOf
     [case clParseURL lib (pcURL (cfPowerDNS c)) of
        Inl e \<Rightarrow> Some (Fmt PowerDNSURL [])
      | Inr p \<Rightarrow> firstOf
          [reject (urScheme p \<noteq> ''http'') (Fmt PowerDNSURL []),
           reject (urHostname p \<noteq> ''localhost''
             \<and> (case clParseIP lib (urHostname p) of None \<Rightarrow> True | Some ip \<Rightarrow> \<not> ipLoopback ip)) (Fmt PowerDNSLoopback [])],
      case clParseURL lib (acURL (cfAutoDNS c)) of
        Inl e \<Rightarrow> Some (Fmt AutoDNSHTTPS [])
      | Inr a \<Rightarrow> firstOf
          [reject (urScheme a \<noteq> ''https'' \<or> urHost a = []) (Fmt AutoDNSHTTPS []),
           reject (urHostname a \<noteq> ''api.autodns.com'' \<and> urHostname a \<noteq> ''api.demo.autodns.com'') (Fmt AutoDNSHost [])]]"

fun secretPaths :: "string list \<Rightarrow> err option" where
  "secretPaths [] = None"
| "secretPaths (p # ps) =
     (if \<not> hasPrefix (clean p) ''/run/secrets/'' then Some (Fmt SecretPath [AStr p]) else secretPaths ps)"

fun resolversLoop :: "string list \<Rightarrow> string list \<Rightarrow> err option" where
  "resolversLoop seen [] = None"
| "resolversLoop seen (r # rs) =
     (case splitHostPort r of
        Inl e \<Rightarrow> Some (Wrap InvalidResolver [AStr r] e)
      | Inr _ \<Rightarrow> if r \<in> set seen then Some (Fmt DuplicateResolver [AStr r]) else resolversLoop (r # seen) rs)"

definition nameserverName :: "string \<Rightarrow> string" where
  "nameserverName server = toLower (fqdn (trimSpace server))"

text \<open>The loop also returns the names it has seen.\<close>

fun nameserversLoop :: "configLib \<Rightarrow> string list \<Rightarrow> string list \<Rightarrow> err + string list" where
  "nameserversLoop lib seen [] = Inr seen"
| "nameserversLoop lib seen (server # servers) =
     (let name = nameserverName server
      in if \<not> clIsDomainName lib name \<or> name \<in> set seen then Inl (Fmt InvalidExpectedNS [AStr server])
         else nameserversLoop lib (name # seen) servers)"

fun endpointsLoop :: "configLib \<Rightarrow> string list \<Rightarrow> string list \<Rightarrow> err option" where
  "endpointsLoop lib seen [] = None"
| "endpointsLoop lib seen (endpoint # endpoints) =
     (case splitHostPort endpoint of
        Inl e \<Rightarrow> Some (Fmt AuthNotExpected [AStr endpoint])
      | Inr (host, port) \<Rightarrow>
          if clParseIP lib host \<noteq> None \<or> toLower (fqdn host) \<notin> set seen then Some (Fmt AuthNotExpected [AStr endpoint])
          else endpointsLoop lib seen endpoints)"

definition validateDNS :: "configLib \<Rightarrow> config \<Rightarrow> err option" where
  "validateDNS lib c =
     (let d = cfDNS c; enrolling = ecEnabled (cfEnrollment c)
      in firstOf
     [reject (length (dcResolvers d) < 2) (Fmt TwoDNSResolvers []),
      resolversLoop [] (dcResolvers d),
      case splitHostPort (dcLocalAuthoritative d) of Inl e \<Rightarrow> Some (Wrap InvalidLocalAuth [] e) | Inr _ \<Rightarrow> None,
      reject (length (dcAuthoritativeServers d) < 2) (Fmt TwoAuthServers []),
      reject (enrolling \<and> length (dcExpectedNameservers d) < 2) (Fmt EnrollTwoNS []),
      case nameserversLoop lib [] (dcExpectedNameservers d) of
        Inl e \<Rightarrow> Some e
      | Inr seen \<Rightarrow>
          if enrolling then firstOf
            [reject (length (dcAuthoritativeServers d) \<noteq> length seen) (Fmt EnrollAuthMatch []),
             endpointsLoop lib seen (dcAuthoritativeServers d)]
          else None])"

definition validatePolicy :: "config \<Rightarrow> err option" where
  "validatePolicy c =
     (let r = cfRotation c; e = cfEnrollment c
      in firstOf
     [reject (rcZSKInterval r < 24 * hour \<or> rcKSKInterval r < 30 * 24 * hour) (Fmt IntervalsPolicy []),
      reject (rcMinimumDNSKEYWait r < hour \<or> rcMinimumParentWait r < 48 * hour) (Fmt WaitsPolicy []),
      reject (rcAutoMigrateCSK r) (Fmt AutoMigration []),
      reject (ecScope e \<noteq> ''none'' \<and> ecScope e \<noteq> ''all_selected'') (Fmt ScopeInvalid []),
      reject (ecEnabled e \<and> ecScope e \<noteq> ''all_selected'') (Fmt ScopeRequired []),
      reject (ecDiscoveryGrace e < 24 * hour) (Fmt GraceShort []),
      reject (ecMaxPending e < 1 \<or> ecMaxPending e > 100 \<or> ecMaxNewPerDay e < 1 \<or> ecMaxNewPerDay e > 100) (Fmt BreakerLimits []),
      reject (ecAllowedAlgorithms e = []) (Fmt AlgorithmsEmpty [])])"

fun recipientsLoop :: "configLib \<Rightarrow> string list \<Rightarrow> err option" where
  "recipientsLoop lib [] = None"
| "recipientsLoop lib (recipient # recipients) =
     (case parseMailbox lib recipient of
        Inl e \<Rightarrow> Some (Wrap LMTPRecipient [] e)
      | Inr _ \<Rightarrow> recipientsLoop lib recipients)"

definition validateLMTP :: "configLib \<Rightarrow> lmtpConfig \<Rightarrow> err option" where
  "validateLMTP lib l =
     (if \<not> lcEnabled l then None
      else case splitHostPort (lcAddress l) of
        Inl e \<Rightarrow> Some (Wrap LMTPAddress [] e)
      | Inr (host, port) \<Rightarrow> firstOf
         [reject (case clParseIP lib host of None \<Rightarrow> True | Some ip \<Rightarrow> \<not> ipPrivate ip \<and> \<not> ipLoopback ip) (Fmt LMTPPrivate []),
          reject (lcHostname l = [] \<or> containsAny (lcHostname l) lineBreaks) (Fmt LMTPHostname []),
          reject (\<not> clIsDomainName lib (fqdn (lcHostname l))) (Fmt LMTPHostnameDNS []),
          reject (lcTimeout l < second \<or> lcTimeout l > minute) (Fmt LMTPTimeout []),
          case parseMailbox lib (lcFrom l) of Inl e \<Rightarrow> Some (Wrap LMTPSender [] e) | Inr _ \<Rightarrow> None,
          reject (lcTo l = []) (Fmt LMTPNoRecipient []),
          recipientsLoop lib (lcTo l)])"

definition validate :: "configLib \<Rightarrow> config \<Rightarrow> err option" where
  "validate lib c = firstOf
     [validateController c,
      validateURLs lib c,
      secretPaths [pcAPIKeyFile (cfPowerDNS c), acPasswordFile (cfAutoDNS c)],
      reject (acContext (cfAutoDNS c) \<le> 0 \<or> acUsername (cfAutoDNS c) = []) (Fmt AutoDNSUser []),
      reject (acMinimumRequestInterval (cfAutoDNS c) < 334 * millisecond) (Fmt AutoDNSRate []),
      validateDNS lib c,
      validatePolicy c,
      validateLMTP lib (ncLMTP (cfNotifications c))]"

section \<open>Load\<close>

text \<open>\<open>read\<close> and \<open>unmarshal\<close> are those of \<open>viper\<close>, for the file and the environment.\<close>

definition load ::
  "configLib \<Rightarrow> ((string \<times> setting) list \<Rightarrow> string \<Rightarrow> err + 'f) \<Rightarrow> ('f \<Rightarrow> err + config) \<Rightarrow> string \<Rightarrow> err + config" where
  "load lib read unmarshal path =
     (case read setDefaults path of
        Inl e \<Rightarrow> Inl e
      | Inr f \<Rightarrow>
         (case unmarshal f of
            Inl e \<Rightarrow> Inl e
          | Inr c \<Rightarrow> (case validate lib c of Some e \<Rightarrow> Inl e | None \<Rightarrow> Inr c)))"

section \<open>ReadSecret\<close>

record fileInfo =
  fiRegular :: bool
  fiPerm :: "32 word"

definition readSecret ::
  "(string \<Rightarrow> ('v, fileInfo) opn) \<Rightarrow> (string \<Rightarrow> ('v, string) opn) \<Rightarrow> string \<Rightarrow> ('v, string) opn" where
  "readSecret lstat readFile path =
     bind (lstat path) (\<lambda>st.
     if \<not> fiRegular st then throw (Fmt SecretNotRegular [AStr path])
     else if and (fiPerm st) 63 \<noteq> 0 then throw (Fmt SecretAccessible [AStr path])
     else
     bind (readFile path) (\<lambda>b.
     let s = trimSpace b
     in if s = [] then throw (Fmt SecretEmpty [AStr path]) else ret s))"

end
