(* ===== verification/Validated.thy ===== *)
theory Validated
  imports Validate
begin

text \<open>What a configuration is that passed validation\<close>

section \<open>The checks\<close>

lemma firstOf_None [simp]: "firstOf checks = None \<longleftrightarrow> (\<forall>check\<in>set checks. check = None)"
  by (induction checks rule: firstOf.induct) auto

lemma reject_None [simp]: "reject bad e = None \<longleftrightarrow> \<not> bad"
  by (simp add: reject_def)

definition under :: "string list \<Rightarrow> string \<Rightarrow> bool" where
  "under root path \<longleftrightarrow> isAbs path \<and> prefix root (cleanElems path)"

lemma pathWithin_under:
  assumes "isAbs path" "isAbs root"
  shows "pathWithin path root \<longleftrightarrow> under (cleanElems root) path"
  using rel_upwards [OF assms(2), of "clean path"] clean_twice [OF assms(1)] assms
  by (auto simp: pathWithin_def under_def upwards_def split: sum.splits)

text \<open>A cleaned path begins with \<open>/run/secrets/\<close> when it lies strictly below that directory.\<close>

lemma strJoin_append:
  "xs \<noteq> [] \<Longrightarrow> ys \<noteq> [] \<Longrightarrow> strJoin sep (xs @ ys) = strJoin sep xs @ sep @ strJoin sep ys"
  by (induction xs) (auto simp: strJoin_Cons)

lemma secret_under:
  "hasPrefix (clean path) ''/run/secrets/'' \<longleftrightarrow> isAbs path \<and> strict_prefix [''run'', ''secrets''] (cleanElems path)"
proof (cases "isAbs path")
  case True
  have plain: "\<forall>e\<in>set (cleanElems path). plainElem e"
    using cleanElems_plain [OF True] by blast
  have "hasPrefix (strJoin ''/'' es) ''run/secrets/'' \<longleftrightarrow> (\<exists>x xs. es = ''run'' # ''secrets'' # x # xs)"
    if plain: "\<forall>e\<in>set es. plainElem e" for es
  proof
    assume "hasPrefix (strJoin ''/'' es) ''run/secrets/''"
    then obtain rest where rest: "strJoin ''/'' es = ''run'' @ slash # (''secrets'' @ slash # rest)"
      unfolding hasPrefix_def by (metis append_Cons append_Nil append_take_drop_id)
    then have "es \<noteq> []" by (cases es) auto
    then have "es = splitAt slash (strJoin ''/'' es)"
      using plain by (simp add: splitAt_strJoin plainElem_def)
    also have "\<dots> = ''run'' # ''secrets'' # splitAt slash rest"
      unfolding rest by (subst splitAt_append, simp, subst splitAt_append) simp_all
    finally show "\<exists>x xs. es = ''run'' # ''secrets'' # x # xs"
      by (cases "splitAt slash rest") simp_all
  qed (auto simp: hasPrefix_def strJoin_Cons)
  moreover have "strict_prefix [''run'', ''secrets''] es \<longleftrightarrow> (\<exists>x xs. es = ''run'' # ''secrets'' # x # xs)" for es
    by (cases es; cases "tl es"; cases "tl (tl es)") (auto simp: strict_prefix_def)
  moreover have "hasPrefix (clean path) ''/run/secrets/'' \<longleftrightarrow> hasPrefix (strJoin ''/'' (cleanElems path)) ''run/secrets/''"
    using True by (simp add: clean_abs hasPrefix_def)
  ultimately show ?thesis using plain True by (simp only: simp_thms)
next
  case False
  then have "\<not> isAbs (clean path)" by (simp add: isAbs_clean)
  then have "\<not> hasPrefix (clean path) ''/run/secrets/''"
    by (cases "clean path") (auto simp: isAbs_def hasPrefix_def)
  with False show ?thesis by simp
qed

lemma secretPaths_None:
  "secretPaths ps = None \<longleftrightarrow> (\<forall>p\<in>set ps. isAbs p \<and> strict_prefix [''run'', ''secrets''] (cleanElems p))"
  by (induction ps) (auto simp: secret_under)

definition hostPort :: "string \<Rightarrow> bool" where
  "hostPort a \<longleftrightarrow> (\<exists>host port. splitHostPort a = Inr (host, port))"

lemma resolversLoop_None:
  "resolversLoop seen rs = None \<longleftrightarrow> distinct rs \<and> set rs \<inter> set seen = {} \<and> (\<forall>r\<in>set rs. hostPort r)"
  by (induction seen rs rule: resolversLoop.induct) (auto simp: hostPort_def split: sum.splits)

lemma nameserversLoop_Inr:
  "nameserversLoop lib seen ss = Inr out \<longleftrightarrow>
     (\<forall>s\<in>set ss. clIsDomainName lib (nameserverName s)) \<and> distinct (map nameserverName ss)
     \<and> nameserverName ` set ss \<inter> set seen = {} \<and> out = rev (map nameserverName ss) @ seen"
  by (induction lib seen ss arbitrary: out rule: nameserversLoop.induct) (auto simp: Let_def)

text \<open>The endpoint is given by the name of one of the nameservers.\<close>

definition namedEndpoint :: "configLib \<Rightarrow> string list \<Rightarrow> string \<Rightarrow> bool" where
  "namedEndpoint lib names a \<longleftrightarrow>
     (\<exists>host port. splitHostPort a = Inr (host, port) \<and> clParseIP lib host = None \<and> toLower (fqdn host) \<in> set names)"

lemma endpointsLoop_None: "endpointsLoop lib seen es = None \<longleftrightarrow> (\<forall>e\<in>set es. namedEndpoint lib seen e)"
  by (induction lib seen es rule: endpointsLoop.induct) (auto simp: namedEndpoint_def split: sum.splits)

definition safeMailbox :: "configLib \<Rightarrow> string \<Rightarrow> bool" where
  "safeMailbox lib value \<longleftrightarrow> set value \<inter> set lineBreaks = {} \<and> (\<exists>address. clParseAddress lib value = Inr address \<and> address \<noteq> [])"

lemma parseMailbox_safe: "(\<exists>address. parseMailbox lib value = Inr address) \<longleftrightarrow> safeMailbox lib value"
  by (auto simp: parseMailbox_def safeMailbox_def containsAny_def list_ex_iff split: sum.splits)

lemma parseMailbox_None:
  "(case parseMailbox lib value of Inl e \<Rightarrow> Some (f e) | Inr address \<Rightarrow> None) = None \<longleftrightarrow> safeMailbox lib value"
  unfolding parseMailbox_safe [symmetric] by (simp split: sum.split)

lemma recipientsLoop_None: "recipientsLoop lib rs = None \<longleftrightarrow> (\<forall>r\<in>set rs. safeMailbox lib r)"
  by (induction rs) (auto simp: parseMailbox_safe [symmetric] split: sum.splits)

section \<open>The specification\<close>

definition validPaths :: "controllerConfig \<Rightarrow> bool" where
  "validPaths c \<longleftrightarrow> under [''var'', ''lib'', ''dnssec-keyrotation''] (ccStateFile c)
     \<and> under [''run'', ''dnssec-keyrotation''] (ccSocket c)"

definition validTimes :: "config \<Rightarrow> bool" where
  "validTimes c \<longleftrightarrow>
     10 * second \<le> ccReconcileInterval (cfController c) \<and> minute \<le> ccPropagationMargin (cfController c)
     \<and> 24 * hour \<le> ccIdempotencyRetention (cfController c) \<and> 334 * millisecond \<le> acMinimumRequestInterval (cfAutoDNS c)
     \<and> 24 * hour \<le> rcZSKInterval (cfRotation c) \<and> 30 * 24 * hour \<le> rcKSKInterval (cfRotation c)
     \<and> hour \<le> rcMinimumDNSKEYWait (cfRotation c) \<and> 48 * hour \<le> rcMinimumParentWait (cfRotation c)
     \<and> 24 * hour \<le> ecDiscoveryGrace (cfEnrollment c)"

definition validServices :: "configLib \<Rightarrow> config \<Rightarrow> bool" where
  "validServices lib c \<longleftrightarrow>
     (\<exists>p. clParseURL lib (pcURL (cfPowerDNS c)) = Inr p \<and> urScheme p = ''http''
        \<and> (urHostname p = ''localhost'' \<or> (\<exists>ip. clParseIP lib (urHostname p) = Some ip \<and> ipLoopback ip)))
     \<and> (\<exists>a. clParseURL lib (acURL (cfAutoDNS c)) = Inr a \<and> urScheme a = ''https'' \<and> urHost a \<noteq> []
        \<and> urHostname a \<in> {''api.autodns.com'', ''api.demo.autodns.com''})
     \<and> (\<forall>p\<in>{pcAPIKeyFile (cfPowerDNS c), acPasswordFile (cfAutoDNS c)}.
          isAbs p \<and> strict_prefix [''run'', ''secrets''] (cleanElems p))
     \<and> 0 < acContext (cfAutoDNS c) \<and> acUsername (cfAutoDNS c) \<noteq> []"

definition validServers :: "configLib \<Rightarrow> bool \<Rightarrow> dnsConfig \<Rightarrow> bool" where
  "validServers lib enrolling d \<longleftrightarrow>
     2 \<le> length (dcResolvers d) \<and> distinct (dcResolvers d) \<and> (\<forall>r\<in>set (dcResolvers d). hostPort r)
     \<and> hostPort (dcLocalAuthoritative d) \<and> 2 \<le> length (dcAuthoritativeServers d)
     \<and> (\<forall>s\<in>set (dcExpectedNameservers d). clIsDomainName lib (nameserverName s))
     \<and> distinct (map nameserverName (dcExpectedNameservers d))
     \<and> (enrolling \<longrightarrow> length (dcAuthoritativeServers d) = length (dcExpectedNameservers d)
          \<and> (\<forall>e\<in>set (dcAuthoritativeServers d). namedEndpoint lib (map nameserverName (dcExpectedNameservers d)) e))"

definition validEnrollment :: "enrollmentConfig \<Rightarrow> bool" where
  "validEnrollment e \<longleftrightarrow> ecScope e \<in> {''none'', ''all_selected''} \<and> (ecEnabled e \<longrightarrow> ecScope e = ''all_selected'')
     \<and> ecMaxPending e \<in> {1..100} \<and> ecMaxNewPerDay e \<in> {1..100} \<and> ecAllowedAlgorithms e \<noteq> []"

definition validDelivery :: "configLib \<Rightarrow> lmtpConfig \<Rightarrow> bool" where
  "validDelivery lib l \<longleftrightarrow> (lcEnabled l \<longrightarrow>
     (\<exists>host port ip. splitHostPort (lcAddress l) = Inr (host, port) \<and> clParseIP lib host = Some ip \<and> (ipPrivate ip \<or> ipLoopback ip))
     \<and> lcHostname l \<noteq> [] \<and> set (lcHostname l) \<inter> set lineBreaks = {} \<and> clIsDomainName lib (fqdn (lcHostname l))
     \<and> lcTimeout l \<in> {second..minute} \<and> safeMailbox lib (lcFrom l)
     \<and> lcTo l \<noteq> [] \<and> (\<forall>r\<in>set (lcTo l). safeMailbox lib r))"

definition validConfig :: "configLib \<Rightarrow> config \<Rightarrow> bool" where
  "validConfig lib c \<longleftrightarrow> cfMode c \<in> {''observe'', ''enforce''} \<and> validTimes c \<and> validPaths (cfController c)
     \<and> validServices lib c \<and> validServers lib (ecEnabled (cfEnrollment c)) (cfDNS c)
     \<and> \<not> rcAutoMigrateCSK (cfRotation c) \<and> validEnrollment (cfEnrollment c)
     \<and> validDelivery lib (ncLMTP (cfNotifications c))"

section \<open>Validation decides the specification\<close>

lemma roots:
  "cleanElems ''/var/lib/dnssec-keyrotation'' = [''var'', ''lib'', ''dnssec-keyrotation'']"
  "cleanElems ''/run/dnssec-keyrotation'' = [''run'', ''dnssec-keyrotation'']"
  "isAbs ''/var/lib/dnssec-keyrotation''" "isAbs ''/run/dnssec-keyrotation''"
  by code_simp+

lemma validPaths_checks:
  "(isAbs (ccStateFile c) \<and> isAbs (ccSocket c)) \<and> pathWithin (ccStateFile c) ''/var/lib/dnssec-keyrotation''
     \<and> pathWithin (ccSocket c) ''/run/dnssec-keyrotation'' \<longleftrightarrow> validPaths c"
proof -
  have "isAbs p \<and> pathWithin p root \<longleftrightarrow> under (cleanElems root) p" if "isAbs root" for p root
    by (cases "isAbs p") (simp_all add: pathWithin_under that under_def)
  from this [OF roots(3), of "ccStateFile c"] this [OF roots(4), of "ccSocket c"] show ?thesis
    unfolding validPaths_def roots by satx
qed

lemma validateController_None:
  "validateController c = None \<longleftrightarrow> cfMode c \<in> {''observe'', ''enforce''} \<and> validPaths (cfController c)
     \<and> 10 * second \<le> ccReconcileInterval (cfController c) \<and> minute \<le> ccPropagationMargin (cfController c)
     \<and> 24 * hour \<le> ccIdempotencyRetention (cfController c)"
  unfolding validPaths_checks [symmetric] validateController_def firstOf_None list.set ball_simps reject_None not_less
    insert_iff empty_iff de_Morgan_disj de_Morgan_conj not_not simp_thms
  by satx

lemma validateURLs_None:
  "validateURLs lib c = None \<and> secretPaths [pcAPIKeyFile (cfPowerDNS c), acPasswordFile (cfAutoDNS c)] = None
   \<and> 0 < acContext (cfAutoDNS c) \<and> acUsername (cfAutoDNS c) \<noteq> [] \<longleftrightarrow> validServices lib c"
  by (auto simp: validateURLs_def validServices_def secretPaths_None simp del: secretPaths.simps split: sum.splits option.splits)

lemma validateDNS_None: "validateDNS lib c = None \<longleftrightarrow> validServers lib (ecEnabled (cfEnrollment c)) (cfDNS c)"
proof -
  let ?d = "cfDNS c"
  have "(case nameserversLoop lib [] (dcExpectedNameservers ?d) of
        Inl e \<Rightarrow> Some e
      | Inr seen \<Rightarrow>
          if ecEnabled (cfEnrollment c) then firstOf
            [reject (length (dcAuthoritativeServers ?d) \<noteq> length seen) (Fmt EnrollAuthMatch []),
             endpointsLoop lib seen (dcAuthoritativeServers ?d)]
          else None) = None \<longleftrightarrow>
     (\<forall>s\<in>set (dcExpectedNameservers ?d). clIsDomainName lib (nameserverName s))
     \<and> distinct (map nameserverName (dcExpectedNameservers ?d))
     \<and> (ecEnabled (cfEnrollment c) \<longrightarrow> length (dcAuthoritativeServers ?d) = length (dcExpectedNameservers ?d)
          \<and> (\<forall>e\<in>set (dcAuthoritativeServers ?d). namedEndpoint lib (map nameserverName (dcExpectedNameservers ?d)) e))"
  proof (cases "nameserversLoop lib [] (dcExpectedNameservers ?d)")
    case (Inl e)
    with nameserversLoop_Inr [of lib "[]" "dcExpectedNameservers ?d" "rev (map nameserverName (dcExpectedNameservers ?d))"]
    show ?thesis by auto
  next
    case (Inr seen)
    with nameserversLoop_Inr [of lib "[]" "dcExpectedNameservers ?d" seen]
    have "seen = rev (map nameserverName (dcExpectedNameservers ?d))"
        "\<forall>s\<in>set (dcExpectedNameservers ?d). clIsDomainName lib (nameserverName s)"
        "distinct (map nameserverName (dcExpectedNameservers ?d))"
      by auto
    with Inr show ?thesis by (simp add: endpointsLoop_None namedEndpoint_def)
  qed
  moreover have "(case splitHostPort a of Inl e \<Rightarrow> Some (f e) | Inr x \<Rightarrow> None) = None \<longleftrightarrow> hostPort a" for a f
    by (auto simp: hostPort_def split: sum.splits)
  ultimately show ?thesis
    by (auto simp: validateDNS_def Let_def validServers_def resolversLoop_None)
qed

lemma validateLMTP_None: "validateLMTP lib l = None \<longleftrightarrow> validDelivery lib l"
  by (auto simp: validateLMTP_def validDelivery_def parseMailbox_None recipientsLoop_None containsAny_def list_ex_iff
      split: sum.splits option.splits)


section \<open>What validation lets through\<close>

text \<open>
  A configuration for enrollment that names one authoritative server twice and another expected
  name server not at all; the state file is the state directory itself.
\<close>

definition looseLib :: configLib where
  "looseLib = \<lparr>clParseURL = (\<lambda>t. if hasPrefix t ''https'' then Inr \<lparr>urScheme = ''https'', urHost = ''api.autodns.com'', urHostname = ''api.autodns.com''\<rparr>
       else Inr \<lparr>urScheme = ''http'', urHost = ''localhost:8081'', urHostname = ''localhost''\<rparr>),
     clParseIP = (\<lambda>t. None), clIsDomainName = (\<lambda>t. True), clParseAddress = (\<lambda>t. Inr t)\<rparr>"

definition looseConfig :: config where
  "looseConfig =
     \<lparr>cfMode = ''enforce'', cfLog = \<lparr>lgLevel = ''info''\<rparr>,
      cfController = \<lparr>ccReconcileInterval = minute, ccPropagationMargin = 2 * hour,
        ccStateFile = ''/var/lib/x/../dnssec-keyrotation'', ccSocket = ''/run/dnssec-keyrotation/control.sock'',
        ccIdempotencyRetention = 8760 * hour\<rparr>,
      cfPowerDNS = \<lparr>pcURL = ''http://localhost:8081'', pcServerID = ''localhost'', pcAPIKeyFile = ''/run/secrets/p'', pcTimeout = second\<rparr>,
      cfAutoDNS = \<lparr>acURL = ''https://api.autodns.com/v1'', acUsername = ''u'', acPasswordFile = ''/run/secrets/a'', acContext = 4,
        acTimeout = second, acMinimumRequestInterval = second\<rparr>,
      cfDNS = \<lparr>dcResolvers = [''r:53'', ''s:53''], dcAuthoritativeServers = [''a:53'', ''a:54''],
        dcExpectedNameservers = [''a'', ''b''], dcLocalAuthoritative = ''l:53'', dcTimeout = second\<rparr>,
      cfRotation = \<lparr>rcAlgorithm = ''ED448'', rcZSKInterval = 720 * hour, rcKSKInterval = 4368 * hour, rcAutoMigrateCSK = False,
        rcMinimumDNSKEYWait = 24 * hour, rcMinimumParentWait = 48 * hour, rcIncludeZones = [], rcExcludeZones = []\<rparr>,
      cfEnrollment = \<lparr>ecEnabled = True, ecScope = ''all_selected'', ecDiscoveryGrace = 24 * hour, ecMaxPending = 10,
        ecMaxNewPerDay = 5, ecAllowedAlgorithms = [''ED448''], ecIncludeZones = [], ecExcludeZones = []\<rparr>,
      cfNotifications = \<lparr>ncLMTP = \<lparr>lcEnabled = False, lcAddress = [], lcHostname = [], lcFrom = [], lcTo = [], lcTimeout = second\<rparr>\<rparr>\<rparr>"

theorem validation_admits_unasked_nameserver:
  "validate looseLib looseConfig = None \<and> ecEnabled (cfEnrollment looseConfig)
   \<and> ''b.'' \<in> set (map nameserverName (dcExpectedNameservers (cfDNS looseConfig)))
   \<and> (\<forall>e\<in>set (dcAuthoritativeServers (cfDNS looseConfig)). \<not> namedEndpoint looseLib [''b.''] e)
   \<and> clean (ccStateFile (cfController looseConfig)) = ''/var/lib/dnssec-keyrotation''"
proof (intro conjI)
  show "validate looseLib looseConfig = None" by code_simp
  show "ecEnabled (cfEnrollment looseConfig)" by code_simp
  show "''b.'' \<in> set (map nameserverName (dcExpectedNameservers (cfDNS looseConfig)))" by code_simp
  have "\<not> namedEndpoint looseLib [''b.''] e" if "splitHostPort e = Inr (''a'', port)" for e port
    using that by (simp add: namedEndpoint_def toLower_def fqdn_def isFqdn_def lowerChar_code)
  moreover have "splitHostPort ''a:53'' = Inr (''a'', ''53'')" "splitHostPort ''a:54'' = Inr (''a'', ''54'')"
    by code_simp+
  ultimately show "\<forall>e\<in>set (dcAuthoritativeServers (cfDNS looseConfig)). \<not> namedEndpoint looseLib [''b.''] e"
    by (simp add: looseConfig_def)
  show "clean (ccStateFile (cfController looseConfig)) = ''/var/lib/dnssec-keyrotation''" by code_simp
qed

end
