(* ===== verification/Files.thy ===== *)
theory Files
  imports Effects
begin

text \<open>
  The part of the file system that \<open>internal/state/store.go\<close> relies on: one directory whose
  changes reach the disk in order but not at once, and files whose content is on the disk for
  certain only after \<open>Sync\<close>. Any system call may fail.
\<close>

section \<open>The disk\<close>

text \<open>
  The directory maps names to files; \<open>dkOld\<close> are its earlier versions that a power loss may
  bring back. \<open>dkNow\<close> is the content that a reader sees, \<open>dkSafe\<close> the content that is on the
  disk. Files are numbered; \<open>dkNext\<close> is the next number.
\<close>

record disk =
  dkDir :: "(string \<times> nat) list"
  dkOld :: "(string \<times> nat) list list"
  dkNow :: "(nat \<times> string) list"
  dkSafe :: "(nat \<times> string) list"
  dkNext :: nat

datatype syscall =
    MkdirAll string
  | OpenLock string
  | Flock string
  | Unlock string
  | ReadFile string
  | CreateTemp string
  | Chmod string
  | Write string string
  | SyncFile string
  | CloseFile string
  | Rename string string
  | RemoveFile string
  | OpenDir string
  | SyncDir string
  | CloseDir string

definition newFile :: "string \<Rightarrow> disk \<Rightarrow> disk" where
  "newFile name d =
     d\<lparr>dkDir := mput name (dkNext d) (dkDir d), dkOld := dkDir d # dkOld d, dkNow := mput (dkNext d) [] (dkNow d),
       dkSafe := mdel (dkNext d) (dkSafe d), dkNext := Suc (dkNext d)\<rparr>"

text \<open>What a call does to the disk when it succeeds\<close>

fun effect :: "syscall \<Rightarrow> disk \<Rightarrow> disk" where
  "effect (OpenLock name) d = (if mget (dkDir d) name = None then newFile name d else d)"
| "effect (CreateTemp name) d = newFile name d"
| "effect (Write name b) d =
     (case mget (dkDir d) name of
        None \<Rightarrow> d
      | Some i \<Rightarrow> d\<lparr>dkNow := mput i (case mget (dkNow d) i of None \<Rightarrow> b | Some a \<Rightarrow> a @ b) (dkNow d), dkSafe := mdel i (dkSafe d)\<rparr>)"
| "effect (SyncFile name) d =
     (case mget (dkDir d) name of
        None \<Rightarrow> d
      | Some i \<Rightarrow> (case mget (dkNow d) i of None \<Rightarrow> d | Some b \<Rightarrow> d\<lparr>dkSafe := mput i b (dkSafe d)\<rparr>))"
| "effect (Rename a b) d =
     (case mget (dkDir d) a of
        None \<Rightarrow> d
      | Some i \<Rightarrow> d\<lparr>dkDir := mput b i (mdel a (dkDir d)), dkOld := dkDir d # dkOld d\<rparr>)"
| "effect (RemoveFile name) d = d\<lparr>dkDir := mdel name (dkDir d), dkOld := dkDir d # dkOld d\<rparr>"
| "effect (SyncDir name) d = d\<lparr>dkOld := []\<rparr>"
| "effect _ d = d"

text \<open>The content of a file that a reader sees\<close>

definition content :: "disk \<Rightarrow> string \<Rightarrow> string option" where
  "content d name = (case mget (dkDir d) name of None \<Rightarrow> None | Some i \<Rightarrow> mget (dkNow d) i)"

text \<open>
  After a power loss: some version of the directory, the synced content of the files; a file that
  was not synced may hold anything.
\<close>

definition reboots :: "disk \<Rightarrow> disk \<Rightarrow> bool" where
  "reboots d d' \<longleftrightarrow>
     dkDir d' \<in> set (dkDir d # dkOld d) \<and> dkOld d' = [] \<and> dkNext d' = dkNext d
     \<and> (\<forall>i b. mget (dkSafe d) i = Some b \<longrightarrow> mget (dkSafe d') i = Some b \<and> mget (dkNow d') i = Some b)"

section \<open>System calls\<close>

text \<open>
  \<open>osFail\<close> decides whether a call fails; \<open>osTemp\<close> is the random number in the name of a temporary
  file; \<open>osWritten\<close> is how much a failing \<open>write\<close> has written.
\<close>

record 'v os =
  osFail :: "syscall \<Rightarrow> 'v \<Rightarrow> err option \<times> 'v"
  osTemp :: "'v \<Rightarrow> nat"
  osWritten :: "'v \<Rightarrow> nat"

text \<open>\<open>fsPast\<close> are the disks between the calls made so far; the code never reads it.\<close>

record 'v fs =
  fsWorld :: 'v
  fsDisk :: disk
  fsPast :: "disk list"

definition applyCall :: "syscall \<Rightarrow> 'v fs \<Rightarrow> 'v fs" where
  "applyCall c s = s\<lparr>fsDisk := effect c (fsDisk s), fsPast := fsPast s @ [effect c (fsDisk s)]\<rparr>"

definition syscall :: "'v os \<Rightarrow> syscall \<Rightarrow> ('v fs, unit) opn" where
  "syscall os c = (\<lambda>s. case osFail os c (fsWorld s) of
     (Some e, w) \<Rightarrow> (Inl e, s\<lparr>fsWorld := w\<rparr>)
   | (None, w) \<Rightarrow> (Inr (), applyCall c (s\<lparr>fsWorld := w\<rparr>)))"

text \<open>A failing write leaves a part of the text in the file.\<close>

definition writeFile :: "'v os \<Rightarrow> string \<Rightarrow> string \<Rightarrow> ('v fs, unit) opn" where
  "writeFile os name b = (\<lambda>s. case osFail os (Write name b) (fsWorld s) of
     (Some e, w) \<Rightarrow> (Inl e, applyCall (Write name (take (osWritten os w) b)) (s\<lparr>fsWorld := w\<rparr>))
   | (None, w) \<Rightarrow> (Inr (), applyCall (Write name b) (s\<lparr>fsWorld := w\<rparr>)))"

text \<open>\<open>os.ReadFile\<close>: the content, or nothing when the file does not exist\<close>

definition readFile :: "'v os \<Rightarrow> string \<Rightarrow> ('v fs, string option) opn" where
  "readFile os name = bind (syscall os (ReadFile name)) (\<lambda>_ s. (Inr (content (fsDisk s) name), s))"

text \<open>\<open>os.CreateTemp(dir, ".state-*")\<close>: a name that does not exist yet\<close>

definition tempName :: "string \<Rightarrow> nat \<Rightarrow> string" where
  "tempName dir n = (if dir \<noteq> [] \<and> last dir = CHR 0x2F then dir else dir @ ''/'') @ ''.state-'' @ natDigits n"

definition FileExists :: msg where
  "FileExists = ''file already exists''"

definition createTemp :: "'v os \<Rightarrow> string \<Rightarrow> ('v fs, string) opn" where
  "createTemp os dir = (\<lambda>s.
     let name = tempName dir (osTemp os (fsWorld s))
     in if mget (dkDir (fsDisk s)) name \<noteq> None then (Inl (Fmt FileExists []), s)
        else bind (syscall os (CreateTemp name)) (\<lambda>_. ret name) s)"

end
