(* ===== verification/Store.thy ===== *)
theory Store
  imports Files Io Paths
begin

text \<open>
  \<open>internal/state/store.go\<close>: the store over the file system. \<open>json.MarshalIndent\<close> and
  \<open>json.Unmarshal\<close> are parameters.
\<close>

section \<open>Documents\<close>

text \<open>\<open>Unmarshal\<close> can leave a map nil; it changes an existing document.\<close>

record document =
  dcVersion :: int
  dcEnrollmentArmedAt :: time
  dcWorkflows :: "(string \<times> workflow) list option"
  dcIdempotency :: "(string \<times> string) list option"
  dcNotifications :: "(string \<times> notification) list option"

record codec =
  cdMarshal :: "state \<Rightarrow> err + string"
  cdUnmarshal :: "string \<Rightarrow> document \<Rightarrow> err + document"

definition currentVersion :: int where
  "currentVersion = 3"

definition freshDocument :: document where
  "freshDocument = \<lparr>dcVersion = currentVersion, dcEnrollmentArmedAt = 0, dcWorkflows = Some [], dcIdempotency = Some [],
     dcNotifications = Some []\<rparr>"

text \<open>The three checks for nil maps\<close>

definition orEmpty :: "'a list option \<Rightarrow> 'a list" where
  "orEmpty m = (case m of None \<Rightarrow> [] | Some x \<Rightarrow> x)"

definition filledState :: "document \<Rightarrow> state" where
  "filledState d = \<lparr>sVersion = dcVersion d, sEnrollmentArmedAt = dcEnrollmentArmedAt d, sWorkflows = orEmpty (dcWorkflows d),
     sIdempotency = orEmpty (dcIdempotency d), sNotifications = orEmpty (dcNotifications d)\<rparr>"

section \<open>writeAtomic\<close>

text \<open>The deferred function: it closes the file again, and removes it unless all went well.\<close>

definition cleanup :: "'v os \<Rightarrow> string \<Rightarrow> ('v fs, unit) opn \<Rightarrow> ('v fs, unit) opn" where
  "cleanup os name body =
     bind (attempt body) (\<lambda>r.
     bind (attempt (syscall os (CloseFile name))) (\<lambda>_.
     case r of
       Inr _ \<Rightarrow> ret ()
     | Inl e \<Rightarrow> bind (attempt (syscall os (RemoveFile name))) (\<lambda>_. throw e)))"

definition syncDirectory :: "'v os \<Rightarrow> string \<Rightarrow> ('v fs, unit) opn" where
  "syncDirectory os d =
     bind (syscall os (OpenDir d)) (\<lambda>_.
     bind (attempt (syscall os (SyncDir d))) (\<lambda>r.
     case r of
       Inl e \<Rightarrow> bind (attempt (syscall os (CloseDir d))) (\<lambda>_. throw e)
     | Inr _ \<Rightarrow> syscall os (CloseDir d)))"

definition writeAtomic :: "'v os \<Rightarrow> codec \<Rightarrow> string \<Rightarrow> state \<Rightarrow> ('v fs, unit) opn" where
  "writeAtomic os j path data =
     (let d = dir path in
      bind (syscall os (MkdirAll d)) (\<lambda>_.
      bind (pureE (cdMarshal j data)) (\<lambda>b.
      bind (createTemp os d) (\<lambda>name.
      cleanup os name
        (bind (syscall os (Chmod name)) (\<lambda>_.
         bind (writeFile os name b) (\<lambda>_.
         bind (syscall os (SyncFile name)) (\<lambda>_.
         bind (syscall os (CloseFile name)) (\<lambda>_.
         bind (syscall os (Rename name path)) (\<lambda>_.
         syncDirectory os d))))))))))"

section \<open>The store\<close>

record store =
  stPath :: string
  stData :: state
  stLock :: bool

definition lockName :: "string \<Rightarrow> string" where
  "lockName path = path @ ''.lock''"

text \<open>\<open>Close\<close> returns the store without the lock, and the error of closing the lock file.\<close>

definition closeStore :: "'v os \<Rightarrow> store \<Rightarrow> ('v fs, store \<times> err option) opn" where
  "closeStore os st =
     (if \<not> stLock st then ret (st, None)
      else bind (attempt (syscall os (Unlock (lockName (stPath st))))) (\<lambda>_.
           bind (attempt (syscall os (CloseFile (lockName (stPath st))))) (\<lambda>r.
           ret (st\<lparr>stLock := False\<rparr>, case r of Inl e \<Rightarrow> Some e | Inr _ \<Rightarrow> None))))"

text \<open>\<open>_ = s.Close(); return nil, err\<close>\<close>

definition abandon :: "'v os \<Rightarrow> string \<Rightarrow> err \<Rightarrow> ('v fs, 'a) opn" where
  "abandon os path e =
     bind (closeStore os \<lparr>stPath = path, stData = filledState freshDocument, stLock = True\<rparr>) (\<lambda>_. throw e)"

text \<open>The document in the file, or the fresh one when there is no file or it is empty\<close>

definition decodeState :: "codec \<Rightarrow> string option \<Rightarrow> err + document" where
  "decodeState j b =
     (case b of
        None \<Rightarrow> Inr freshDocument
      | Some text \<Rightarrow>
          if text = [] then Inr freshDocument
          else case cdUnmarshal j text freshDocument of
            Inl e \<Rightarrow> Inl (Wrap DecodeState [] e)
          | Inr d \<Rightarrow>
              if dcVersion d < 1 \<or> dcVersion d > currentVersion then Inl (Fmt UnsupportedVersion [AInt (dcVersion d)])
              else Inr d)"

definition migrate :: "'v os \<Rightarrow> codec \<Rightarrow> string \<Rightarrow> state \<Rightarrow> ('v fs, state) opn" where
  "migrate os j path st =
     (if sVersion st < currentVersion then
        let new = st\<lparr>sVersion := currentVersion\<rparr>
        in bind (attempt (writeAtomic os j path new)) (\<lambda>r.
           case r of
             Inl e \<Rightarrow> abandon os path (Wrap PersistMigration [AInt (sVersion st), AInt currentVersion] e)
           | Inr _ \<Rightarrow> ret new)
      else ret st)"

definition openStore :: "'v os \<Rightarrow> codec \<Rightarrow> string \<Rightarrow> ('v fs, store) opn" where
  "openStore os j path =
     bind (syscall os (MkdirAll (dir path))) (\<lambda>_.
     bind (syscall os (OpenLock (lockName path))) (\<lambda>_.
     bind (attempt (syscall os (Flock (lockName path)))) (\<lambda>l.
     case l of
       Inl e \<Rightarrow> bind (attempt (syscall os (CloseFile (lockName path)))) (\<lambda>_. throw (Wrap StateLocked [] e))
     | Inr _ \<Rightarrow>
        bind (attempt (readFile os path)) (\<lambda>r.
        case r of
          Inl e \<Rightarrow> abandon os path e
        | Inr b \<Rightarrow>
           (case decodeState j b of
              Inl e \<Rightarrow> abandon os path e
            | Inr doc \<Rightarrow>
                bind (migrate os j path (filledState doc)) (\<lambda>data.
                ret \<lparr>stPath = path, stData = data, stLock = True\<rparr>))))))"

text \<open>The copy of a value is the value; the maps of the copy are its own.\<close>

definition cloneState :: "state \<Rightarrow> state" where
  "cloneState st = \<lparr>sVersion = sVersion st, sEnrollmentArmedAt = sEnrollmentArmedAt st, sWorkflows = sWorkflows st,
     sIdempotency = sIdempotency st, sNotifications = sNotifications st\<rparr>"

definition snapshotStore :: "store \<Rightarrow> state" where
  "snapshotStore st = cloneState (stData st)"

definition updateStore ::
  "'v os \<Rightarrow> codec \<Rightarrow> (state \<Rightarrow> err + state) \<Rightarrow> store \<Rightarrow> ('v fs, store) opn" where
  "updateStore os j fn st =
     bind (pureE (fn (cloneState (stData st)))) (\<lambda>clone.
     bind (writeAtomic os j (stPath st) clone) (\<lambda>_.
     ret (st\<lparr>stData := clone\<rparr>)))"

end
