(* ===== verification/Durable.thy ===== *)
theory Durable
  imports Store
begin

text \<open>
  The state file survives: whatever call fails and wherever the power goes, a store that is opened
  again finds the last document whose update succeeded, or one whose update failed or was cut off
  since.
\<close>

section \<open>What the disk may hold\<close>

text \<open>
  \<open>settled path V d\<close>: in every version of the directory that may come back, the file at \<open>path\<close> is
  absent or on the disk with the content a reader sees, and this is one of the contents \<open>V\<close>.
\<close>

definition versions :: "disk \<Rightarrow> (string \<times> nat) list set" where
  "versions d = insert (dkDir d) (set (dkOld d))"

definition settledIn :: "disk \<Rightarrow> string \<Rightarrow> string option set \<Rightarrow> (string \<times> nat) list \<Rightarrow> bool" where
  "settledIn d path V v \<longleftrightarrow>
     (case mget v path of
        None \<Rightarrow> None \<in> V
      | Some i \<Rightarrow> \<exists>b. mget (dkSafe d) i = Some b \<and> mget (dkNow d) i = Some b \<and> Some b \<in> V)"

definition settled :: "string \<Rightarrow> string option set \<Rightarrow> disk \<Rightarrow> bool" where
  "settled path V d \<longleftrightarrow> (\<forall>v\<in>versions d. settledIn d path V v \<and> (\<forall>name i. mget v name = Some i \<longrightarrow> i < dkNext d))"

lemma settled_mono: "settled path V d \<Longrightarrow> V \<subseteq> W \<Longrightarrow> settled path W d"
  unfolding settled_def settledIn_def by (fastforce split: option.splits)

lemma settled_content: "settled path V d \<Longrightarrow> content d path \<in> V"
  by (auto simp: settled_def settledIn_def versions_def content_def split: option.splits)

lemma reboots_settled: "settled path V d \<Longrightarrow> reboots d d' \<Longrightarrow> settled path V d'"
  unfolding settled_def settledIn_def versions_def reboots_def by (fastforce split: option.splits)

text \<open>The temporary file \<open>i\<close> under \<open>name\<close> is not the file at \<open>path\<close> in any version.\<close>

definition aside :: "string \<Rightarrow> string \<Rightarrow> nat \<Rightarrow> disk \<Rightarrow> bool" where
  "aside path name i d \<longleftrightarrow> mget (dkDir d) name = Some i \<and> (\<forall>v\<in>versions d. mget v path \<noteq> Some i)"

section \<open>The calls of writeAtomic\<close>

lemma newFile_fields [simp]:
  "dkDir (newFile name d) = mput name (dkNext d) (dkDir d)" "dkOld (newFile name d) = dkDir d # dkOld d"
  "dkNow (newFile name d) = mput (dkNext d) [] (dkNow d)" "dkSafe (newFile name d) = mdel (dkNext d) (dkSafe d)"
  "dkNext (newFile name d) = Suc (dkNext d)"
  by (simp_all add: newFile_def)

lemma newFile_settled:
  assumes "settled path V d" "name \<noteq> path"
  shows "settled path V (newFile name d)" "aside path name (dkNext d) (newFile name d)"
proof -
  have old: "settledIn (newFile name d) path V v \<longleftrightarrow> settledIn d path V v" if "v \<in> versions d" for v
  proof (cases "mget v path")
    case (Some i)
    with assms(1) that have "i < dkNext d" by (auto simp: settled_def)
    with Some show ?thesis by (auto simp: settledIn_def mget_mput mget_mdel)
  qed (simp add: settledIn_def)
  have new: "settledIn e path V (mput name n v) \<longleftrightarrow> settledIn e path V v" for e n v
    using assms(2) by (simp add: settledIn_def mget_mput)
  have versions: "versions (newFile name d) = insert (mput name (dkNext d) (dkDir d)) (versions d)"
    by (auto simp: versions_def)
  have "dkDir d \<in> versions d" by (simp add: versions_def)
  then show "settled path V (newFile name d)"
    using assms(1) unfolding settled_def versions by (auto simp: new old mget_mput less_Suc_eq)
  have "mget v path \<noteq> Some (dkNext d)" if "v \<in> versions d" for v
    using assms(1) that by (auto simp: settled_def)
  with assms(2) show "aside path name (dkNext d) (newFile name d)"
    unfolding aside_def versions using \<open>dkDir d \<in> versions d\<close> by (auto simp: mget_mput)
qed

text \<open>Changing the content of a file that is set aside\<close>

lemma content_settled:
  assumes "settled path V d" "aside path name i d"
    and "dkDir d' = dkDir d" "dkOld d' = dkOld d" "dkNext d' = dkNext d"
    and "\<And>k. k \<noteq> i \<Longrightarrow> mget (dkNow d') k = mget (dkNow d) k" "\<And>k. k \<noteq> i \<Longrightarrow> mget (dkSafe d') k = mget (dkSafe d) k"
  shows "settled path V d'" "aside path name i d'"
proof -
  have versions: "versions d' = versions d" by (simp add: versions_def assms)
  have "settledIn d' path V v \<longleftrightarrow> settledIn d path V v" if "v \<in> versions d" for v
    using assms(2) that assms(6,7) by (auto simp: aside_def settledIn_def split: option.splits)
  with assms(1) show "settled path V d'"
    unfolding settled_def versions assms(5) by blast
  from assms(2) show "aside path name i d'"
    by (simp add: aside_def versions assms(3))
qed

definition written :: "nat \<Rightarrow> string \<Rightarrow> disk \<Rightarrow> bool" where
  "written i b d \<longleftrightarrow> mget (dkNow d) i = Some b"

definition synced :: "nat \<Rightarrow> string \<Rightarrow> disk \<Rightarrow> bool" where
  "synced i b d \<longleftrightarrow> mget (dkNow d) i = Some b \<and> mget (dkSafe d) i = Some b"

text \<open>What holds of the disk while the new file is being prepared\<close>

definition prepared :: "string \<Rightarrow> string option set \<Rightarrow> string \<Rightarrow> nat \<Rightarrow> disk \<Rightarrow> bool" where
  "prepared path V name i d \<longleftrightarrow> settled path V d \<and> aside path name i d"

lemma content_prepared:
  assumes "prepared path V name i d" "dkDir d' = dkDir d" "dkOld d' = dkOld d" "dkNext d' = dkNext d"
    and "\<And>k. k \<noteq> i \<Longrightarrow> mget (dkNow d') k = mget (dkNow d) k" "\<And>k. k \<noteq> i \<Longrightarrow> mget (dkSafe d') k = mget (dkSafe d) k"
  shows "prepared path V name i d'"
  using assms(1) unfolding prepared_def by (blast intro: content_settled [OF _ _ assms(2-6)])

lemma create_prepared:
  "settled path V d \<Longrightarrow> name \<noteq> path \<Longrightarrow> prepared path V name (dkNext d) (effect (CreateTemp name) d)
     \<and> written (dkNext d) [] (effect (CreateTemp name) d)"
  by (simp add: prepared_def newFile_settled written_def)

lemma write_prepared:
  assumes "prepared path V name i d" "written i [] d"
  shows "prepared path V name i (effect (Write name b) d) \<and> written i b (effect (Write name b) d)"
proof -
  have eff: "effect (Write name b) d = d\<lparr>dkNow := mput i b (dkNow d), dkSafe := mdel i (dkSafe d)\<rparr>"
    using assms by (simp add: prepared_def aside_def written_def)
  have "prepared path V name i (effect (Write name b) d)"
    unfolding eff by (rule content_prepared [OF assms(1)]) (simp_all add: mget_mdel)
  then show ?thesis by (simp only: eff) (simp add: written_def)
qed

lemma sync_prepared:
  assumes "prepared path V name i d" "written i b d"
  shows "prepared path V name i (effect (SyncFile name) d) \<and> synced i b (effect (SyncFile name) d)"
proof -
  have eff: "effect (SyncFile name) d = d\<lparr>dkSafe := mput i b (dkSafe d)\<rparr>"
    using assms by (simp add: prepared_def aside_def written_def)
  have "prepared path V name i (effect (SyncFile name) d)"
    unfolding eff by (rule content_prepared [OF assms(1)]) simp_all
  then show ?thesis using assms(2) by (simp only: eff) (simp add: synced_def written_def)
qed

text \<open>The new file is in its place, and the old one may still come back.\<close>

definition replaced :: "string \<Rightarrow> string option set \<Rightarrow> string \<Rightarrow> disk \<Rightarrow> bool" where
  "replaced path V b d \<longleftrightarrow> settled path (insert (Some b) V) d
     \<and> (\<exists>i. mget (dkDir d) path = Some i \<and> synced i b d)"

text \<open>A new version of the directory\<close>

lemma version_settled:
  assumes "settled path V d" "dkNow d' = dkNow d" "dkSafe d' = dkSafe d" "dkNext d' = dkNext d"
    and "versions d' \<subseteq> insert v (versions d)" "settledIn d path V v" "\<And>name i. mget v name = Some i \<Longrightarrow> i < dkNext d"
  shows "settled path V d'"
proof -
  have "settledIn d' path V = settledIn d path V"
    by (rule ext) (simp add: settledIn_def assms(2,3) split: option.split)
  with assms show ?thesis by (auto simp: settled_def)
qed

lemma rename_replaced:
  assumes "prepared path V name i d" "synced i b d"
  shows "replaced path V b (effect (Rename name path) d)"
proof -
  let ?dir = "mput path i (mdel name (dkDir d))" and ?V = "insert (Some b) V"
  have eff: "effect (Rename name path) d = d\<lparr>dkDir := ?dir, dkOld := dkDir d # dkOld d\<rparr>"
    using assms by (simp add: prepared_def aside_def)
  have d: "settled path ?V d" "mget (dkDir d) name = Some i"
    using assms(1) by (auto simp: prepared_def aside_def elim: settled_mono)
  then have bound: "mget (dkDir d) n = Some k \<Longrightarrow> k < dkNext d" for n k
    by (auto simp: settled_def versions_def)
  have "settled path ?V (effect (Rename name path) d)"
    unfolding eff
  proof (rule version_settled [OF d(1), where v = ?dir])
    show "settledIn d path ?V ?dir"
      using assms(2) by (simp add: settledIn_def synced_def)
    show "mget ?dir n = Some k \<Longrightarrow> k < dkNext d" for n k
      using bound [OF d(2)] by (auto simp: mget_mput mget_mdel split: if_splits intro: bound)
  qed (auto simp: versions_def)
  then show ?thesis
    using assms(2) by (simp only: replaced_def eff) (simp add: synced_def)
qed

lemma syncDir_replaced: "replaced path V b d \<Longrightarrow> settled path {Some b} (effect (SyncDir folder) d)"
  by (auto simp: replaced_def synced_def settled_def settledIn_def versions_def)

lemma remove_settled:
  assumes "settled path V d" "name \<noteq> path"
  shows "settled path V (effect (RemoveFile name) d)"
proof (rule version_settled [OF assms(1), where v = "mdel name (dkDir d)"])
  have "settledIn d path V (dkDir d)" "\<And>n k. mget (dkDir d) n = Some k \<Longrightarrow> k < dkNext d"
    using assms(1) by (auto simp: settled_def versions_def)
  then show "settledIn d path V (mdel name (dkDir d))" "\<And>n k. mget (mdel name (dkDir d)) n = Some k \<Longrightarrow> k < dkNext d"
    using assms(2) by (auto simp: settledIn_def mget_mdel split: if_splits)
qed (auto simp: versions_def)

lemma lock_settled:
  assumes "settled path V d" "name \<noteq> path"
  shows "settled path V (effect (OpenLock name) d)"
  using assms newFile_settled by auto

section \<open>Runs\<close>

text \<open>A run adds disks to the past; all of them satisfy \<open>P\<close>.\<close>

definition through :: "(disk \<Rightarrow> bool) \<Rightarrow> 'v fs \<Rightarrow> 'v fs \<Rightarrow> bool" where
  "through P s t \<longleftrightarrow> (\<exists>ds. fsPast t = fsPast s @ ds \<and> (\<forall>d\<in>set ds. P d))"

lemma through_refl [simp]: "through P s s"
  by (simp add: through_def)

lemma through_same: "through P s t \<Longrightarrow> fsPast u = fsPast t \<Longrightarrow> through P s u"
  by (simp add: through_def)

lemma through_snoc: "through P s t \<Longrightarrow> fsPast u = fsPast t @ [d] \<Longrightarrow> P d \<Longrightarrow> through P s u"
  by (auto simp: through_def)

lemma through_trans: "through P s t \<Longrightarrow> through P t u \<Longrightarrow> through P s u"
  by (auto simp: through_def)

lemma through_mono: "through P s t \<Longrightarrow> (\<And>d. P d \<Longrightarrow> Q d) \<Longrightarrow> through Q s t"
  by (auto simp: through_def)

text \<open>Some system call may fail.\<close>

definition faulty :: "'v os \<Rightarrow> bool" where
  "faulty os \<longleftrightarrow> (\<exists>c w. fst (osFail os c w) \<noteq> None)"

lemma faultyI: "osFail os c w = (Some e, v) \<Longrightarrow> faulty os"
  unfolding faulty_def by (metis fst_conv option.distinct(1))

lemma wp_syscall:
  assumes "\<And>t e. faulty os \<Longrightarrow> fsDisk t = fsDisk u \<Longrightarrow> fsPast t = fsPast u \<Longrightarrow> Q (Inl e) t"
    and "\<And>t. fsDisk t = effect c (fsDisk u) \<Longrightarrow> fsPast t = fsPast u @ [effect c (fsDisk u)] \<Longrightarrow> Q (Inr ()) t"
  shows "wp (syscall os c) Q u"
  by (cases "osFail os c (fsWorld u)"; cases "fst (osFail os c (fsWorld u))")
    (auto simp: wp_def syscall_def applyCall_def intro: assms faultyI)

lemma wp_writeFile:
  assumes "\<And>t e part. fsDisk t = effect (Write name part) (fsDisk u) \<Longrightarrow> fsPast t = fsPast u @ [effect (Write name part) (fsDisk u)] \<Longrightarrow> Q (Inl e) t"
    and "\<And>t. fsDisk t = effect (Write name b) (fsDisk u) \<Longrightarrow> fsPast t = fsPast u @ [effect (Write name b) (fsDisk u)] \<Longrightarrow> Q (Inr ()) t"
  shows "wp (writeFile os name b) Q u"
  by (cases "osFail os (Write name b) (fsWorld u)"; cases "fst (osFail os (Write name b) (fsWorld u))")
    (auto simp: wp_def writeFile_def applyCall_def simp del: effect.simps intro: assms)

lemma wp_createTemp:
  assumes "\<And>t e. fsDisk t = fsDisk u \<Longrightarrow> fsPast t = fsPast u \<Longrightarrow> Q (Inl e) t"
    and "\<And>t name n. name = tempName folder n \<Longrightarrow> fsDisk t = effect (CreateTemp name) (fsDisk u)
           \<Longrightarrow> fsPast t = fsPast u @ [effect (CreateTemp name) (fsDisk u)] \<Longrightarrow> Q (Inr name) t"
  shows "wp (createTemp os folder) Q u"
proof -
  let ?name = "tempName folder (osTemp os (fsWorld u))"
  have "wp (bind (syscall os (CreateTemp ?name)) (\<lambda>_. ret ?name)) Q u"
    by (intro vcg_bind wp_syscall vcg_Inl vcg_Inr vcg_ret assms) (simp_all del: effect.simps)
  moreover have "Q (Inl (Fmt FileExists [])) u"
    by (rule assms(1)) simp_all
  ultimately show ?thesis
    by (simp add: wp_def createTemp_def Let_def)
qed

section \<open>writeAtomic\<close>

text \<open>
  The run goes through disks that hold a content of \<open>V\<close> or the new one; in the end the new one
  if the run succeeds.
\<close>

definition replaces :: "string \<Rightarrow> string option set \<Rightarrow> string \<Rightarrow> 'v fs \<Rightarrow> err + unit \<Rightarrow> 'v fs \<Rightarrow> bool" where
  "replaces path V b s r t \<longleftrightarrow>
     through (settled path (insert (Some b) V)) s t
     \<and> settled path (case r of Inl e \<Rightarrow> insert (Some b) V | Inr _ \<Rightarrow> {Some b}) (fsDisk t)"

lemma replaces_fail:
  "through (settled path (insert (Some b) V)) s t \<Longrightarrow> settled path (insert (Some b) V) (fsDisk t) \<Longrightarrow> replaces path V b s (Inl e) t"
  by (simp add: replaces_def)

lemmas fs_vcg = vcg_bind vcg_attempt vcg_Inr vcg_Inl vcg_throw vcg_ret vcg_sum wp_syscall

lemma cleanup_replaces:
  assumes "wp body (replaces path V b s) u" "name \<noteq> path"
  shows "wp (cleanup os name body) (replaces path V b s) u"
proof -
  let ?P = "settled path (insert (Some b) V)"
  have "wp (bind (attempt (syscall os (CloseFile name))) (\<lambda>_.
      case r of Inr _ \<Rightarrow> ret () | Inl e \<Rightarrow> bind (attempt (syscall os (RemoveFile name))) (\<lambda>_. throw e)))
      (replaces path V b s) t" if r: "replaces path V b s r t" for r t
  proof -
    from r have t: "through ?P s t" "?P (fsDisk t)"
      by (cases r; auto simp: replaces_def elim: settled_mono)+
    have "?P (effect (RemoveFile name) (fsDisk t))"
      by (rule remove_settled [OF t(2) assms(2)])
    with t r show ?thesis
      by (intro fs_vcg) (auto simp: replaces_def through_def)
  qed
  then show ?thesis
    unfolding cleanup_def
    by (auto intro!: vcg_bind vcg_attempt wp_mono [OF assms(1)] simp del: effect.simps)
qed

lemma syncDirectory_replaces:
  assumes "through (settled path (insert (Some b) V)) s u" "replaced path V b (fsDisk u)"
  shows "wp (syncDirectory os folder) (replaces path V b s) u"
proof -
  let ?P = "settled path (insert (Some b) V)"
  have P: "?P (fsDisk u)" "settled path {Some b} (effect (SyncDir folder) (fsDisk u))"
    using assms(2) by (auto simp: replaced_def simp del: effect.simps intro: syncDir_replaced)
  then have "?P (effect (SyncDir folder) (fsDisk u))"
    by (auto elim: settled_mono simp del: effect.simps)
  with P assms(1) show ?thesis
    unfolding syncDirectory_def
    by (intro fs_vcg) (auto simp: replaces_def through_def)
qed

text \<open>The name of a temporary file is never the name of the state file.\<close>

definition ownName :: "string \<Rightarrow> bool" where
  "ownName path \<longleftrightarrow> (\<forall>n. tempName (dir path) n \<noteq> path) \<and> lockName path \<noteq> path"

lemma prepared_P: "prepared path V name i d \<Longrightarrow> settled path (insert (Some b) V) d"
  by (auto simp: prepared_def elim: settled_mono)

lemma body_replaces:
  assumes "through (settled path (insert (Some b) V)) s u" "prepared path V name i (fsDisk u)" "written i [] (fsDisk u)"
  shows "wp (bind (syscall os (Chmod name)) (\<lambda>_.
         bind (writeFile os name b) (\<lambda>_.
         bind (syscall os (SyncFile name)) (\<lambda>_.
         bind (syscall os (CloseFile name)) (\<lambda>_.
         bind (syscall os (Rename name path)) (\<lambda>_.
         syncDirectory os folder)))))) (replaces path V b s) u"
proof -
  let ?P = "settled path (insert (Some b) V)" and ?d = "fsDisk u"
  have partial: "?P (effect (Write name part) ?d)" for part
    using write_prepared [OF assms(2,3)] by (blast intro: prepared_P)
  have d1: "prepared path V name i (effect (Write name b) ?d)" "written i b (effect (Write name b) ?d)"
    using write_prepared [OF assms(2,3)] by blast+
  have d2: "prepared path V name i (effect (SyncFile name) (effect (Write name b) ?d))"
      "synced i b (effect (SyncFile name) (effect (Write name b) ?d))"
    using sync_prepared [OF d1] by blast+
  have d3: "replaced path V b (effect (Rename name path) (effect (SyncFile name) (effect (Write name b) ?d)))"
    by (rule rename_replaced [OF d2])
  then have P3: "?P (effect (Rename name path) (effect (SyncFile name) (effect (Write name b) ?d)))"
    by (simp only: replaced_def)
  have same: "effect (Chmod name) d = d" "effect (CloseFile name) d = d" for d by simp_all
  note P = prepared_P [OF assms(2)] partial prepared_P [OF d2(1)] P3
  show ?thesis
    apply (intro fs_vcg wp_writeFile syncDirectory_replaces)
    apply (simp_all only: same)
    apply (insert P assms(1) d3)
    apply (auto simp: replaces_def through_def simp del: effect.simps)
    done
qed

theorem writeAtomic_replaces:
  assumes "settled path V (fsDisk s)" "ownName path"
  shows "wp (writeAtomic os j path data) (\<lambda>r t.
      case cdMarshal j data of
        Inl e \<Rightarrow> (\<exists>e'. r = Inl e') \<and> through (settled path V) s t \<and> settled path V (fsDisk t)
      | Inr b \<Rightarrow> replaces path V b s r t) s"
proof (cases "cdMarshal j data")
  case (Inl e)
  with assms(1) show ?thesis
    unfolding writeAtomic_def Let_def
    by (intro fs_vcg vcg_pureE) (auto simp: through_def)
next
  case (Inr b)
  let ?P = "settled path (insert (Some b) V)"
  have P: "?P (fsDisk s)" using assms(1) by (auto elim: settled_mono)
  have name: "name \<noteq> path" if "name = tempName (dir path) n" for name n
    using that assms(2) by (auto simp: ownName_def)
  have new: "prepared path V name (dkNext (fsDisk s)) (effect (CreateTemp name) (fsDisk s))"
      "written (dkNext (fsDisk s)) [] (effect (CreateTemp name) (fsDisk s))"
      "?P (effect (CreateTemp name) (fsDisk s))" if "name = tempName (dir path) n" for name n
    using create_prepared [OF assms(1) name [OF that]] by (auto intro: prepared_P simp del: effect.simps)
  have same: "effect (MkdirAll folder) d = d" for folder d by simp
  show ?thesis
    unfolding writeAtomic_def Let_def Inr sum.case
    by (rule vcg_bind, rule wp_syscall)
      (auto intro!: vcg_Inl vcg_Inr vcg_bind vcg_pureE wp_createTemp cleanup_replaces [OF body_replaces [where i = "dkNext (fsDisk s)"]]
        simp: replaces_def through_def P name new same simp del: effect.simps)
qed

end
