(* ===== verification/Survival.thy ===== *)
theory Survival
  imports Durable
begin

text \<open>
  A store is opened, updated and closed, its process is killed and the machine loses power, in any
  order and in the middle of any operation: what the next \<open>Open\<close> finds.
\<close>

section \<open>Open\<close>

definition upgraded :: "state \<Rightarrow> state" where
  "upgraded st = st\<lparr>sVersion := currentVersion\<rparr>"

text \<open>The document that \<open>Open\<close> writes back when it finds an old version\<close>

definition migrated :: "codec \<Rightarrow> string option \<Rightarrow> state option" where
  "migrated j c = (case decodeState j c of
     Inl _ \<Rightarrow> None
   | Inr d \<Rightarrow> if dcVersion d < currentVersion then Some (upgraded (filledState d)) else None)"

definition texts :: "codec \<Rightarrow> state option \<Rightarrow> string option set" where
  "texts j data = (case data of None \<Rightarrow> {} | Some d \<Rightarrow> (case cdMarshal j d of Inl _ \<Rightarrow> {} | Inr b \<Rightarrow> {Some b}))"

lemma lock_content:
  "settled path V d \<Longrightarrow> name \<noteq> path \<Longrightarrow> content (effect (OpenLock name) d) path = content d path"
  by (fastforce simp: content_def settled_def versions_def mget_mput split: option.splits)

lemma wp_closeStore:
  assumes "\<And>t st' x. fsDisk t = fsDisk s \<Longrightarrow> through (\<lambda>d. d = fsDisk s) s t \<Longrightarrow> Q (Inr (st', x)) t"
  shows "wp (closeStore os st) Q s"
  unfolding closeStore_def by (intro fs_vcg vcg_if) (auto simp: through_def intro!: assms)

lemma wp_abandon:
  assumes "\<And>t. fsDisk t = fsDisk s \<Longrightarrow> through (\<lambda>d. d = fsDisk s) s t \<Longrightarrow> Q (Inl e) t"
  shows "wp (abandon os path e) Q s"
  unfolding abandon_def by (intro vcg_bind wp_closeStore vcg_Inr vcg_throw assms)

lemma through_still: "through (\<lambda>d. d = fsDisk s) s t \<Longrightarrow> P (fsDisk s) \<Longrightarrow> through P s t"
  by (auto simp: through_def)

text \<open>What writing a document does\<close>

definition tries :: "codec \<Rightarrow> string \<Rightarrow> string option set \<Rightarrow> state \<Rightarrow> 'v fs \<Rightarrow> err + 'a \<Rightarrow> 'v fs \<Rightarrow> bool" where
  "tries j path V data s r t \<longleftrightarrow>
     through (settled path (V \<union> texts j (Some data))) s t
     \<and> settled path (case r of Inl e \<Rightarrow> V \<union> texts j (Some data) | Inr _ \<Rightarrow> texts j (Some data)) (fsDisk t)"

lemma writeAtomic_tries:
  assumes "settled path V (fsDisk s)" "ownName path"
  shows "wp (writeAtomic os j path data) (tries j path V data s) s"
  by (rule wp_mono [OF writeAtomic_replaces [OF assms]])
    (auto simp: tries_def texts_def replaces_def split: sum.splits)

lemma tries_trans:
  "through (settled path V) s u \<Longrightarrow> tries j path V data u r t \<Longrightarrow> tries j path V data s r t"
  by (auto simp: tries_def intro: through_trans through_mono [OF _ settled_mono])

lemma migrate_tries:
  assumes "settled path V (fsDisk s)" "ownName path"
  shows "wp (migrate os j path st) (\<lambda>r t.
     if sVersion st < currentVersion then tries j path V (upgraded st) s r t \<and> (\<forall>x. r = Inr x \<longrightarrow> x = upgraded st)
     else r = Inr st \<and> t = s) s"
proof (cases "sVersion st < currentVersion")
  case True
  let ?Q = "\<lambda>r t. tries j path V (upgraded st) s r t \<and> (\<forall>x. r = Inr x \<longrightarrow> x = upgraded st)"
  have "wp (case q of Inl e \<Rightarrow> abandon os path (Wrap PersistMigration [AInt (sVersion st), AInt currentVersion] e)
      | Inr _ \<Rightarrow> ret (upgraded st)) ?Q t" if q: "tries j path V (upgraded st) s q t" for q :: "err + unit" and t
  proof (cases q)
    case (Inl e)
    with q have t: "through (settled path (V \<union> texts j (Some (upgraded st)))) s t"
      "settled path (V \<union> texts j (Some (upgraded st))) (fsDisk t)" by (simp_all add: tries_def)
    show ?thesis
      unfolding Inl sum.case
    proof (rule wp_abandon)
      fix u assume u: "fsDisk u = fsDisk t" "through (\<lambda>d. d = fsDisk t) t u"
      from through_trans [OF t(1) through_still [of t u "settled path (V \<union> texts j (Some (upgraded st)))"]] t u
      show "?Q (Inl (Wrap PersistMigration [AInt (sVersion st), AInt currentVersion] e)) u"
        by (simp add: tries_def)
    qed
  next
    case (Inr x)
    with q show ?thesis by (auto simp: wp_simps tries_def)
  qed
  then show ?thesis
    using True unfolding migrate_def Let_def upgraded_def [symmetric]
    by (auto intro!: vcg_bind vcg_attempt wp_mono [OF writeAtomic_tries [OF assms]])
qed (simp add: migrate_def wp_simps)

definition opens :: "'v os \<Rightarrow> codec \<Rightarrow> string \<Rightarrow> string option set \<Rightarrow> 'v fs \<Rightarrow> err + store \<Rightarrow> 'v fs \<Rightarrow> bool" where
  "opens os j path V s r t \<longleftrightarrow>
     (let c = content (fsDisk s) path; A = texts j (migrated j c)
      in through (settled path (V \<union> A)) s t
       \<and> settled path (if migrated j c = None \<or> (\<exists>e. r = Inl e) then V \<union> A else A) (fsDisk t)
       \<and> (case r of
            Inl e \<Rightarrow> faulty os \<or> (\<exists>e. decodeState j c = Inl e) \<or> migrated j c \<noteq> None
          | Inr st \<Rightarrow> stPath st = path \<and> stLock st
              \<and> (\<exists>d. decodeState j c = Inr d \<and> stData st = (if migrated j c = None then filledState d else upgraded (filledState d)))))"

lemma opens_fail:
  assumes "settled path V (fsDisk t)" "through (settled path V) s t"
    and "faulty os \<or> (\<exists>e. decodeState j (content (fsDisk s) path) = Inl e)"
  shows "opens os j path V s (Inl e) t"
  using assms unfolding opens_def Let_def
  by (auto intro: through_mono [OF _ settled_mono] settled_mono)

lemma openStore_opens:
  assumes "settled path V (fsDisk s)" "ownName path"
  shows "wp (openStore os j path) (opens os j path V s) s"
proof -
  let ?c = "content (fsDisk s) path" and ?lock = "lockName path"
  have lock: "?lock \<noteq> path" using assms(2) by (simp add: ownName_def)
  have d: "settled path V (effect (OpenLock ?lock) (fsDisk s))" "content (effect (OpenLock ?lock) (fsDisk s)) path = ?c"
    by (rule lock_settled [OF assms(1) lock], rule lock_content [OF assms(1) lock])
  have fail: "wp (abandon os path e) (opens os j path V s) u"
    if "settled path V (fsDisk u)" "through (settled path V) s u" "faulty os \<or> (\<exists>e. decodeState j ?c = Inl e)" for u e
    using that by (auto intro!: wp_abandon opens_fail elim: through_trans through_still)
  have good: "wp (migrate os j path (filledState doc)) (case_sum (\<lambda>e. opens os j path V s (Inl e))
      (\<lambda>data. wp (ret \<lparr>stPath = path, stData = data, stLock = True\<rparr>) (opens os j path V s))) u"
    if u: "settled path V (fsDisk u)" "through (settled path V) s u" and doc: "decodeState j ?c = Inr doc" for u doc
  proof -
    have "migrated j ?c = (if sVersion (filledState doc) < currentVersion then Some (upgraded (filledState doc)) else None)"
      by (simp add: migrated_def doc filledState_def)
    moreover have "wp (migrate os j path (filledState doc)) (\<lambda>r t.
        if sVersion (filledState doc) < currentVersion
        then tries j path V (upgraded (filledState doc)) s r t \<and> (\<forall>x. r = Inr x \<longrightarrow> x = upgraded (filledState doc))
        else r = Inr (filledState doc) \<and> t = u) u"
      by (rule wp_mono [OF migrate_tries [OF u(1) assms(2)]]) (auto intro: tries_trans [OF u(2)] split: if_splits)
    ultimately show ?thesis
      using doc u by (elim wp_mono)
        (auto simp: opens_def Let_def tries_def texts_def wp_simps split: sum.splits if_splits)
  qed
  have wpread: "wp (readFile os path) Q u"
    if "\<And>t e. faulty os \<Longrightarrow> fsDisk t = fsDisk u \<Longrightarrow> fsPast t = fsPast u \<Longrightarrow> Q (Inl e) t"
      "\<And>t. fsDisk t = fsDisk u \<Longrightarrow> fsPast t = fsPast u @ [fsDisk u] \<Longrightarrow> Q (Inr (content (fsDisk t) path)) t"
    for Q :: "err + string option \<Rightarrow> 'a fs \<Rightarrow> bool" and u
    unfolding readFile_def using that by (intro vcg_bind wp_syscall vcg_Inl vcg_Inr) (simp_all add: wp_conv)
  have same: "effect (MkdirAll n) e = e" "effect (Flock n) e = e" "effect (CloseFile n) e = e" for n e by simp_all
  show ?thesis
    unfolding openStore_def
    by (intro vcg_bind wp_syscall vcg_Inl vcg_Inr vcg_attempt vcg_sum wpread fail good vcg_throw opens_fail, simp_all only: same)
      (auto simp: d assms(1) through_def simp del: effect.simps)
qed

section \<open>The life of a store\<close>

text \<open>The disk and the open store, if the process runs\<close>

type_synonym 'v host = "'v fs \<times> store option"

datatype action = Opens | Updates "state \<Rightarrow> err + state" | Closes

fun perform :: "'v os \<Rightarrow> codec \<Rightarrow> string \<Rightarrow> action \<Rightarrow> 'v host \<Rightarrow> 'v host" where
  "perform os j path Opens (s, None) =
     (case openStore os j path s of (Inr st, t) \<Rightarrow> (t, Some st) | (Inl _, t) \<Rightarrow> (t, None))"
| "perform os j path (Updates fn) (s, Some st) =
     (case updateStore os j fn st s of (Inr new, t) \<Rightarrow> (t, Some new) | (Inl _, t) \<Rightarrow> (t, Some st))"
| "perform os j path Closes (s, Some st) = (snd (closeStore os st s), None)"
| "perform os j path _ h = h"

text \<open>
  An action ends, or is cut off after any of its calls: the process is killed, or the power goes.
\<close>

inductive step :: "'v os \<Rightarrow> codec \<Rightarrow> string \<Rightarrow> action \<Rightarrow> 'v host \<Rightarrow> 'v host \<Rightarrow> bool" for os j path where
  stDone: "step os j path a h (perform os j path a h)"
| stCut: "perform os j path a h = (t, x) \<Longrightarrow>
    d \<in> insert (fsDisk (fst h)) (set (drop (length (fsPast (fst h))) (fsPast t))) \<Longrightarrow> e = d \<or> reboots d e \<Longrightarrow>
    step os j path a h (t\<lparr>fsDisk := e\<rparr>, None)"

text \<open>The document that an action writes\<close>

fun writes :: "codec \<Rightarrow> string \<Rightarrow> action \<Rightarrow> 'v host \<Rightarrow> state option" where
  "writes j path Opens (s, None) = migrated j (content (fsDisk s) path)"
| "writes j path (Updates fn) (s, Some st) = (case fn (cloneState (stData st)) of Inl _ \<Rightarrow> None | Inr d \<Rightarrow> Some d)"
| "writes j path _ h = None"

text \<open>
  The contents that the state file may have: a document whose update succeeded, and the documents
  of later updates that failed or were cut off.
\<close>

inductive life :: "'v os \<Rightarrow> codec \<Rightarrow> string \<Rightarrow> 'v host \<Rightarrow> string option set \<Rightarrow> bool" for os j path where
  lfStart: "settled path {content (fsDisk s) path} (fsDisk s) \<Longrightarrow> life os j path (s, None) {content (fsDisk s) path}"
| lfUpdated: "life os j path (s, Some st) V \<Longrightarrow> updateStore os j fn st s = (Inr new, t) \<Longrightarrow>
    life os j path (t, Some new) (texts j (Some (stData new)))"
| lfStep: "life os j path h V \<Longrightarrow> step os j path a h g \<Longrightarrow> life os j path g (V \<union> texts j (writes j path a h))"

text \<open>What every action keeps\<close>

definition sound :: "string \<Rightarrow> string option set \<Rightarrow> 'v host \<Rightarrow> bool" where
  "sound path V h \<longleftrightarrow> settled path V (fsDisk (fst h)) \<and> (\<forall>st. snd h = Some st \<longrightarrow> stPath st = path)"

lemma updateStore_tries:
  assumes "settled path V (fsDisk s)" "ownName path" "stPath st = path"
  shows "wp (updateStore os j fn st) (\<lambda>r t. case fn (cloneState (stData st)) of
       Inl e \<Rightarrow> r = Inl e \<and> t = s
     | Inr d \<Rightarrow> tries j path V d s r t \<and> (\<forall>new. r = Inr new \<longrightarrow> new = st\<lparr>stData := d\<rparr>)) s"
  unfolding updateStore_def assms(3)
  by (intro vcg_bind vcg_pureE vcg_Inl vcg_Inr wp_mono [OF writeAtomic_tries [OF assms(1,2)]])
    (auto simp: tries_def wp_simps split: sum.splits)

definition keepsTo :: "string \<Rightarrow> string option set \<Rightarrow> 'v host \<Rightarrow> 'v host \<Rightarrow> bool" where
  "keepsTo path V h g \<longleftrightarrow> through (settled path V) (fst h) (fst g) \<and> sound path V g"

lemma perform_sound:
  assumes "sound path V h" "ownName path"
  shows "keepsTo path (V \<union> texts j (writes j path a h)) h (perform os j path a h)"
proof -
  obtain s x where h: "h = (s, x)" by (cases h)
  have s: "settled path V (fsDisk s)" using assms(1) by (simp add: h sound_def)
  have V: "settled path (V \<union> A) (fsDisk s)" for A using s by (auto elim: settled_mono)
  consider (opens) "a = Opens" "x = None" | (updates) fn st where "a = Updates fn" "x = Some st"
    | (closes) st where "a = Closes" "x = Some st" | (nothing) "perform os j path a h = h" "writes j path a h = None"
    by (cases a; cases x) (auto simp: h)
  then show ?thesis
  proof cases
    case opens
    then show ?thesis
      using openStore_opens [OF s assms(2), of os j]
      by (auto simp: h keepsTo_def sound_def opens_def Let_def wp_conv texts_def
          split: prod.splits sum.splits if_splits elim!: settled_mono)
  next
    case updates
    then show ?thesis
      using updateStore_tries [OF s assms(2), of st os j fn] assms(1) V
      by (auto simp: h keepsTo_def sound_def tries_def wp_conv split: prod.splits sum.splits elim!: settled_mono)
  next
    case closes
    have "wp (closeStore os st) (\<lambda>r t. settled path V (fsDisk t) \<and> through (settled path V) s t) s"
      by (rule wp_closeStore) (auto intro: s through_still)
    with closes show ?thesis
      by (auto simp: h keepsTo_def sound_def wp_conv texts_def split: prod.splits)
  next
    case nothing
    with assms(1) show ?thesis by (simp add: keepsTo_def texts_def)
  qed
qed

lemma step_sound:
  assumes "step os j path a h g" "sound path V h" "ownName path"
  shows "sound path (V \<union> texts j (writes j path a h)) g"
  using assms(1)
proof cases
  case stDone
  with perform_sound [OF assms(2,3)] show ?thesis by (simp add: keepsTo_def)
next
  case (stCut t x d e)
  let ?W = "V \<union> texts j (writes j path a h)"
  have "keepsTo path ?W h (t, x)"
    using perform_sound [OF assms(2,3), of j a os] stCut by simp
  then have "settled path ?W d"
    using stCut(3) assms(2) by (auto simp: keepsTo_def through_def sound_def elim: settled_mono)
  with stCut show ?thesis
    by (auto simp: sound_def elim: reboots_settled)
qed

lemma life_sound: "life os j path h V \<Longrightarrow> ownName path \<Longrightarrow> sound path V h"
proof (induction rule: life.induct)
  case (lfUpdated s st V fn new t)
  then have s: "settled path V (fsDisk s)" "stPath st = path" by (auto simp: sound_def)
  from updateStore_tries [OF s(1) lfUpdated.prems s(2), of os j fn] lfUpdated.hyps(2) s(2) show ?case
    by (auto simp: sound_def tries_def wp_conv split: sum.splits)
next
  case (lfStep h V a g)
  then show ?case by (blast intro: step_sound)
qed (simp add: sound_def)

section \<open>What survives\<close>

text \<open>C12: Whatever system call fails, wherever the process is killed and wherever the power goes,
  in any sequence of opening, updating and closing the store: a document that Open returns is
  one whose update succeeded, or one whose update failed or was cut off later, never a torn or
  lost one; a migration keeps it but for the version.\<close>

theorem reopened_state_was_written:
  assumes "ownName path" "life os j path (s, x) V" "openStore os' j path s = (Inr st, t)"
  shows "\<exists>c\<in>V. \<exists>d. decodeState j c = Inr d \<and> stData st = upgraded (filledState d)"
proof -
  have s: "settled path V (fsDisk s)"
    using life_sound [OF assms(2,1)] by (simp add: sound_def)
  from openStore_opens [OF this assms(1), of os' j] assms(3)
  obtain d where d: "decodeState j (content (fsDisk s) path) = Inr d"
    "stData st = (if migrated j (content (fsDisk s) path) = None then filledState d else upgraded (filledState d))"
    by (auto simp: wp_conv opens_def Let_def)
  moreover have "stData st = upgraded (filledState d)"
  proof (cases "migrated j (content (fsDisk s) path) = None")
    case True
    then have "\<not> dcVersion d < currentVersion" by (auto simp: migrated_def d(1))
    moreover have "dcVersion d \<le> currentVersion"
      using d(1) unfolding decodeState_def
      by (auto simp: freshDocument_def split: option.splits sum.splits if_splits)
    ultimately have "dcVersion d = currentVersion" by simp
    then have "upgraded (filledState d) = filledState d" by (simp add: upgraded_def filledState_def)
    with True d(2) show ?thesis by simp
  next
    case False
    with d(2) show ?thesis by auto
  qed
  ultimately show ?thesis
    using settled_content [OF s] by blast
qed

text \<open>Steps that are not updates\<close>

definition passes :: "'v os \<Rightarrow> codec \<Rightarrow> string \<Rightarrow> 'v host \<Rightarrow> 'v host \<Rightarrow> bool" where
  "passes os j path h g \<longleftrightarrow> step os j path Opens h g \<or> step os j path Closes h g"

definition reads :: "codec \<Rightarrow> string \<Rightarrow> state \<Rightarrow> bool" where
  "reads j b st \<longleftrightarrow> b \<noteq> [] \<and> sVersion st = currentVersion \<and> (\<exists>d. cdUnmarshal j b freshDocument = Inr d \<and> filledState d = st)"

lemma reads_decode:
  assumes "reads j b st"
  shows "\<exists>d. decodeState j (Some b) = Inr d \<and> filledState d = st" "migrated j (Some b) = None"
  using assms by (auto simp: reads_def decodeState_def migrated_def filledState_def currentVersion_def)

lemma passes_sound:
  assumes "passes os j path h g" "sound path {Some b} h" "ownName path" "reads j b st"
  shows "sound path {Some b} g"
proof -
  obtain s x where h: "h = (s, x)" by (cases h)
  have "content (fsDisk s) path = Some b"
    using settled_content [of path "{Some b}"] assms(2) by (auto simp: sound_def h)
  then have "writes j path a h = None" if "a = Opens \<or> a = Closes" for a
    using that reads_decode(2) [OF assms(4)] by (cases x) (auto simp: h)
  then show ?thesis
    using assms(1) step_sound [OF _ assms(2,3), of os j _ g] by (fastforce simp: passes_def texts_def)
qed

text \<open>C13: After an update that succeeded, any number of reopenings, crashes and power losses
  without a further update leaves exactly this document: when the store is opened again it holds
  the document that was written, or a system call of that Open has failed.\<close>

theorem last_update_survives:
  assumes "ownName path" "life os j path (s, Some st) V" "updateStore os j fn st s = (Inr new, t)"
    and "\<forall>b. cdMarshal j (stData new) = Inr b \<longrightarrow> reads j b (stData new)"
    and "(passes os j path)\<^sup>*\<^sup>* (t, Some new) (u, x)"
  shows "case openStore os' j path u of (Inr again, v) \<Rightarrow> stData again = stData new | (Inl e, v) \<Rightarrow> faulty os'"
proof -
  have "life os j path (t, Some new) (texts j (Some (stData new)))"
    using assms(2,3) by (rule lfUpdated)
  then have t: "sound path (texts j (Some (stData new))) (t, Some new)"
    using assms(1) by (rule life_sound)
  then obtain b where b: "cdMarshal j (stData new) = Inr b"
    using settled_content [of path "{}" "fsDisk t"] by (cases "cdMarshal j (stData new)") (auto simp: sound_def texts_def)
  with assms(4) have reads: "reads j b (stData new)" by blast
  have "sound path {Some b} (u, x)"
    using assms(5)
  proof (induction rule: rtranclp_induct)
    case base
    with t show ?case by (simp add: b texts_def)
  next
    case (step g h)
    then show ?case by (blast intro: passes_sound assms(1) reads)
  qed
  then have u: "settled path {Some b} (fsDisk u)" by (simp add: sound_def)
  then have c: "content (fsDisk u) path = Some b" using settled_content by blast
  show ?thesis
    using openStore_opens [OF u assms(1), of os' j] reads_decode [OF reads]
    by (auto simp: wp_conv opens_def Let_def c split: prod.splits sum.splits)
qed

end
