(* ===== verification/Disklab.thy ===== *)
theory Disklab
  imports Survival
begin

text \<open>A disk, a file system that may fail once, and a codec for documents without workflows\<close>

definition diskOS :: "nat \<Rightarrow> nat os" where
  "diskOS k = \<lparr>osFail = (\<lambda>c n. (if n = k then Some (Fmt FileExists []) else None, Suc n)), osTemp = (\<lambda>n. n), osWritten = (\<lambda>n. 1)\<rparr>"

definition diskCodec :: codec where
  "diskCodec = \<lparr>
     cdMarshal = (\<lambda>st. Inr [char_of (nat (sVersion st)), char_of (nat (sEnrollmentArmedAt st))]),
     cdUnmarshal = (\<lambda>b d. case b of
         [v, a] \<Rightarrow> Inr (d\<lparr>dcVersion := int (of_char v), dcEnrollmentArmedAt := int (of_char a)\<rparr>)
       | _ \<Rightarrow> Inl (Fmt DecodeState []))\<rparr>"

definition diskPath :: string where
  "diskPath = ''/var/state.json''"

definition emptyDisk :: "nat fs" where
  "emptyDisk = \<lparr>fsWorld = 1, fsDisk = \<lparr>dkDir = [], dkOld = [], dkNow = [], dkSafe = [], dkNext = 0\<rparr>, fsPast = []\<rparr>"

definition arming :: "int \<Rightarrow> state \<Rightarrow> err + state" where
  "arming n st = Inr (st\<lparr>sEnrollmentArmedAt := n\<rparr>)"

definition diskAfter :: "nat \<Rightarrow> action list \<Rightarrow> nat host" where
  "diskAfter k as = fold (perform (diskOS k) diskCodec diskPath) as (emptyDisk, None)"

definition diskFs :: "nat \<Rightarrow> action list \<Rightarrow> nat fs" where
  "diskFs k as = fst (diskAfter k as)"

definition diskStore :: "nat \<Rightarrow> action list \<Rightarrow> store" where
  "diskStore k as = the (snd (diskAfter k as))"

text \<open>The 24th call is the sync of the directory in the second update.\<close>

definition diskRun :: "action list" where
  "diskRun = [Opens, Updates (arming 1)]"

definition diskText :: "int \<Rightarrow> string" where
  "diskText n = [char_of (3::nat), char_of (nat n)]"

text \<open>The power goes after the update that failed; the directory as it was before comes back.\<close>

definition afterLoss :: "nat fs" where
  "afterLoss = (let t = diskFs 24 (diskRun @ [Updates (arming 2)]); d = fsDisk t
     in t\<lparr>fsDisk := d\<lparr>dkDir := dkOld d ! 1, dkOld := []\<rparr>\<rparr>)"

lemma diskPath_own: "ownName diskPath"
proof -
  have "dir diskPath = ''/var''" by code_simp
  then show ?thesis by (simp add: ownName_def tempName_def lockName_def diskPath_def)
qed

lemma emptyDisk_life: "life os j diskPath (emptyDisk, None) {None}"
proof -
  have "settled diskPath {content (fsDisk emptyDisk) diskPath} (fsDisk emptyDisk)"
    by (simp add: settled_def settledIn_def versions_def content_def emptyDisk_def mget_def)
  from lfStart [OF this] show ?thesis by (simp add: content_def emptyDisk_def mget_def)
qed

lemma opened_life: "life (diskOS k) diskCodec diskPath (diskAfter k [Opens]) {None}"
proof -
  have "writes diskCodec diskPath Opens (emptyDisk, None) = None" by code_simp
  with lfStep [OF emptyDisk_life [of "diskOS k" diskCodec] stDone, of Opens] show ?thesis
    by (simp add: diskAfter_def texts_def)
qed

lemma disk_first_update:
  "diskAfter 24 [Opens] = (diskFs 24 [Opens], Some (diskStore 24 [Opens]))"
  "updateStore (diskOS 24) diskCodec (arming 1) (diskStore 24 [Opens]) (diskFs 24 [Opens]) = (Inr (diskStore 24 diskRun), diskFs 24 diskRun)"
  "texts diskCodec (Some (stData (diskStore 24 diskRun))) = {Some (diskText 1)}"
  subgoal by code_simp
  subgoal by code_simp
  subgoal by code_simp
  done

lemma first_life: "life (diskOS 24) diskCodec diskPath (diskFs 24 diskRun, Some (diskStore 24 diskRun)) {Some (diskText 1)}"
  using lfUpdated [OF opened_life [of 24, unfolded disk_first_update(1)] disk_first_update(2)]
  by (simp only: disk_first_update(3))

lemma reboots_synced:
  assumes "list_all (\<lambda>(i, b). mget (dkNow d) i = Some b) (dkSafe d)" "v \<in> set (dkDir d # dkOld d)"
  shows "reboots d (d\<lparr>dkDir := v, dkOld := []\<rparr>)"
  using assms by (auto simp: reboots_def list_all_def mget_def dest!: map_of_SomeD)

lemma disk_second_update:
  "perform (diskOS 24) diskCodec diskPath (Updates (arming 2)) (diskFs 24 diskRun, Some (diskStore 24 diskRun))
     = (diskFs 24 (diskRun @ [Updates (arming 2)]), Some (diskStore 24 diskRun))"
  "fsDisk (diskFs 24 (diskRun @ [Updates (arming 2)]))
     \<in> set (drop (length (fsPast (diskFs 24 diskRun))) (fsPast (diskFs 24 (diskRun @ [Updates (arming 2)]))))"
  "list_all (\<lambda>(i, b). mget (dkNow (fsDisk (diskFs 24 (diskRun @ [Updates (arming 2)])))) i = Some b)
     (dkSafe (fsDisk (diskFs 24 (diskRun @ [Updates (arming 2)]))))"
  "1 < length (dkOld (fsDisk (diskFs 24 (diskRun @ [Updates (arming 2)]))))"
  "texts diskCodec (writes diskCodec diskPath (Updates (arming 2)) (diskFs 24 diskRun, Some (diskStore 24 diskRun))) = {Some (diskText 2)}"
  subgoal by code_simp
  subgoal by code_simp
  subgoal by code_simp
  subgoal by code_simp
  subgoal by code_simp
  done

lemma loss_life: "life (diskOS 24) diskCodec diskPath (afterLoss, None) {Some (diskText 1), Some (diskText 2)}"
proof -
  let ?d = "fsDisk (diskFs 24 (diskRun @ [Updates (arming 2)]))"
  have "reboots ?d (?d\<lparr>dkDir := dkOld ?d ! 1, dkOld := []\<rparr>)"
    using disk_second_update(4) by (intro reboots_synced disk_second_update(3)) simp
  then have "step (diskOS 24) diskCodec diskPath (Updates (arming 2)) (diskFs 24 diskRun, Some (diskStore 24 diskRun)) (afterLoss, None)"
    unfolding afterLoss_def Let_def
    by (intro stCut [OF disk_second_update(1), where d = ?d]) (simp_all add: disk_second_update(2))
  from lfStep [OF first_life this] show ?thesis
    by (simp only: disk_second_update(5) Un_insert_left Un_empty_left)
qed

theorem reopened_state_was_written_witness:
  "sEnrollmentArmedAt (stData (projr (fst (openStore (diskOS 0) diskCodec diskPath afterLoss)))) = 1
   \<and> (\<exists>c\<in>{Some (diskText 1), Some (diskText 2)}. \<exists>d. decodeState diskCodec c = Inr d
        \<and> stData (projr (fst (openStore (diskOS 0) diskCodec diskPath afterLoss))) = upgraded (filledState d))"
proof -
  let ?r = "openStore (diskOS 0) diskCodec diskPath afterLoss"
  have armed: "case ?r of (Inr st, t) \<Rightarrow> sEnrollmentArmedAt (stData st) = 1 | _ \<Rightarrow> False"
    by code_simp
  then obtain st t where r: "?r = (Inr st, t)" by (auto split: prod.splits sum.splits)
  from reopened_state_was_written [OF diskPath_own loss_life this] armed show ?thesis
    unfolding r by auto
qed

text \<open>The store is closed and opened again, and the machine loses power; \<open>Open\<close> finds the last update.\<close>

definition diskReboot :: "nat fs" where
  "diskReboot = (let t = diskFs 0 (diskRun @ [Closes, Opens]); d = fsDisk t in t\<lparr>fsDisk := d\<lparr>dkDir := dkDir d, dkOld := []\<rparr>\<rparr>)"

lemma disk_quiet:
  "diskAfter 0 [Opens] = (diskFs 0 [Opens], Some (diskStore 0 [Opens]))"
  "updateStore (diskOS 0) diskCodec (arming 1) (diskStore 0 [Opens]) (diskFs 0 [Opens]) = (Inr (diskStore 0 diskRun), diskFs 0 diskRun)"
  "perform (diskOS 0) diskCodec diskPath Closes (diskFs 0 diskRun, Some (diskStore 0 diskRun)) = (diskFs 0 (diskRun @ [Closes]), None)"
  "perform (diskOS 0) diskCodec diskPath Opens (diskFs 0 (diskRun @ [Closes]), None)
     = (diskFs 0 (diskRun @ [Closes, Opens]), Some (diskStore 0 (diskRun @ [Closes, Opens])))"
  "fsDisk (diskFs 0 (diskRun @ [Closes, Opens]))
     \<in> set (drop (length (fsPast (diskFs 0 (diskRun @ [Closes])))) (fsPast (diskFs 0 (diskRun @ [Closes, Opens]))))"
  "list_all (\<lambda>(i, b). mget (dkNow (fsDisk (diskFs 0 (diskRun @ [Closes, Opens])))) i = Some b)
     (dkSafe (fsDisk (diskFs 0 (diskRun @ [Closes, Opens]))))"
  "cdMarshal diskCodec (stData (diskStore 0 diskRun)) = Inr (diskText 1)"
  "sVersion (stData (diskStore 0 diskRun)) = currentVersion"
  "(case cdUnmarshal diskCodec (diskText 1) freshDocument of Inl _ \<Rightarrow> False | Inr d \<Rightarrow> filledState d = stData (diskStore 0 diskRun))"
  subgoal by code_simp
  subgoal by code_simp
  subgoal by code_simp
  subgoal by code_simp
  subgoal by code_simp
  subgoal by code_simp
  subgoal by code_simp
  subgoal by code_simp
  subgoal by code_simp
  done

lemma disk_reads: "reads diskCodec (diskText 1) (stData (diskStore 0 diskRun))"
  using disk_quiet(8,9) by (auto simp: reads_def diskText_def split: sum.splits)

lemma disk_passes: "(passes (diskOS 0) diskCodec diskPath)\<^sup>*\<^sup>* (diskFs 0 diskRun, Some (diskStore 0 diskRun)) (diskReboot, None)"
proof -
  let ?d = "fsDisk (diskFs 0 (diskRun @ [Closes, Opens]))"
  have "passes (diskOS 0) diskCodec diskPath (diskFs 0 diskRun, Some (diskStore 0 diskRun)) (diskFs 0 (diskRun @ [Closes]), None)"
    unfolding passes_def by (metis stDone disk_quiet(3))
  moreover have "reboots ?d (?d\<lparr>dkDir := dkDir ?d, dkOld := []\<rparr>)"
    by (intro reboots_synced disk_quiet(6)) simp
  then have "step (diskOS 0) diskCodec diskPath Opens (diskFs 0 (diskRun @ [Closes]), None) (diskReboot, None)"
    unfolding diskReboot_def Let_def by (intro stCut [OF disk_quiet(4), where d = ?d]) (simp_all add: disk_quiet(5))
  then have "passes (diskOS 0) diskCodec diskPath (diskFs 0 (diskRun @ [Closes]), None) (diskReboot, None)"
    by (simp add: passes_def)
  ultimately show ?thesis by (blast intro: rtranclp_trans)
qed

theorem last_update_survives_witness:
  "case openStore (diskOS 0) diskCodec diskPath diskReboot of
     (Inr again, v) \<Rightarrow> stData again = stData (diskStore 0 diskRun) \<and> sEnrollmentArmedAt (stData again) = 1
   | (Inl e, v) \<Rightarrow> False"
proof -
  have open_ok: "case openStore (diskOS 0) diskCodec diskPath diskReboot of
      (Inr again, v) \<Rightarrow> sEnrollmentArmedAt (stData again) = 1 | (Inl e, v) \<Rightarrow> False"
    by code_simp
  have "\<forall>b. cdMarshal diskCodec (stData (diskStore 0 diskRun)) = Inr b \<longrightarrow> reads diskCodec b (stData (diskStore 0 diskRun))"
    by (simp add: disk_quiet(7) disk_reads)
  from last_update_survives [OF diskPath_own opened_life [of 0, unfolded disk_quiet(1)] disk_quiet(2) this disk_passes, of "diskOS 0"] open_ok
  show ?thesis by (auto split: prod.splits sum.splits)
qed

end
