(* ===== verification/Http.thy ===== *)
theory Http
  imports Errors Effects Model
begin

text \<open>
  What the HTTP clients in \<open>internal/pdns\<close> and \<open>internal/autodns\<close> use of the standard library:
  \<open>url.PathEscape\<close>, \<open>encoding/json\<close> and \<open>net/http\<close>. The transport and the JSON syntax are
  parameters; what the decoder makes of a syntax tree is written out.
\<close>

section \<open>Escaped path segments\<close>

text \<open>The characters that \<open>url.PathEscape\<close> leaves alone\<close>

definition pathChar :: "char \<Rightarrow> bool" where
  "pathChar c \<longleftrightarrow>
     (let n = (of_char c :: nat)
      in 48 \<le> n \<and> n \<le> 57 \<or> 65 \<le> n \<and> n \<le> 90 \<or> 97 \<le> n \<and> n \<le> 122 \<or> c \<in> set ''-_.~$&+:=@'')"

definition hexChar :: "nat \<Rightarrow> char" where
  "hexChar d = (if d < 10 then char_of (48 + d) else char_of (55 + d))"

definition escapeChar :: "char \<Rightarrow> string" where
  "escapeChar c =
     (if pathChar c then [c]
      else [CHR 0x25, hexChar ((of_char c :: nat) div 16), hexChar ((of_char c :: nat) mod 16)])"

definition pathEscape :: "string \<Rightarrow> string" where
  "pathEscape s = concat (map escapeChar s)"

text \<open>\<open>url.PathUnescape\<close>\<close>

definition unhex :: "char \<Rightarrow> nat option" where
  "unhex c =
     (let n = (of_char c :: nat)
      in if 48 \<le> n \<and> n \<le> 57 then Some (n - 48)
         else if 65 \<le> n \<and> n \<le> 70 then Some (n - 55)
         else if 97 \<le> n \<and> n \<le> 102 then Some (n - 87) else None)"

fun pathUnescape :: "string \<Rightarrow> string option" where
  "pathUnescape [] = Some []"
| "pathUnescape (c # s) =
     (if c \<noteq> CHR 0x25 then (case pathUnescape s of None \<Rightarrow> None | Some t \<Rightarrow> Some (c # t))
      else case s of
        a # b # t \<Rightarrow>
          (case (unhex a, unhex b, pathUnescape t) of
             (Some x, Some y, Some u) \<Rightarrow> Some (char_of (16 * x + y) # u)
           | _ \<Rightarrow> None)
      | _ \<Rightarrow> None)"

section \<open>JSON\<close>

text \<open>A number keeps its literal; an object keeps the order and the duplicates of its names.\<close>

datatype json =
    JNull
  | JBool bool
  | JNum string
  | JStr string
  | JArr "json list"
  | JObj "(string \<times> json) list"

text \<open>
  A decoder stores a value into a variable and says whether the types matched. \<open>null\<close> leaves the
  variable as it is; after a mismatch the decoder goes on with the rest.
\<close>

type_synonym 'a decoder = "json \<Rightarrow> 'a \<Rightarrow> 'a \<times> bool"

fun decString :: "string decoder" where
  "decString JNull v = (v, True)"
| "decString (JStr s) v = (s, True)"
| "decString _ v = (v, False)"

fun decBool :: "bool decoder" where
  "decBool JNull v = (v, True)"
| "decBool (JBool b) v = (b, True)"
| "decBool _ v = (v, False)"

text \<open>\<open>strconv.ParseInt\<close> of a JSON number: no fraction and no exponent\<close>

definition isDigit :: "char \<Rightarrow> bool" where
  "isDigit c \<longleftrightarrow> 48 \<le> (of_char c :: nat) \<and> (of_char c :: nat) \<le> 57"

definition parseNat :: "string \<Rightarrow> nat option" where
  "parseNat s = (if s \<noteq> [] \<and> list_all isDigit s then Some (digitsVal s) else None)"

definition parseInt :: "string \<Rightarrow> int option" where
  "parseInt s =
     (case s of
        [] \<Rightarrow> None
      | c # t \<Rightarrow> if c = CHR 0x2D then map_option (\<lambda>n. - int n) (parseNat t) else map_option int (parseNat s))"

fun decInt :: "int \<Rightarrow> int \<Rightarrow> int decoder" where
  "decInt lo hi JNull v = (v, True)"
| "decInt lo hi (JNum s) v =
     (case parseInt s of None \<Rightarrow> (v, False) | Some n \<Rightarrow> if lo \<le> n \<and> n \<le> hi then (n, True) else (v, False))"
| "decInt lo hi _ v = (v, False)"

text \<open>\<open>int\<close> and \<open>int64\<close>\<close>

definition decInt64 :: "int decoder" where
  "decInt64 = decInt (- (2 ^ 63)) (2 ^ 63 - 1)"

text \<open>An unsigned integer of the width of the word; the literal has no sign.\<close>

fun decWord :: "('n::len word) decoder" where
  "decWord JNull v = (v, True)"
| "decWord (JNum s) v =
     (case parseNat s of
        None \<Rightarrow> (v, False)
      | Some n \<Rightarrow> if n < 2 ^ LENGTH('n) then (word_of_nat n, True) else (v, False))"
| "decWord _ v = (v, False)"

text \<open>\<open>json.RawMessage\<close>: the empty message when nothing has been stored\<close>

definition decRaw :: "json option decoder" where
  "decRaw j v = (Some j, True)"

text \<open>An array is stored over the elements that are there; a nil slice is \<open>None\<close>.\<close>

fun decElems :: "'a decoder \<Rightarrow> 'a \<Rightarrow> json list \<Rightarrow> 'a list \<Rightarrow> 'a list \<times> bool" where
  "decElems d zero [] old = ([], True)"
| "decElems d zero (j # js) old =
     (let (x, ok) = d j (case old of [] \<Rightarrow> zero | v # _ \<Rightarrow> v);
          (xs, oks) = decElems d zero js (drop 1 old)
      in (x # xs, ok \<and> oks))"

fun decSlice :: "'a decoder \<Rightarrow> 'a \<Rightarrow> ('a list option) decoder" where
  "decSlice d zero JNull v = (None, True)"
| "decSlice d zero (JArr js) v =
     (let (xs, ok) = decElems d zero js (case v of None \<Rightarrow> [] | Some old \<Rightarrow> old) in (Some xs, ok))"
| "decSlice d zero _ v = (v, False)"

text \<open>
  A struct: for each name of the object, in order, the field of that name, or else the first field
  whose name differs in case only; other names are ignored.
\<close>

definition fieldFor :: "(string \<times> 'a decoder) list \<Rightarrow> string \<Rightarrow> 'a decoder option" where
  "fieldFor fs name =
     (case map_of fs name of
        Some d \<Rightarrow> Some d
      | None \<Rightarrow> map_option snd (find (\<lambda>(f, d). equalFold f name) fs))"

fun decMembers :: "(string \<times> 'a decoder) list \<Rightarrow> (string \<times> json) list \<Rightarrow> 'a \<Rightarrow> 'a \<times> bool" where
  "decMembers fs [] v = (v, True)"
| "decMembers fs ((name, j) # ms) v =
     (let (u, ok) = (case fieldFor fs name of None \<Rightarrow> (v, True) | Some d \<Rightarrow> d j v);
          (w, oks) = decMembers fs ms u
      in (w, ok \<and> oks))"

fun decStruct :: "(string \<times> 'a decoder) list \<Rightarrow> 'a decoder" where
  "decStruct fs JNull v = (v, True)"
| "decStruct fs (JObj ms) v = decMembers fs ms v"
| "decStruct fs _ v = (v, False)"

text \<open>A field of a record: its decoder, how it is read and how it is stored\<close>

definition inField :: "'f decoder \<Rightarrow> ('a \<Rightarrow> 'f) \<Rightarrow> ('f \<Rightarrow> 'a \<Rightarrow> 'a) \<Rightarrow> 'a decoder" where
  "inField d get put j v = (let (x, ok) = d j (get v) in (put x v, ok))"

section \<open>The decoder\<close>

text \<open>
  \<open>jlUnmarshal\<close> and \<open>jlDecode\<close> are the syntax of \<open>json.Unmarshal\<close> and of the first value that
  \<open>json.NewDecoder(...).Decode\<close> reads, \<open>io.EOF\<close> on an empty stream.
\<close>

definition EOF :: err where
  "EOF = Fmt ''EOF'' []"

definition CannotUnmarshal :: err where
  "CannotUnmarshal = Fmt ''json: cannot unmarshal'' []"

record jsonLib =
  jlUnmarshal :: "string \<Rightarrow> err + json"
  jlDecode :: "string \<Rightarrow> err + json"

text \<open>What is left in the variable, and the error\<close>

definition storeJSON :: "'a decoder \<Rightarrow> err + json \<Rightarrow> 'a \<Rightarrow> 'a \<times> err option" where
  "storeJSON d p v =
     (case p of
        Inl e \<Rightarrow> (v, Some e)
      | Inr j \<Rightarrow> (let (x, ok) = d j v in (x, if ok then None else Some CannotUnmarshal)))"

section \<open>Requests\<close>

record httpReq =
  rqMethod :: string
  rqURL :: string
  rqHeaders :: "(string \<times> string) list"
  rqBody :: "json option"

text \<open>The body is what can be read of it.\<close>

record httpResp =
  rsStatus :: int
  rsBody :: string

text \<open>
  \<open>htBadRequest\<close>: the error of \<open>http.NewRequestWithContext\<close>. \<open>htDo\<close>: \<open>http.Client.Do\<close>.
  \<open>htStatusText\<close>: \<open>http.StatusText\<close>. \<open>htBasicAuth\<close>: the value that \<open>SetBasicAuth\<close> stores.
\<close>

record 'v http =
  htBadRequest :: "string \<Rightarrow> string \<Rightarrow> err option"
  htDo :: "httpReq \<Rightarrow> 'v \<Rightarrow> (err + httpResp) \<times> 'v"
  htStatusText :: "int \<Rightarrow> string"
  htBasicAuth :: "string \<Rightarrow> string \<Rightarrow> string"
  htJSON :: jsonLib

text \<open>\<open>io.LimitReader(resp.Body, 1<<20)\<close>\<close>

definition bodyLimit :: nat where
  "bodyLimit = 2 ^ 20"

definition limited :: "httpResp \<Rightarrow> string" where
  "limited r = take bodyLimit (rsBody r)"

lemma limited_code [code]:
  "limited r = (if int (length (rsBody r)) \<le> 1048576 then rsBody r else take bodyLimit (rsBody r))"
  by (simp add: limited_def bodyLimit_def)

definition succeeded :: "httpResp \<Rightarrow> bool" where
  "succeeded r \<longleftrightarrow> 200 \<le> rsStatus r \<and> rsStatus r < 300"

section \<open>Types of the documents\<close>

definition keyFields :: "(string \<times> key decoder) list" where
  "keyFields =
     [(''id'', inField decInt64 kID (\<lambda>x v. v\<lparr>kID := x\<rparr>)),
      (''keytype'', inField decString kKeyType (\<lambda>x v. v\<lparr>kKeyType := x\<rparr>)),
      (''active'', inField decBool kActive (\<lambda>x v. v\<lparr>kActive := x\<rparr>)),
      (''published'', inField decBool kPublished (\<lambda>x v. v\<lparr>kPublished := x\<rparr>)),
      (''dnskey'', inField decString kDNSKEY (\<lambda>x v. v\<lparr>kDNSKEY := x\<rparr>)),
      (''ds'', inField (decSlice decString []) (\<lambda>v. Some (kDS v)) (\<lambda>x v. v\<lparr>kDS := (case x of None \<Rightarrow> [] | Some y \<Rightarrow> y)\<rparr>)),
      (''algorithm'', inField decString kAlgorithm (\<lambda>x v. v\<lparr>kAlgorithm := x\<rparr>)),
      (''bits'', inField decInt64 kBits (\<lambda>x v. v\<lparr>kBits := x\<rparr>))]"

definition zeroKey :: key where
  "zeroKey = \<lparr>kID = 0, kKeyType = [], kActive = False, kPublished = False, kDNSKEY = [], kDS = [], kAlgorithm = [], kBits = 0\<rparr>"

definition recordFields :: "(string \<times> rrcontent decoder) list" where
  "recordFields =
     [(''content'', inField decString cContent (\<lambda>x v. v\<lparr>cContent := x\<rparr>)),
      (''disabled'', inField decBool cDisabled (\<lambda>x v. v\<lparr>cDisabled := x\<rparr>))]"

definition rrsetFields :: "(string \<times> rrset decoder) list" where
  "rrsetFields =
     [(''name'', inField decString rName (\<lambda>x v. v\<lparr>rName := x\<rparr>)),
      (''type'', inField decString rType (\<lambda>x v. v\<lparr>rType := x\<rparr>)),
      (''ttl'', inField decWord rTTL (\<lambda>x v. v\<lparr>rTTL := x\<rparr>)),
      (''records'', inField (decSlice (decStruct recordFields) \<lparr>cContent = [], cDisabled = False\<rparr>)
         (\<lambda>v. Some (rRecords v)) (\<lambda>x v. v\<lparr>rRecords := (case x of None \<Rightarrow> [] | Some y \<Rightarrow> y)\<rparr>))]"

definition zoneFields :: "(string \<times> zone decoder) list" where
  "zoneFields =
     [(''id'', inField decString zID (\<lambda>x v. v\<lparr>zID := x\<rparr>)),
      (''name'', inField decString zName (\<lambda>x v. v\<lparr>zName := x\<rparr>)),
      (''kind'', inField decString zKind (\<lambda>x v. v\<lparr>zKind := x\<rparr>)),
      (''dnssec'', inField decBool zDNSSEC (\<lambda>x v. v\<lparr>zDNSSEC := x\<rparr>)),
      (''rrsets'', inField (decSlice (decStruct rrsetFields) \<lparr>rName = [], rType = [], rTTL = 0, rRecords = []\<rparr>)
         (\<lambda>v. Some (zRRsets v)) (\<lambda>x v. v\<lparr>zRRsets := (case x of None \<Rightarrow> [] | Some y \<Rightarrow> y)\<rparr>))]"

definition zeroZone :: zone where
  "zeroZone = \<lparr>zID = [], zName = [], zKind = [], zDNSSEC = False, zRRsets = []\<rparr>"

definition dataFields :: "(string \<times> dnssecData decoder) list" where
  "dataFields =
     [(''flags'', inField decWord dFlags (\<lambda>x v. v\<lparr>dFlags := x\<rparr>)),
      (''protocol'', inField decWord dProtocol (\<lambda>x v. v\<lparr>dProtocol := x\<rparr>)),
      (''algorithm'', inField decWord dAlgorithm (\<lambda>x v. v\<lparr>dAlgorithm := x\<rparr>)),
      (''publicKey'', inField decString dPublicKey (\<lambda>x v. v\<lparr>dPublicKey := x\<rparr>))]"

definition zeroData :: dnssecData where
  "zeroData = \<lparr>dFlags = 0, dProtocol = 0, dAlgorithm = 0, dPublicKey = []\<rparr>"

text \<open>What \<open>json.Marshal\<close> makes of them\<close>

definition encData :: "dnssecData \<Rightarrow> json" where
  "encData d = JObj
     [(''flags'', JNum (itoa (uint (dFlags d)))), (''protocol'', JNum (itoa (uint (dProtocol d)))),
      (''algorithm'', JNum (itoa (uint (dAlgorithm d)))), (''publicKey'', JStr (dPublicKey d))]"

end
