(* ===== verification/Autodns.thy ===== *)
theory Autodns
  imports Http Paths Io
begin

text \<open>
  \<open>internal/autodns/client.go\<close>: the registrar API over HTTP with paced requests. The mutex of
  the client orders the waits; the model makes one request after the other.
\<close>

section \<open>The client\<close>

record autoClient =
  auBase :: string
  auUsername :: string
  auPassword :: string
  auContext :: int
  auMinimumInterval :: duration

definition newAuto :: "string \<Rightarrow> string \<Rightarrow> string \<Rightarrow> int \<Rightarrow> duration \<Rightarrow> autoClient" where
  "newAuto base username password contextNumber minimumInterval =
     \<lparr>auBase = trimRight base slash, auUsername = username, auPassword = password, auContext = contextNumber,
      auMinimumInterval = minimumInterval\<rparr>"

text \<open>
  \<open>tmNow\<close> is \<open>time.Now\<close>; \<open>tmWait\<close> waits for a timer, or returns \<open>ctx.Err()\<close> when the context ends
  before.
\<close>

record 'v timer =
  tmNow :: "'v \<Rightarrow> time \<times> 'v"
  tmWait :: "duration \<Rightarrow> 'v \<Rightarrow> err option \<times> 'v"

text \<open>
  \<open>rgLast\<close> is the field \<open>last\<close>. The history holds the requests with the time that \<open>last\<close> had been
  set to; the code never reads it.
\<close>

record 'v registrar =
  rgWorld :: 'v
  rgLast :: time
  rgLog :: "(time \<times> httpReq \<times> (err + httpResp)) list"

definition readClock :: "'v timer \<Rightarrow> ('v registrar, time) opn" where
  "readClock tm = (\<lambda>s. case tmNow tm (rgWorld s) of (t, w) \<Rightarrow> (Inr t, s\<lparr>rgWorld := w\<rparr>))"

definition waitTimer :: "'v timer \<Rightarrow> duration \<Rightarrow> ('v registrar, unit) opn" where
  "waitTimer tm d = (\<lambda>s. case tmWait tm d (rgWorld s) of
     (None, w) \<Rightarrow> (Inr (), s\<lparr>rgWorld := w\<rparr>)
   | (Some e, w) \<Rightarrow> (Inl e, s\<lparr>rgWorld := w\<rparr>))"

definition askRegistrar :: "'v http \<Rightarrow> httpReq \<Rightarrow> ('v registrar, httpResp) opn" where
  "askRegistrar h q = (\<lambda>s. case htDo h q (rgWorld s) of
     (r, w) \<Rightarrow> (r, s\<lparr>rgWorld := w, rgLog := rgLog s @ [(rgLast s, q, r)]\<rparr>))"

text \<open>\<open>time.Since(c.last)\<close>: from the zero time on it saturates.\<close>

definition since :: "time \<Rightarrow> time \<Rightarrow> duration" where
  "since now prev = (if timeIsZero prev then 2 ^ 63 - 1 else timeSub now prev)"

definition getLast :: "('v registrar, time) opn" where
  "getLast = (\<lambda>s. (Inr (rgLast s), s))"

definition setLast :: "time \<Rightarrow> ('v registrar, unit) opn" where
  "setLast t = (\<lambda>s. (Inr (), s\<lparr>rgLast := t\<rparr>))"

definition pace :: "'v timer \<Rightarrow> autoClient \<Rightarrow> ('v registrar, unit) opn" where
  "pace tm c =
     bind (readClock tm) (\<lambda>now.
     bind getLast (\<lambda>prev.
     let wait = i64 (auMinimumInterval c - since now prev)
     in bind (if 0 < wait then waitTimer tm wait else ret ()) (\<lambda>_.
        bind (readClock tm) setLast)))"

section \<open>do\<close>

text \<open>The answer of the registrar, and an answer with another status\<close>

record autoStatus =
  asCode :: string
  asResultCode :: string
  asText :: string
  asType :: string

record autoResponse =
  arSTID :: string
  arStatus :: autoStatus
  arData :: "json option list option"

record requestError =
  reMethod :: string
  rePath :: string
  reStatus :: int
  reCode :: string
  reMessage :: string

definition requestErr :: "requestError \<Rightarrow> err" where
  "requestErr e = Fmt AutoRequest [AStr (reMethod e), AStr (rePath e), AInt (reStatus e), AStr (reCode e), AStr (reMessage e)]"

definition statusFields :: "(string \<times> autoStatus decoder) list" where
  "statusFields =
     [(''code'', inField decString asCode (\<lambda>x v. v\<lparr>asCode := x\<rparr>)),
      (''resultCode'', inField decString asResultCode (\<lambda>x v. v\<lparr>asResultCode := x\<rparr>)),
      (''text'', inField decString asText (\<lambda>x v. v\<lparr>asText := x\<rparr>)),
      (''type'', inField decString asType (\<lambda>x v. v\<lparr>asType := x\<rparr>))]"

definition responseFields :: "(string \<times> autoResponse decoder) list" where
  "responseFields =
     [(''stid'', inField decString arSTID (\<lambda>x v. v\<lparr>arSTID := x\<rparr>)),
      (''status'', inField (decStruct statusFields) arStatus (\<lambda>x v. v\<lparr>arStatus := x\<rparr>)),
      (''data'', inField (decSlice decRaw None) arData (\<lambda>x v. v\<lparr>arData := x\<rparr>))]"

definition zeroResponse :: autoResponse where
  "zeroResponse = \<lparr>arSTID = [], arStatus = \<lparr>asCode = [], asResultCode = [], asText = [], asType = []\<rparr>, arData = None\<rparr>"

definition statusCode :: "autoStatus \<Rightarrow> string" where
  "statusCode st = (if asCode st = [] then asResultCode st else asCode st)"

definition autoRequest :: "'v http \<Rightarrow> autoClient \<Rightarrow> string \<Rightarrow> string \<Rightarrow> json option \<Rightarrow> string \<Rightarrow> httpReq" where
  "autoRequest h c method path body ctid =
     \<lparr>rqMethod = method, rqURL = auBase c @ path,
      rqHeaders = [(''Authorization'', htBasicAuth h (auUsername c) (auPassword c)),
          (''X-Domainrobot-Context'', itoa (auContext c))]
        @ (if ctid \<noteq> [] then [(''X-Domainrobot-Ctid'', ctid)] else [])
        @ [(''Accept'', ''application/json'')]
        @ (if body \<noteq> None then [(''Content-Type'', ''application/json'')] else []),
      rqBody = body\<rparr>"

definition failedStatus :: "'v http \<Rightarrow> string \<Rightarrow> string \<Rightarrow> httpResp \<Rightarrow> requestError" where
  "failedStatus h method path resp =
     (let e = arStatus (fst (storeJSON (decStruct responseFields) (jlUnmarshal (htJSON h) (limited resp)) zeroResponse))
      in \<lparr>reMethod = method, rePath = path, reStatus = rsStatus resp, reCode = statusCode e,
          reMessage = (if asText e = [] then htStatusText h (rsStatus resp) else asText e)\<rparr>)"

text \<open>A \<open>*requestError\<close> is a value of its own, so that \<open>errors.As\<close> can find it.\<close>

definition autoDo ::
  "'v http \<Rightarrow> 'v timer \<Rightarrow> autoClient \<Rightarrow> string \<Rightarrow> string \<Rightarrow> json option \<Rightarrow> string \<Rightarrow>
   ('v registrar, requestError + autoResponse) opn" where
  "autoDo h tm c method path body ctid =
     bind (pace tm c) (\<lambda>_.
     case htBadRequest h method (auBase c @ path) of
       Some e \<Rightarrow> throw e
     | None \<Rightarrow>
         bind (wrapErr (Wrap AutoTransport [AStr method]) (askRegistrar h (autoRequest h c method path body ctid))) (\<lambda>resp.
         if \<not> succeeded resp then ret (Inl (failedStatus h method path resp))
         else case storeJSON (decStruct responseFields) (jlDecode (htJSON h) (limited resp)) zeroResponse of
           (r, Some e) \<Rightarrow> throw (Wrap AutoDecode [] e)
         | (r, None) \<Rightarrow>
             if equalFold (asType (arStatus r)) ''ERROR''
             then throw (Fmt AutoCode [AStr (statusCode (arStatus r)), AStr (asText (arStatus r))])
             else ret (Inr r)))"

definition dataOf :: "autoResponse \<Rightarrow> json list" where
  "dataOf r = map (\<lambda>x. case x of None \<Rightarrow> JNull | Some j \<Rightarrow> j) (case arData r of None \<Rightarrow> [] | Some xs \<Rightarrow> xs)"

section \<open>DomainDNSSEC\<close>

record domainInfo =
  diName :: string
  diDNSSECData :: "json option"
  diDNSSEC :: "json option"

definition domainFields :: "(string \<times> domainInfo decoder) list" where
  "domainFields =
     [(''name'', inField decString diName (\<lambda>x v. v\<lparr>diName := x\<rparr>)),
      (''dnssecData'', inField decRaw diDNSSECData (\<lambda>x v. v\<lparr>diDNSSECData := x\<rparr>)),
      (''dnssec'', inField decRaw diDNSSEC (\<lambda>x v. v\<lparr>diDNSSEC := x\<rparr>))]"

definition domainPath :: "string \<Rightarrow> string" where
  "domainPath zone = ''/domain/'' @ pathEscape (trimSuffix zone ''.'')"

definition sameDomain :: "string \<Rightarrow> string \<Rightarrow> bool" where
  "sameDomain name zone \<longleftrightarrow> toLower (trimSuffix (trimSpace name) ''.'') = toLower (trimSuffix zone ''.'')"

text \<open>From the two raw fields to the state\<close>

definition domainState :: "json option \<Rightarrow> json option \<Rightarrow> err + domainDNSSECState" where
  "domainState dnssec data =
     (case (dnssec, data) of
        (None, None) \<Rightarrow> Inr \<lparr>dsEnabled = False, dsData = [], dsOmitted = True\<rparr>
      | (None, Some _) \<Rightarrow> Inl (Fmt AutoDNSSECMissing [])
      | (Some _, None) \<Rightarrow> Inl (Fmt AutoDataMissing [])
      | (Some d, Some a) \<Rightarrow>
          (let (enabled, ok) = decBool d False
           in if d = JNull \<or> \<not> ok then Inl (Fmt AutoBoolean [])
              else case a of
                JArr js \<Rightarrow>
                  (case storeJSON (decSlice (decStruct dataFields) zeroData) (Inr a) None of
                     (x, Some e) \<Rightarrow> Inl (Wrap AutoDecodeData [] e)
                   | (None, None) \<Rightarrow> Inl (Fmt AutoDataNull [])
                   | (Some ds, None) \<Rightarrow> Inr \<lparr>dsEnabled = enabled, dsData = ds, dsOmitted = False\<rparr>)
              | _ \<Rightarrow> Inl (Fmt AutoArray [])))"

definition autoDomainDNSSEC ::
  "'v http \<Rightarrow> 'v timer \<Rightarrow> autoClient \<Rightarrow> string \<Rightarrow> ('v registrar, domainDNSSECState) opn" where
  "autoDomainDNSSEC h tm c zone =
     bind (autoDo h tm c ''GET'' (domainPath zone) None []) (\<lambda>q.
     case q of
       Inl re \<Rightarrow> throw (requestErr re)
     | Inr r \<Rightarrow>
         (case dataOf r of
            [j] \<Rightarrow>
              (case storeJSON (decStruct domainFields) (Inr j) \<lparr>diName = [], diDNSSECData = None, diDNSSEC = None\<rparr> of
                 (d, Some e) \<Rightarrow> throw (Wrap AutoDecodeDomain [] e)
               | (d, None) \<Rightarrow>
                   if \<not> sameDomain (diName d) zone then throw (Fmt AutoNameMismatch [])
                   else pureE (domainState (diDNSSEC d) (diDNSSECData d)))
          | _ \<Rightarrow> throw (Fmt AutoDomainRecords [AInt (int (length (dataOf r)))])))"

section \<open>UpdateDNSSEC\<close>

record ackData =
  akID :: int
  akStatus :: string

definition ackFields :: "(string \<times> ackData decoder) list" where
  "ackFields =
     [(''id'', inField decInt64 akID (\<lambda>x v. v\<lparr>akID := x\<rparr>)),
      (''status'', inField decString akStatus (\<lambda>x v. v\<lparr>akStatus := x\<rparr>))]"

text \<open>The job in the answer\<close>

definition acknowledged :: "autoResponse \<Rightarrow> err + job" where
  "acknowledged r =
     (let st = toUpper (asType (arStatus r));
          result = (case dataOf r of
             [] \<Rightarrow> Inr \<lparr>jID = 0, jSTID = arSTID r, jStatus = st\<rparr>
           | j # _ \<Rightarrow>
              (case storeJSON (decStruct ackFields) (Inr j) \<lparr>akID = 0, akStatus = []\<rparr> of
                 (d, Some e) \<Rightarrow> Inl (Wrap AutoDecodeJob [] e)
               | (d, None) \<Rightarrow> Inr \<lparr>jID = akID d, jSTID = arSTID r,
                   jStatus = (if akStatus d \<noteq> [] then toUpper (akStatus d) else st)\<rparr>))
      in case result of
           Inl e \<Rightarrow> Inl e
         | Inr job \<Rightarrow>
             if equalFold (asType (arStatus r)) ''NOTIFY'' \<and> jID job = 0 then Inl (Fmt AutoNoJobID []) else Inr job)"

definition updateBody :: "string \<Rightarrow> dnssecData list \<Rightarrow> json" where
  "updateBody zone keys = JObj
     [(''dnssec'', JBool True), (''dnssecData'', JArr (map encData keys)), (''name'', JStr (trimSuffix zone ''.''))]"

definition autoUpdateDNSSEC ::
  "'v http \<Rightarrow> 'v timer \<Rightarrow> autoClient \<Rightarrow> string \<Rightarrow> dnssecData list \<Rightarrow> string \<Rightarrow> ('v registrar, job) opn" where
  "autoUpdateDNSSEC h tm c zone keys ctid =
     bind (autoDo h tm c ''PUT'' (domainPath zone) (Some (updateBody zone keys)) ctid) (\<lambda>q.
     case q of
       Inl re \<Rightarrow> throw (requestErr re)
     | Inr r \<Rightarrow> pureE (acknowledged r))"

section \<open>JobStatus\<close>

definition jobFields :: "(string \<times> ackData decoder) list" where
  "jobFields = [(''job'', decStruct ackFields)]"

definition autoJobStatus :: "'v http \<Rightarrow> 'v timer \<Rightarrow> autoClient \<Rightarrow> int \<Rightarrow> ('v registrar, string) opn" where
  "autoJobStatus h tm c i =
     (if i \<le> 0 then throw (Fmt AutoJobIDPositive [])
      else
      bind (autoDo h tm c ''GET'' (''/job/'' @ itoa i) None []) (\<lambda>q.
      case q of
        Inl re \<Rightarrow>
          if reStatus re = 404 \<and> reCode re = ''E300114'' then throw (JobUnavailable (requestErr re))
          else throw (requestErr re)
      | Inr r \<Rightarrow>
          (case dataOf r of
             [j] \<Rightarrow>
               (case storeJSON (decStruct jobFields) (Inr j) \<lparr>akID = 0, akStatus = []\<rparr> of
                  (d, Some e) \<Rightarrow> throw (Wrap AutoDecodeJobInfo [] e)
                | (d, None) \<Rightarrow>
                    if akID d \<noteq> i \<or> akStatus d = [] then throw (Fmt AutoJobMismatch [AInt i])
                    else ret (toUpper (akStatus d)))
           | _ \<Rightarrow> throw (Fmt AutoJobRecords [AInt (int (length (dataOf r)))]))))"

end
