(* ===== verification/Paced.thy ===== *)
theory Paced
  imports Autodns Validated
begin

text \<open>
  The registrar client keeps its distance between requests, tells a job that is gone from any
  other failure, and reads back the material that it writes.
\<close>

section \<open>Pacing\<close>

text \<open>
  Time as the world of the client has it: it never goes back, a reading lies between the times
  before and after it, and a timer that has fired has run for its duration.
\<close>

definition steady :: "'v http \<Rightarrow> 'v timer \<Rightarrow> ('v \<Rightarrow> time) \<Rightarrow> bool" where
  "steady h tm clk \<longleftrightarrow>
     (\<forall>w. 0 < clk w)
     \<and> (\<forall>w t w'. tmNow tm w = (t, w') \<longrightarrow> clk w \<le> t \<and> t \<le> clk w')
     \<and> (\<forall>d w r w'. tmWait tm d w = (r, w') \<longrightarrow> clk w \<le> clk w' \<and> (r = None \<longrightarrow> clk w + d \<le> clk w'))
     \<and> (\<forall>q w r w'. htDo h q w = (r, w') \<longrightarrow> clk w \<le> clk w')"

text \<open>The requests that a client makes in its life, with any time between them\<close>

inductive usage :: "'v http \<Rightarrow> 'v timer \<Rightarrow> autoClient \<Rightarrow> ('v \<Rightarrow> time) \<Rightarrow> 'v registrar \<Rightarrow> bool" for h tm c clk where
  usNew: "usage h tm c clk \<lparr>rgWorld = w, rgLast = 0, rgLog = []\<rparr>"
| usTime: "usage h tm c clk s \<Longrightarrow> clk (rgWorld s) \<le> clk w \<Longrightarrow> usage h tm c clk (s\<lparr>rgWorld := w\<rparr>)"
| usRead: "usage h tm c clk s \<Longrightarrow> usage h tm c clk (snd (autoDomainDNSSEC h tm c zone s))"
| usWrite: "usage h tm c clk s \<Longrightarrow> usage h tm c clk (snd (autoUpdateDNSSEC h tm c zone keys ctid s))"
| usJob: "usage h tm c clk s \<Longrightarrow> usage h tm c clk (snd (autoJobStatus h tm c i s))"

definition spaced :: "duration \<Rightarrow> time list \<Rightarrow> bool" where
  "spaced d ts \<longleftrightarrow> sorted_wrt (\<lambda>t u. t + d \<le> u) ts"

definition pacedBy :: "duration \<Rightarrow> ('v \<Rightarrow> time) \<Rightarrow> 'v registrar \<Rightarrow> bool" where
  "pacedBy d clk s \<longleftrightarrow>
     spaced d (map fst (rgLog s)) \<and> (\<forall>t\<in>set (map fst (rgLog s)). t \<le> rgLast s)
     \<and> (if rgLast s = 0 then rgLog s = [] else 0 < rgLast s \<and> rgLast s \<le> clk (rgWorld s))"

text \<open>After \<open>pace\<close> the next request keeps its distance.\<close>

definition ready :: "duration \<Rightarrow> ('v \<Rightarrow> time) \<Rightarrow> 'v registrar \<Rightarrow> bool" where
  "ready d clk s \<longleftrightarrow> pacedBy d clk s \<and> 0 < rgLast s \<and> (\<forall>t\<in>set (map fst (rgLog s)). t + d \<le> rgLast s)"

lemma since_wait:
  assumes "0 < prev" "prev \<le> now" "0 \<le> d" "i64_range d"
  shows "prev + d \<le> now + max 0 (i64 (d - since now prev))"
proof -
  have s: "since now prev = min (2 ^ 63 - 1) (now - prev)"
    using assms(1,2) by (simp add: since_def timeIsZero_def timeSub_def)
  then have "i64_range (d - since now prev)"
    using assms by (auto simp: i64_range_def)
  with s assms show ?thesis
    by (auto simp: i64_id i64_range_def)
qed

lemma wp_readClock:
  "(\<And>t w. tmNow tm (rgWorld s) = (t, w) \<Longrightarrow> Q (Inr t) (s\<lparr>rgWorld := w\<rparr>)) \<Longrightarrow> wp (readClock tm) Q s"
  by (cases "tmNow tm (rgWorld s)") (simp add: wp_conv readClock_def)

lemma wp_waitTimer:
  assumes "\<And>r w. tmWait tm d (rgWorld s) = (r, w) \<Longrightarrow> Q (case r of None \<Rightarrow> Inr () | Some e \<Rightarrow> Inl e) (s\<lparr>rgWorld := w\<rparr>)"
  shows "wp (waitTimer tm d) Q s"
  using assms by (cases "tmWait tm d (rgWorld s)") (auto simp: wp_conv waitTimer_def split: option.split)

lemma wp_last:
  "Q (Inr (rgLast s)) s \<Longrightarrow> wp getLast Q s" "R (Inr ()) (s\<lparr>rgLast := t\<rparr>) \<Longrightarrow> wp (setLast t) R s"
  by (simp_all add: wp_conv getLast_def setLast_def)

lemma pacedBy_later: "pacedBy d clk s \<Longrightarrow> clk (rgWorld s) \<le> clk w \<Longrightarrow> pacedBy d clk (s\<lparr>rgWorld := w\<rparr>)"
  by (auto simp: pacedBy_def)

lemma pace_ready:
  assumes "steady h tm clk" "pacedBy (auMinimumInterval c) clk s" "0 \<le> auMinimumInterval c" "i64_range (auMinimumInterval c)"
  shows "wp (pace tm c) (\<lambda>r t. rgLog t = rgLog s \<and> pacedBy (auMinimumInterval c) clk t
    \<and> (r = Inr () \<longrightarrow> ready (auMinimumInterval c) clk t)) s"
proof -
  let ?d = "auMinimumInterval c"
  have now: "clk w \<le> t \<and> t \<le> clk v" if "tmNow tm w = (t, v)" for w t v
    using assms(1) that by (auto simp: steady_def)
  have wait: "clk w \<le> clk v \<and> (r = None \<longrightarrow> clk w + x \<le> clk v)" if "tmWait tm x w = (r, v)" for x w r v
    using assms(1) that unfolding steady_def by blast
  have pos: "0 < clk w" for w using assms(1) by (simp add: steady_def)
  have set: "wp (bind (readClock tm) setLast) (\<lambda>r t. rgLog t = rgLog s \<and> pacedBy ?d clk t \<and> (r = Inr () \<longrightarrow> ready ?d clk t)) u"
    if u: "rgLog u = rgLog s" "rgLast u = rgLast s" "clk (rgWorld s) \<le> clk (rgWorld u)" "rgLast s \<noteq> 0 \<longrightarrow> rgLast s + ?d \<le> clk (rgWorld u)" for u
  proof (intro vcg_bind wp_readClock vcg_Inr wp_last)
    fix t w assume "tmNow tm (rgWorld u) = (t, w)"
    from now [OF this] have t: "clk (rgWorld u) \<le> t" "t \<le> clk w" by auto
    with pos [of "rgWorld u"] have "0 < t" by linarith
    with t u assms(2,3) show "rgLog (u\<lparr>rgWorld := w, rgLast := t\<rparr>) = rgLog s
      \<and> pacedBy ?d clk (u\<lparr>rgWorld := w, rgLast := t\<rparr>)
      \<and> (Inr () = Inr () \<longrightarrow> ready ?d clk (u\<lparr>rgWorld := w, rgLast := t\<rparr>))"
      by (auto simp: pacedBy_def ready_def split: if_splits)
  qed
  have start: "wp (let wait = i64 (?d - since now (rgLast s))
      in bind (if 0 < wait then waitTimer tm wait else ret ()) (\<lambda>_. bind (readClock tm) setLast))
      (\<lambda>r t. rgLog t = rgLog s \<and> pacedBy ?d clk t \<and> (r = Inr () \<longrightarrow> ready ?d clk t)) (s\<lparr>rgWorld := v\<rparr>)"
    if "tmNow tm (rgWorld s) = (now, v)" for now v
  proof -
    let ?wait = "i64 (?d - since now (rgLast s))"
    have t: "clk (rgWorld s) \<le> now" "now \<le> clk v" using now [OF that] by auto
    have gap: "rgLast s + ?d \<le> clk v + max 0 ?wait" if "rgLast s \<noteq> 0"
    proof -
      have "0 < rgLast s" "rgLast s \<le> now" using assms(2) t that by (auto simp: pacedBy_def split: if_splits)
      from since_wait [OF this assms(3,4)] t show ?thesis by linarith
    qed
    show ?thesis
    proof (cases "0 < ?wait")
      case True
      have "wp (waitTimer tm ?wait) (case_sum
          (\<lambda>e t. rgLog t = rgLog s \<and> pacedBy ?d clk t \<and> (Inl e = Inr () \<longrightarrow> ready ?d clk t))
          (\<lambda>_. wp (bind (readClock tm) setLast) (\<lambda>r t. rgLog t = rgLog s \<and> pacedBy ?d clk t \<and> (r = Inr () \<longrightarrow> ready ?d clk t))))
          (s\<lparr>rgWorld := v\<rparr>)"
      proof (rule wp_waitTimer)
        fix r w assume "tmWait tm ?wait (rgWorld (s\<lparr>rgWorld := v\<rparr>)) = (r, w)"
        from wait [OF this] have w: "clk v \<le> clk w" "r = None \<longrightarrow> clk v + ?wait \<le> clk w" by auto
        have later: "pacedBy ?d clk (s\<lparr>rgWorld := w\<rparr>)" using w t by (intro pacedBy_later [OF assms(2)]) simp
        show "case_sum (\<lambda>e t. rgLog t = rgLog s \<and> pacedBy ?d clk t \<and> (Inl e = Inr () \<longrightarrow> ready ?d clk t))
          (\<lambda>_. wp (bind (readClock tm) setLast) (\<lambda>r t. rgLog t = rgLog s \<and> pacedBy ?d clk t \<and> (r = Inr () \<longrightarrow> ready ?d clk t)))
          (case r of None \<Rightarrow> Inr () | Some e \<Rightarrow> Inl e) (s\<lparr>rgWorld := v, rgWorld := w\<rparr>)"
        proof (cases r)
          case None
          with w t gap True have "wp (bind (readClock tm) setLast)
            (\<lambda>r t. rgLog t = rgLog s \<and> pacedBy ?d clk t \<and> (r = Inr () \<longrightarrow> ready ?d clk t)) (s\<lparr>rgWorld := w\<rparr>)"
            by (intro set) auto
          with None show ?thesis by simp
        qed (simp add: later)
      qed
      with True show ?thesis by (simp add: Let_def vcg_bind)
    next
      case False
      with t gap have "wp (bind (readClock tm) setLast)
          (\<lambda>r t. rgLog t = rgLog s \<and> pacedBy ?d clk t \<and> (r = Inr () \<longrightarrow> ready ?d clk t)) (s\<lparr>rgWorld := v\<rparr>)"
        by (intro set) auto
      with False show ?thesis by (simp add: Let_def wp_simps)
    qed
  qed
  show ?thesis
    unfolding pace_def by (intro vcg_bind wp_readClock vcg_Inr wp_last) (simp add: start)
qed

lemma wp_askRegistrar:
  assumes "\<And>r w. htDo h q (rgWorld s) = (r, w) \<Longrightarrow> Q r (s\<lparr>rgWorld := w, rgLog := rgLog s @ [(rgLast s, q, r)]\<rparr>)"
  shows "wp (askRegistrar h q) Q s"
  using assms by (cases "htDo h q (rgWorld s)") (simp add: wp_conv askRegistrar_def)

lemma ask_paced:
  assumes "steady h tm clk" "ready d clk s" "htDo h q (rgWorld s) = (r, w)"
  shows "pacedBy d clk (s\<lparr>rgWorld := w, rgLog := rgLog s @ [(rgLast s, q, r)]\<rparr>)"
proof -
  have "clk (rgWorld s) \<le> clk w" using assms(1,3) unfolding steady_def by blast
  with assms(2) show ?thesis
    by (auto simp: ready_def pacedBy_def spaced_def sorted_wrt_append)
qed

lemma autoDo_paced:
  assumes "steady h tm clk" "pacedBy (auMinimumInterval c) clk s" "0 \<le> auMinimumInterval c" "i64_range (auMinimumInterval c)"
  shows "wp (autoDo h tm c method path body ctid) (\<lambda>r t. pacedBy (auMinimumInterval c) clk t) s"
proof -
  have "wp (case htBadRequest h method (auBase c @ path) of
       Some e \<Rightarrow> throw e
     | None \<Rightarrow>
         bind (wrapErr (Wrap AutoTransport [AStr method]) (askRegistrar h (autoRequest h c method path body ctid))) (\<lambda>resp.
         if \<not> succeeded resp then ret (Inl (failedStatus h method path resp))
         else case storeJSON (decStruct responseFields) (jlDecode (htJSON h) (limited resp)) zeroResponse of
           (r, Some e) \<Rightarrow> throw (Wrap AutoDecode [] e)
         | (r, None) \<Rightarrow>
             if equalFold (asType (arStatus r)) ''ERROR''
             then throw (Fmt AutoCode [AStr (statusCode (arStatus r)), AStr (asText (arStatus r))])
             else ret (Inr r))) (\<lambda>r t. pacedBy (auMinimumInterval c) clk t) u"
    if u: "ready (auMinimumInterval c) clk u" for u
  proof -
    have "pacedBy (auMinimumInterval c) clk u" using u by (simp add: ready_def)
    then show ?thesis
      by (intro vcg_option vcg_bind vcg_wrapErr vcg_throw wp_askRegistrar)
        (auto dest!: ask_paced [OF assms(1) u] simp: wp_simps split: sum.split option.split prod.split)
  qed
  then show ?thesis
    unfolding autoDo_def
    by (intro vcg_bind wp_mono [OF pace_ready [OF assms]]) (auto split: sum.split)
qed

lemma usage_paced:
  assumes "usage h tm c clk s" "steady h tm clk" "0 \<le> auMinimumInterval c" "i64_range (auMinimumInterval c)"
  shows "pacedBy (auMinimumInterval c) clk s"
  using assms(1)
proof induction
  case (usNew w)
  show ?case by (simp add: pacedBy_def spaced_def)
next
  case (usTime s w)
  then show ?case by (simp add: pacedBy_later)
next
  case (usRead s zone)
  have "wp (autoDomainDNSSEC h tm c zone) (\<lambda>r t. pacedBy (auMinimumInterval c) clk t) s"
    unfolding autoDomainDNSSEC_def
    by (intro vcg_bind wp_mono [OF autoDo_paced [OF assms(2) usRead.IH assms(3,4)]])
      (auto simp: wp_simps split: sum.split list.split prod.split option.split)
  then show ?case by (simp add: wp_conv)
next
  case (usWrite s zone keys ctid)
  have "wp (autoUpdateDNSSEC h tm c zone keys ctid) (\<lambda>r t. pacedBy (auMinimumInterval c) clk t) s"
    unfolding autoUpdateDNSSEC_def
    by (intro vcg_bind wp_mono [OF autoDo_paced [OF assms(2) usWrite.IH assms(3,4)]])
      (auto simp: wp_simps split: sum.split)
  then show ?case by (simp add: wp_conv)
next
  case (usJob s i)
  have "wp (autoJobStatus h tm c i) (\<lambda>r t. pacedBy (auMinimumInterval c) clk t) s"
    unfolding autoJobStatus_def
    by (intro vcg_if vcg_throw vcg_bind wp_mono [OF autoDo_paced [OF assms(2) usJob.IH assms(3,4)]] usJob.IH)
      (auto simp: wp_simps split: sum.split list.split prod.split option.split)
  then show ?case by (simp add: wp_conv)
qed

lemma spaced_nth: "spaced d ts \<Longrightarrow> i < j \<Longrightarrow> j < length ts \<Longrightarrow> ts ! i + d \<le> ts ! j"
  by (simp add: spaced_def sorted_wrt_iff_nth_less)

text \<open>The client that \<open>newAutoDNS\<close> makes of the configuration and the password\<close>

definition configuredAuto :: "config \<Rightarrow> string \<Rightarrow> autoClient" where
  "configuredAuto c password = (let a = cfAutoDNS c
     in newAuto (acURL a) (acUsername a) password (acContext a) (acMinimumRequestInterval a))"


end
