(* ===== verification/Pdns.thy ===== *)
theory Pdns
  imports Http Paths
begin

text \<open>\<open>internal/pdns/client.go\<close>: the PowerDNS API over HTTP.\<close>

section \<open>Transport\<close>

text \<open>The requests made so far with their results; the code never reads them.\<close>

record 'v web =
  wbWorld :: 'v
  wbLog :: "(httpReq \<times> (err + httpResp)) list"

definition sendRequest :: "'v http \<Rightarrow> httpReq \<Rightarrow> ('v web, httpResp) opn" where
  "sendRequest h q = (\<lambda>s. case htDo h q (wbWorld s) of
     (r, w) \<Rightarrow> (r, s\<lparr>wbWorld := w, wbLog := wbLog s @ [(q, r)]\<rparr>))"

section \<open>The client\<close>

record pdnsClient =
  pnBase :: string
  pnServerID :: string
  pnAPIKey :: string

definition newPdns :: "string \<Rightarrow> string \<Rightarrow> string \<Rightarrow> pdnsClient" where
  "newPdns base serverID apiKey = \<lparr>pnBase = trimRight base slash, pnServerID = serverID, pnAPIKey = apiKey\<rparr>"

definition keysPath :: "pdnsClient \<Rightarrow> string \<Rightarrow> string" where
  "keysPath c zoneID =
     ''/servers/'' @ pathEscape (pnServerID c) @ ''/zones/'' @ pathEscape zoneID @ ''/cryptokeys''"

definition pdnsRequest :: "pdnsClient \<Rightarrow> string \<Rightarrow> string \<Rightarrow> json option \<Rightarrow> httpReq" where
  "pdnsRequest c method path body =
     \<lparr>rqMethod = method, rqURL = pnBase c @ path,
      rqHeaders = [(''X-API-Key'', pnAPIKey c), (''Accept'', ''application/json'')]
        @ (if body = None then [] else [(''Content-Type'', ''application/json'')]),
      rqBody = body\<rparr>"

text \<open>The message of an answer that is no success: its \<open>error\<close> field, or the text of the status\<close>

definition pdnsMessage :: "'v http \<Rightarrow> httpResp \<Rightarrow> string" where
  "pdnsMessage h resp =
     (let msg = fst (storeJSON (decStruct [(''error'', decString)]) (jlUnmarshal (htJSON h) (limited resp)) [])
      in if msg = [] then htStatusText h (rsStatus resp) else msg)"

text \<open>\<open>do\<close>; \<open>out\<close> is the decoder of the variable that the answer is stored into, if there is one.\<close>

definition pdnsDo ::
  "'v http \<Rightarrow> pdnsClient \<Rightarrow> string \<Rightarrow> string \<Rightarrow> json option \<Rightarrow> 'a decoder option \<Rightarrow> 'a \<Rightarrow> ('v web, 'a) opn" where
  "pdnsDo h c method path body out zero =
     (case htBadRequest h method (pnBase c @ path) of
        Some e \<Rightarrow> throw e
      | None \<Rightarrow>
          bind (wrapErr (Wrap PDNSTransport [AStr method]) (sendRequest h (pdnsRequest c method path body))) (\<lambda>resp.
          if \<not> succeeded resp
          then throw (Fmt PDNSStatus [AStr method, AStr path, AInt (rsStatus resp), AStr (pdnsMessage h resp)])
          else case out of
            None \<Rightarrow> ret zero
          | Some d \<Rightarrow>
              if rsStatus resp = 204 then ret zero
              else case storeJSON d (jlDecode (htJSON h) (limited resp)) zero of
                (x, None) \<Rightarrow> ret x
              | (x, Some e) \<Rightarrow> if e = EOF then ret x else throw (Wrap PDNSDecode [] e)))"

section \<open>Operations\<close>

definition zonesPath :: "pdnsClient \<Rightarrow> string" where
  "zonesPath c = ''/servers/'' @ pathEscape (pnServerID c) @ ''/zones''"

text \<open>A nil slice is an empty list to the callers.\<close>

definition pdnsListZones :: "'v http \<Rightarrow> pdnsClient \<Rightarrow> ('v web, zone list) opn" where
  "pdnsListZones h c =
     bind (pdnsDo h c ''GET'' (zonesPath c) None (Some (decSlice (decStruct zoneFields) zeroZone)) None) (\<lambda>out.
     ret (case out of None \<Rightarrow> [] | Some zs \<Rightarrow> zs))"

definition pdnsGetZone :: "'v http \<Rightarrow> pdnsClient \<Rightarrow> string \<Rightarrow> ('v web, zone) opn" where
  "pdnsGetZone h c zoneID =
     pdnsDo h c ''GET'' (zonesPath c @ ''/'' @ pathEscape zoneID) None (Some (decStruct zoneFields)) zeroZone"

definition pdnsListKeys :: "'v http \<Rightarrow> pdnsClient \<Rightarrow> string \<Rightarrow> ('v web, key list) opn" where
  "pdnsListKeys h c zoneID =
     bind (pdnsDo h c ''GET'' (keysPath c zoneID) None (Some (decSlice (decStruct keyFields) zeroKey)) None) (\<lambda>out.
     ret (case out of None \<Rightarrow> [] | Some ks \<Rightarrow> ks))"

definition pdnsCreateKey :: "'v http \<Rightarrow> pdnsClient \<Rightarrow> string \<Rightarrow> string \<Rightarrow> string \<Rightarrow> bool \<Rightarrow> ('v web, key) opn" where
  "pdnsCreateKey h c zoneID keyType algorithm active =
     pdnsDo h c ''POST'' (keysPath c zoneID)
       (Some (JObj [(''active'', JBool active), (''algorithm'', JStr algorithm), (''keytype'', JStr keyType),
          (''published'', JBool True)]))
       (Some (decStruct keyFields)) zeroKey"

definition pdnsSetKey :: "'v http \<Rightarrow> pdnsClient \<Rightarrow> string \<Rightarrow> key \<Rightarrow> bool \<Rightarrow> bool \<Rightarrow> ('v web, unit) opn" where
  "pdnsSetKey h c zoneID key active published =
     pdnsDo h c ''PUT'' (keysPath c zoneID @ ''/'' @ itoa (kID key))
       (Some (JObj [(''active'', JBool active), (''keytype'', JStr (kKeyType key)), (''published'', JBool published)]))
       None ()"

definition pdnsDeleteKey :: "'v http \<Rightarrow> pdnsClient \<Rightarrow> string \<Rightarrow> int \<Rightarrow> ('v web, unit) opn" where
  "pdnsDeleteKey h c zoneID i = pdnsDo h c ''DELETE'' (keysPath c zoneID @ ''/'' @ itoa i) None None ()"

end
