(* ===== verification/Requested.thy ===== *)
theory Requested
  imports Pdns
begin

text \<open>
  The requests that the PowerDNS client sends: one for each operation, for exactly the zone and the
  key of the operation.
\<close>

section \<open>Escaped segments\<close>

lemma unhex_hexChar: "d < 16 \<Longrightarrow> unhex (hexChar d) = Some d"
  by (auto simp: unhex_def hexChar_def Let_def of_char_of)

lemma hexDigits: "(of_char c :: nat) div 16 < 16" "(of_char c :: nat) mod 16 < 16"
proof -
  have "(of_char c :: nat) < 256"
    using of_char_mod_256 [of c] by (metis mod_less_divisor zero_less_numeral)
  then show "(of_char c :: nat) div 16 < 16" by linarith
qed simp

lemma pathChar_special: "\<not> pathChar CHR 0x25" "\<not> pathChar CHR 0x2F"
  by (simp_all add: pathChar_def)

lemma pathUnescape_escapeChar: "pathUnescape (escapeChar c @ s) = map_option ((#) c) (pathUnescape s)"
proof (cases "pathChar c")
  case True
  then have "c \<noteq> CHR 0x25" using pathChar_special by auto
  with True show ?thesis by (simp add: escapeChar_def split: option.split)
next
  case False
  then show ?thesis
    by (simp add: escapeChar_def unhex_hexChar hexDigits split: option.split)
qed

lemma pathUnescape_pathEscape: "pathUnescape (pathEscape s) = Some s"
  by (induction s) (simp_all add: pathEscape_def pathUnescape_escapeChar)

lemma slash_notin_hex: "d < 16 \<Longrightarrow> hexChar d \<noteq> CHR 0x2F"
  using unhex_hexChar [of d] by (auto simp: unhex_def)

lemma slash_notin_pathEscape: "CHR 0x2F \<notin> set (pathEscape s)"
proof -
  have "CHR 0x2F \<notin> set (escapeChar c)" for c
    using pathChar_special(2) slash_notin_hex [OF hexDigits(1), of c] slash_notin_hex [OF hexDigits(2), of c]
    by (auto simp: escapeChar_def)
  then show ?thesis by (simp add: pathEscape_def)
qed

lemma slash_notin_itoa_all: "CHR 0x2F \<notin> set (itoa i)"
  using natDigits_chars [of "CHR 0x2F"] by (auto simp: itoa_def)

text \<open>What a server sees that splits the path at its slashes and then decodes the segments\<close>

definition segments :: "string \<Rightarrow> string option list" where
  "segments path = map pathUnescape (splitAt slash path)"

lemma pathUnescape_plain: "CHR 0x25 \<notin> set s \<Longrightarrow> pathUnescape s = Some s"
  by (induction s) auto

lemma percent_notin_itoa: "CHR 0x25 \<notin> set (itoa i)"
  using natDigits_chars [of "CHR 0x25"] by (auto simp: itoa_def)

lemma segments_Cons: "CHR 0x2F \<notin> set x \<Longrightarrow> segments (x @ CHR 0x2F # y) = pathUnescape x # segments y"
  by (simp add: segments_def splitAt_append)

lemma segments_last: "CHR 0x2F \<notin> set x \<Longrightarrow> segments x = [pathUnescape x]"
  by (simp add: segments_def splitAt_plain)

lemma segments_key:
  "segments (keysPath c zone @ ''/'' @ itoa i) =
     map Some ['''', ''servers'', pnServerID c, ''zones'', zone, ''cryptokeys'', itoa i]"
proof -
  have path: "keysPath c zone @ ''/'' @ itoa i =
    [] @ slash # ''servers'' @ slash # pathEscape (pnServerID c) @ slash # ''zones'' @ slash # pathEscape zone
      @ slash # ''cryptokeys'' @ slash # itoa i"
    by (simp add: keysPath_def)
  show ?thesis
    unfolding path
    by (subst segments_Cons segments_last, simp add: slash_notin_pathEscape slash_notin_itoa_all)+
      (simp add: pathUnescape_pathEscape pathUnescape_plain percent_notin_itoa)
qed

section \<open>One request\<close>

definition asksOnce :: "httpReq \<Rightarrow> 'v web \<Rightarrow> (err + 'a) \<times> 'v web \<Rightarrow> bool" where
  "asksOnce q s out \<longleftrightarrow>
     (case out of (r, t) \<Rightarrow>
        (\<exists>e. r = Inl e) \<and> wbLog t = wbLog s
        \<or> (\<exists>x. wbLog t = wbLog s @ [(q, x)] \<and> ((\<exists>v. r = Inr v) \<longrightarrow> (\<exists>resp. x = Inr resp \<and> succeeded resp))))"

lemma pdnsDo_asks: "asksOnce (pdnsRequest c method path body) s (pdnsDo h c method path body out zero s)"
  by (auto simp: asksOnce_def pdnsDo_def sendRequest_def bind_def wrapErr_def throw_def ret_def
      split: option.splits prod.splits sum.splits if_splits)

lemma asksOnce_after: "asksOnce q s (m s) \<Longrightarrow> asksOnce q s (bind m (\<lambda>x. ret (f x)) s)"
  by (auto simp: asksOnce_def bind_def ret_def split: prod.splits sum.splits)


text \<open>An answer without a document is an empty list of keys or zones.\<close>

theorem empty_answer_is_empty_list:
  assumes "htBadRequest h ''GET'' (pnBase c @ keysPath c zone) = None"
    and "htDo h (pdnsRequest c ''GET'' (keysPath c zone) None) (wbWorld s) = (Inr resp, w)"
    and "succeeded resp" "jlDecode (htJSON h) (limited resp) = Inl EOF"
  shows "fst (pdnsListKeys h c zone s) = Inr []"
  using assms by (simp add: pdnsListKeys_def pdnsDo_def sendRequest_def bind_def wrapErr_def ret_def storeJSON_def)

end
