(* ===== verification/Lmtp.thy ===== *)
theory Lmtp
  imports Paths Config Effects Model
begin

text \<open>
  \<open>internal/lmtp/client.go\<close>: the delivery of one completion event. The connection, address
  parsing, \<open>mime.QEncoding\<close> and time formatting are parameters.
\<close>

section \<open>The connection\<close>

text \<open>
  \<open>lmRead\<close> reads one reply and returns its code; \<open>lmWrite\<close> writes a line, \<open>lmBody\<close> the message
  through the dot writer, \<open>lmEnd\<close> the closing dot.
\<close>

record 'v lmtpLib =
  lmDial :: "string \<Rightarrow> 'v \<Rightarrow> err option \<times> 'v"
  lmDeadline :: "duration \<Rightarrow> 'v \<Rightarrow> err option \<times> 'v"
  lmRead :: "'v \<Rightarrow> (err + int) \<times> 'v"
  lmWrite :: "string \<Rightarrow> 'v \<Rightarrow> err option \<times> 'v"
  lmBody :: "string \<Rightarrow> 'v \<Rightarrow> err option \<times> 'v"
  lmEnd :: "'v \<Rightarrow> err option \<times> 'v"
  lmParseAddress :: "string \<Rightarrow> err + string"
  lmIsDomainName :: "string \<Rightarrow> bool"
  lmQEncode :: "string \<Rightarrow> string"
  lmRFC1123Z :: "time \<Rightarrow> string"
  lmRFC3339 :: "time \<Rightarrow> string"

text \<open>What went over the connection, in order; the code never reads it.\<close>

datatype exchange =
    Dialed string
  | Sent string
  | Reply "err + int"
  | Body string
  | Ended

record 'v session =
  ssWorld :: 'v
  ssLog :: "exchange list"

definition onWire :: "('v \<Rightarrow> err option \<times> 'v) \<Rightarrow> exchange list \<Rightarrow> ('v session, unit) opn" where
  "onWire f x = (\<lambda>s. case f (ssWorld s) of
     (None, w) \<Rightarrow> (Inr (), s\<lparr>ssWorld := w, ssLog := ssLog s @ x\<rparr>)
   | (Some e, w) \<Rightarrow> (Inl e, s\<lparr>ssWorld := w, ssLog := ssLog s @ x\<rparr>))"

text \<open>\<open>textproto.Conn.ReadResponse\<close> of a three-digit code\<close>

definition UnexpectedReply :: msg where
  "UnexpectedReply = ''%03d %s''"

definition readResponse :: "'v lmtpLib \<Rightarrow> int \<Rightarrow> ('v session, unit) opn" where
  "readResponse l want = (\<lambda>s. case lmRead l (ssWorld s) of
     (r, w) \<Rightarrow>
       (case r of
          Inl e \<Rightarrow> Inl e
        | Inr code \<Rightarrow> if code \<noteq> want then Inl (Fmt UnexpectedReply [AInt code]) else Inr (),
        s\<lparr>ssWorld := w, ssLog := ssLog s @ [Reply r]\<rparr>))"

text \<open>\<open>command\<close>; \<open>name\<close> is the first word of the format.\<close>

definition command :: "'v lmtpLib \<Rightarrow> int \<Rightarrow> string \<Rightarrow> string \<Rightarrow> ('v session, unit) opn" where
  "command l want name line =
     bind (onWire (lmWrite l line) [Sent line]) (\<lambda>_.
     wrapErr (Wrap LMTPCommand [AStr name]) (readResponse l want))"

section \<open>Checks and the message\<close>

definition mailbox :: "'v lmtpLib \<Rightarrow> string \<Rightarrow> err + string" where
  "mailbox l value =
     (if containsAny value lineBreaks then Inl (Fmt MailboxBreak [])
      else lmParseAddress l value)"

definition idChar :: "char \<Rightarrow> bool" where
  "idChar c \<longleftrightarrow>
     (let n = (of_char c :: nat)
      in 97 \<le> n \<and> n \<le> 122 \<or> 65 \<le> n \<and> n \<le> 90 \<or> 48 \<le> n \<and> n \<le> 57 \<or> c \<in> set ''-_.'')"

definition validateEvent :: "'v lmtpLib \<Rightarrow> lmtpConfig \<Rightarrow> notification \<Rightarrow> err option" where
  "validateEvent l c event =
     (if containsAny (nZone event) lineBreaks then Some (Fmt EventZoneBreak [])
      else if \<not> lmIsDomainName l (fqdn (nZone event)) then Some (Fmt EventZoneName [])
      else if length (nID event) = 0 \<or> length (nID event) > 128 then Some (Fmt EventIDLength [])
      else if \<not> list_all idChar (nID event) then Some (Fmt EventIDChar [])
      else if \<not> lmIsDomainName l (fqdn (lcHostname c)) \<or> containsAny (lcHostname c) lineBreaks
      then Some (Fmt LMTPHostUnsafe [])
      else None)"

definition crlf :: string where
  "crlf = lineBreaks"

definition action :: "notification \<Rightarrow> string" where
  "action event =
     (if nKind event = KindEnroll \<and> nEvent event = ''blocked'' then ''DNSSEC enrollment blocked''
      else if nKind event = KindEnroll then ''DNSSEC enrollment completed''
      else ''DNSSEC rotation completed'')"

definition report :: "notification \<Rightarrow> string" where
  "report event =
     (if nKind event = KindEnroll \<and> nEvent event = ''blocked''
      then ''DNSSEC initial enrollment was blocked safely. Details are available in local controller status; no further registrar write was attempted.''
      else if nKind event = KindEnroll then ''DNSSEC initial enrollment completed successfully.''
      else ''DNSSEC key rotation completed successfully.'')"

definition headers :: "'v lmtpLib \<Rightarrow> lmtpConfig \<Rightarrow> notification \<Rightarrow> string \<Rightarrow> string list \<Rightarrow> string list" where
  "headers l c event sender recipients =
     [''From: '' @ sender,
      ''To: '' @ strJoin '', '' recipients,
      ''Date: '' @ lmRFC1123Z l (nCompletedAt event),
      ''Message-ID: <'' @ nID event @ ''@'' @ lcHostname c @ ''>'',
      ''Subject: '' @ lmQEncode l (action event @ '': '' @ trimSuffix (nZone event) ''.'' @ '' ('' @ kindStr (nKind event) @ '')''),
      ''Auto-Submitted: auto-generated'',
      ''MIME-Version: 1.0'',
      ''Content-Type: text/plain; charset=UTF-8'',
      ''Content-Transfer-Encoding: 8bit'']"

definition bodyLines :: "'v lmtpLib \<Rightarrow> notification \<Rightarrow> string list" where
  "bodyLines l event =
     [report event,
      [],
      ''Zone: '' @ nZone event,
      ''Type: '' @ kindStr (nKind event),
      ''Completed: '' @ lmRFC3339 l (nCompletedAt event),
      ''Old PowerDNS key ID: '' @ itoa (nOldKeyID event),
      ''New PowerDNS key ID: '' @ itoa (nNewKeyID event),
      ''New ZSK ID (split/enrollment): '' @ itoa (nNewZSKID event),
      ''InternetX STID: '' @ nRegistrarSTID event,
      ''Event ID: '' @ nID event,
      [],
      ''Reports never include private or public key material.'']"

definition messageText :: "'v lmtpLib \<Rightarrow> lmtpConfig \<Rightarrow> notification \<Rightarrow> string \<Rightarrow> string list \<Rightarrow> string" where
  "messageText l c event sender recipients =
     concat (map (\<lambda>x. x @ crlf) (headers l c event sender recipients)) @ crlf
     @ concat (map (\<lambda>x. x @ crlf) (bodyLines l event))"

section \<open>Send\<close>

fun mailboxes :: "'v lmtpLib \<Rightarrow> string list \<Rightarrow> err + string list" where
  "mailboxes l [] = Inr []"
| "mailboxes l (value # values) =
     (case mailbox l value of
        Inl e \<Rightarrow> Inl e
      | Inr to \<Rightarrow> (case mailboxes l values of Inl e \<Rightarrow> Inl e | Inr tos \<Rightarrow> Inr (to # tos)))"

fun recipientCommands :: "'v lmtpLib \<Rightarrow> string list \<Rightarrow> ('v session, unit) opn" where
  "recipientCommands l [] = ret ()"
| "recipientCommands l (to # tos) =
     bind (command l 250 ''RCPT'' (''RCPT TO:<'' @ to @ ''>'')) (\<lambda>_. recipientCommands l tos)"

text \<open>One reply for each recipient\<close>

fun deliveryReplies :: "'v lmtpLib \<Rightarrow> string list \<Rightarrow> ('v session, unit) opn" where
  "deliveryReplies l [] = ret ()"
| "deliveryReplies l (to # tos) =
     bind (wrapErr (Wrap LMTPDelivery []) (readResponse l 250)) (\<lambda>_. deliveryReplies l tos)"

text \<open>From the greeting on\<close>

definition transfer :: "'v lmtpLib \<Rightarrow> lmtpConfig \<Rightarrow> string \<Rightarrow> string list \<Rightarrow> string \<Rightarrow> ('v session, unit) opn" where
  "transfer l c sender recipients contents =
     bind (wrapErr (Wrap LMTPGreeting []) (readResponse l 220)) (\<lambda>_.
     bind (command l 250 ''LHLO'' (''LHLO '' @ lcHostname c)) (\<lambda>_.
     bind (command l 250 ''MAIL'' (''MAIL FROM:<'' @ sender @ ''>'')) (\<lambda>_.
     bind (recipientCommands l recipients) (\<lambda>_.
     bind (command l 354 ''DATA'' ''DATA'') (\<lambda>_.
     bind (attempt (onWire (lmBody l contents) [Body contents])) (\<lambda>r.
     case r of
       Inl e \<Rightarrow> bind (attempt (onWire (lmEnd l) [Ended])) (\<lambda>_. throw e)
     | Inr _ \<Rightarrow>
         bind (onWire (lmEnd l) [Ended]) (\<lambda>_.
         bind (deliveryReplies l recipients) (\<lambda>_.
         bind (attempt (onWire (lmWrite l ''QUIT'') [Sent ''QUIT''])) (\<lambda>_.
         bind (attempt (readResponse l 221)) (\<lambda>_. ret ()))))))))))"

definition sendLMTP :: "'v lmtpLib \<Rightarrow> lmtpConfig \<Rightarrow> notification \<Rightarrow> ('v session, unit) opn" where
  "sendLMTP l c event =
     (if \<not> lcEnabled c then throw (Fmt LMTPDisabled [])
      else case validateEvent l c event of
        Some e \<Rightarrow> throw e
      | None \<Rightarrow>
          bind (pureE (mailbox l (lcFrom c))) (\<lambda>sender.
          bind (pureE (mailboxes l (lcTo c))) (\<lambda>recipients.
          bind (wrapErr (Wrap LMTPDial []) (onWire (lmDial l (lcAddress c)) [Dialed (lcAddress c)])) (\<lambda>_.
          bind (onWire (lmDeadline l (lcTimeout c)) []) (\<lambda>_.
          transfer l c sender recipients (messageText l c event sender recipients))))))"

end
