(* ===== verification/Delivered.thy ===== *)
theory Delivered
  imports Lmtp
begin

text \<open>
  A delivery that succeeds has been accepted for every recipient, and nothing in an event or in the
  configuration can add a command or a header line.
\<close>

section \<open>The whole conversation\<close>

text \<open>What a successful operation adds to the conversation satisfies \<open>P\<close>.\<close>

definition tells :: "('v session, 'a) opn \<Rightarrow> (exchange list \<Rightarrow> bool) \<Rightarrow> bool" where
  "tells m P \<longleftrightarrow> (\<forall>s x t. m s = (Inr x, t) \<longrightarrow> (\<exists>xs. ssLog t = ssLog s @ xs \<and> P xs))"

text \<open>A command and the reply it asks for\<close>

definition exchanged :: "string \<Rightarrow> int \<Rightarrow> exchange list" where
  "exchanged line code = [Sent line, Reply (Inr code)]"

lemma tellsD: "tells m P \<Longrightarrow> m s = (Inr x, t) \<Longrightarrow> \<exists>xs. ssLog t = ssLog s @ xs \<and> P xs"
  unfolding tells_def by blast

lemma tells_bind:
  assumes "tells m ((=) xs)" "\<And>x. tells (f x) P"
  shows "tells (bind m f) (\<lambda>z. \<exists>ys. z = xs @ ys \<and> P ys)"
  unfolding tells_def
proof (intro allI impI)
  fix s y u assume "bind m f s = (Inr y, u)"
  then obtain x t where 1: "m s = (Inr x, t)" "f x t = (Inr y, u)"
    by (auto simp: bind_def split: prod.splits sum.splits)
  then have "ssLog t = ssLog s @ xs" using assms(1) by (auto simp: tells_def)
  moreover obtain ys where "ssLog u = ssLog t @ ys" "P ys" using tellsD [OF assms(2) 1(2)] by blast
  ultimately show "\<exists>z. ssLog u = ssLog s @ z \<and> (\<exists>ys. z = xs @ ys \<and> P ys)" by auto
qed

lemma tells_mono: "tells m P \<Longrightarrow> (\<And>xs. P xs \<Longrightarrow> Q xs) \<Longrightarrow> tells m Q"
  unfolding tells_def by blast

lemma tells_both: "tells m ((=) xs) \<Longrightarrow> (\<And>x. tells (f x) ((=) ys)) \<Longrightarrow> tells (bind m f) ((=) (xs @ ys))"
  by (drule tells_bind, assumption, erule tells_mono) simp

lemma tells_wrapErr: "tells m P \<Longrightarrow> tells (wrapErr f m) P"
  by (auto simp: tells_def wrapErr_def split: prod.splits sum.splits)

lemma tells_ret: "tells (ret x) ((=) [])"
  by (simp add: tells_def ret_def)

lemma tells_onWire: "tells (onWire f xs) ((=) xs)"
  by (auto simp: tells_def onWire_def split: prod.splits option.splits)

lemma tells_readResponse: "tells (readResponse l want) ((=) [Reply (Inr want)])"
  by (auto simp: tells_def readResponse_def split: prod.splits sum.splits if_splits)

lemma tells_command: "tells (command l want name line) ((=) (exchanged line want))"
  unfolding command_def exchanged_def
  by (rule tells_mono [OF tells_both [OF tells_onWire tells_wrapErr [OF tells_readResponse]]]) simp

lemma tells_recipientCommands:
  "tells (recipientCommands l tos) ((=) (concat (map (\<lambda>to. exchanged (''RCPT TO:<'' @ to @ ''>'') 250) tos)))"
  by (induction tos) (auto intro: tells_ret tells_both tells_command)

lemma tells_deliveryReplies: "tells (deliveryReplies l tos) ((=) (map (\<lambda>to. Reply (Inr 250)) tos))"
proof (induction tos)
  case (Cons to tos)
  from tells_both [OF tells_wrapErr [OF tells_readResponse] Cons] show ?case by simp
qed (simp add: tells_ret)

text \<open>The answer to the goodbye does not matter.\<close>

lemma tells_quit:
  "tells (bind (attempt (onWire (lmWrite l ''QUIT'') [Sent ''QUIT''])) (\<lambda>_. bind (attempt (readResponse l 221)) (\<lambda>_. ret ())))
     (\<lambda>z. \<exists>r. z = [Sent ''QUIT'', Reply r])"
  by (auto simp: tells_def bind_def attempt_def onWire_def readResponse_def ret_def
      split: prod.splits sum.splits option.splits if_splits)

lemma tells_attempt:
  assumes "tells m ((=) xs)" "\<And>x. tells (f (Inr x)) P" "\<And>e. tells (f (Inl e)) (\<lambda>z. False)"
  shows "tells (bind (attempt m) f) (\<lambda>z. \<exists>ys. z = xs @ ys \<and> P ys)"
  unfolding tells_def
proof (intro allI impI)
  fix s y u assume "bind (attempt m) f s = (Inr y, u)"
  then obtain r t where 1: "m s = (r, t)" "f r t = (Inr y, u)"
    by (auto simp: bind_def attempt_def split: prod.splits sum.splits)
  then obtain x where r: "r = Inr x" using assms(3) by (cases r) (auto simp: tells_def)
  then have "ssLog t = ssLog s @ xs" using assms(1) 1(1) by (auto simp: tells_def)
  moreover obtain ys where "ssLog u = ssLog t @ ys" "P ys" using tellsD [OF assms(2) 1(2) [unfolded r]] by blast
  ultimately show "\<exists>z. ssLog u = ssLog s @ z \<and> (\<exists>ys. z = xs @ ys \<and> P ys)" by auto
qed

lemma tells_giveUp: "tells (bind (attempt (onWire (lmEnd l) [Ended])) (\<lambda>_. throw e)) (\<lambda>z. False)"
  by (auto simp: tells_def bind_def attempt_def throw_def split: prod.splits sum.splits)

definition conversation :: "lmtpConfig \<Rightarrow> string \<Rightarrow> string list \<Rightarrow> string \<Rightarrow> exchange list" where
  "conversation c sender recipients contents =
     Reply (Inr 220) # exchanged (''LHLO '' @ lcHostname c) 250 @ exchanged (''MAIL FROM:<'' @ sender @ ''>'') 250
     @ concat (map (\<lambda>to. exchanged (''RCPT TO:<'' @ to @ ''>'') 250) recipients)
     @ exchanged ''DATA'' 354 @ [Body contents, Ended] @ map (\<lambda>to. Reply (Inr 250)) recipients"

lemma tells_transfer:
  "tells (transfer l c sender recipients contents)
     (\<lambda>z. \<exists>r. z = conversation c sender recipients contents @ [Sent ''QUIT'', Reply r])"
proof -
  let ?rest = "bind (onWire (lmEnd l) [Ended]) (\<lambda>_.
         bind (deliveryReplies l recipients) (\<lambda>_.
         bind (attempt (onWire (lmWrite l ''QUIT'') [Sent ''QUIT''])) (\<lambda>_.
         bind (attempt (readResponse l 221)) (\<lambda>_. ret ()))))"
  let ?P = "\<lambda>z. \<exists>ys. z = [Ended] @ ys \<and> (\<exists>q. ys = map (\<lambda>to. Reply (Inr 250)) recipients @ q \<and> (\<exists>r. q = [Sent ''QUIT'', Reply r]))"
  have rest: "tells ?rest ?P"
    by (rule tells_bind [OF tells_onWire], rule tells_bind [OF tells_deliveryReplies], rule tells_quit)
  have data: "tells (bind (attempt (onWire (lmBody l contents) [Body contents])) (\<lambda>r. case r of
       Inl e \<Rightarrow> bind (attempt (onWire (lmEnd l) [Ended])) (\<lambda>_. throw e)
     | Inr _ \<Rightarrow> ?rest)) (\<lambda>z. \<exists>ys. z = [Body contents] @ ys \<and> ?P ys)"
    by (rule tells_attempt [OF tells_onWire]; simp only: sum.case rest tells_giveUp)
  show ?thesis
    unfolding transfer_def
    by (rule tells_mono, rule tells_bind [OF tells_wrapErr [OF tells_readResponse]], rule tells_bind [OF tells_command],
        rule tells_bind [OF tells_command], rule tells_bind [OF tells_recipientCommands], rule tells_bind [OF tells_command],
        rule data)
      (auto simp: conversation_def)
qed

lemma bind_pureE: "bind (pureE (Inl e)) f = throw e" "bind (pureE (Inr x)) f = f x"
  by (simp_all add: fun_eq_iff bind_def pureE_def throw_def)


section \<open>No injection\<close>

definition plainLine :: "string \<Rightarrow> bool" where
  "plainLine s \<longleftrightarrow> \<not> containsAny s lineBreaks"

text \<open>
  What the libraries promise: an address that was parsed from a text without line breaks, an
  encoded word and a formatted time have none.
\<close>

definition tidy :: "'v lmtpLib \<Rightarrow> bool" where
  "tidy l \<longleftrightarrow>
     (\<forall>s a. lmParseAddress l s = Inr a \<longrightarrow> plainLine s \<longrightarrow> plainLine a) \<and> (\<forall>s. plainLine (lmQEncode l s))
     \<and> (\<forall>t. plainLine (lmRFC1123Z l t))"

lemma plainLine_append [simp]: "plainLine (a @ b) \<longleftrightarrow> plainLine a \<and> plainLine b"
  by (simp add: plainLine_def containsAny_def)

lemma plainLine_Cons [simp]: "plainLine (c # s) \<longleftrightarrow> c \<notin> set lineBreaks \<and> plainLine s"
  by (simp add: plainLine_def containsAny_def)

lemma plainLine_Nil [simp]: "plainLine []"
  by (simp add: plainLine_def containsAny_def)

lemma plainLine_join: "plainLine sep \<Longrightarrow> list_all plainLine xs \<Longrightarrow> plainLine (strJoin sep xs)"
  by (induction sep xs rule: strJoin.induct) auto

lemma plainLine_mailbox: "tidy l \<Longrightarrow> mailbox l v = Inr a \<Longrightarrow> plainLine a"
  by (auto simp: mailbox_def tidy_def plainLine_def split: if_splits)

lemma plainLine_mailboxes: "tidy l \<Longrightarrow> mailboxes l vs = Inr as \<Longrightarrow> list_all plainLine as"
  by (induction vs arbitrary: as) (auto split: sum.splits dest: plainLine_mailbox)

text \<open>What the client may put on the wire\<close>

definition harmless :: "'v lmtpLib \<Rightarrow> lmtpConfig \<Rightarrow> notification \<Rightarrow> exchange \<Rightarrow> bool" where
  "harmless l c event x \<longleftrightarrow>
     (case x of
        Sent line \<Rightarrow> plainLine line
      | Body contents \<Rightarrow> \<exists>sender recipients rest.
          contents = concat (map (\<lambda>h. h @ crlf) (headers l c event sender recipients)) @ crlf @ rest
          \<and> list_all plainLine (headers l c event sender recipients)
      | _ \<Rightarrow> True)"

definition speaks :: "(exchange \<Rightarrow> bool) \<Rightarrow> ('v session, 'a) opn \<Rightarrow> bool" where
  "speaks R m \<longleftrightarrow> (\<forall>s. \<exists>xs. ssLog (snd (m s)) = ssLog s @ xs \<and> list_all R xs)"

lemma speaksI: "(\<And>s. \<exists>xs. ssLog (snd (m s)) = ssLog s @ xs \<and> list_all R xs) \<Longrightarrow> speaks R m"
  by (simp add: speaks_def)

lemma speaks_bind:
  assumes "speaks R m" "\<And>x. speaks R (f x)"
  shows "speaks R (bind m f)"
proof (rule speaksI)
  fix s
  obtain xs where xs: "ssLog (snd (m s)) = ssLog s @ xs" "list_all R xs" using assms(1) by (auto simp: speaks_def)
  show "\<exists>xs. ssLog (snd (bind m f s)) = ssLog s @ xs \<and> list_all R xs"
  proof (cases "m s")
    case (Pair r t)
    show ?thesis
    proof (cases r)
      case (Inl e)
      with Pair xs show ?thesis by (auto simp: bind_def)
    next
      case (Inr x)
      obtain ys where "ssLog (snd (f x t)) = ssLog t @ ys" "list_all R ys" using assms(2) by (auto simp: speaks_def)
      with Inr Pair xs show ?thesis by (auto simp: bind_def)
    qed
  qed
qed

lemma speaksD: "speaks R m \<Longrightarrow> m s = (r, t) \<Longrightarrow> \<exists>xs. ssLog t = ssLog s @ xs \<and> list_all R xs"
  unfolding speaks_def by (metis snd_conv)

lemma speaks_basic:
  "speaks R (ret x)" "speaks R (throw e)" "speaks R m \<Longrightarrow> speaks R (attempt m)" "speaks R m \<Longrightarrow> speaks R (wrapErr f m)"
  "list_all R xs \<Longrightarrow> speaks R (onWire w xs)"
  by (auto simp: ret_def throw_def attempt_def wrapErr_def onWire_def dest: speaksD
      intro!: speaksI split: prod.splits sum.splits option.splits)

lemma speaks_readResponse: "(\<And>r. R (Reply r)) \<Longrightarrow> speaks R (readResponse l want)"
  by (auto simp: speaks_def readResponse_def split: prod.splits)

lemma speaks_sum: "(\<And>e. speaks R (f e)) \<Longrightarrow> (\<And>x. speaks R (g x)) \<Longrightarrow> speaks R (case r of Inl e \<Rightarrow> f e | Inr x \<Rightarrow> g x)"
  by (cases r) simp_all

lemma speaks_command: "plainLine line \<Longrightarrow> speaks (harmless l c event) (command l want name line)"
  unfolding command_def
  by (intro speaks_bind speaks_basic speaks_readResponse) (simp_all add: harmless_def)

lemma speaks_recipients: "list_all plainLine tos \<Longrightarrow> speaks (harmless l c event) (recipientCommands l tos)"
  by (induction tos) (auto intro!: speaks_bind speaks_basic speaks_command simp: lineBreaks_def)

lemma speaks_replies: "speaks (harmless l c event) (deliveryReplies l tos)"
  by (induction tos) (auto intro!: speaks_bind speaks_basic speaks_readResponse simp: harmless_def)

lemma speaks_transfer:
  assumes "plainLine (lcHostname c)" "plainLine sender" "list_all plainLine recipients" "harmless l c event (Body contents)"
  shows "speaks (harmless l c event) (transfer l c sender recipients contents)"
  unfolding transfer_def using assms
  by (intro speaks_bind speaks_basic speaks_sum speaks_command speaks_recipients speaks_replies speaks_readResponse)
    (simp_all add: lineBreaks_def harmless_def)

text \<open>C21: Whatever the event, the configuration and the server say and however Send ends: no
  command line that goes out contains a line break, and the message starts with exactly the nine
  header lines of the format, none of which contains one.\<close>

theorem no_line_is_injected:
  assumes "tidy l" "ssLog (snd (sendLMTP l c event s)) = ssLog s @ xs" "x \<in> set xs"
  shows "harmless l c event x"
proof -
  have transfer: "speaks (harmless l c event) (transfer l c sender recipients (messageText l c event sender recipients))"
    if "validateEvent l c event = None" "mailbox l (lcFrom c) = Inr sender" "mailboxes l (lcTo c) = Inr recipients" for sender recipients
  proof -
    have "CHR 0x0D \<notin> set (nID event) \<and> CHR 0x0A \<notin> set (nID event)"
      using that(1) by (auto simp: validateEvent_def list_all_iff idChar_def split: if_splits)
    then have zone: "plainLine (nID event)" "plainLine (lcHostname c)"
      using that(1) by (auto simp: validateEvent_def plainLine_def containsAny_def list_ex_iff lineBreaks_def split: if_splits)
    have plain: "plainLine sender" "list_all plainLine recipients"
      using plainLine_mailbox [OF assms(1) that(2)] plainLine_mailboxes [OF assms(1) that(3)] by auto
    have "list_all plainLine (headers l c event sender recipients)"
      using assms(1) zone plain plainLine_join [OF _ plain(2), of "'', ''"] by (simp add: headers_def tidy_def lineBreaks_def)
    then have "harmless l c event (Body (messageText l c event sender recipients))"
      unfolding harmless_def messageText_def by auto
    with zone(2) plain show ?thesis by (rule speaks_transfer)
  qed
  have "speaks (harmless l c event) (bind (wrapErr (Wrap LMTPDial []) (onWire (lmDial l (lcAddress c)) [Dialed (lcAddress c)])) (\<lambda>_.
      bind (onWire (lmDeadline l (lcTimeout c)) []) (\<lambda>_.
      transfer l c sender recipients (messageText l c event sender recipients))))"
    if "validateEvent l c event = None" "mailbox l (lcFrom c) = Inr sender" "mailboxes l (lcTo c) = Inr recipients" for sender recipients
    by (intro speaks_bind speaks_basic transfer [OF that]) (simp_all add: harmless_def)
  then have "speaks (harmless l c event) (sendLMTP l c event)"
    unfolding sendLMTP_def
    by (cases "mailbox l (lcFrom c)"; cases "mailboxes l (lcTo c)")
      (auto simp: bind_pureE speaks_basic split: option.split)
  then obtain ys where "ssLog (snd (sendLMTP l c event s)) = ssLog s @ ys" "list_all (harmless l c event) ys"
    by (auto simp: speaks_def)
  with assms(2,3) show ?thesis by (auto simp: list_all_iff)
qed

end
