(* ===== verification/Clientlab.thy ===== *)
theory Clientlab
  imports Paced Answered Requested Delivered
begin

text \<open>Services to try the clients on\<close>

section \<open>The registrar\<close>

text \<open>
  The world is the clock. Every request takes a microsecond; the answer is that the job is gone.
\<close>

definition gone :: json where
  "gone = JObj [(''status'', JObj [(''code'', JStr ''E300114''), (''text'', JStr ''gone'')])]"

definition labHttp :: "int http" where
  "labHttp = \<lparr>htBadRequest = (\<lambda>m u. None), htDo = (\<lambda>q w. (Inr \<lparr>rsStatus = 404, rsBody = ''x''\<rparr>, max w 0 + 1000)),
     htStatusText = (\<lambda>n. ''''), htBasicAuth = (\<lambda>u p. u @ '':'' @ p),
     htJSON = \<lparr>jlUnmarshal = (\<lambda>b. Inr gone), jlDecode = (\<lambda>b. Inl EOF)\<rparr>\<rparr>"

definition labTimer :: "int timer" where
  "labTimer = \<lparr>tmNow = (\<lambda>w. (max w 0 + 1, w)), tmWait = (\<lambda>d w. (None, max w 0 + max d 0))\<rparr>"

definition labAuto :: autoClient where
  "labAuto = configuredAuto looseConfig ''secret''"

definition atFirst :: "int registrar" where
  "atFirst = \<lparr>rgWorld = 0, rgLast = 0, rgLog = []\<rparr>"

fun asking :: "nat \<Rightarrow> int registrar" where
  "asking 0 = atFirst"
| "asking (Suc n) = snd (autoJobStatus labHttp labTimer labAuto 7 (asking n))"

lemma lab_steady: "steady labHttp labTimer (\<lambda>w. max w 0 + 1)"
  by (auto simp: steady_def labHttp_def labTimer_def)

lemma lab_foreign: "foreign labHttp labTimer"
  by (auto simp: foreign_def labHttp_def labTimer_def EOF_def)

lemma asking_usage: "usage labHttp labTimer labAuto clk (asking n)"
  by (induction n) (auto simp: atFirst_def intro: usNew usJob)



section \<open>The mail server\<close>

text \<open>The world is the list of the codes that the server will reply.\<close>

definition labMail :: "int list lmtpLib" where
  "labMail = \<lparr>lmDial = (\<lambda>a w. (None, w)), lmDeadline = (\<lambda>d w. (None, w)),
     lmRead = (\<lambda>w. case w of [] \<Rightarrow> (Inl EOF, []) | c # cs \<Rightarrow> (Inr c, cs)),
     lmWrite = (\<lambda>s w. (None, w)), lmBody = (\<lambda>s w. (None, w)), lmEnd = (\<lambda>w. (None, w)),
     lmParseAddress = (\<lambda>s. Inr s), lmIsDomainName = (\<lambda>s. True), lmQEncode = (\<lambda>s. ''subject''),
     lmRFC1123Z = (\<lambda>t. ''date''), lmRFC3339 = (\<lambda>t. ''date'')\<rparr>"

definition labLMTP :: lmtpConfig where
  "labLMTP = \<lparr>lcEnabled = True, lcAddress = ''10.0.0.1:24'', lcHostname = ''keys.t'', lcFrom = ''a@t'', lcTo = [''b@t'', ''c@t''],
     lcTimeout = second\<rparr>"

definition labNotice :: notification where
  "labNotice = \<lparr>nID = ''id-1'', nEvent = ''completed'', nZone = ''z.t.'', nKind = KindZSK, nCompletedAt = 5, nOldKeyID = 1, nNewKeyID = 2,
     nNewZSKID = 0, nRegistrarSTID = [], nAttempts = 0, nNextAttemptAt = 0, nLastError = None, nDeliveredAt = 0\<rparr>"

definition mailSession :: "int list session" where
  "mailSession = \<lparr>ssWorld = [220, 250, 250, 250, 250, 354, 250, 250, 221], ssLog = []\<rparr>"

lemma lab_tidy: "tidy labMail"
  by (simp add: tidy_def labMail_def lineBreaks_def)

lemma lab_mailboxes: "mailbox labMail (lcFrom labLMTP) = Inr ''a@t''" "mailboxes labMail (lcTo labLMTP) = Inr [''b@t'', ''c@t'']"
  by code_simp+


theorem no_line_is_injected_witness:
  "harmless labMail labLMTP labNotice (ssLog (snd (sendLMTP labMail labLMTP labNotice mailSession)) ! 12)
   \<and> (case ssLog (snd (sendLMTP labMail labLMTP labNotice mailSession)) ! 12 of Body m \<Rightarrow> True | _ \<Rightarrow> False)"
proof
  have "ssLog mailSession = []" by (simp add: mailSession_def)
  moreover have "12 < length (ssLog (snd (sendLMTP labMail labLMTP labNotice mailSession)))" by code_simp
  ultimately show "harmless labMail labLMTP labNotice (ssLog (snd (sendLMTP labMail labLMTP labNotice mailSession)) ! 12)"
    by (intro no_line_is_injected [OF lab_tidy, where s = mailSession and xs = "ssLog (snd (sendLMTP labMail labLMTP labNotice mailSession))"])
      simp_all
  show "case ssLog (snd (sendLMTP labMail labLMTP labNotice mailSession)) ! 12 of Body m \<Rightarrow> True | _ \<Rightarrow> False"
    by code_simp
qed

end
