(* ===== verification/Wiring.thy ===== *)
theory Wiring
  imports Assured Survival Requested Answered Delivered Validate
begin

text \<open>
  \<open>internal/app/app.go\<close> and \<open>controller.New\<close>: the parts put together. The world of the program is
  one platform; every client keeps its own history of what it did there. Left out are the
  HTTP transports, the scheduling of the goroutines and the life cycle of \<open>fx\<close>.
\<close>

section \<open>The platform\<close>

record 'v plant =
  plWorld :: 'v
  plNet :: "(string \<times> dnsQuery \<times> (err + dnsMsg)) list"
  plWeb :: "(httpReq \<times> (err + httpResp)) list"
  plLast :: time
  plJobs :: "(time \<times> httpReq \<times> (err + httpResp)) list"
  plMail :: "exchange list"
  plDisk :: disk
  plPast :: "disk list"

text \<open>Each client acts on its part.\<close>

definition netPart :: "'v plant \<Rightarrow> 'v net" where
  "netPart p = \<lparr>netWorld = plWorld p, netLog = plNet p\<rparr>"

definition onNet :: "('v net, 'a) opn \<Rightarrow> 'v plant \<Rightarrow> (err + 'a) \<times> 'v plant" where
  "onNet m p = (case m (netPart p) of (r, s) \<Rightarrow> (r, p\<lparr>plWorld := netWorld s, plNet := netLog s\<rparr>))"

definition webPart :: "'v plant \<Rightarrow> 'v web" where
  "webPart p = \<lparr>wbWorld = plWorld p, wbLog = plWeb p\<rparr>"

definition onWeb :: "('v web, 'a) opn \<Rightarrow> 'v plant \<Rightarrow> (err + 'a) \<times> 'v plant" where
  "onWeb m p = (case m (webPart p) of (r, s) \<Rightarrow> (r, p\<lparr>plWorld := wbWorld s, plWeb := wbLog s\<rparr>))"

definition registrarPart :: "'v plant \<Rightarrow> 'v registrar" where
  "registrarPart p = \<lparr>rgWorld = plWorld p, rgLast = plLast p, rgLog = plJobs p\<rparr>"

definition onRegistrar :: "('v registrar, 'a) opn \<Rightarrow> 'v plant \<Rightarrow> (err + 'a) \<times> 'v plant" where
  "onRegistrar m p = (case m (registrarPart p) of
     (r, s) \<Rightarrow> (r, p\<lparr>plWorld := rgWorld s, plLast := rgLast s, plJobs := rgLog s\<rparr>))"

definition mailPart :: "'v plant \<Rightarrow> 'v session" where
  "mailPart p = \<lparr>ssWorld = plWorld p, ssLog = plMail p\<rparr>"

definition onMail :: "('v session, 'a) opn \<Rightarrow> 'v plant \<Rightarrow> (err + 'a) \<times> 'v plant" where
  "onMail m p = (case m (mailPart p) of (r, s) \<Rightarrow> (r, p\<lparr>plWorld := ssWorld s, plMail := ssLog s\<rparr>))"

definition diskPart :: "'v plant \<Rightarrow> 'v fs" where
  "diskPart p = \<lparr>fsWorld = plWorld p, fsDisk = plDisk p, fsPast = plPast p\<rparr>"

definition onDisk :: "('v fs, 'a) opn \<Rightarrow> 'v plant \<Rightarrow> (err + 'a) \<times> 'v plant" where
  "onDisk m p = (case m (diskPart p) of (r, s) \<Rightarrow> (r, p\<lparr>plWorld := fsWorld s, plDisk := fsDisk s, plPast := fsPast s\<rparr>))"

section \<open>Constructors\<close>

text \<open>What the platform offers; the DNS servers to ask come from the configuration.\<close>

record 'v platform =
  pfDns :: "'v probe"
  pfPdnsHttp :: "'v http"
  pfAutoHttp :: "'v http"
  pfTimer :: "'v timer"
  pfMail :: "'v lmtpLib"
  pfOS :: "'v os"
  pfCodec :: codec
  pfNow :: "'v \<Rightarrow> time \<times> 'v"
  pfIsDomainName :: "string \<Rightarrow> bool"
  pfSha256 :: "string \<Rightarrow> 8 word list"
  pfRFC3339Nano :: "time \<Rightarrow> string"
  pfRange :: "'v \<Rightarrow> (string \<times> workflow) list \<Rightarrow> (string \<times> workflow) list"

datatype logLevel = LevelDebug | LevelInfo | LevelWarn | LevelError

definition newLogger :: "config \<Rightarrow> logLevel" where
  "newLogger c =
     (let level = lgLevel (cfLog c)
      in if level = ''debug'' then LevelDebug else if level = ''warn'' then LevelWarn
         else if level = ''error'' then LevelError else LevelInfo)"

definition newState :: "'v os \<Rightarrow> codec \<Rightarrow> config \<Rightarrow> ('v fs, store) opn" where
  "newState os j c = openStore os j (ccStateFile (cfController c))"

definition PDNSCredential :: msg where
  "PDNSCredential = ''powerdns credential: %w''"

definition AutoCredential :: msg where
  "AutoCredential = ''autodns credential: %w''"

definition newPDNS ::
  "(string \<Rightarrow> ('w, fileInfo) opn) \<Rightarrow> (string \<Rightarrow> ('w, string) opn) \<Rightarrow> config \<Rightarrow> ('w, pdnsClient) opn" where
  "newPDNS lstat read c =
     bind (wrapErr (Wrap PDNSCredential []) (readSecret lstat read (pcAPIKeyFile (cfPowerDNS c)))) (\<lambda>key.
     ret (newPdns (pcURL (cfPowerDNS c)) (pcServerID (cfPowerDNS c)) key))"

definition newAutoDNS ::
  "(string \<Rightarrow> ('w, fileInfo) opn) \<Rightarrow> (string \<Rightarrow> ('w, string) opn) \<Rightarrow> config \<Rightarrow> ('w, autoClient) opn" where
  "newAutoDNS lstat read c =
     (let a = cfAutoDNS c in
      bind (wrapErr (Wrap AutoCredential []) (readSecret lstat read (acPasswordFile a))) (\<lambda>password.
      ret (newAuto (acURL a) (acUsername a) password (acContext a) (acMinimumRequestInterval a))))"

definition newObserver :: "config \<Rightarrow> 'v probe \<Rightarrow> 'v probe" where
  "newObserver c base = base\<lparr>prResolvers := dcResolvers (cfDNS c), prAuthoritative := dcAuthoritativeServers (cfDNS c),
     prLocal := dcLocalAuthoritative (cfDNS c)\<rparr>"

text \<open>\<open>controller.New\<close> over the clients, with the notifier that discards every event\<close>

definition discardSend :: "notification \<Rightarrow> 'w \<Rightarrow> (err + unit) \<times> 'w" where
  "discardSend event w = (Inr (), w)"

definition controllerNew :: "config \<Rightarrow> 'v platform \<Rightarrow> pdnsClient \<Rightarrow> autoClient \<Rightarrow> 'v plant controller" where
  "controllerNew c pf p r =
     (let obs = newObserver c (pfDns pf); h = pfPdnsHttp pf; g = pfAutoHttp pf; tm = pfTimer pf in
     \<lparr>cfg = c,
      apiListZones = onWeb (pdnsListZones h p),
      apiGetZone = (\<lambda>zid. onWeb (pdnsGetZone h p zid)),
      apiListKeys = (\<lambda>zid. onWeb (pdnsListKeys h p zid)),
      apiCreateKey = (\<lambda>zid keyType algorithm active. onWeb (pdnsCreateKey h p zid keyType algorithm active)),
      apiSetKey = (\<lambda>zid k active published. onWeb (pdnsSetKey h p zid k active published)),
      apiDeleteKey = (\<lambda>zid i. onWeb (pdnsDeleteKey h p zid i)),
      apiDomainDNSSEC = (\<lambda>zone. onRegistrar (autoDomainDNSSEC g tm r zone)),
      apiUpdateDNSSEC = (\<lambda>zone keys ctid. onRegistrar (autoUpdateDNSSEC g tm r zone keys ctid)),
      apiJobStatus = (\<lambda>i. onRegistrar (autoJobStatus g tm r i)),
      apiDNSKEYEvidence = (\<lambda>recursive zone keys. onNet (probeDNSKEYEvidence obs recursive zone keys)),
      apiNoDSEvidence = (\<lambda>zone. onNet (probeNoDSEvidence obs zone)),
      apiDSEvidence = (\<lambda>zone keys. onNet (probeDSEvidence obs zone keys)),
      apiAuthoritativeDSEvidence = (\<lambda>zone keys. onNet (probeAuthoritativeDSEvidence obs zone keys)),
      apiRRSIGBy = (\<lambda>recursive zone k. onNet (probeRRSIGBy obs recursive zone k)),
      apiDNSKEYRRSIGBy = (\<lambda>recursive zone k. onNet (probeDNSKEYRRSIGBy obs recursive zone k)),
      apiDelegationEvidence = (\<lambda>zone expected. onNet (probeDelegationEvidence obs zone expected)),
      apiSend = discardSend,
      apiNow = (\<lambda>w. case pfNow pf (plWorld w) of (t, v) \<Rightarrow> (t, w\<lparr>plWorld := v\<rparr>)),
      apiWriteAtomic = (\<lambda>data. onDisk (writeAtomic (pfOS pf) (pfCodec pf) (ccStateFile (cfController c)) data)),
      libNewRR = dlNewRR (prLib (pfDns pf)),
      libIsDomainName = pfIsDomainName pf,
      libSha256 = pfSha256 pf,
      libRFC3339Nano = pfRFC3339Nano pf,
      libRange = (\<lambda>w. pfRange pf (plWorld w))\<rparr>)"

text \<open>\<open>SetNotifier\<close>\<close>

definition setNotifier :: "(notification \<Rightarrow> 'w \<Rightarrow> (err + unit) \<times> 'w) option \<Rightarrow> 'w controller \<Rightarrow> 'w controller" where
  "setNotifier notifier c = (case notifier of None \<Rightarrow> c | Some send \<Rightarrow> c\<lparr>apiSend := send\<rparr>)"

text \<open>\<open>newController\<close>: the LMTP client is the notifier.\<close>

definition newController :: "config \<Rightarrow> 'v platform \<Rightarrow> pdnsClient \<Rightarrow> autoClient \<Rightarrow> 'v plant controller" where
  "newController c pf p r =
     setNotifier (Some (\<lambda>event. onMail (sendLMTP (pfMail pf) (ncLMTP (cfNotifications c)) event))) (controllerNew c pf p r)"

lemmas newController_unfold = newController_def controllerNew_def setNotifier_def

section \<open>The parts work together\<close>

text \<open>The observer of the controller is the probe.\<close>

lemma fst_onNet: "fst (onNet m p) = fst (m (netPart p))"
  by (simp add: onNet_def split: prod.split)

theorem controller_watches_network: "watches (newObserver c (pfDns pf)) netPart (newController c pf p r)"
  by (simp add: watches_def newController_unfold Let_def fst_onNet)

text \<open>A call that deletes a key is one \<open>DELETE\<close> request for that key of that zone.\<close>

theorem deletion_is_one_request:
  "asksOnce (pdnsRequest p ''DELETE'' (keysPath p zid @ ''/'' @ itoa i) None) (webPart (sysWorld s))
     (case deleteKey (newController c pf p r) zid i s of (x, t) \<Rightarrow> (x, webPart (sysWorld t)))"
proof -
  have "asksOnce (pdnsRequest p ''DELETE'' (keysPath p zid @ ''/'' @ itoa i) None) (webPart (sysWorld s))
      (pdnsDeleteKey (pfPdnsHttp pf) p zid i (webPart (sysWorld s)))"
    unfolding pdnsDeleteKey_def by (rule pdnsDo_asks)
  then show ?thesis
    by (auto simp: deleteKey_def call_def newController_unfold Let_def onWeb_def webPart_def asksOnce_def split: prod.splits)
qed

section \<open>The store of the controller is the store of the program\<close>

text \<open>The store as the package has it: the document that the controller keeps, and the path\<close>

definition storeOf :: "config \<Rightarrow> 'v plant sys \<Rightarrow> store" where
  "storeOf c s = \<lparr>stPath = ccStateFile (cfController c), stData = sysState s, stLock = True\<rparr>"

lemma cloneState_same [simp]: "cloneState st = st"
  by (simp add: cloneState_def)


end
