(* ===== verification/Documents.thy ===== *)
theory Documents
  imports Wiring
begin

text \<open>
  The store as the controller uses it: an interface with its two laws, the lemmas a client of it needs,
  and both its models as instances, the document of the controller and \<open>Store.Update\<close> on the disk.
\<close>

section \<open>The interface\<close>

type_synonym 's updating = "(state \<Rightarrow> err + state) \<Rightarrow> ('s, unit) opn"

text \<open>Updates one after the other, with what each returned\<close>

fun runUpdates :: "'s updating \<Rightarrow> (state \<Rightarrow> err + state) list \<Rightarrow> 's \<Rightarrow> (err + unit) list \<times> 's" where
  "runUpdates update [] s = ([], s)"
| "runUpdates update (f # fs) s =
     (let (r, t) = update f s; (rs, u) = runUpdates update fs t in (r # rs, u))"

text \<open>The document after those updates that returned no error\<close>

fun documentAfter :: "(state \<Rightarrow> err + state) list \<Rightarrow> (err + unit) list \<Rightarrow> state \<Rightarrow> state" where
  "documentAfter (f # fs) (r # rs) d =
     documentAfter fs rs (case (r, f d) of (Inr _, Inr d') \<Rightarrow> d' | _ \<Rightarrow> d)"
| "documentAfter _ _ d = d"

locale document_store =
  fixes update :: "'s updating" and held :: "'s \<Rightarrow> state"
  assumes update_done: "update f s = (Inr x, t) \<Longrightarrow> f (held s) = Inr (held t)"
    and update_failed: "update f s = (Inl e, t) \<Longrightarrow> held t = held s"
begin

lemma all_or_nothing: "update f s = (r, t) \<Longrightarrow> held t = held s \<or> f (held s) = Inr (held t)"
  by (cases r) (auto dest: update_done update_failed)

text \<open>What every change keeps, the store keeps, whatever fails.\<close>

lemma keeps:
  assumes "\<And>f x y. f \<in> set fs \<Longrightarrow> I x \<Longrightarrow> f x = Inr y \<Longrightarrow> I y" "I (held s)"
  shows "I (held (snd (runUpdates update fs s)))"
  using assms
proof (induction fs arbitrary: s)
  case (Cons f fs)
  obtain r t where t: "update f s = (r, t)" by (cases "update f s")
  then have "I (held t)"
    using all_or_nothing [OF t] Cons.prems by (metis list.set_intros(1))
  then show ?case using Cons t by (auto simp: Let_def case_prod_beta)
qed simp

lemma successful_updates:
  "runUpdates update fs s = (rs, t) \<Longrightarrow> held t = documentAfter fs rs (held s)"
proof (induction fs arbitrary: s rs)
  case (Cons f fs)
  obtain r u where u: "update f s = (r, u)" by (cases "update f s")
  obtain qs v where v: "runUpdates update fs u = (qs, v)" by (cases "runUpdates update fs u")
  have "held u = (case (r, f (held s)) of (Inr _, Inr d') \<Rightarrow> d' | _ \<Rightarrow> held s)"
    using u by (cases r) (auto dest: update_done update_failed)
  then show ?case using Cons u v by (auto simp: Let_def)
qed simp

end

section \<open>The document of the controller\<close>

interpretation controllerStore: document_store "\<lambda>f. storeUpdate c (\<lambda>x. pureE (f x))" sysState for c
  by unfold_locales (auto simp: storeUpdate_def pureE_def split: sum.splits prod.splits)

section \<open>The store on the disk\<close>

text \<open>The store changes its document in place: the receiver is a part of the state.\<close>

definition updateIn :: "'v os \<Rightarrow> codec \<Rightarrow> (store \<times> 'v fs) updating" where
  "updateIn os j f = (\<lambda>(st, s). case updateStore os j f st s of
     (Inl e, t) \<Rightarrow> (Inl e, (st, t))
   | (Inr st', t) \<Rightarrow> (Inr (), (st', t)))"

interpretation diskStore: document_store "updateIn os j" "\<lambda>p. stData (fst p)" for os j
  by unfold_locales
     (auto simp: updateIn_def updateStore_def pureE_def bind_def ret_def split: sum.splits prod.splits)

text \<open>Whatever system calls fail in any sequence of updates of the store, the document in memory is the
  result of exactly those updates that returned no error, in their order.\<close>

theorem store_keeps_successful_updates:
  assumes "runUpdates (updateIn os j) fs (st, s) = (rs, (st', s'))"
  shows "stData st' = documentAfter fs rs (stData st)"
  using diskStore.successful_updates [OF assms] by simp

text \<open>The observer of the wired program shows what the servers have answered.\<close>

interpretation wired: observer "newController c pf p r" "keysServed (newObserver c (pfDns pf))"
  "signatureServed (newObserver c (pfDns pf))" "dsServed (newObserver c (pfDns pf))" for c pf p r
  by (rule probe_observes [OF controller_watches_network])

end
