(* ===== verification/Json.thy ===== *)
theory Json
  imports Http
begin

text \<open>
  \<open>encoding/json\<close> on bytes, as far as the clients and the server use it: the text that
  \<open>json.Marshal\<close> and \<open>json.NewEncoder\<close> write, and what \<open>json.Unmarshal\<close> and the first \<open>Decode\<close> of
  \<open>json.NewDecoder\<close> read of a text.
\<close>

section \<open>UTF-8\<close>

definition byteIn :: "nat \<Rightarrow> nat \<Rightarrow> char \<Rightarrow> bool" where
  "byteIn lo hi c \<longleftrightarrow> lo \<le> (of_char c :: nat) \<and> (of_char c :: nat) \<le> hi"

abbreviation isASCII :: "char \<Rightarrow> bool" where
  "isASCII \<equiv> byteIn 0 127"

abbreviation contByte :: "char \<Rightarrow> bool" where
  "contByte \<equiv> byteIn 128 191"

text \<open>The second byte rules out overlong encodings, surrogates and runes above \<open>U+10FFFF\<close>.\<close>

definition secondByte :: "char \<Rightarrow> char \<Rightarrow> bool" where
  "secondByte a b \<longleftrightarrow>
     byteIn (if a = CHR 0xE0 then 160 else if a = CHR 0xF0 then 144 else 128)
       (if a = CHR 0xED then 159 else if a = CHR 0xF4 then 143 else 191) b"

text \<open>\<open>utf8.DecodeRune\<close>: how many bytes the first rune takes, 0 for \<open>RuneError\<close>\<close>

definition runeLen :: "string \<Rightarrow> nat" where
  "runeLen s =
     (case s of
        [] \<Rightarrow> 0
      | a # s1 \<Rightarrow>
          if isASCII a then 1
          else case s1 of
            [] \<Rightarrow> 0
          | b # s2 \<Rightarrow>
              if byteIn 194 223 a then if contByte b then 2 else 0
              else case s2 of
                [] \<Rightarrow> 0
              | c # s3 \<Rightarrow>
                  if byteIn 224 239 a then if secondByte a b \<and> contByte c then 3 else 0
                  else case s3 of
                    [] \<Rightarrow> 0
                  | d # _ \<Rightarrow> if byteIn 240 244 a \<and> secondByte a b \<and> contByte c \<and> contByte d then 4 else 0)"

text \<open>\<open>utf8.EncodeRune\<close>\<close>

definition encodeRune :: "nat \<Rightarrow> string" where
  "encodeRune n =
     (if n < 128 then [char_of n]
      else if n < 2048 then [char_of (192 + n div 64), char_of (128 + n mod 64)]
      else if n < 65536 then [char_of (224 + n div 4096), char_of (128 + n div 64 mod 64), char_of (128 + n mod 64)]
      else [char_of (240 + n div 262144), char_of (128 + n div 4096 mod 64), char_of (128 + n div 64 mod 64),
            char_of (128 + n mod 64)])"

text \<open>\<open>utf8.RuneError\<close>, the replacement character \<open>U+FFFD\<close>\<close>

definition runeError :: string where
  "runeError = [CHR 0xEF, CHR 0xBF, CHR 0xBD]"

lemma runeLen_bounds [simp]: "runeLen s \<le> length s" "runeLen s \<le> 4"
  by (auto simp: runeLen_def split: list.splits)

lemma runeLen_ascii [simp]: "isASCII a \<Longrightarrow> runeLen (a # s) = 1"
  by (simp add: runeLen_def)

text \<open>What is left of a text when every byte that is not part of a rune is replaced\<close>

function toValid :: "string \<Rightarrow> string" where
  "toValid [] = []"
| "toValid (a # s) =
     (let n = runeLen (a # s) in if n = 0 then runeError @ toValid s else take n (a # s) @ toValid (drop (n - 1) s))"
  by pat_completeness auto
termination by (relation "measure length") auto

definition validUtf8 :: "string \<Rightarrow> bool" where
  "validUtf8 s \<longleftrightarrow> toValid s = s"

lemma toValid_ascii: "list_all isASCII s \<Longrightarrow> toValid s = s"
  by (induction s) simp_all

lemma validUtf8_ascii: "list_all isASCII s \<Longrightarrow> validUtf8 s"
  by (simp add: validUtf8_def toValid_ascii)

section \<open>Writing\<close>

text \<open>Bytes below 128 that are written as they are; the encoder escapes for HTML.\<close>

definition safeByte :: "char \<Rightarrow> bool" where
  "safeByte c \<longleftrightarrow> byteIn 32 127 c \<and> c \<notin> {CHR 0x22, CHR 0x26, CHR 0x3C, CHR 0x3E, CHR 0x5C}"

definition lowHex :: "nat \<Rightarrow> char" where
  "lowHex d = (if d < 10 then char_of (48 + d) else char_of (87 + d))"

definition escapeByte :: "char \<Rightarrow> string" where
  "escapeByte c =
     (if c = CHR 0x5C \<or> c = CHR 0x22 then [CHR 0x5C, c]
      else if c = CHR 0x08 then [CHR 0x5C, CHR ''b'']
      else if c = CHR 0x0C then [CHR 0x5C, CHR ''f'']
      else if c = CHR 0x0A then [CHR 0x5C, CHR ''n'']
      else if c = CHR 0x0D then [CHR 0x5C, CHR ''r'']
      else if c = CHR 0x09 then [CHR 0x5C, CHR ''t'']
      else [CHR 0x5C, CHR ''u'', CHR ''0'', CHR ''0'', lowHex ((of_char c :: nat) div 16), lowHex ((of_char c :: nat) mod 16)])"

text \<open>The line and the paragraph separator are escaped, too.\<close>

definition separators :: "(string \<times> string) list" where
  "separators =
     [([CHR 0xE2, CHR 0x80, CHR 0xA8], CHR 0x5C # ''u2028''), ([CHR 0xE2, CHR 0x80, CHR 0xA9], CHR 0x5C # ''u2029'')]"

function quoteBody :: "string \<Rightarrow> string" where
  "quoteBody [] = []"
| "quoteBody (a # s) =
     (if isASCII a then (if safeByte a then [a] else escapeByte a) @ quoteBody s
      else let n = runeLen (a # s) in
        if n = 0 then (CHR 0x5C # ''ufffd'') @ quoteBody s
        else (case map_of separators (take n (a # s)) of None \<Rightarrow> take n (a # s) | Some e \<Rightarrow> e) @ quoteBody (drop (n - 1) s))"
  by pat_completeness auto
termination by (relation "measure length") auto

definition quoted :: "string \<Rightarrow> string" where
  "quoted s = CHR 0x22 # quoteBody s @ [CHR 0x22]"

fun commas :: "string list \<Rightarrow> string" where
  "commas [] = []"
| "commas [x] = x"
| "commas (x # y # xs) = x @ CHR 0x2C # commas (y # xs)"

fun jsonText :: "json \<Rightarrow> string" where
  "jsonText JNull = ''null''"
| "jsonText (JBool b) = (if b then ''true'' else ''false'')"
| "jsonText (JNum s) = s"
| "jsonText (JStr s) = quoted s"
| "jsonText (JArr js) = CHR 0x5B # commas (map jsonText js) @ [CHR 0x5D]"
| "jsonText (JObj ms) = CHR 0x7B # commas (map (\<lambda>(k, j). quoted k @ CHR 0x3A # jsonText j) ms) @ [CHR 0x7D]"

section \<open>Reading\<close>

text \<open>A value and the rest of the text; or the text ends within the value; or it is malformed.\<close>

datatype 'a parsed = Got 'a string | Cut | Bad

fun onGot :: "('a \<Rightarrow> string \<Rightarrow> 'b parsed) \<Rightarrow> 'a parsed \<Rightarrow> 'b parsed" where
  "onGot f (Got x r) = f x r"
| "onGot f Cut = Cut"
| "onGot f Bad = Bad"

lemma onGot_cong [fundef_cong]:
  "p = q \<Longrightarrow> (\<And>x r. q = Got x r \<Longrightarrow> f x r = g x r) \<Longrightarrow> onGot f p = onGot g q"
  by (cases q) simp_all

abbreviation mapGot :: "('a \<Rightarrow> 'b) \<Rightarrow> 'a parsed \<Rightarrow> 'b parsed" where
  "mapGot f \<equiv> onGot (\<lambda>x. Got (f x))"

definition skipSpace :: "string \<Rightarrow> string" where
  "skipSpace = dropWhile (\<lambda>c. c \<in> {CHR 0x20, CHR 0x09, CHR 0x0A, CHR 0x0D})"

lemma skipSpace_length: "length (skipSpace s) \<le> length s"
  by (simp add: skipSpace_def length_dropWhile_le)

subsection \<open>Strings\<close>

fun readHex :: "nat \<Rightarrow> nat \<Rightarrow> string \<Rightarrow> nat parsed" where
  "readHex 0 acc s = Got acc s"
| "readHex (Suc k) acc [] = Cut"
| "readHex (Suc k) acc (c # s) = (case unhex c of None \<Rightarrow> Bad | Some d \<Rightarrow> readHex k (16 * acc + d) s)"

text \<open>\<open>utf16.IsSurrogate\<close>, and \<open>utf16.DecodeRune\<close> with the escape that follows\<close>

definition isSurrogate :: "nat \<Rightarrow> bool" where
  "isSurrogate n \<longleftrightarrow> 55296 \<le> n \<and> n < 57344"

definition lowSurrogate :: "nat \<Rightarrow> string \<Rightarrow> (string \<times> string) option" where
  "lowSurrogate n s =
     (case s of
        a # b # t \<Rightarrow>
          if a = CHR 0x5C \<and> b = CHR ''u'' then
            (case readHex 4 0 t of
               Got m r \<Rightarrow>
                 if n < 56320 \<and> 56320 \<le> m \<and> m < 57344
                 then Some (encodeRune (65536 + (n - 55296) * 1024 + (m - 56320)), r) else None
             | _ \<Rightarrow> None)
          else None
      | _ \<Rightarrow> None)"

text \<open>After \<open>\u\<close>: the bytes of the rune and the rest\<close>

definition readRune :: "string \<Rightarrow> string parsed" where
  "readRune s =
     onGot (\<lambda>n r.
       if isSurrogate n then (case lowSurrogate n r of Some (u, t) \<Rightarrow> Got u t | None \<Rightarrow> Got runeError r)
       else Got (encodeRune n) r) (readHex 4 0 s)"

definition unescape :: "char \<Rightarrow> char option" where
  "unescape c =
     map_of [(CHR 0x22, CHR 0x22), (CHR 0x5C, CHR 0x5C), (CHR 0x2F, CHR 0x2F), (CHR ''b'', CHR 0x08), (CHR ''f'', CHR 0x0C),
       (CHR ''n'', CHR 0x0A), (CHR ''r'', CHR 0x0D), (CHR ''t'', CHR 0x09)] c"

lemma readHex_length: "readHex k acc s = Got n r \<Longrightarrow> length r \<le> length s"
  by (induction k acc s rule: readHex.induct) (auto split: option.splits)

lemma lowSurrogate_length: "lowSurrogate n s = Some (u, r) \<Longrightarrow> length r \<le> length s"
  by (auto simp: lowSurrogate_def split: list.splits if_splits parsed.splits dest!: readHex_length)

lemma readRune_length: "readRune s = Got u r \<Longrightarrow> length r \<le> length s"
  unfolding readRune_def
  by (cases "readHex 4 0 s")
     (auto split: if_splits option.splits dest: readHex_length lowSurrogate_length intro: le_trans)

text \<open>One unit of a string: an escape, an ASCII character, a rune, or a byte that is none\<close>

definition readUnit :: "char \<Rightarrow> string \<Rightarrow> string parsed" where
  "readUnit a s =
     (if a = CHR 0x5C then
        (case s of
           [] \<Rightarrow> Cut
         | b # t \<Rightarrow>
             if b = CHR ''u'' then readRune t
             else case unescape b of None \<Rightarrow> Bad | Some c \<Rightarrow> Got [c] t)
      else if \<not> byteIn 32 255 a then Bad
      else let n = runeLen (a # s) in
        if n = 0 then Got runeError s else Got (take n (a # s)) (drop (n - 1) s))"

lemma readUnit_length: "readUnit a s = Got u r \<Longrightarrow> length r \<le> length s"
  by (auto simp: readUnit_def Let_def split: list.splits option.splits if_splits dest!: readRune_length)

text \<open>The rest of a string after its opening quote\<close>

function readString :: "string \<Rightarrow> string parsed" where
  "readString [] = Cut"
| "readString (a # s) =
     (if a = CHR 0x22 then Got [] s else onGot (\<lambda>u r. mapGot ((@) u) (readString r)) (readUnit a s))"
  by pat_completeness auto
termination by (relation "measure length") (auto dest: readUnit_length)

lemma onGot_Got: "onGot f p = Got u r \<longleftrightarrow> (\<exists>x s. p = Got x s \<and> f x s = Got u r)"
  by (cases p) simp_all

lemma readString_length: "readString s = Got u r \<Longrightarrow> length r < length s"
proof (induction s arbitrary: u r rule: readString.induct)
  case (2 a s)
  then show ?case
    by (fastforce simp: onGot_Got split: if_splits dest: readUnit_length)
qed simp

subsection \<open>A written string is read back\<close>

lemma unhex_lowHex: "d < 16 \<Longrightarrow> unhex (lowHex d) = Some d"
  by (simp add: unhex_def lowHex_def Let_def)

lemma unhex_0: "unhex (CHR ''0'') = Some 0"
  by code_simp

lemma readHex_4:
  "unhex a = Some w \<Longrightarrow> unhex b = Some x \<Longrightarrow> unhex c = Some y \<Longrightarrow> unhex d = Some z \<Longrightarrow>
   readHex 4 0 (a # b # c # d # r) = Got (16 * (16 * (16 * w + x) + y) + z) r"
proof -
  have 4: "(4 :: nat) = Suc (Suc (Suc (Suc 0)))" by simp
  show "unhex a = Some w \<Longrightarrow> unhex b = Some x \<Longrightarrow> unhex c = Some y \<Longrightarrow> unhex d = Some z \<Longrightarrow> ?thesis"
    unfolding 4 by simp
qed

lemma readRune_ascii:
  assumes "isASCII c"
  shows "readRune (CHR ''0'' # CHR ''0'' # lowHex ((of_char c :: nat) div 16) # lowHex ((of_char c :: nat) mod 16) # r) = Got [c] r"
proof -
  have n: "(of_char c :: nat) < 128" using assms by (simp add: byteIn_def)
  then have "readHex 4 0 (CHR ''0'' # CHR ''0'' # lowHex ((of_char c :: nat) div 16) # lowHex ((of_char c :: nat) mod 16) # r)
      = Got (of_char c) r"
    by (subst readHex_4 [OF unhex_0 unhex_0 unhex_lowHex unhex_lowHex]) simp_all
  then show ?thesis
    using n by (simp add: readRune_def isSurrogate_def encodeRune_def)
qed

lemma readUnit_escape:
  assumes "isASCII a" "\<not> safeByte a"
  obtains e es where "escapeByte a = e # es" "e \<noteq> CHR 0x22" "\<And>r. readUnit e (es @ r) = Got [a] r"
proof -
  have "\<exists>e es. escapeByte a = e # es \<and> e \<noteq> CHR 0x22 \<and> (\<forall>r. readUnit e (es @ r) = Got [a] r)"
    using readRune_ascii [OF assms(1)] by (auto simp: escapeByte_def readUnit_def unescape_def)
  then show ?thesis using that by blast
qed

lemma runeLen_take: "runeLen s = n \<Longrightarrow> 0 < n \<Longrightarrow> runeLen (take n s @ r) = n"
  by (auto simp: runeLen_def split: list.splits if_splits)

lemma readUnit_plain: "a \<noteq> CHR 0x5C \<Longrightarrow> byteIn 32 255 a \<Longrightarrow> readUnit a s =
    (let n = runeLen (a # s) in if n = 0 then Got runeError s else Got (take n (a # s)) (drop (n - 1) s))"
  by (simp add: readUnit_def)

lemma high_byte: "\<not> isASCII a \<Longrightarrow> a \<noteq> CHR 0x5C \<and> a \<noteq> CHR 0x22 \<and> byteIn 32 255 a"
proof -
  have "(of_char a :: nat) \<le> 255" using nat_of_char_less_256 [of a] by linarith
  then show "\<not> isASCII a \<Longrightarrow> ?thesis" by (auto simp: byteIn_def)
qed

lemma safe_byte: "safeByte a \<Longrightarrow> a \<noteq> CHR 0x5C \<and> a \<noteq> CHR 0x22 \<and> byteIn 32 255 a \<and> isASCII a"
  by (auto simp: safeByte_def byteIn_def)

lemma rune_fffd: "encodeRune 65533 = runeError"
  by (simp add: encodeRune_def char_of_def bit_Suc_0_iff runeError_def)
lemma rune_2028: "encodeRune 8232 = [CHR 0xE2, CHR 0x80, CHR 0xA8]"
  by (simp add: encodeRune_def char_of_def bit_Suc_0_iff runeError_def)
lemma rune_2029: "encodeRune 8233 = [CHR 0xE2, CHR 0x80, CHR 0xA9]"
  by (simp add: encodeRune_def char_of_def bit_Suc_0_iff runeError_def)

lemma readUnit_ufffd: "readUnit (CHR 0x5C) (''ufffd'' @ r) = Got runeError r"
proof -
  have "readHex 4 0 (CHR ''f'' # CHR ''f'' # CHR ''f'' # CHR ''d'' # r) = Got 65533 r"
    by (subst readHex_4 [of _ 15 _ 15 _ 15 _ 13]) (simp_all add: unhex_def Let_def)
  then show ?thesis
    by (simp add: readUnit_def readRune_def isSurrogate_def rune_fffd)
qed

lemma readUnit_separator:
  "readUnit (CHR 0x5C) (''u2028'' @ r) = Got [CHR 0xE2, CHR 0x80, CHR 0xA8] r"
  "readUnit (CHR 0x5C) (''u2029'' @ r) = Got [CHR 0xE2, CHR 0x80, CHR 0xA9] r"
proof -
  have "readHex 4 0 (CHR ''2'' # CHR ''0'' # CHR ''2'' # CHR ''8'' # r) = Got 8232 r"
    by (subst readHex_4 [of _ 2 _ 0 _ 2 _ 8]) (simp_all add: unhex_def Let_def)
  then show "readUnit (CHR 0x5C) (''u2028'' @ r) = Got [CHR 0xE2, CHR 0x80, CHR 0xA8] r"
    by (simp add: readUnit_def readRune_def isSurrogate_def rune_2028)
  have "readHex 4 0 (CHR ''2'' # CHR ''0'' # CHR ''2'' # CHR ''9'' # r) = Got 8233 r"
    by (subst readHex_4 [of _ 2 _ 0 _ 2 _ 9]) (simp_all add: unhex_def Let_def)
  then show "readUnit (CHR 0x5C) (''u2029'' @ r) = Got [CHR 0xE2, CHR 0x80, CHR 0xA9] r"
    by (simp add: readUnit_def readRune_def isSurrogate_def rune_2029)
qed

lemma readString_unit:
  "a \<noteq> CHR 0x22 \<Longrightarrow> readUnit a s = Got u r \<Longrightarrow> readString r = Got v q \<Longrightarrow> readString (a # s) = Got (u @ v) q"
  by simp

theorem readString_quoteBody: "readString (quoteBody s @ CHR 0x22 # r) = Got (toValid s) r"
proof (induction s rule: quoteBody.induct)
  case 1
  then show ?case by simp
next
  case (2 a s)
  define n where "n = runeLen (a # s)"
  consider "safeByte a" | "isASCII a" "\<not> safeByte a" | "\<not> isASCII a" "n = 0"
    | "\<not> isASCII a" "0 < n" "map_of separators (take n (a # s)) = None"
    | e where "\<not> isASCII a" "0 < n" "map_of separators (take n (a # s)) = Some e"
    using safe_byte by blast
  then show ?case
  proof cases
    case 1
    then have "readUnit a (quoteBody s @ CHR 0x22 # r) = Got [a] (quoteBody s @ CHR 0x22 # r)"
      using safe_byte [of a] by (simp add: readUnit_plain)
    then show ?thesis
      using 1 2(1) safe_byte [of a] by (simp del: readString.simps add: readString_unit)
  next
    case 2
    then show ?thesis
      using "2.IH"(1) by (auto elim!: readUnit_escape simp del: readString.simps intro!: readString_unit [of _ _ "[a]", simplified])
  next
    case 3
    then show ?thesis
      using 2(2) readUnit_ufffd n_def by (simp del: readString.simps add: readString_unit)
  next
    case 4
    obtain p where p: "take n (a # s) = a # p" "length p = n - 1"
      using 4(2) runeLen_bounds(1) [of "a # s"] n_def by (intro that [of "take (n - 1) s"]) (auto simp: take_Cons')
    have "runeLen (a # p @ q) = n" for q
      using runeLen_take [of "a # s" n q] 4(2) n_def p(1) by simp
    then have "readUnit a (p @ q) = Got (a # p) q" for q
      using 4(1,2) high_byte [of a] p(2) by (simp add: readUnit_plain Let_def take_Cons')
    then show ?thesis
      using 4 2(3) high_byte [of a] n_def p(1) by (simp del: readString.simps add: readString_unit)
  next
    case 5
    then have "\<exists>es. e = CHR 0x5C # es \<and> (\<forall>q. readUnit (CHR 0x5C) (es @ q) = Got (take n (a # s)) q)"
      using readUnit_separator by (auto simp: separators_def split: if_splits)
    then show ?thesis
      using 5 2(3) n_def by (auto simp: Let_def simp del: readString.simps intro!: readString_unit)
  qed
qed

subsection \<open>Numbers\<close>

text \<open>At least one digit\<close>

definition readDigits :: "string \<Rightarrow> string parsed" where
  "readDigits s =
     (let ds = takeWhile isDigit s; r = dropWhile isDigit s
      in if ds \<noteq> [] then Got ds r else if r = [] then Cut else Bad)"

definition readInteger :: "string \<Rightarrow> string parsed" where
  "readInteger s =
     (case s of
        [] \<Rightarrow> Cut
      | c # t \<Rightarrow> if c = CHR ''0'' then Got [c] t else readDigits s)"

definition readFraction :: "string \<Rightarrow> string parsed" where
  "readFraction s =
     (case s of
        [] \<Rightarrow> Got [] []
      | c # t \<Rightarrow> if c = CHR ''.'' then mapGot ((#) c) (readDigits t) else Got [] s)"

definition readExponent :: "string \<Rightarrow> string parsed" where
  "readExponent s =
     (case s of
        [] \<Rightarrow> Got [] []
      | c # t \<Rightarrow>
          if c \<in> {CHR ''e'', CHR ''E''} then
            (case t of
               [] \<Rightarrow> Cut
             | g # u \<Rightarrow>
                 if g \<in> {CHR ''+'', CHR ''-''} then mapGot (\<lambda>ds. c # g # ds) (readDigits u)
                 else mapGot ((#) c) (readDigits t))
          else Got [] s)"

definition readNumber :: "string \<Rightarrow> string parsed" where
  "readNumber s =
     (let (sign, t) = (case s of [] \<Rightarrow> ([], []) | c # u \<Rightarrow> if c = CHR ''-'' then ([c], u) else ([], s))
      in onGot (\<lambda>i r. onGot (\<lambda>f q. mapGot (\<lambda>e. sign @ i @ f @ e) (readExponent q)) (readFraction r)) (readInteger t))"

subsection \<open>Values\<close>

fun readLiteral :: "string \<Rightarrow> json \<Rightarrow> string \<Rightarrow> json parsed" where
  "readLiteral [] j s = Got j s"
| "readLiteral (c # cs) j [] = Cut"
| "readLiteral (c # cs) j (d # s) = (if c = d then readLiteral cs j s else Bad)"

text \<open>After white space: a character and what follows it\<close>

definition token :: "string \<Rightarrow> (char \<Rightarrow> string \<Rightarrow> 'a parsed) \<Rightarrow> 'a parsed" where
  "token s f = (case skipSpace s of [] \<Rightarrow> Cut | c # t \<Rightarrow> f c t)"

lemma token_cong [fundef_cong]:
  "s = s' \<Longrightarrow> (\<And>c t. skipSpace s' = c # t \<Longrightarrow> f c t = g c t) \<Longrightarrow> token s f = token s' g"
  by (simp add: token_def split: list.splits)

lemma token_Got: "token s f = Got x r \<longleftrightarrow> (\<exists>c t. skipSpace s = c # t \<and> f c t = Got x r)"
  by (simp add: token_def split: list.splits)

text \<open>A value that is not an array and not an object\<close>

definition readScalar :: "char \<Rightarrow> string \<Rightarrow> json parsed" where
  "readScalar c t =
     (if c = CHR 0x22 then mapGot JStr (readString t)
      else if c = CHR ''n'' then readLiteral ''ull'' JNull t
      else if c = CHR ''t'' then readLiteral ''rue'' (JBool True) t
      else if c = CHR ''f'' then readLiteral ''alse'' (JBool False) t
      else if c = CHR ''-'' \<or> isDigit c then mapGot JNum (readNumber (c # t))
      else Bad)"

text \<open>At most \<open>nestingLimit\<close> delimiters may be open.\<close>

definition nestingLimit :: int where
  "nestingLimit = 10000"

text \<open>\<open>n\<close> bounds the calls, \<open>d\<close> the delimiters still to be opened.\<close>

fun readValue :: "nat \<Rightarrow> int \<Rightarrow> string \<Rightarrow> json parsed"
and readElems :: "nat \<Rightarrow> int \<Rightarrow> string \<Rightarrow> json list parsed"
and readMembers :: "nat \<Rightarrow> int \<Rightarrow> string \<Rightarrow> (string \<times> json) list parsed" where
  "readValue 0 d s = Bad"
| "readValue (Suc n) d s =
     token s (\<lambda>c t.
       if c \<in> {CHR 0x7B, CHR 0x5B} \<and> d \<le> 0 then Bad
       else if c = CHR 0x7B then
         token t (\<lambda>e u. if e = CHR 0x7D then Got (JObj []) u else mapGot JObj (readMembers n (d - 1) (e # u)))
       else if c = CHR 0x5B then
         token t (\<lambda>e u. if e = CHR 0x5D then Got (JArr []) u else mapGot JArr (readElems n (d - 1) (e # u)))
       else readScalar c t)"
| "readElems 0 d s = Bad"
| "readElems (Suc n) d s =
     onGot (\<lambda>j r. token r (\<lambda>c t.
       if c = CHR 0x2C then mapGot ((#) j) (readElems n d t)
       else if c = CHR 0x5D then Got [j] t else Bad)) (readValue n d s)"
| "readMembers 0 d s = Bad"
| "readMembers (Suc n) d s =
     token s (\<lambda>c t.
       if c \<noteq> CHR 0x22 then Bad
       else onGot (\<lambda>k r. token r (\<lambda>e u.
         if e \<noteq> CHR 0x3A then Bad
         else onGot (\<lambda>j v. token v (\<lambda>f q.
           if f = CHR 0x2C then mapGot ((#) (k, j)) (readMembers n d q)
           else if f = CHR 0x7D then Got [(k, j)] q else Bad)) (readValue n d u))) (readString t))"

definition enoughFuel :: "string \<Rightarrow> nat" where
  "enoughFuel s = 2 * length s + 2"

definition readJSON :: "string \<Rightarrow> json parsed" where
  "readJSON s = readValue (enoughFuel s) nestingLimit s"

definition UnexpectedEOF :: err where
  "UnexpectedEOF = Fmt ''unexpected EOF'' []"

definition InvalidJSON :: err where
  "InvalidJSON = Fmt ''invalid character'' []"

text \<open>\<open>Unmarshal\<close> wants nothing but white space after the value, \<open>Decode\<close> leaves the rest unread.\<close>

definition goUnmarshal :: "string \<Rightarrow> err + json" where
  "goUnmarshal s =
     (case readJSON s of
        Got j r \<Rightarrow> if skipSpace r = [] then Inr j else Inl InvalidJSON
      | Cut \<Rightarrow> Inl (Fmt ''unexpected end of JSON input'' [])
      | Bad \<Rightarrow> Inl InvalidJSON)"

definition goDecode :: "string \<Rightarrow> err + json" where
  "goDecode s =
     (if skipSpace s = [] then Inl EOF
      else case readJSON s of Got j r \<Rightarrow> Inr j | Cut \<Rightarrow> Inl UnexpectedEOF | Bad \<Rightarrow> Inl InvalidJSON)"

definition goJSON :: jsonLib where
  "goJSON = \<lparr>jlUnmarshal = goUnmarshal, jlDecode = goDecode\<rparr>"

end
