(* ===== verification/Readback.thy ===== *)
theory Readback
  imports Json
begin

text \<open>
  The reader of \<open>Json\<close>: the fuel it is given is enough for every text, and every value that is
  written is read back, its strings with the bytes replaced that are not UTF-8.
\<close>

section \<open>Lengths and fuel\<close>

lemma takeDrop_length: "length (dropWhile P s) \<le> length s"
  by (rule length_dropWhile_le)

lemma readDigits_length: "readDigits s = Got u r \<Longrightarrow> length r < length s"
  by (cases s) (auto simp: readDigits_def Let_def length_dropWhile_le le_imp_less_Suc split: if_splits)

lemma readInteger_length: "readInteger s = Got u r \<Longrightarrow> length r < length s"
  by (auto simp: readInteger_def dest: readDigits_length split: list.splits if_splits)

lemma readFraction_length: "readFraction s = Got u r \<Longrightarrow> length r \<le> length s"
  by (auto simp: readFraction_def onGot_Got dest!: readDigits_length split: list.splits if_splits)

lemma readExponent_length: "readExponent s = Got u r \<Longrightarrow> length r \<le> length s"
  by (auto simp: readExponent_def onGot_Got dest!: readDigits_length split: list.splits if_splits)

lemma readNumber_length: "readNumber s = Got u r \<Longrightarrow> length r < length s"
  by (auto simp: readNumber_def onGot_Got split: list.splits if_splits
      dest!: readInteger_length readFraction_length readExponent_length)

lemma readLiteral_length: "readLiteral cs j s = Got u r \<Longrightarrow> length r \<le> length s"
  by (induction cs j s rule: readLiteral.induct) (auto split: if_splits)

lemma skipSpace_Cons: "skipSpace s = c # t \<Longrightarrow> length t < length s"
  using skipSpace_length [of s] by simp

lemma readScalar_length: "readScalar c t = Got u r \<Longrightarrow> length r \<le> length t"
  by (auto simp: readScalar_def onGot_Got split: if_splits
      dest!: readString_length readLiteral_length readNumber_length)

lemma readValue_length:
  "readValue n d s = Got j r \<Longrightarrow> length r < length s"
  "readElems n d s = Got js r \<Longrightarrow> length r < length s"
  "readMembers n d s = Got ms r \<Longrightarrow> length r < length s"
proof (induction n arbitrary: d s j r js ms)
  case (Suc n)
  { case 1
    then show ?case
      by (auto simp: token_Got onGot_Got split: if_splits dest!: Suc readScalar_length skipSpace_Cons)
  next
    case 2
    then show ?case
      by (auto simp: token_Got onGot_Got split: if_splits dest!: Suc skipSpace_Cons)
  next
    case 3
    then show ?case
      by (auto simp: token_Got onGot_Got split: if_splits dest!: Suc skipSpace_Cons readString_length)
  }
qed simp_all

lemma token_eq:
  "(\<And>c t. skipSpace s = c # t \<Longrightarrow> length t < length s \<Longrightarrow> f c t = g c t) \<Longrightarrow> token s f = token s g"
  by (auto intro!: token_cong dest: skipSpace_Cons)

lemma onGot_eq: "p = q \<Longrightarrow> (\<And>x r. q = Got x r \<Longrightarrow> f x r = g x r) \<Longrightarrow> onGot f p = onGot g q"
  by (rule onGot_cong)

text \<open>More fuel than \<open>enoughFuel\<close> makes no difference.\<close>

lemma enough:
  "2 * length s + 1 \<le> n \<Longrightarrow> 2 * length s + 1 \<le> m \<Longrightarrow> readValue n d s = readValue m d s"
  "2 * length s + 2 \<le> n \<Longrightarrow> 2 * length s + 2 \<le> m \<Longrightarrow> readElems n d s = readElems m d s"
  "2 * length s + 2 \<le> n \<Longrightarrow> 2 * length s + 2 \<le> m \<Longrightarrow> readMembers n d s = readMembers m d s"
proof (induction n arbitrary: m d s)
  case (Suc n)
  { case 1
    then obtain k where m: "m = Suc k" by (cases m) auto
    have M: "readMembers n d' (e # u) = readMembers k d' (e # u)" and E: "readElems n d' (e # u) = readElems k d' (e # u)"
      if "length (e # u) < length s" for d' e u
      using that 1 m by (auto intro!: Suc)
    show ?case
      unfolding m readValue.simps by (intro token_eq) (auto intro!: token_eq simp: M E split: if_splits)
  next
    case 2
    then obtain k where m: "m = Suc k" by (cases m) auto
    have "readValue n d s = readValue k d s" using 2 m by (intro Suc) auto
    moreover have "readElems n d t = readElems k d t" if "length t < length s" for t
      using that 2 m by (intro Suc) auto
    ultimately show ?case
      unfolding m readElems.simps by (auto intro!: onGot_eq token_eq dest!: readValue_length(1))
  next
    case 3
    then obtain k where m: "m = Suc k" by (cases m) auto
    have V: "readValue n d t = readValue k d t" and M: "readMembers n d t = readMembers k d t" if "length t < length s" for t
      using that 3 m by (auto intro!: Suc)
    show ?case
      unfolding m readMembers.simps
      by (auto intro!: onGot_eq token_eq V M dest!: readValue_length(1) readString_length)
  }
qed simp_all

section \<open>What is written is read back\<close>

text \<open>Numbers are integers, and at most \<open>d\<close> delimiters are open.\<close>

definition intLiteral :: "string \<Rightarrow> bool" where
  "intLiteral s = (case parseInt s of None \<Rightarrow> False | Some i \<Rightarrow> s = itoa i)"

fun writable :: "int \<Rightarrow> json \<Rightarrow> bool" where
  "writable d (JNum s) = intLiteral s"
| "writable d (JArr js) = (0 < d \<and> list_all (writable (d - 1)) js)"
| "writable d (JObj ms) = (0 < d \<and> list_all (\<lambda>(k, j). writable (d - 1) j) ms)"
| "writable d j = True"

fun validJSON :: "json \<Rightarrow> json" where
  "validJSON (JStr s) = JStr (toValid s)"
| "validJSON (JArr js) = JArr (map validJSON js)"
| "validJSON (JObj ms) = JObj (map (\<lambda>(k, j). (toValid k, validJSON j)) ms)"
| "validJSON j = j"

definition ends :: "string \<Rightarrow> bool" where
  "ends r = (case r of [] \<Rightarrow> True | c # _ \<Rightarrow> c \<in> {CHR 0x2C, CHR 0x5D, CHR 0x7D, CHR 0x0A})"

definition opensValue :: "string \<Rightarrow> bool" where
  "opensValue s = (case s of [] \<Rightarrow> False | c # _ \<Rightarrow> c \<notin> {CHR 0x20, CHR 0x09, CHR 0x0A, CHR 0x0D, CHR 0x5D, CHR 0x7D})"

lemma natDigits_isDigit: "list_all isDigit (natDigits n)"
  using natDigits_chars by (auto simp: list_all_iff isDigit_def)

lemma ends_digit: "ends r \<Longrightarrow> takeWhile isDigit r = [] \<and> dropWhile isDigit r = r"
  by (auto simp: ends_def isDigit_def split: list.splits)

lemma natDigits_zero: "hd (natDigits n) = CHR ''0'' \<Longrightarrow> n = 0"
proof (induction n rule: natDigits.induct)
  case (1 n)
  show ?case
  proof (cases "n < 10")
    case True
    then have "(of_char (digitChar n) :: nat) = 48 + n" by (simp add: of_char_digitChar)
    with "1.prems" True show ?thesis by (simp add: natDigits.simps [of n])
  next
    case False
    then have "hd (natDigits n) = hd (natDigits (n div 10))" by (subst natDigits.simps) simp
    with 1 False show ?thesis by simp
  qed
qed

lemma readDigits_all: "list_all isDigit s \<Longrightarrow> s \<noteq> [] \<Longrightarrow> ends r \<Longrightarrow> readDigits (s @ r) = Got s r"
  using ends_digit [of r] by (simp add: readDigits_def list_all_iff takeWhile_append dropWhile_append)

lemma readInteger_natDigits:
  assumes "ends r"
  shows "readInteger (natDigits n @ r) = Got (natDigits n) r"
proof (cases "natDigits n")
  case (Cons c t)
  show ?thesis
  proof (cases "c = CHR ''0''")
    case True
    then have "n = 0" using natDigits_zero [of n] Cons by simp
    then have "natDigits n = [c]" using Cons by (simp add: natDigits.simps [of 0])
    then show ?thesis using True by (simp add: readInteger_def)
  next
    case False
    then have "readInteger (natDigits n @ r) = readDigits (natDigits n @ r)"
      by (simp add: readInteger_def Cons)
    then show ?thesis using readDigits_all [OF natDigits_isDigit _ assms] by simp
  qed
qed simp

lemma readNumber_itoa:
  assumes "ends r"
  shows "readNumber (itoa i @ r) = Got (itoa i) r"
proof -
  have F: "readFraction r = Got [] r" and E: "readExponent r = Got [] r"
    using assms by (auto simp: readFraction_def readExponent_def ends_def split: list.splits)
  have "readNumber (natDigits n @ r) = Got (natDigits n) r" for n
  proof (cases "natDigits n")
    case (Cons c t)
    then have "c \<noteq> CHR ''-''" using minus_notin_natDigits [of n] by auto
    then have "readNumber (natDigits n @ r) = onGot (\<lambda>i r. onGot (\<lambda>f q. mapGot (\<lambda>e. i @ f @ e) (readExponent q)) (readFraction r))
        (readInteger (natDigits n @ r))"
      by (simp add: readNumber_def Cons)
    then show ?thesis by (simp add: readInteger_natDigits [OF assms] F E)
  qed simp
  then show ?thesis
    by (simp add: itoa_def) (simp add: readNumber_def readInteger_natDigits [OF assms] F E)
qed

text \<open>The first character of a written value\<close>

lemma opensValue_digit: "isDigit c \<Longrightarrow> opensValue (c # t)"
  by (auto simp: opensValue_def isDigit_def)

lemma itoa_head: "itoa i = c # t \<Longrightarrow> c = CHR ''-'' \<or> isDigit c"
  using natDigits_isDigit [of "nat i"] by (auto simp: itoa_def split: if_splits)

lemma itoa_nonempty: "itoa i \<noteq> []"
  by (simp add: itoa_def)

lemma opensValue_itoa: "opensValue (itoa i @ r)"
proof (cases "itoa i")
  case Nil
  then show ?thesis by (simp add: itoa_def split: if_splits)
next
  case (Cons c t)
  then show ?thesis using itoa_head [OF Cons] Cons opensValue_digit by (auto simp: opensValue_def)
qed

lemma opensValue_jsonText: "writable d j \<Longrightarrow> opensValue (jsonText j @ r)"
  using opensValue_itoa by (cases j) (auto simp: intLiteral_def opensValue_def quoted_def split: option.splits)

lemma opensValue_skip: "opensValue s \<Longrightarrow> skipSpace s = s"
  by (auto simp: opensValue_def skipSpace_def split: list.splits)


text \<open>Each value, by the induction on it\<close>

definition readsBack :: "json \<Rightarrow> bool" where
  "readsBack j \<longleftrightarrow>
     (\<forall>d n r. writable d j \<longrightarrow> ends r \<longrightarrow> 2 * length (jsonText j @ r) + 1 \<le> n \<longrightarrow>
        readValue n d (jsonText j @ r) = Got (validJSON j) r)"

lemma readsBackD:
  "readsBack j \<Longrightarrow> writable d j \<Longrightarrow> ends r \<Longrightarrow> 2 * length (jsonText j @ r) + 1 \<le> n \<Longrightarrow>
   readValue n d (jsonText j @ r) = Got (validJSON j) r"
  by (simp add: readsBack_def)

lemma ends_simps [simp]:
  "ends (CHR 0x2C # r)" "ends (CHR 0x5D # r)" "ends (CHR 0x7D # r)" "ends []"
  by (simp_all add: ends_def)

lemma token_here [simp]:
  "c \<notin> {CHR 0x20, CHR 0x09, CHR 0x0A, CHR 0x0D} \<Longrightarrow> token (c # t) f = f c t"
  by (simp add: token_def skipSpace_def)

lemma readElems_text:
  assumes "list_all readsBack js" "list_all (writable d) js" "js \<noteq> []"
    "2 * length (commas (map jsonText js) @ CHR 0x5D # r) + 2 \<le> n"
  shows "readElems n d (commas (map jsonText js) @ CHR 0x5D # r) = Got (map validJSON js) r"
  using assms
proof (induction js arbitrary: n rule: induct_list012)
  case (2 j)
  then obtain m where m: "n = Suc m" by (cases n) auto
  with 2 have "readValue m d (jsonText j @ CHR 0x5D # r) = Got (validJSON j) (CHR 0x5D # r)"
    by (intro readsBackD) auto
  then show ?case by (simp add: m)
next
  case (3 j k js)
  then obtain m where m: "n = Suc m" by (cases n) auto
  let ?rest = "commas (map jsonText (k # js)) @ CHR 0x5D # r"
  have "readValue m d (jsonText j @ CHR 0x2C # ?rest) = Got (validJSON j) (CHR 0x2C # ?rest)"
    using 3 m by (intro readsBackD) auto
  moreover have "readElems m d ?rest = Got (map validJSON (k # js)) r"
    using 3 m by (intro "3.IH"(2)) auto
  ultimately show ?case by (simp add: m)
qed simp

definition memberText :: "string \<times> json \<Rightarrow> string" where
  "memberText = (\<lambda>(k, j). quoted k @ CHR 0x3A # jsonText j)"

lemma readMembers_text:
  assumes "list_all (\<lambda>(k, j). readsBack j) ms" "list_all (\<lambda>(k, j). writable d j) ms" "ms \<noteq> []"
    "2 * length (commas (map memberText ms) @ CHR 0x7D # r) + 2 \<le> n"
  shows "readMembers n d (commas (map memberText ms) @ CHR 0x7D # r) = Got (map (\<lambda>(k, j). (toValid k, validJSON j)) ms) r"
  using assms
proof (induction ms arbitrary: n rule: induct_list012)
  case (2 a)
  then obtain m k j where m: "n = Suc m" and a: "a = (k, j)" by (cases n; cases a) auto
  with 2 have "readValue m d (jsonText j @ CHR 0x7D # r) = Got (validJSON j) (CHR 0x7D # r)"
    by (intro readsBackD) (auto simp: memberText_def)
  then show ?case
    by (simp add: m a memberText_def quoted_def readString_quoteBody del: readString.simps)
next
  case (3 a b ms)
  then obtain m k j where m: "n = Suc m" and a: "a = (k, j)" by (cases n; cases a) auto
  let ?rest = "commas (map memberText (b # ms)) @ CHR 0x7D # r"
  have "readValue m d (jsonText j @ CHR 0x2C # ?rest) = Got (validJSON j) (CHR 0x2C # ?rest)"
    using 3 m a by (intro readsBackD) (auto simp: memberText_def)
  moreover have "readMembers m d ?rest = Got (map (\<lambda>(k, j). (toValid k, validJSON j)) (b # ms)) r"
    using 3 m by (intro "3.IH"(2)) (auto simp: memberText_def)
  ultimately show ?case
    by (simp add: m a memberText_def quoted_def readString_quoteBody del: readString.simps)
qed simp

lemma opensValue_commas: "opensValue x \<Longrightarrow> opensValue (commas (x # xs) @ r)"
  by (cases xs; cases x) (simp_all add: opensValue_def)

lemma readsBackI:
  assumes "\<And>d n r. writable d j \<Longrightarrow> ends r \<Longrightarrow> 2 * length (jsonText j @ r) \<le> n \<Longrightarrow>
    readValue (Suc n) d (jsonText j @ r) = Got (validJSON j) r"
  shows "readsBack j"
  unfolding readsBack_def
proof (intro allI impI)
  fix d n r
  assume "writable d j" "ends r" "2 * length (jsonText j @ r) + 1 \<le> n"
  then show "readValue n d (jsonText j @ r) = Got (validJSON j) r"
    using assms [of d r "n - 1"] by (cases n) simp_all
qed

lemma readLiteral_all: "readLiteral cs j (cs @ r) = Got j r"
  by (induction cs) simp_all

lemma token_opensValue:
  "opensValue s \<Longrightarrow> token s f = (case s of [] \<Rightarrow> Cut | c # t \<Rightarrow> f c t)"
  by (simp add: token_def opensValue_skip)

lemma readValue_array:
  assumes "list_all readsBack js" "writable d (JArr js)" "2 * length (jsonText (JArr js) @ r) \<le> n"
  shows "readValue (Suc n) d (jsonText (JArr js) @ r) = Got (validJSON (JArr js)) r"
proof (cases js)
  case Nil
  then show ?thesis using assms by (simp add: token_here)
next
  case (Cons j ks)
  let ?s = "commas (map jsonText js) @ CHR 0x5D # r"
  have w: "list_all (writable (d - 1)) js" "0 < d" using assms(2) by simp_all
  have "opensValue ?s"
    using opensValue_commas [of "jsonText j"] opensValue_jsonText [of "d - 1" j "[]"] w(1) Cons by simp
  then obtain c t where s: "?s = c # t" "c \<noteq> CHR 0x5D" "opensValue (c # t)"
    by (cases ?s) (auto simp: opensValue_def)
  have "readElems n (d - 1) (c # t) = Got (map validJSON js) r"
    using readElems_text [OF assms(1) w(1), of r n] assms(3) Cons s(1) by simp
  then show ?thesis
    using s w(2) by (simp add: token_opensValue)
qed

lemma readValue_object:
  assumes "list_all (\<lambda>(k, j). readsBack j) ms" "writable d (JObj ms)" "2 * length (jsonText (JObj ms) @ r) \<le> n"
  shows "readValue (Suc n) d (jsonText (JObj ms) @ r) = Got (validJSON (JObj ms)) r"
proof (cases ms)
  case Nil
  then show ?thesis using assms by (simp add: token_here)
next
  case (Cons m ks)
  let ?s = "commas (map memberText ms) @ CHR 0x7D # r"
  have eq: "jsonText (JObj ms) @ r = CHR 0x7B # ?s" by (simp add: memberText_def)
  have w: "list_all (\<lambda>(k, j). writable (d - 1) j) ms" "0 < d" using assms(2) by simp_all
  have "opensValue ?s"
    using opensValue_commas [of "memberText m"] Cons by (auto simp: memberText_def quoted_def opensValue_def split: prod.splits)
  then obtain c t where s: "?s = c # t" "c \<noteq> CHR 0x7D" "opensValue (c # t)"
    by (cases ?s) (auto simp: opensValue_def)
  have "readMembers n (d - 1) (c # t) = Got (map (\<lambda>(k, j). (toValid k, validJSON j)) ms) r"
    using readMembers_text [OF assms(1) w(1), of r n] assms(3) Cons s(1) unfolding eq by simp
  then show ?thesis
    unfolding eq using s w(2) by (simp add: token_opensValue)
qed

lemma readsBack_scalar:
  "readsBack JNull" "readsBack (JBool b)" "readsBack (JNum s)" "readsBack (JStr s)"
proof -
  show "readsBack JNull" "readsBack (JBool b)"
    using readLiteral_all [of "''ull''"] readLiteral_all [of "''rue''"] readLiteral_all [of "''alse''"]
    by (auto intro!: readsBackI simp: token_here readScalar_def)
  show "readsBack (JStr s)"
    by (rule readsBackI) (simp add: token_here readScalar_def quoted_def readString_quoteBody del: readString.simps)
  show "readsBack (JNum s)"
  proof (rule readsBackI)
    fix d n r
    assume "writable d (JNum s)" and r: "ends r"
    then obtain i where s: "s = itoa i" by (auto simp: intLiteral_def split: option.splits)
    obtain c t where c: "itoa i @ r = c # t" "opensValue (c # t)"
      using opensValue_itoa [of i r] by (cases "itoa i @ r") (auto simp: opensValue_def)
    have "c = CHR ''-'' \<or> isDigit c"
      using c(1) itoa_head [of i] itoa_nonempty [of i] by (cases "itoa i") auto
    then have "readScalar c t = mapGot JNum (readNumber (c # t))" "c \<notin> {CHR 0x7B, CHR 0x5B}"
      by (auto simp: readScalar_def isDigit_def)
    then show "readValue (Suc n) d (jsonText (JNum s) @ r) = Got (validJSON (JNum s)) r"
      using c readNumber_itoa [OF r, of i] by (simp add: s token_opensValue)
  qed
qed

lemma readsBack_all: "readsBack j"
proof (induction j)
  case (JArr js)
  then show ?case by (intro readsBackI readValue_array) (simp_all add: list_all_iff)
next
  case (JObj ms)
  then show ?case by (intro readsBackI readValue_object) (auto simp: list_all_iff)
qed (simp_all add: readsBack_scalar)

theorem readJSON_jsonText:
  assumes "writable nestingLimit j" "ends r"
  shows "readJSON (jsonText j @ r) = Got (validJSON j) r"
  using readsBackD [OF readsBack_all assms] by (simp add: readJSON_def enoughFuel_def del: readValue.simps)

theorem goDecode_jsonText:
  assumes "writable nestingLimit j" "ends r"
  shows "goDecode (jsonText j @ r) = Inr (validJSON j)"
  using readJSON_jsonText [OF assms] opensValue_jsonText [OF assms(1), of r] opensValue_skip
  by (simp add: goDecode_def) (auto simp: opensValue_def)

end
