(* ===== verification/Messages.thy ===== *)
theory Messages
  imports Readback Control
begin

text \<open>
  The bodies of the control API as JSON: what the client writes and the server reads strictly, and
  what the server writes and the client reads.
\<close>

section \<open>Strict decoding\<close>

text \<open>
  A decoder with \<open>DisallowUnknownFields\<close>: the first error, an unknown name or a type that does not
  match, is returned at the end; the rest is still stored.
\<close>

definition firstErr :: "err option \<Rightarrow> err option \<Rightarrow> err option" where
  "firstErr a b = (case a of None \<Rightarrow> b | Some e \<Rightarrow> Some e)"

fun strictMembers :: "(string \<times> 'a decoder) list \<Rightarrow> (string \<times> json) list \<Rightarrow> 'a \<Rightarrow> 'a \<times> err option" where
  "strictMembers fs [] v = (v, None)"
| "strictMembers fs ((name, j) # ms) v =
     (case fieldFor fs name of
        None \<Rightarrow>
          let (w, e) = strictMembers fs ms v
          in (w, Some (Fmt ''json: unknown field %q'' [AStr name]))
      | Some d \<Rightarrow>
          let (u, ok) = d j v; (w, e) = strictMembers fs ms u
          in (w, firstErr (if ok then None else Some CannotUnmarshal) e))"

fun strictStruct :: "(string \<times> 'a decoder) list \<Rightarrow> json \<Rightarrow> 'a \<Rightarrow> 'a \<times> err option" where
  "strictStruct fs JNull v = (v, None)"
| "strictStruct fs (JObj ms) v = strictMembers fs ms v"
| "strictStruct fs _ v = (v, Some CannotUnmarshal)"

text \<open>\<open>io.LimitReader\<close>\<close>

definition limitReader :: "int \<Rightarrow> string \<Rightarrow> string" where
  "limitReader n s = (if int (length s) \<le> n then s else take (nat n) s)"

text \<open>\<open>json.NewDecoder(io.LimitReader(r.Body, limit))\<close>, \<open>DisallowUnknownFields\<close> and \<open>Decode\<close>\<close>

definition decodeBody :: "int \<Rightarrow> (string \<times> 'a decoder) list \<Rightarrow> 'a \<Rightarrow> string \<Rightarrow> err + 'a" where
  "decodeBody limit fs zero s =
     (case goDecode (limitReader limit s) of
        Inl e \<Rightarrow> Inl e
      | Inr j \<Rightarrow> (case strictStruct fs j zero of (v, None) \<Rightarrow> Inr v | (v, Some e) \<Rightarrow> Inl e))"

section \<open>Fields\<close>

definition phaseOfStr :: "string \<Rightarrow> phase" where
  "phaseOfStr s =
     (case map_of (map (\<lambda>p. (phaseStr p, p))
        [PhaseIdle, PhasePrepublish, PhaseWaitPublish, PhaseActivateNew, PhaseWaitNewSignature, PhaseDeactivateOld,
         PhaseParentRemove, PhaseWaitParentRemove, PhaseWaitRetire, PhaseDeleteOld, PhaseEnrollDiscovered,
         PhaseEnrollWaitPublish, PhaseEnrollParentAdd, PhaseEnrollWaitParent, PhaseBlocked]) s of
        Some p \<Rightarrow> p
      | None \<Rightarrow> PhaseOther s)"

text \<open>A field of a string type\<close>

definition decAs :: "(string \<Rightarrow> 'a) \<Rightarrow> ('a \<Rightarrow> string) \<Rightarrow> 'a decoder" where
  "decAs mk str j v = (let (s, ok) = decString j (str v) in (mk s, ok))"

definition decKind :: "kind decoder" where
  "decKind = decAs kindOfStr kindStr"

definition decPhase :: "phase decoder" where
  "decPhase = decAs phaseOfStr phaseStr"

text \<open>A slice whose nil and empty values are not told apart\<close>

definition decList :: "'a decoder \<Rightarrow> 'a \<Rightarrow> 'a list decoder" where
  "decList d zero j v = (let (x, ok) = decSlice d zero j (Some v) in (case x of None \<Rightarrow> [] | Some y \<Rightarrow> y, ok))"

definition encStrings :: "string list \<Rightarrow> json" where
  "encStrings xs = JArr (map JStr xs)"

text \<open>\<open>omitempty\<close>\<close>

definition omitEmpty :: "bool \<Rightarrow> string \<Rightarrow> json \<Rightarrow> (string \<times> json) list" where
  "omitEmpty unset name j = (if unset then [] else [(name, j)])"

section \<open>Requests\<close>

definition requestFields :: "(string \<times> rotationRequest decoder) list" where
  "requestFields =
     [(''kind'', inField decKind rqKind (\<lambda>x v. v\<lparr>rqKind := x\<rparr>)),
      (''zones'', inField (decList decString []) rqZones (\<lambda>x v. v\<lparr>rqZones := x\<rparr>)),
      (''confirm'', inField decBool rqConfirm (\<lambda>x v. v\<lparr>rqConfirm := x\<rparr>))]"

definition zeroRequest :: rotationRequest where
  "zeroRequest = \<lparr>rqKind = KindOther [], rqZones = [], rqConfirm = False\<rparr>"

definition encRequest :: "rotationRequest \<Rightarrow> json" where
  "encRequest r = JObj
     ([(''kind'', JStr (kindStr (rqKind r))), (''zones'', encStrings (rqZones r))]
      @ omitEmpty (\<not> rqConfirm r) ''confirm'' (JBool (rqConfirm r)))"

definition resumeFields :: "(string \<times> resumeRequest decoder) list" where
  "resumeFields =
     [(''kind'', inField decKind rsKind (\<lambda>x v. v\<lparr>rsKind := x\<rparr>)),
      (''zones'', inField (decList decString []) rsZones (\<lambda>x v. v\<lparr>rsZones := x\<rparr>)),
      (''phase'', inField decPhase rsPhase (\<lambda>x v. v\<lparr>rsPhase := x\<rparr>)),
      (''confirm'', inField decBool rsConfirm (\<lambda>x v. v\<lparr>rsConfirm := x\<rparr>))]"

definition zeroResume :: resumeRequest where
  "zeroResume = \<lparr>rsKind = KindOther [], rsZones = [], rsPhase = PhaseOther [], rsConfirm = False\<rparr>"

definition encResume :: "resumeRequest \<Rightarrow> json" where
  "encResume r = JObj
     [(''kind'', JStr (kindStr (rsKind r))), (''zones'', encStrings (rsZones r)),
      (''phase'', JStr (phaseStr (rsPhase r))), (''confirm'', JBool (rsConfirm r))]"

definition signerFields :: "(string \<times> splitSignerTransitionRequest decoder) list" where
  "signerFields =
     [(''zone'', inField decString ssZone (\<lambda>x v. v\<lparr>ssZone := x\<rparr>)),
      (''confirm'', inField decBool ssConfirm (\<lambda>x v. v\<lparr>ssConfirm := x\<rparr>))]"

definition zeroSigner :: splitSignerTransitionRequest where
  "zeroSigner = \<lparr>ssZone = [], ssConfirm = False\<rparr>"

definition encSigner :: "splitSignerTransitionRequest \<Rightarrow> json" where
  "encSigner r = JObj [(''zone'', JStr (ssZone r)), (''confirm'', JBool (ssConfirm r))]"

definition armFields :: "(string \<times> armEnrollmentRequest decoder) list" where
  "armFields = [(''confirm'', inField decBool aeConfirm (\<lambda>x v. v\<lparr>aeConfirm := x\<rparr>))]"

definition zeroArm :: armEnrollmentRequest where
  "zeroArm = \<lparr>aeConfirm = False\<rparr>"

definition encArm :: "armEnrollmentRequest \<Rightarrow> json" where
  "encArm r = JObj [(''confirm'', JBool (aeConfirm r))]"

text \<open>The limits \<open>64<<10\<close> and \<open>16<<10\<close> of the handlers\<close>

definition requestLimit :: int where "requestLimit = 65536"
definition confirmLimit :: int where "confirmLimit = 16384"

section \<open>Requests are decoded as they were encoded\<close>

text \<open>Texts that are UTF-8; kinds and phases that are not a named one under another constructor\<close>

definition validTexts :: "string list \<Rightarrow> bool" where
  "validTexts xs = list_all validUtf8 xs"

definition plainKind :: "kind \<Rightarrow> bool" where
  "plainKind k \<longleftrightarrow> kindOfStr (kindStr k) = k \<and> validUtf8 (kindStr k)"

definition plainPhase :: "phase \<Rightarrow> bool" where
  "plainPhase p \<longleftrightarrow> phaseOfStr (phaseStr p) = p \<and> validUtf8 (phaseStr p)"

lemma valid_id: "validUtf8 s \<Longrightarrow> toValid s = s"
  by (simp add: validUtf8_def)

lemma valid_strings: "validTexts xs \<Longrightarrow> map (validJSON \<circ> JStr) xs = map JStr xs"
  by (simp add: validTexts_def list_all_iff valid_id)

lemma decElems_strings: "decElems decString z (map JStr xs) old = (xs, True)"
  by (induction xs arbitrary: old) simp_all

lemma decList_strings [simp]: "decList decString z (encStrings xs) v = (xs, True)"
  by (simp add: decList_def encStrings_def decElems_strings)

lemma decAs_JStr [simp]: "decAs mk str (JStr s) v = (mk s, True)"
  by (simp add: decAs_def)

lemmas json_codec = requestFields_def resumeFields_def signerFields_def armFields_def
  encRequest_def encResume_def encSigner_def encArm_def omitEmpty_def fieldFor_def inField_def firstErr_def decKind_def decPhase_def

lemma request_decodes:
  "plainKind (rqKind r) \<Longrightarrow> strictStruct requestFields (encRequest r) zeroRequest = (r, None)"
  by (cases r) (simp add: json_codec plainKind_def zeroRequest_def)

lemma resume_decodes:
  "plainKind (rsKind r) \<Longrightarrow> plainPhase (rsPhase r) \<Longrightarrow> strictStruct resumeFields (encResume r) zeroResume = (r, None)"
  by (cases r) (simp add: json_codec plainKind_def plainPhase_def)

lemma signer_decodes: "strictStruct signerFields (encSigner r) zeroSigner = (r, None)"
  by (cases r) (simp add: json_codec)

lemma arm_decodes: "strictStruct armFields (encArm r) zeroArm = (r, None)"
  by (cases r) (simp add: json_codec)

end
