(* ===== verification/Replies.thy ===== *)
theory Replies
  imports Messages
begin

text \<open>
  What the server writes, and what the commands read of it. How an error and a time are written is a
  parameter; an error that has been read is one of which only the text is known.
\<close>

section \<open>Texts of errors and times\<close>

record wire =
  wrError :: "err \<Rightarrow> string"
  wrTime :: "time \<Rightarrow> string"
  wrParse :: "string \<Rightarrow> time option"

definition encInt :: "int \<Rightarrow> json" where
  "encInt i = JNum (itoa i)"

definition errorText :: "wire \<Rightarrow> err option \<Rightarrow> string" where
  "errorText t e = (case e of None \<Rightarrow> [] | Some x \<Rightarrow> wrError t x)"

definition readError :: "string \<Rightarrow> err option" where
  "readError s = (if s = [] then None else Some (Ext s))"

definition decError :: "wire \<Rightarrow> err option decoder" where
  "decError t = decAs readError (errorText t)"

fun decTime :: "wire \<Rightarrow> time decoder" where
  "decTime t JNull v = (v, True)"
| "decTime t (JStr s) v = (case wrParse t s of None \<Rightarrow> (v, False) | Some x \<Rightarrow> (x, True))"
| "decTime t _ v = (v, False)"

definition decNat :: "nat decoder" where
  "decNat j v = (let (i, ok) = decInt64 j (int v) in (nat i, ok))"

text \<open>A nil slice is \<open>null\<close>.\<close>

definition encSlice :: "('a \<Rightarrow> json) \<Rightarrow> 'a list \<Rightarrow> json" where
  "encSlice f xs = (if xs = [] then JNull else JArr (map f xs))"

section \<open>Workflows\<close>

definition encWorkflow :: "wire \<Rightarrow> workflow \<Rightarrow> json" where
  "encWorkflow t w = JObj
     ([(''zone'', JStr (wZone w))]
      @ omitEmpty (wZoneID w = []) ''zoneId'' (JStr (wZoneID w))
      @ [(''kind'', JStr (kindStr (wKind w))), (''phase'', JStr (phaseStr (wPhase w)))]
      @ omitEmpty (wOldKeyID w = 0) ''oldKeyId'' (encInt (wOldKeyID w))
      @ omitEmpty (wNewKeyID w = 0) ''newKeyId'' (encInt (wNewKeyID w))
      @ omitEmpty (wNewZSKID w = 0) ''newZskId'' (encInt (wNewZSKID w))
      @ [(''newKeyCreateAttemptedAt'', JStr (wrTime t (wNewKeyCreateAttemptedAt w))),
         (''newZskCreateAttemptedAt'', JStr (wrTime t (wNewZSKCreateAttemptedAt w))),
         (''phaseStartedAt'', JStr (wrTime t (wPhaseStartedAt w))),
         (''nextActionAt'', JStr (wrTime t (wNextActionAt w))),
         (''lastCompletedAt'', JStr (wrTime t (wLastCompletedAt w)))]
      @ omitEmpty (errorText t (wLastError w) = []) ''lastError'' (JStr (errorText t (wLastError w)))
      @ omitEmpty (wAttempts w = 0) ''attempts'' (encInt (int (wAttempts w)))
      @ omitEmpty (\<not> wManual w) ''manual'' (JBool (wManual w))
      @ omitEmpty (wIdempotencyKey w = []) ''idempotencyKey'' (JStr (wIdempotencyKey w))
      @ omitEmpty (wDNSKEYTTL w = 0) ''dnskeyTtlSeconds'' (encInt (wDNSKEYTTL w))
      @ omitEmpty (wZoneTTL w = 0) ''zoneTtlSeconds'' (encInt (wZoneTTL w))
      @ omitEmpty (wParentDSTTL w = 0) ''parentDsTtlSeconds'' (encInt (wParentDSTTL w))
      @ [(''evidenceAt'', JStr (wrTime t (wEvidenceAt w)))]
      @ omitEmpty (wRegistrarCTID w = []) ''registrarCtid'' (JStr (wRegistrarCTID w))
      @ omitEmpty (wRegistrarSTID w = []) ''registrarStid'' (JStr (wRegistrarSTID w))
      @ omitEmpty (wRegistrarJobID w = 0) ''registrarJobId'' (encInt (wRegistrarJobID w))
      @ omitEmpty (wRegistrarJobStatus w = []) ''registrarJobStatus'' (JStr (wRegistrarJobStatus w))
      @ [(''registrarAttemptedAt'', JStr (wrTime t (wRegistrarAttemptedAt w)))]
      @ omitEmpty (wRegistrarPayloadHash w = []) ''registrarPayloadHash'' (JStr (wRegistrarPayloadHash w))
      @ omitEmpty (wParentMode w = []) ''parentMode'' (JStr (wParentMode w))
      @ [(''splitSignerTransitionAt'', JStr (wrTime t (wSplitSignerTransitionAt w))),
         (''discoveredAt'', JStr (wrTime t (wDiscoveredAt w)))]
      @ omitEmpty (wKeysetFingerprint w = []) ''keysetFingerprint'' (JStr (wKeysetFingerprint w))
      @ omitEmpty (wEnrollmentDisposition w = []) ''enrollmentDisposition'' (JStr (wEnrollmentDisposition w)))"

definition workflowFields :: "wire \<Rightarrow> (string \<times> workflow decoder) list" where
  "workflowFields t =
     [(''zone'', inField decString wZone (\<lambda>x v. v\<lparr>wZone := x\<rparr>)),
      (''zoneId'', inField decString wZoneID (\<lambda>x v. v\<lparr>wZoneID := x\<rparr>)),
      (''kind'', inField decKind wKind (\<lambda>x v. v\<lparr>wKind := x\<rparr>)),
      (''phase'', inField decPhase wPhase (\<lambda>x v. v\<lparr>wPhase := x\<rparr>)),
      (''oldKeyId'', inField decInt64 wOldKeyID (\<lambda>x v. v\<lparr>wOldKeyID := x\<rparr>)),
      (''newKeyId'', inField decInt64 wNewKeyID (\<lambda>x v. v\<lparr>wNewKeyID := x\<rparr>)),
      (''newZskId'', inField decInt64 wNewZSKID (\<lambda>x v. v\<lparr>wNewZSKID := x\<rparr>)),
      (''newKeyCreateAttemptedAt'', inField (decTime t) wNewKeyCreateAttemptedAt (\<lambda>x v. v\<lparr>wNewKeyCreateAttemptedAt := x\<rparr>)),
      (''newZskCreateAttemptedAt'', inField (decTime t) wNewZSKCreateAttemptedAt (\<lambda>x v. v\<lparr>wNewZSKCreateAttemptedAt := x\<rparr>)),
      (''phaseStartedAt'', inField (decTime t) wPhaseStartedAt (\<lambda>x v. v\<lparr>wPhaseStartedAt := x\<rparr>)),
      (''nextActionAt'', inField (decTime t) wNextActionAt (\<lambda>x v. v\<lparr>wNextActionAt := x\<rparr>)),
      (''lastCompletedAt'', inField (decTime t) wLastCompletedAt (\<lambda>x v. v\<lparr>wLastCompletedAt := x\<rparr>)),
      (''lastError'', inField (decError t) wLastError (\<lambda>x v. v\<lparr>wLastError := x\<rparr>)),
      (''attempts'', inField decNat wAttempts (\<lambda>x v. v\<lparr>wAttempts := x\<rparr>)),
      (''manual'', inField decBool wManual (\<lambda>x v. v\<lparr>wManual := x\<rparr>)),
      (''idempotencyKey'', inField decString wIdempotencyKey (\<lambda>x v. v\<lparr>wIdempotencyKey := x\<rparr>)),
      (''dnskeyTtlSeconds'', inField decInt64 wDNSKEYTTL (\<lambda>x v. v\<lparr>wDNSKEYTTL := x\<rparr>)),
      (''zoneTtlSeconds'', inField decInt64 wZoneTTL (\<lambda>x v. v\<lparr>wZoneTTL := x\<rparr>)),
      (''parentDsTtlSeconds'', inField decInt64 wParentDSTTL (\<lambda>x v. v\<lparr>wParentDSTTL := x\<rparr>)),
      (''evidenceAt'', inField (decTime t) wEvidenceAt (\<lambda>x v. v\<lparr>wEvidenceAt := x\<rparr>)),
      (''registrarCtid'', inField decString wRegistrarCTID (\<lambda>x v. v\<lparr>wRegistrarCTID := x\<rparr>)),
      (''registrarStid'', inField decString wRegistrarSTID (\<lambda>x v. v\<lparr>wRegistrarSTID := x\<rparr>)),
      (''registrarJobId'', inField decInt64 wRegistrarJobID (\<lambda>x v. v\<lparr>wRegistrarJobID := x\<rparr>)),
      (''registrarJobStatus'', inField decString wRegistrarJobStatus (\<lambda>x v. v\<lparr>wRegistrarJobStatus := x\<rparr>)),
      (''registrarAttemptedAt'', inField (decTime t) wRegistrarAttemptedAt (\<lambda>x v. v\<lparr>wRegistrarAttemptedAt := x\<rparr>)),
      (''registrarPayloadHash'', inField decString wRegistrarPayloadHash (\<lambda>x v. v\<lparr>wRegistrarPayloadHash := x\<rparr>)),
      (''parentMode'', inField decString wParentMode (\<lambda>x v. v\<lparr>wParentMode := x\<rparr>)),
      (''splitSignerTransitionAt'', inField (decTime t) wSplitSignerTransitionAt (\<lambda>x v. v\<lparr>wSplitSignerTransitionAt := x\<rparr>)),
      (''discoveredAt'', inField (decTime t) wDiscoveredAt (\<lambda>x v. v\<lparr>wDiscoveredAt := x\<rparr>)),
      (''keysetFingerprint'', inField decString wKeysetFingerprint (\<lambda>x v. v\<lparr>wKeysetFingerprint := x\<rparr>)),
      (''enrollmentDisposition'', inField decString wEnrollmentDisposition (\<lambda>x v. v\<lparr>wEnrollmentDisposition := x\<rparr>))]"

section \<open>Answers\<close>

definition encZone :: "wire \<Rightarrow> zoneStatus \<Rightarrow> json" where
  "encZone t z = JObj
     ([(''zone'', JStr (zsZone z)), (''dnssec'', JBool (zsDNSSEC z)), (''scheme'', JStr (zsScheme z)),
       (''managed'', JBool (zsManaged z)), (''enrollmentStatus'', JStr (zsEnrollmentStatus z))]
      @ omitEmpty (errorText t (zsBlockedReason z) = []) ''blockedReason'' (JStr (errorText t (zsBlockedReason z)))
      @ [(''workflows'', encSlice (encWorkflow t) (zsWorkflows z))])"

definition zoneStatusFields :: "wire \<Rightarrow> (string \<times> zoneStatus decoder) list" where
  "zoneStatusFields t =
     [(''zone'', inField decString zsZone (\<lambda>x v. v\<lparr>zsZone := x\<rparr>)),
      (''dnssec'', inField decBool zsDNSSEC (\<lambda>x v. v\<lparr>zsDNSSEC := x\<rparr>)),
      (''scheme'', inField decString zsScheme (\<lambda>x v. v\<lparr>zsScheme := x\<rparr>)),
      (''managed'', inField decBool zsManaged (\<lambda>x v. v\<lparr>zsManaged := x\<rparr>)),
      (''enrollmentStatus'', inField decString zsEnrollmentStatus (\<lambda>x v. v\<lparr>zsEnrollmentStatus := x\<rparr>)),
      (''blockedReason'', inField (decError t) zsBlockedReason (\<lambda>x v. v\<lparr>zsBlockedReason := x\<rparr>)),
      (''workflows'', inField (decList (decStruct (workflowFields t)) zeroWorkflow) zsWorkflows (\<lambda>x v. v\<lparr>zsWorkflows := x\<rparr>))]"

definition zeroZoneStatus :: zoneStatus where
  "zeroZoneStatus = \<lparr>zsZone = [], zsDNSSEC = False, zsScheme = [], zsManaged = False, zsEnrollmentStatus = [],
     zsBlockedReason = None, zsWorkflows = []\<rparr>"

definition encController :: "controllerStatus \<Rightarrow> json" where
  "encController s = JObj
     [(''mode'', JStr (stMode s)), (''ready'', JBool (stReady s)), (''zones'', encInt (int (stZones s))),
      (''blocked'', encInt (int (stBlocked s))), (''enrollmentArmed'', JBool (stEnrollmentArmed s)),
      (''enrolling'', encInt (int (stEnrolling s))), (''managed'', encInt (int (stManaged s))),
      (''pendingNotifications'', encInt (int (stPendingNotifications s)))]"

definition controllerFields :: "(string \<times> controllerStatus decoder) list" where
  "controllerFields =
     [(''mode'', inField decString stMode (\<lambda>x v. v\<lparr>stMode := x\<rparr>)),
      (''ready'', inField decBool stReady (\<lambda>x v. v\<lparr>stReady := x\<rparr>)),
      (''zones'', inField decNat stZones (\<lambda>x v. v\<lparr>stZones := x\<rparr>)),
      (''blocked'', inField decNat stBlocked (\<lambda>x v. v\<lparr>stBlocked := x\<rparr>)),
      (''enrollmentArmed'', inField decBool stEnrollmentArmed (\<lambda>x v. v\<lparr>stEnrollmentArmed := x\<rparr>)),
      (''enrolling'', inField decNat stEnrolling (\<lambda>x v. v\<lparr>stEnrolling := x\<rparr>)),
      (''managed'', inField decNat stManaged (\<lambda>x v. v\<lparr>stManaged := x\<rparr>)),
      (''pendingNotifications'', inField decNat stPendingNotifications (\<lambda>x v. v\<lparr>stPendingNotifications := x\<rparr>))]"

definition zeroController :: controllerStatus where
  "zeroController = \<lparr>stMode = [], stReady = False, stZones = 0, stBlocked = 0, stEnrollmentArmed = False, stEnrolling = 0,
     stManaged = 0, stPendingNotifications = 0\<rparr>"

definition encPlan :: "rotationPlan \<Rightarrow> json" where
  "encPlan p = JObj
     [(''kind'', JStr (kindStr (rpKind p))), (''zones'', encStrings (rpZones p)),
      (''mutations'', encSlice JStr (rpMutations p))]"

definition planFields :: "(string \<times> rotationPlan decoder) list" where
  "planFields =
     [(''kind'', inField decKind rpKind (\<lambda>x v. v\<lparr>rpKind := x\<rparr>)),
      (''zones'', inField (decList decString []) rpZones (\<lambda>x v. v\<lparr>rpZones := x\<rparr>)),
      (''mutations'', inField (decList decString []) rpMutations (\<lambda>x v. v\<lparr>rpMutations := x\<rparr>))]"

definition zeroPlan :: rotationPlan where
  "zeroPlan = \<lparr>rpKind = KindOther [], rpZones = [], rpMutations = []\<rparr>"

definition encAudit :: "wire \<Rightarrow> auditResult \<Rightarrow> json" where
  "encAudit t a = JObj
     ([(''zone'', JStr (arZone a)), (''scheme'', JStr (arScheme a)), (''registrarMatch'', JBool (arRegistrarMatch a))]
      @ omitEmpty (errorText t (arError a) = []) ''error'' (JStr (errorText t (arError a))))"

definition auditFields :: "wire \<Rightarrow> (string \<times> auditResult decoder) list" where
  "auditFields t =
     [(''zone'', inField decString arZone (\<lambda>x v. v\<lparr>arZone := x\<rparr>)),
      (''scheme'', inField decString arScheme (\<lambda>x v. v\<lparr>arScheme := x\<rparr>)),
      (''registrarMatch'', inField decBool arRegistrarMatch (\<lambda>x v. v\<lparr>arRegistrarMatch := x\<rparr>)),
      (''error'', inField (decError t) arError (\<lambda>x v. v\<lparr>arError := x\<rparr>))]"

definition zeroAudit :: auditResult where
  "zeroAudit = \<lparr>arZone = [], arScheme = [], arRegistrarMatch = False, arError = None\<rparr>"

definition encBody :: "wire \<Rightarrow> body \<Rightarrow> json" where
  "encBody t b =
     (case b of
        BodyStatus s \<Rightarrow> JObj [(''status'', JStr s)]
      | BodyError e \<Rightarrow> JObj [(''error'', JStr (wrError t e))]
      | BodyController s \<Rightarrow> encController s
      | BodyZones zs \<Rightarrow> encSlice (encZone t) zs
      | BodyAudit rs \<Rightarrow> encSlice (encAudit t) rs
      | BodyPlan p \<Rightarrow> encPlan p)"

text \<open>A map from strings to strings: a value of another type is stored as the empty string.\<close>

fun decPairs :: "(string \<times> json) list \<Rightarrow> (string \<times> string) list \<Rightarrow> (string \<times> string) list \<times> bool" where
  "decPairs [] v = (v, True)"
| "decPairs ((name, j) # ms) v =
     (let (s, ok) = decString j []; (w, oks) = decPairs ms (mput name s v) in (w, ok \<and> oks))"

fun decMap :: "(string \<times> string) list decoder" where
  "decMap JNull v = ([], True)"
| "decMap (JObj ms) v = decPairs ms v"
| "decMap _ v = (v, False)"

end
