(* ===== verification/Channel.thy ===== *)
theory Channel
  imports Replies
begin

text \<open>
  The control channel: \<open>New\<close> and the handlers of \<open>internal/control/server.go\<close> on the bytes of a
  request, \<open>internal/control/client.go\<close>, and the commands of \<open>cmd/dnssecctl/main.go\<close> that use it.
\<close>

section \<open>Messages of the transport\<close>

record rawRequest =
  rwMethod :: string
  rwPath :: string
  rwHeaders :: "(string \<times> string) list"
  rwBody :: string

record rawResponse =
  raStatus :: int
  raHeaders :: "(string \<times> string) list"
  raBody :: string

text \<open>\<open>Header.Get\<close>\<close>

definition headerGet :: "string \<Rightarrow> (string \<times> string) list \<Rightarrow> string" where
  "headerGet name hs = (case find (\<lambda>(n, v). equalFold n name) hs of None \<Rightarrow> [] | Some (n, v) \<Rightarrow> v)"

section \<open>The server\<close>

text \<open>
  The patterns of \<open>New\<close>; a pattern for \<open>GET\<close> matches \<open>HEAD\<close>, too. Each handler decodes the body
  before it does anything else.
\<close>

definition getRoutes :: "(string \<times> httpRequest) list" where
  "getRoutes =
     [(''/healthz'', GetHealthz), (''/readyz'', GetReadyz), (''/v1/status'', GetStatus), (''/v1/zones'', GetZones),
      (''/v1/audit'', GetAudit)]"

definition postRoute :: "string \<Rightarrow> string \<Rightarrow> string \<Rightarrow> httpRequest option" where
  "postRoute path body key =
     (if path = ''/v1/rotations/plan'' then Some (PostPlan (decodeBody requestLimit requestFields zeroRequest body))
      else if path = ''/v1/rotations/trigger''
      then Some (PostTrigger (decodeBody requestLimit requestFields zeroRequest body) key)
      else if path = ''/v1/rotations/resume''
      then Some (PostResume (decodeBody requestLimit resumeFields zeroResume body) key)
      else if path = ''/v1/rotations/reconcile-split-signer''
      then Some (PostReconcileSplitSigner (decodeBody confirmLimit signerFields zeroSigner body) key)
      else if path = ''/v1/enrollment/arm''
      then Some (PostArmEnrollment (decodeBody confirmLimit armFields zeroArm body) key)
      else None)"

definition route :: "rawRequest \<Rightarrow> httpRequest option" where
  "route r =
     (if rwMethod r = ''GET'' \<or> rwMethod r = ''HEAD'' then map_of getRoutes (rwPath r)
      else if rwMethod r = ''POST'' then postRoute (rwPath r) (rwBody r) (headerGet ''Idempotency-Key'' (rwHeaders r))
      else None)"

definition securityHeaders :: "(string \<times> string) list" where
  "securityHeaders = [(''Cache-Control'', ''no-store''), (''X-Content-Type-Options'', ''nosniff'')]"

text \<open>The encoder ends the document with a line break; \<open>net/http\<close> sends no body for \<open>HEAD\<close>.\<close>

definition writeJSON :: "wire \<Rightarrow> string \<Rightarrow> response \<Rightarrow> rawResponse" where
  "writeJSON t method rp =
     \<lparr>raStatus = fst rp, raHeaders = securityHeaders @ [(''Content-Type'', ''application/json'')],
      raBody = (if method = ''HEAD'' then [] else jsonText (encBody t (snd rp)) @ [CHR 0x0A])\<rparr>"

text \<open>What the multiplexer itself answers when no pattern matches is a parameter.\<close>

definition handleRaw ::
  "'w controller \<Rightarrow> wire \<Rightarrow> (rawRequest \<Rightarrow> rawResponse) \<Rightarrow> rawRequest \<Rightarrow> ('w, rawResponse) io" where
  "handleRaw c t mux r =
     (case route r of
        None \<Rightarrow> ret ((mux r)\<lparr>raHeaders := securityHeaders @ raHeaders (mux r)\<rparr>)
      | Some q \<Rightarrow> bind (serve c q) (\<lambda>rp. ret (writeJSON t (rwMethod r) rp)))"

section \<open>The client\<close>

text \<open>\<open>uxBadRequest\<close>: the error of \<open>http.NewRequestWithContext\<close>; \<open>uxDo\<close>: \<open>http.Client.Do\<close> over the socket.\<close>

record 's unix =
  uxBadRequest :: "string \<Rightarrow> string \<Rightarrow> err option"
  uxDo :: "rawRequest \<Rightarrow> ('s, rawResponse) opn"

definition clientRequest :: "string \<Rightarrow> string \<Rightarrow> json option \<Rightarrow> string \<Rightarrow> rawRequest" where
  "clientRequest method path body idem =
     \<lparr>rwMethod = method, rwPath = path,
      rwHeaders = [(''Accept'', ''application/json'')]
        @ (if body \<noteq> None then [(''Content-Type'', ''application/json'')] else [])
        @ (if idem \<noteq> [] then [(''Idempotency-Key'', idem)] else []),
      rwBody = (case body of None \<Rightarrow> [] | Some j \<Rightarrow> jsonText j)\<rparr>"

definition ControlStatus :: msg where
  "ControlStatus = ''control API status %d: %s''"

definition replyLimit :: int where "replyLimit = 2097152"

text \<open>\<open>e["error"]\<close> of what could be decoded\<close>

definition errorField :: "string \<Rightarrow> string" where
  "errorField s =
     (case goDecode s of
        Inl e \<Rightarrow> []
      | Inr j \<Rightarrow> (case mget (fst (decMap j [])) ''error'' of None \<Rightarrow> [] | Some x \<Rightarrow> x))"

text \<open>The last argument is the decoder of \<open>out\<close> and its value before; nil for no decoding.\<close>

definition clientDo ::
  "'s unix \<Rightarrow> string \<Rightarrow> string \<Rightarrow> json option \<Rightarrow> string \<Rightarrow> ('a decoder \<times> 'a) option \<Rightarrow> ('s, 'a option) opn" where
  "clientDo u method path body idem out =
     (case uxBadRequest u method (''http://unix'' @ path) of
        Some e \<Rightarrow> throw e
      | None \<Rightarrow>
          bind (uxDo u (clientRequest method path body idem)) (\<lambda>resp.
          let s = limitReader replyLimit (raBody resp) in
          if raStatus resp < 200 \<or> raStatus resp \<ge> 300
          then throw (Fmt ControlStatus [AInt (raStatus resp), AStr (errorField s)])
          else case out of
            None \<Rightarrow> ret None
          | Some (d, v) \<Rightarrow>
              (case storeJSON d (goDecode s) v of (x, Some e) \<Rightarrow> throw e | (x, None) \<Rightarrow> ret (Some x))))"

definition clientGet :: "'s unix \<Rightarrow> string \<Rightarrow> ('a decoder \<times> 'a) option \<Rightarrow> ('s, 'a option) opn" where
  "clientGet u path out = clientDo u ''GET'' path None [] out"

definition clientPost ::
  "'s unix \<Rightarrow> string \<Rightarrow> json \<Rightarrow> string \<Rightarrow> ('a decoder \<times> 'a) option \<Rightarrow> ('s, 'a option) opn" where
  "clientPost u path body idem out = clientDo u ''POST'' path (Some body) idem out"

end
