(* ===== verification/Command.thy ===== *)
theory Command
  imports Channel
begin

text \<open>
  The commands of \<open>cmd/dnssecctl/main.go\<close>: the request each one sends over the control socket and
  what it prints. Parsing of flags is left to \<open>cobra\<close>; a command carries the values of its flags.
\<close>

section \<open>Printing\<close>

text \<open>\<open>SetIndent("", "  ")\<close>\<close>

definition newline :: "nat \<Rightarrow> string" where
  "newline n = CHR 0x0A # replicate (2 * n) (CHR 0x20)"

fun joinWith :: "string \<Rightarrow> string list \<Rightarrow> string" where
  "joinWith sep [] = []"
| "joinWith sep [x] = x"
| "joinWith sep (x # y # xs) = x @ sep @ joinWith sep (y # xs)"

fun indented :: "nat \<Rightarrow> json \<Rightarrow> string" where
  "indented n (JArr js) =
     (if js = [] then ''[]''
      else CHR 0x5B # newline (n + 1) @ joinWith (CHR 0x2C # newline (n + 1)) (map (indented (n + 1)) js) @ newline n @ [CHR 0x5D])"
| "indented n (JObj ms) =
     (if ms = [] then ''{}''
      else CHR 0x7B # newline (n + 1)
        @ joinWith (CHR 0x2C # newline (n + 1)) (map (\<lambda>(k, j). quoted k @ '': '' @ indented (n + 1) j) ms)
        @ newline n @ [CHR 0x7D])"
| "indented n j = jsonText j"

definition printJSON :: "json \<Rightarrow> string" where
  "printJSON j = indented 0 j @ [CHR 0x0A]"

text \<open>A map is written in the order of its keys.\<close>

definition encMap :: "(string \<times> string) list \<Rightarrow> json" where
  "encMap m = JObj (map (\<lambda>(k, v). (k, JStr v)) (sort_key fst m))"

section \<open>Requests\<close>

text \<open>Path, body and idempotency key of a request that a command posts\<close>

definition posted :: "httpRequest \<Rightarrow> (string \<times> json \<times> string) option" where
  "posted q =
     (case q of
        PostPlan (Inr r) \<Rightarrow> Some (''/v1/rotations/plan'', encRequest r, [])
      | PostTrigger (Inr r) key \<Rightarrow> Some (''/v1/rotations/trigger'', encRequest r, key)
      | PostResume (Inr r) key \<Rightarrow> Some (''/v1/rotations/resume'', encResume r, key)
      | PostReconcileSplitSigner (Inr r) key \<Rightarrow> Some (''/v1/rotations/reconcile-split-signer'', encSigner r, key)
      | PostArmEnrollment (Inr r) key \<Rightarrow> Some (''/v1/enrollment/arm'', encArm r, key)
      | _ \<Rightarrow> None)"

text \<open>\<open>control.NewClient(*socket).Post(...)\<close> and \<open>printJSON\<close> of the result\<close>

definition postCmd :: "'s unix \<Rightarrow> err + httpRequest \<Rightarrow> 'a decoder \<Rightarrow> 'a \<Rightarrow> ('a \<Rightarrow> json) \<Rightarrow> ('s, string) opn" where
  "postCmd u cmd d zero enc =
     (case cmd of
        Inl e \<Rightarrow> throw e
      | Inr q \<Rightarrow>
          (case posted q of
             None \<Rightarrow> ret []
           | Some (path, j, idem) \<Rightarrow>
               bind (clientPost u path j idem (Some (d, zero))) (\<lambda>v.
               ret (case v of None \<Rightarrow> [] | Some x \<Rightarrow> printJSON (enc x)))))"

definition getCmd :: "'s unix \<Rightarrow> string \<Rightarrow> 'a decoder \<Rightarrow> 'a \<Rightarrow> ('a \<Rightarrow> json) \<Rightarrow> ('s, string) opn" where
  "getCmd u path d zero enc =
     bind (clientGet u path (Some (d, zero))) (\<lambda>v.
     ret (case v of None \<Rightarrow> [] | Some x \<Rightarrow> printJSON (enc x)))"

section \<open>The tree of commands\<close>

datatype cliCommand =
    CmdServe string
  | CmdVersion
  | CmdStatus
  | CmdZones
  | CmdAudit
  | CmdPlan string "string list"
  | CmdTrigger bool string "string list" string
  | CmdResume bool "string list" string
  | CmdReconcileSplitSigner bool string string
  | CmdEnrollmentStatus
  | CmdEnrollmentArm bool string

text \<open>
  The binary: its build variables, the client of a socket, \<open>config.Load\<close> and \<open>app.Run\<close>.
\<close>

record 's binary =
  bnVersion :: string
  bnCommit :: string
  bnDate :: string
  bnClient :: "string \<Rightarrow> 's unix"
  bnWire :: wire
  bnLoad :: "string \<Rightarrow> ('s, config) opn"
  bnRun :: "config \<Rightarrow> ('s, unit) opn"

definition serveCmd :: "'s binary \<Rightarrow> string \<Rightarrow> ('s, string) opn" where
  "serveCmd b path = bind (bnLoad b path) (\<lambda>c. bind (bnRun b c) (\<lambda>_. ret []))"

definition versionCmd :: "'s binary \<Rightarrow> ('s, string) opn" where
  "versionCmd b = ret (printJSON (encMap [(''version'', bnVersion b), (''commit'', bnCommit b), (''date'', bnDate b)]))"

definition statusCmd :: "'s unix \<Rightarrow> ('s, string) opn" where
  "statusCmd u = getCmd u ''/v1/status'' (decStruct controllerFields) zeroController encController"

definition mapCmd :: "'s unix \<Rightarrow> err + httpRequest \<Rightarrow> ('s, string) opn" where
  "mapCmd u cmd = postCmd u cmd decMap [] encMap"

definition execute :: "'s binary \<Rightarrow> string \<Rightarrow> cliCommand \<Rightarrow> ('s, string) opn" where
  "execute b socket cmd =
     (let u = bnClient b socket; t = bnWire b in
      case cmd of
        CmdServe path \<Rightarrow> serveCmd b path
      | CmdVersion \<Rightarrow> versionCmd b
      | CmdStatus \<Rightarrow> statusCmd u
      | CmdZones \<Rightarrow> getCmd u ''/v1/zones'' (decList (decStruct (zoneStatusFields t)) zeroZoneStatus) [] (encSlice (encZone t))
      | CmdAudit \<Rightarrow> getCmd u ''/v1/audit'' (decList (decStruct (auditFields t)) zeroAudit) [] (encSlice (encAudit t))
      | CmdPlan kind zones \<Rightarrow> postCmd u (planCmd kind zones) (decStruct planFields) zeroPlan encPlan
      | CmdTrigger confirm kind zones idem \<Rightarrow> mapCmd u (triggerCmd confirm kind zones idem)
      | CmdResume confirm zones idem \<Rightarrow> mapCmd u (resumeCmd confirm zones idem)
      | CmdReconcileSplitSigner confirm zone idem \<Rightarrow> mapCmd u (reconcileSplitSignerCmd confirm zone idem)
      | CmdEnrollmentStatus \<Rightarrow> statusCmd u
      | CmdEnrollmentArm confirm idem \<Rightarrow> mapCmd u (armEnrollmentCmd confirm idem))"

text \<open>\<open>main\<close>: the exit status\<close>

definition exitStatus :: "err + string \<Rightarrow> int" where
  "exitStatus r = (case r of Inl e \<Rightarrow> 1 | Inr x \<Rightarrow> 0)"

section \<open>What is posted arrives\<close>

declare toValid.simps(2) [simp del]

definition sendable :: "httpRequest \<Rightarrow> bool" where
  "sendable q \<longleftrightarrow>
     (case q of
        PostPlan (Inr r) \<Rightarrow> plainKind (rqKind r) \<and> validTexts (rqZones r)
      | PostTrigger (Inr r) key \<Rightarrow> plainKind (rqKind r) \<and> validTexts (rqZones r)
      | PostResume (Inr r) key \<Rightarrow> plainKind (rsKind r) \<and> plainPhase (rsPhase r) \<and> validTexts (rsZones r)
      | PostReconcileSplitSigner (Inr r) key \<Rightarrow> validUtf8 (ssZone r)
      | PostArmEnrollment (Inr r) key \<Rightarrow> True
      | _ \<Rightarrow> False)"

definition bodyLimitOf :: "httpRequest \<Rightarrow> int" where
  "bodyLimitOf q = (case q of PostReconcileSplitSigner b k \<Rightarrow> confirmLimit | PostArmEnrollment b k \<Rightarrow> confirmLimit | _ \<Rightarrow> requestLimit)"

lemma decodeBody_text:
  assumes "writable nestingLimit j" "validJSON j = j" "strictStruct fs j zero = (x, None)" "int (length (jsonText j)) \<le> n"
  shows "decodeBody n fs zero (jsonText j) = Inr x"
  using goDecode_jsonText [OF assms(1), of "[]"] assms(2-4) by (simp add: decodeBody_def limitReader_def)

lemma valid_names [simp]:
  "toValid ''kind'' = ''kind''" "toValid ''zones'' = ''zones''" "toValid ''confirm'' = ''confirm''"
  "toValid ''phase'' = ''phase''" "toValid ''zone'' = ''zone''"
  by (rule toValid_ascii, simp add: byteIn_def)+

lemma valid_encStrings: "validTexts xs \<Longrightarrow> validJSON (encStrings xs) = encStrings xs"
  by (simp add: encStrings_def validTexts_def list_all_iff valid_id)

lemma writable_encStrings [simp]: "0 < d \<Longrightarrow> writable d (encStrings xs)"
  by (simp add: encStrings_def list_all_iff)

lemma enc_writable:
  "writable nestingLimit (encRequest r)" "writable nestingLimit (encResume u)"
  "writable nestingLimit (encSigner v)" "writable nestingLimit (encArm a)"
  by (simp_all add: encRequest_def encResume_def encSigner_def encArm_def omitEmpty_def nestingLimit_def)

lemma enc_valid:
  "plainKind (rqKind r) \<Longrightarrow> validTexts (rqZones r) \<Longrightarrow> validJSON (encRequest r) = encRequest r"
  "plainKind (rsKind u) \<Longrightarrow> plainPhase (rsPhase u) \<Longrightarrow> validTexts (rsZones u) \<Longrightarrow> validJSON (encResume u) = encResume u"
  "validUtf8 (ssZone v) \<Longrightarrow> validJSON (encSigner v) = encSigner v"
  "validJSON (encArm a) = encArm a"
  by (simp_all add: encRequest_def encResume_def encSigner_def encArm_def omitEmpty_def valid_encStrings plainKind_def
      plainPhase_def valid_id)

lemma headerGet_client: "headerGet ''Idempotency-Key'' (rwHeaders (clientRequest m p (Some j) idem)) = idem"
proof -
  have "\<not> equalFold ''Accept'' ''Idempotency-Key''" "\<not> equalFold ''Content-Type'' ''Idempotency-Key''"
    by code_simp+
  then show ?thesis by (simp add: headerGet_def clientRequest_def)
qed

lemma route_clientRequest:
  "route (clientRequest ''POST'' path (Some j) idem) = postRoute path (jsonText j) idem"
proof -
  have "rwMethod (clientRequest ''POST'' path (Some j) idem) = ''POST''" "rwPath (clientRequest ''POST'' path (Some j) idem) = path"
    "rwBody (clientRequest ''POST'' path (Some j) idem) = jsonText j"
    by (simp_all add: clientRequest_def)
  then show ?thesis by (simp add: route_def headerGet_client)
qed

lemma postRoute_paths:
  "postRoute ''/v1/rotations/plan'' b k = Some (PostPlan (decodeBody requestLimit requestFields zeroRequest b))"
  "postRoute ''/v1/rotations/trigger'' b k = Some (PostTrigger (decodeBody requestLimit requestFields zeroRequest b) k)"
  "postRoute ''/v1/rotations/resume'' b k = Some (PostResume (decodeBody requestLimit resumeFields zeroResume b) k)"
  "postRoute ''/v1/rotations/reconcile-split-signer'' b k =
     Some (PostReconcileSplitSigner (decodeBody confirmLimit signerFields zeroSigner b) k)"
  "postRoute ''/v1/enrollment/arm'' b k = Some (PostArmEnrollment (decodeBody confirmLimit armFields zeroArm b) k)"
  by (simp_all add: postRoute_def)

lemma route_posted:
  assumes "posted q = Some (path, j, idem)" "sendable q" "int (length (jsonText j)) \<le> bodyLimitOf q"
  shows "route (clientRequest ''POST'' path (Some j) idem) = Some q"
  using assms unfolding route_clientRequest
  by (cases q) (auto simp: posted_def sendable_def bodyLimitOf_def postRoute_paths decodeBody_text enc_writable enc_valid
      request_decodes resume_decodes signer_decodes arm_decodes split: sum.splits)

end
