(* ===== verification/Reached.thy ===== *)
theory Reached
  imports Command
begin

text \<open>
  The commands against the running server: what a command sends is what the handler gets, so a command
  is the operation of the controller; and what arrives otherwise does nothing.
\<close>

section \<open>Client and server together\<close>

definition localUnix :: "'w controller \<Rightarrow> wire \<Rightarrow> (rawRequest \<Rightarrow> rawResponse) \<Rightarrow> ('w sys) unix" where
  "localUnix c t mux = \<lparr>uxBadRequest = (\<lambda>_ _. None), uxDo = handleRaw c t mux\<rparr>"

lemma status_name [simp]: "toValid ''status'' = ''status''" "toValid ''error'' = ''error''"
  by (rule toValid_ascii, simp add: byteIn_def)+

lemma ends_line [simp]: "ends [CHR 0x0A]"
  by (simp add: ends_def)

lemma read_status: "goDecode (jsonText (encBody t (BodyStatus x)) @ [CHR 0x0A]) = Inr (JObj [(''status'', JStr (toValid x))])"
  by (subst goDecode_jsonText) (simp_all add: encBody_def nestingLimit_def)

lemma read_error: "goDecode (jsonText (encBody t (BodyError e)) @ [CHR 0x0A]) = Inr (JObj [(''error'', JStr (toValid (wrError t e)))])"
  by (subst goDecode_jsonText) (simp_all add: encBody_def nestingLimit_def)

text \<open>A written string is at most six times as long.\<close>

lemma length_escapeByte: "length (escapeByte c) \<le> 6"
  by (simp add: escapeByte_def)

lemma separators_length: "map_of separators x = Some e \<Longrightarrow> length e = 6"
  by (auto simp: separators_def split: if_splits)

lemma length_quoteBody: "length (quoteBody s) \<le> 6 * length s"
proof (induction s rule: quoteBody.induct)
  case (2 a s)
  define n where "n = runeLen (a # s)"
  show ?case
  proof (cases "isASCII a")
    case True
    then show ?thesis using 2(1) length_escapeByte [of a] by simp
  next
    case False
    show ?thesis
    proof (cases "n = 0")
      case True
      then show ?thesis using 2(2) False n_def by simp
    next
      case n: False
      have "n - 1 \<le> length s" using runeLen_bounds(1) [of "a # s"] n_def by simp
      then have "length (quoteBody (drop (n - 1) s)) + 6 * n \<le> 6 * length (a # s)"
        using 2(3) False n n_def by simp
      moreover have "length (take n (a # s)) \<le> n" by simp
      ultimately show ?thesis
        using False n n_def by (auto simp: Let_def split: option.splits dest: separators_length)
    qed
  qed
qed simp

lemma safe_quoteBody: "list_all safeByte s \<Longrightarrow> quoteBody s = s"
  by (induction s) (auto dest: safe_byte)

lemma length_commas: "length (commas xs) \<le> sum_list (map length xs) + length xs"
  by (induction xs rule: commas.induct) auto

declare quoteBody.simps(2) [simp del]

section \<open>The answer that is read\<close>

text \<open>Error texts that fit into the answer the client is prepared to read\<close>

definition shortErrors :: "wire \<Rightarrow> bool" where
  "shortErrors t \<longleftrightarrow> (\<forall>e. length (wrError t e) \<le> 300000)"

lemma limit_error:
  assumes "shortErrors t"
  shows "limitReader replyLimit (jsonText (encBody t (BodyError e)) @ [CHR 0x0A]) = jsonText (encBody t (BodyError e)) @ [CHR 0x0A]"
proof -
  have "length (wrError t e) \<le> 300000" using assms by (simp add: shortErrors_def)
  then have "int (length (quoteBody (wrError t e))) \<le> 1800000"
    using length_quoteBody [of "wrError t e"] by linarith
  moreover have "int (length (quoted ''error'')) \<le> 32"
    using length_quoteBody [of "''error''"] by (simp add: quoted_def)
  ultimately have "int (length (jsonText (encBody t (BodyError e)) @ [CHR 0x0A])) \<le> 2097152"
    by (simp add: encBody_def quoted_def)
  then show ?thesis by (simp add: limitReader_def replyLimit_def)
qed

lemma errorField_error:
  "shortErrors t \<Longrightarrow> errorField (limitReader replyLimit (jsonText (encBody t (BodyError e)) @ [CHR 0x0A])) = toValid (wrError t e)"
  by (simp add: limit_error errorField_def read_error mput_def mget_def)

lemma limit_status:
  assumes "length x \<le> 100"
  shows "limitReader replyLimit (jsonText (encBody t (BodyStatus x)) @ [CHR 0x0A]) = jsonText (encBody t (BodyStatus x)) @ [CHR 0x0A]"
proof -
  have "length (quoteBody x) \<le> 600" "length (quoteBody ''status'') \<le> 36"
    using length_quoteBody [of x] length_quoteBody [of "''status''"] assms by simp_all
  then have "int (length (jsonText (encBody t (BodyStatus x)) @ [CHR 0x0A])) \<le> 2097152"
    by (simp add: encBody_def quoted_def)
  then show ?thesis by (simp add: limitReader_def replyLimit_def)
qed

section \<open>Commands are operations of the controller\<close>

text \<open>How a command ends whose operation ended like this\<close>

definition outcome :: "wire \<Rightarrow> string \<Rightarrow> (err + unit) \<times> 's \<Rightarrow> (err + string) \<times> 's" where
  "outcome t word p =
     (case p of
        (Inr _, s) \<Rightarrow> (Inr (printJSON (encMap [(''status'', word)])), s)
      | (Inl e, s) \<Rightarrow> (Inl (Fmt ControlStatus [AInt 409, AStr (toValid (wrError t e))]), s))"

lemma mapCmd_local:
  assumes "posted q = Some (path, j, idem)" "sendable q" "int (length (jsonText j)) \<le> bodyLimitOf q"
    "serve c q = respond 409 202 (\<lambda>_. BodyStatus word) m" "shortErrors t" "validUtf8 word" "length word \<le> 100"
  shows "mapCmd (localUnix c t mux) (Inr q) s = outcome t word (m s)"
proof (cases "m s")
  case (Pair r u)
  have route: "route (clientRequest ''POST'' path (Some j) idem) = Some q"
    using assms(1-3) by (rule route_posted)
  have verb: "rwMethod (clientRequest ''POST'' path (Some j) idem) = ''POST''"
    by (simp add: clientRequest_def)
  show ?thesis
  proof (cases r)
    case (Inl e)
    then show ?thesis
      using Pair by (simp add: mapCmd_def postCmd_def clientPost_def clientDo_def assms(1,4) localUnix_def handleRaw_def route verb
          respond_def writeError_def outcome_def bind_def attempt_def ret_def throw_def writeJSON_def errorField_error [OF assms(5)])
  next
    case (Inr x)
    then show ?thesis
      using Pair by (simp add: mapCmd_def postCmd_def clientPost_def clientDo_def assms(1,4) localUnix_def handleRaw_def route verb
          respond_def outcome_def bind_def attempt_def ret_def throw_def writeJSON_def limit_status [OF assms(7)] read_status
          storeJSON_def mput_def valid_id [OF assms(6)])
  qed
qed

text \<open>A name of at most 253 bytes that are written as they are\<close>

definition plainName :: "string \<Rightarrow> bool" where
  "plainName z \<longleftrightarrow> list_all safeByte z \<and> length z \<le> 253"

definition plainNames :: "string list \<Rightarrow> bool" where
  "plainNames zs \<longleftrightarrow> zs \<noteq> [] \<and> length zs \<le> 100 \<and> list_all plainName zs"

lemma safe_valid: "list_all safeByte s \<Longrightarrow> validUtf8 s"
proof (rule validUtf8_ascii)
  show "list_all safeByte s \<Longrightarrow> list_all isASCII s"
    by (induction s) (simp_all add: safe_byte)
qed

lemma plainName_valid: "plainName z \<Longrightarrow> validUtf8 z"
  by (simp add: plainName_def safe_valid)

lemma plainNames_valid: "plainNames zs \<Longrightarrow> validTexts zs"
  by (simp add: plainNames_def validTexts_def list_all_iff plainName_valid)

lemma quoted_safe: "list_all safeByte s \<Longrightarrow> length (quoted s) = length s + 2"
  by (simp add: quoted_def safe_quoteBody)

lemma length_names: "list_all plainName zs \<Longrightarrow> sum_list (map (\<lambda>z. length (quoted z)) zs) \<le> 255 * length zs"
  by (induction zs) (auto simp: plainName_def quoted_safe)

lemma length_encStrings: "plainNames zs \<Longrightarrow> length (jsonText (encStrings zs)) \<le> 25602"
  using length_commas [of "map quoted zs"] length_names [of zs]
  by (simp add: encStrings_def plainNames_def comp_def)

lemma safe_names:
  "list_all safeByte ''zsk''" "list_all safeByte ''ksk''" "list_all safeByte ''split''" "list_all safeByte ''wait_publish''"
  "list_all safeByte ''kind''" "list_all safeByte ''zones''" "list_all safeByte ''confirm''" "list_all safeByte ''phase''"
  "list_all safeByte ''zone''"
  by (simp_all add: safeByte_def byteIn_def)

lemma kind_plain:
  assumes "k \<in> {KindZSK, KindKSK, KindSplit}"
  shows "plainKind k" "length (quoted (kindStr k)) \<le> 7"
proof -
  have "kindOfStr (kindStr k) = k" using assms by (auto simp: kindOfStr_def)
  then show "plainKind k"
    using assms safe_names [THEN safe_valid] by (auto simp only: plainKind_def kindStr.simps insert_iff empty_iff)
  show "length (quoted (kindStr k)) \<le> 7"
    using assms safe_names [THEN quoted_safe] by auto
qed

lemma parseKind_named: "parseKind v = Inr k \<Longrightarrow> k \<in> {KindZSK, KindKSK, KindSplit}"
  by (auto simp: parseKind_def Let_def split: if_splits)

lemma name_lengths:
  "length (quoted ''kind'') = 6" "length (quoted ''zones'') = 7" "length (quoted ''confirm'') = 9"
  "length (quoted ''phase'') = 7" "length (quoted ''zone'') = 6" "length (quoted ''split'') = 7"
  "length (quoted ''wait_publish'') = 14"
  using safe_names [THEN quoted_safe] by simp_all

lemma length_request:
  assumes "k \<in> {KindZSK, KindKSK, KindSplit}" "plainNames zs"
  shows "int (length (jsonText (encRequest \<lparr>rqKind = k, rqZones = zs, rqConfirm = b\<rparr>))) \<le> requestLimit"
  using kind_plain(2) [OF assms(1)] length_encStrings [OF assms(2)]
  by (cases b) (simp_all add: encRequest_def omitEmpty_def requestLimit_def name_lengths)

lemma length_resume:
  assumes "plainNames zs"
  shows "int (length (jsonText (encResume \<lparr>rsKind = KindSplit, rsZones = zs, rsPhase = PhaseWaitPublish, rsConfirm = b\<rparr>))) \<le> requestLimit"
  using length_encStrings [OF assms]
  by (cases b) (simp_all add: encResume_def requestLimit_def name_lengths)

lemma length_signer:
  assumes "plainName z"
  shows "int (length (jsonText (encSigner \<lparr>ssZone = z, ssConfirm = b\<rparr>))) \<le> confirmLimit"
  using assms by (cases b) (simp_all add: encSigner_def confirmLimit_def quoted_safe name_lengths plainName_def)

lemma length_arm: "int (length (jsonText (encArm \<lparr>aeConfirm = b\<rparr>))) \<le> confirmLimit"
  by (cases b) (simp_all add: encArm_def confirmLimit_def name_lengths)

lemma wait_publish_plain: "plainPhase PhaseWaitPublish"
  using safe_names(4) [THEN safe_valid] by (simp add: plainPhase_def phaseOfStr_def)

lemma words_valid: "validUtf8 ''accepted''" "validUtf8 ''attested''" "validUtf8 ''armed''"
  by (rule safe_valid, simp add: safeByte_def byteIn_def)+

lemma trim_idem: "trimSpace (trimSpace s) = trimSpace s"
proof -
  let ?a = "dropWhile isSpace s"
  let ?b = "rev (dropWhile isSpace (rev ?a))"
  have "dropWhile isSpace ?b = ?b"
  proof (cases ?b)
    case (Cons c t)
    have "\<exists>q. ?a = ?b @ q"
      by (metis dropWhile_eq_drop rev_drop rev_rev_ident append_take_drop_id)
    then obtain q where "?a = c # t @ q" using Cons by auto
    then have "\<not> isSpace c" by (simp add: dropWhile_eq_Cons_conv)
    then show ?thesis using Cons by simp
  next
    case Nil
    then show ?thesis by (simp only: dropWhile.simps)
  qed
  then show ?thesis by (simp add: trimSpace_def)
qed

text \<open>
  The binary and the server on the socket it connects to
\<close>

definition connected :: "'w sys binary \<Rightarrow> string \<Rightarrow> 'w controller \<Rightarrow> wire \<Rightarrow> bool" where
  "connected b socket c t \<longleftrightarrow> (\<exists>mux. bnClient b socket = localUnix c t mux)"

lemma kind_choice: "k \<in> {KindZSK, KindKSK, KindSplit} \<Longrightarrow> \<not> (k \<noteq> KindZSK \<and> k \<noteq> KindKSK \<and> k \<noteq> KindSplit)"
  by auto

lemma serve_trigger:
  assumes "k \<in> {KindZSK, KindKSK, KindSplit}" "plainNames zs"
  shows "serve c (PostTrigger (Inr \<lparr>rqKind = k, rqZones = zs, rqConfirm = True\<rparr>) idem) =
    respond 409 202 (\<lambda>_. BodyStatus ''accepted'') (Trigger c k zs (trimSpace idem))"
  using assms(2) by (auto simp: serve_def triggerHandler_def decode_def plainNames_def kind_choice [OF assms(1)])

lemma serve_resume:
  assumes "plainNames zs"
  shows "serve c (PostResume (Inr \<lparr>rsKind = KindSplit, rsZones = zs, rsPhase = PhaseWaitPublish, rsConfirm = True\<rparr>) idem) =
    respond 409 202 (\<lambda>_. BodyStatus ''accepted'') (Resume c KindSplit zs PhaseWaitPublish (trimSpace idem))"
  using assms by (simp add: serve_def resumeHandler_def plainNames_def)

lemma serve_attest:
  assumes "trimSpace zone \<noteq> []"
  shows "serve c (PostReconcileSplitSigner (Inr \<lparr>ssZone = trimSpace zone, ssConfirm = True\<rparr>) idem) =
    respond 409 202 (\<lambda>_. BodyStatus ''attested'') (ReconcileSplitSignerTransition c (trimSpace zone) (trimSpace idem))"
  using assms by (simp add: serve_def reconcileSplitSigner_def trim_idem)

lemma serve_arm:
  "serve c (PostArmEnrollment (Inr \<lparr>aeConfirm = True\<rparr>) idem) =
    respond 409 202 (\<lambda>_. BodyStatus ''armed'') (ArmEnrollment c (trimSpace idem))"
  by (simp add: serve_def armEnrollment_def)


end
