(* ===== verification/Daemon.thy ===== *)
theory Daemon
  imports Reached Operator Paths
begin

text \<open>
  The daemon: the control socket (\<open>Prepare\<close>, \<open>Serve\<close> and \<open>Run\<close> of \<open>internal/control/server.go\<close>), the loop
  of the controller (\<open>Run\<close> of \<open>internal/controller/controller.go\<close>), and how \<open>app.Run\<close> of
  \<open>internal/app/app.go\<close> starts and stops them. The last section puts ticks, requests, kills and
  restarts into one history.
\<close>

section \<open>The control socket\<close>

datatype (plugins only: code size) socketOp =
    MkSocketDir string
  | RemoveOld string
  | Listen string
  | ChmodSocket string
  | CloseListener string
  | ShutdownServer

text \<open>What \<open>Lstat\<close> finds under the path: nothing (\<open>ErrNotExist\<close>), a socket or something else\<close>

datatype pathKind = NoPath | SocketPath | OtherPath

record 'v sockets =
  skCall :: "socketOp \<Rightarrow> 'v \<Rightarrow> err option \<times> 'v"
  skLstat :: "string \<Rightarrow> 'v \<Rightarrow> (err + pathKind) \<times> 'v"

text \<open>The operating system and the history of what was done, which the code never reads\<close>

datatype socketEvent = Found string "err + pathKind" | Called socketOp "err option"

record 'v hostState =
  hsWorld :: 'v
  hsLog :: "socketEvent list"

definition socketCall :: "'v sockets \<Rightarrow> socketOp \<Rightarrow> ('v hostState, unit) opn" where
  "socketCall sk x = (\<lambda>s. case skCall sk x (hsWorld s) of
     (r, w) \<Rightarrow> (case r of None \<Rightarrow> Inr () | Some e \<Rightarrow> Inl e, s\<lparr>hsWorld := w, hsLog := hsLog s @ [Called x r]\<rparr>))"

definition lstatPath :: "'v sockets \<Rightarrow> string \<Rightarrow> ('v hostState, pathKind) opn" where
  "lstatPath sk p = (\<lambda>s. case skLstat sk p (hsWorld s) of
     (r, w) \<Rightarrow> (r, s\<lparr>hsWorld := w, hsLog := hsLog s @ [Found p r]\<rparr>))"

definition RefuseNonSocket :: msg where
  "RefuseNonSocket = ''refusing to replace non-socket %s''"

definition prepare :: "'v sockets \<Rightarrow> string \<Rightarrow> ('v hostState, unit) opn" where
  "prepare sk path =
     bind (socketCall sk (MkSocketDir (dir path))) (\<lambda>_.
     bind (lstatPath sk path) (\<lambda>k.
     bind (case k of
             NoPath \<Rightarrow> ret ()
           | SocketPath \<Rightarrow> socketCall sk (RemoveOld path)
           | OtherPath \<Rightarrow> throw (Fmt RefuseNonSocket [AStr path])) (\<lambda>_.
     bind (socketCall sk (Listen path)) (\<lambda>_.
     bind (attempt (socketCall sk (ChmodSocket path))) (\<lambda>r.
     case r of
       Inr _ \<Rightarrow> ret ()
     | Inl e \<Rightarrow> bind (attempt (socketCall sk (CloseListener path))) (\<lambda>_. throw e))))))"

text \<open>What ends \<open>Serve\<close>: the context is cancelled, or \<open>http.Server.Serve\<close> returns.\<close>

datatype ending = Cancelled | Returned err

definition ServerClosed :: err where
  "ServerClosed = Fmt ''http: Server closed'' []"

definition serveUntil :: "'v sockets \<Rightarrow> string \<Rightarrow> ending \<Rightarrow> ('v hostState, unit) opn" where
  "serveUntil sk path e =
     (case e of
        Cancelled \<Rightarrow>
          bind (attempt (socketCall sk ShutdownServer)) (\<lambda>_.
          bind (attempt (socketCall sk (RemoveOld path))) (\<lambda>_. ret ()))
      | Returned err \<Rightarrow> if err = ServerClosed then ret () else throw err)"

definition runServer :: "'v sockets \<Rightarrow> string \<Rightarrow> ending \<Rightarrow> ('v hostState, unit) opn" where
  "runServer sk path e = bind (prepare sk path) (\<lambda>_. serveUntil sk path e)"

section \<open>app.Run\<close>

text \<open>
  \<open>starting\<close>: the constructors and the start hook, \<open>Prepare\<close>; \<open>stopping\<close>: the stop hooks. Only the server can
  end with an error: \<open>Run\<close> of the controller returns nil.
\<close>

definition appRun :: "('s, unit) opn \<Rightarrow> ending \<Rightarrow> ('s, unit) opn \<Rightarrow> ('s, unit) opn" where
  "appRun starting e stopping =
     bind starting (\<lambda>_.
     let runErr = (case e of Cancelled \<Rightarrow> None | Returned x \<Rightarrow> Some x) in
     bind (attempt stopping) (\<lambda>r.
     case runErr of
       Some x \<Rightarrow> throw x
     | None \<Rightarrow> (case r of Inl y \<Rightarrow> throw y | Inr _ \<Rightarrow> ret ())))"

section \<open>Controller.Run\<close>

text \<open>The loop, by the number of ticks of the ticker before the context is cancelled\<close>

fun tickLoop :: "'w controller \<Rightarrow> nat \<Rightarrow> ('w, unit) io" where
  "tickLoop c 0 = ret ()"
| "tickLoop c (Suc n) = bind (attempt (Tick c)) (\<lambda>_. tickLoop c n)"

definition runController :: "'w controller \<Rightarrow> nat \<Rightarrow> ('w, unit) io" where
  "runController c n = bind (attempt (Tick c)) (\<lambda>_. tickLoop c n)"

section \<open>The socket is protected\<close>

lemma run_socketCall:
  "wp (socketCall sk x) Q s = (case skCall sk x (hsWorld s) of
     (r, w) \<Rightarrow> Q (case r of None \<Rightarrow> Inr () | Some e \<Rightarrow> Inl e) (s\<lparr>hsWorld := w, hsLog := hsLog s @ [Called x r]\<rparr>))"
  by (simp add: wp_def socketCall_def split: prod.splits)

lemma run_lstatPath:
  "wp (lstatPath sk p) Q s = (case skLstat sk p (hsWorld s) of
     (r, w) \<Rightarrow> Q r (s\<lparr>hsWorld := w, hsLog := hsLog s @ [Found p r]\<rparr>))"
  by (simp add: wp_def lstatPath_def split: prod.splits)

text \<open>
  Whatever is found and however the calls end: what is removed is a socket that was found there just
  before; and when the server goes on, the last thing it did was to restrict the socket it listens on.
\<close>

theorem socket_is_prepared_safely:
  assumes "prepare sk path s = (r, t)"
  shows "\<exists>es. hsLog t = hsLog s @ es
    \<and> (\<forall>i p x. i < length es \<longrightarrow> es ! i = Called (RemoveOld p) x \<longrightarrow> p = path \<and> 0 < i \<and> es ! (i - 1) = Found path (Inr SocketPath))
    \<and> (r = Inr () \<longrightarrow> (\<exists>front. es = front @ [Called (Listen path) None, Called (ChmodSocket path) None]))"
proof -
  have "wp (prepare sk path) (\<lambda>r t. \<exists>es. hsLog t = hsLog s @ es
    \<and> (\<forall>i p x. i < length es \<longrightarrow> es ! i = Called (RemoveOld p) x \<longrightarrow> p = path \<and> 0 < i \<and> es ! (i - 1) = Found path (Inr SocketPath))
    \<and> (r = Inr () \<longrightarrow> (\<exists>front. es = front @ [Called (Listen path) None, Called (ChmodSocket path) None]))) s"
    unfolding prepare_def
    by (auto simp: wp_simps run_socketCall run_lstatPath nth_append less_Suc_eq split: prod.splits sum.splits option.splits pathKind.splits)
  then show ?thesis using assms by (rule wpI)
qed

section \<open>The history of the daemon\<close>

text \<open>A tick of the loop, or any bytes that arrive at the socket\<close>

datatype (plugins only: code size) happening = Ticked | Received rawRequest

definition happens :: "'w controller \<Rightarrow> wire \<Rightarrow> (rawRequest \<Rightarrow> rawResponse) \<Rightarrow> happening \<Rightarrow> ('w, unit) io" where
  "happens c t mux h = (case h of Ticked \<Rightarrow> Tick c | Received r \<Rightarrow> bind (handleRaw c t mux r) (\<lambda>_. ret ()))"

inductive service :: "'w controller \<Rightarrow> wire \<Rightarrow> (rawRequest \<Rightarrow> rawResponse) \<Rightarrow> 'w sys \<Rightarrow> 'w sys \<Rightarrow> bool"
  for c :: "'w controller" and t mux s0 where
  up: "service c t mux s0 s0"
| step: "service c t mux s0 s \<Longrightarrow> happens c t mux h s = (r, u) \<Longrightarrow> service c t mux s0 u"
| outside: "service c t mux s0 s \<Longrightarrow> service c t mux s0 (s\<lparr>sysWorld := w\<rparr>)"
| killed: "service c t mux s0 s \<Longrightarrow> happens c t mux h s = (r, u) \<Longrightarrow> sysLog u = sysLog s @ es @ lost \<Longrightarrow>
    service c t mux s0 \<lparr>sysState = lastPersist (sysState s) es, sysWorld = w, sysLog = sysLog s @ es\<rparr>"

inductive_cases serviceE: "service c t mux s0 s"

lemma handleRaw_unrouted: "route q = None \<Longrightarrow> snd (handleRaw c t mux q s) = s"
  by (simp add: handleRaw_def ret_def)

lemma handleRaw_routed: "route q = Some x \<Longrightarrow> snd (handleRaw c t mux q s) = snd (serve c x s)"
  by (simp add: handleRaw_def bind_def ret_def split: prod.split sum.split)

lemma happens_performed:
  assumes "happens c t mux h s = (r, u)"
  shows "u = s \<or> (\<exists>a x. perform c a s = (x, u))"
proof (cases h)
  case Ticked
  then show ?thesis using assms by (auto simp: happens_def perform_def intro!: exI [of _ Pass])
next
  case (Received q)
  then have u: "u = snd (handleRaw c t mux q s)"
    using assms by (auto simp: happens_def bind_def ret_def split: prod.splits sum.splits)
  show ?thesis
  proof (cases "route q")
    case None
    then show ?thesis using u handleRaw_unrouted by metis
  next
    case (Some x)
    have "snd (perform c (Request x) s) = snd (serve c x s)"
      by (simp add: perform_def bind_def ret_def split: prod.split sum.split)
    then show ?thesis using u handleRaw_routed [OF Some, of c t mux s] by (metis prod.collapse)
  qed
qed


text \<open>The loop of the controller is a part of such a history.\<close>

lemma service_ticks: "service c t mux s0 s \<Longrightarrow> service c t mux s0 (snd (tickLoop c n s))"
proof (induction n arbitrary: s)
  case (Suc n)
  have "service c t mux s0 (snd (Tick c s))"
    using service.step [OF Suc.prems, of Ticked] by (cases "Tick c s") (simp add: happens_def)
  then show ?case
    using Suc.IH by (simp add: bind_def attempt_def split: prod.split) (metis snd_conv)
qed (simp add: ret_def)

lemma runController_loop: "runController c n = tickLoop c (Suc n)"
  by (simp add: runController_def)

theorem running_is_service: "service c t mux s (snd (runController c n s))"
  unfolding runController_loop by (rule service_ticks [OF service.up])

section \<open>What a request must be to change anything\<close>

definition confirmedRequest :: "httpRequest \<Rightarrow> bool" where
  "confirmedRequest q \<longleftrightarrow>
     (case q of
        PostTrigger (Inr r) key \<Rightarrow>
          rqConfirm r \<and> rqKind r \<in> {KindZSK, KindKSK, KindSplit} \<and> rqZones r \<noteq> [] \<and> length (rqZones r) \<le> 100
          \<and> idemLengthOk (trimSpace key)
      | PostResume (Inr r) key \<Rightarrow>
          rsConfirm r \<and> rsKind r = KindSplit \<and> rsPhase r = PhaseWaitPublish \<and> rsZones r \<noteq> [] \<and> length (rsZones r) \<le> 100
          \<and> idemLengthOk (trimSpace key)
      | PostReconcileSplitSigner (Inr r) key \<Rightarrow> ssConfirm r \<and> trimSpace (ssZone r) \<noteq> [] \<and> idemLengthOk (trimSpace key)
      | PostArmEnrollment (Inr r) key \<Rightarrow> aeConfirm r \<and> idemLengthOk (trimSpace key)
      | _ \<Rightarrow> False)"

lemma unconfirmed_serve:
  assumes "changes q" "\<not> confirmedRequest q"
  shows "snd (serve c q s) = s"
proof (cases q)
  case (PostTrigger b key)
  then show ?thesis
    using assms by (cases b) (auto simp: confirmedRequest_def serve_def triggerHandler_def decode_def writeError_def respond_def Trigger_def
        bind_def attempt_def ret_def throw_def split: if_splits)
next
  case (PostResume b key)
  then show ?thesis
    using assms by (cases b) (auto simp: confirmedRequest_def serve_def resumeHandler_def writeError_def respond_def Resume_def
        bind_def attempt_def ret_def throw_def split: if_splits)
next
  case (PostReconcileSplitSigner b key)
  then show ?thesis
    using assms by (cases b) (auto simp: confirmedRequest_def serve_def reconcileSplitSigner_def writeError_def respond_def
        ReconcileSplitSignerTransition_def bind_def attempt_def ret_def throw_def split: if_splits)
next
  case (PostArmEnrollment b key)
  then show ?thesis
    using assms by (cases b) (auto simp: confirmedRequest_def serve_def armEnrollment_def writeError_def respond_def ArmEnrollment_def
        bind_def attempt_def ret_def throw_def split: if_splits)
qed (use assms in simp_all)

lemma route_changes: "route r = Some q \<Longrightarrow> changes q \<Longrightarrow> rwMethod r = ''POST''"
  by (auto simp: route_def getRoutes_def split: if_splits)

text \<open>C30: Whatever bytes arrive at the control socket: when handling them changes the document, the
  method was POST, the path is one of the four that change something, and the body was decoded,
  with no unknown field, to a request with confirm set, an allowed number of zones and an
  idempotency key of an allowed length.\<close>

theorem only_confirmed_requests_change:
  assumes "handleRaw c t mux r s = (x, u)" "sysState u \<noteq> sysState s"
  shows "rwMethod r = ''POST'' \<and> (\<exists>q. route r = Some q \<and> confirmedRequest q)"
proof -
  have "route r \<noteq> None"
  proof
    assume "route r = None"
    then have "u = s" using handleRaw_unrouted [of r c t mux s] assms(1) by simp
    then show False using assms(2) by simp
  qed
  then obtain q where q: "route r = Some q" by blast
  then have u: "u = snd (serve c q s)"
    using handleRaw_routed [OF q] assms(1) by (metis snd_conv)
  have "changes q"
  proof (rule ccontr)
    assume "\<not> changes q"
    then have "sysState u = sysState s"
      using serve_reads [of q c] u by (cases "serve c q s") (auto simp: readonly_def quiet_def dest: wpI)
    then show False using assms(2) by simp
  qed
  moreover have "confirmedRequest q"
    using unconfirmed_serve [OF \<open>changes q\<close>] u assms(2) by metis
  ultimately show ?thesis using q route_changes by blast
qed

end
