(* ===== verification/Socketlab.thy ===== *)
theory Socketlab
  imports Daemon Desk
begin

text \<open>
  The control channel at work: texts for the reader, and the operator's request of \<open>Desk\<close> sent as
  a command over the socket.
\<close>

section \<open>Texts\<close>

lemma text_samples:
  "goDecode ''{\"zone\":\"z\"}'' = Inr (JObj [(''zone'', JStr ''z'')])"
  "goDecode [] = Inl EOF"
  "goDecode ''  '' = Inl EOF"
  "goDecode ''{\"zone\":'' = Inl UnexpectedEOF"
  "goDecode ''{\"zone\" \"z\"}'' = Inl InvalidJSON"
  by code_simp+

lemma escape_samples:
  "goDecode [CHR 0x22, CHR 0xC3, CHR 0x22] = Inr (JStr runeError)"
  "goDecode ''[1, -2.5e+3, true]x'' = Inr (JArr [JNum ''1'', JNum ''-2.5e+3'', JBool True])"
  "goDecode ''01'' = Inr (JNum ''0'')"
  "quoted [CHR ''<'', CHR 0x0A, CHR 0xFF] = [CHR 0x22, CHR 0x5C] @ ''u003c'' @ [CHR 0x5C] @ ''n'' @ [CHR 0x5C] @ ''ufffd'' @ [CHR 0x22]"
  by code_simp+

lemma body_samples:
  "decodeBody confirmLimit armFields zeroArm ''{\"Confirm\":true}'' = Inr \<lparr>aeConfirm = True\<rparr>"
  "decodeBody confirmLimit armFields zeroArm ''{\"confirm\":true,\"force\":1}'' = Inl (Fmt ''json: unknown field %q'' [AStr ''force''])"
  "decodeBody confirmLimit armFields zeroArm ''{\"confirm\":1}'' = Inl CannotUnmarshal"
  "decodeBody 15 armFields zeroArm ''{\"confirm\":true}'' = Inl UnexpectedEOF"
  by code_simp+

section \<open>The operator's request over the socket\<close>

definition labWire :: wire where
  "labWire = \<lparr>wrError = (\<lambda>_. ''failed''), wrTime = (\<lambda>_. ''0001-01-01T00:00:00Z''), wrParse = (\<lambda>_. Some 0)\<rparr>"

definition labMux :: "rawRequest \<Rightarrow> rawResponse" where
  "labMux r = \<lparr>raStatus = 404, raHeaders = [], raBody = ''404 page not found''\<rparr>"

definition labBinary :: "unit sys binary" where
  "labBinary = \<lparr>bnVersion = ''dev'', bnCommit = ''none'', bnDate = ''unknown'',
     bnClient = (\<lambda>_. localUnix triggerDesk labWire labMux), bnWire = labWire,
     bnLoad = (\<lambda>_. throw EOF), bnRun = (\<lambda>_. ret ())\<rparr>"

lemma lab_connected: "connected labBinary ''control.sock'' triggerDesk labWire"
  by (auto simp: connected_def labBinary_def)

lemma lab_short: "shortErrors labWire"
  by (simp add: shortErrors_def labWire_def)

lemma lab_zones: "cliZones ['' z. ,''] = [''z.'']" "plainNames [''z.'']" "trimSpace ''z.'' = ''z.''" "plainName ''z.''"
  "parseKind ''ZSK'' = Inr KindZSK"
  by code_simp+


abbreviation "labRequest \<equiv> \<lparr>rqKind = KindZSK, rqZones = ['' Z. ''], rqConfirm = True\<rparr>"

definition labRaw :: rawRequest where
  "labRaw = clientRequest ''POST'' ''/v1/rotations/trigger'' (Some (encRequest labRequest)) deskKey"

lemma lab_route: "route labRaw = Some triggerRequest"
  by code_simp

lemma lab_changes: "sIdempotency (sysState (snd (serve triggerDesk triggerRequest (labSys idleFlow)))) \<noteq> []"
  by code_simp

theorem only_confirmed_requests_change_witness: "\<exists>q. route labRaw = Some q \<and> confirmedRequest q"
proof -
  have "sysState (snd (handleRaw triggerDesk labWire labMux labRaw (labSys idleFlow))) \<noteq> sysState (labSys idleFlow)"
    using lab_changes by (auto simp: handleRaw_routed [OF lab_route] labSys_def)
  then show ?thesis
    using only_confirmed_requests_change [of triggerDesk labWire labMux labRaw "labSys idleFlow"] by (metis prod.collapse)
qed


definition labSockets :: "unit sockets" where
  "labSockets = \<lparr>skCall = (\<lambda>_ w. (None, w)), skLstat = (\<lambda>_ w. (Inr SocketPath, w))\<rparr>"

definition labHost :: "unit hostState" where
  "labHost = \<lparr>hsWorld = (), hsLog = []\<rparr>"

theorem socket_is_prepared_safely_witness:
  "\<exists>front. hsLog (snd (prepare labSockets ''/run/c.sock'' labHost)) =
     front @ [Called (Listen ''/run/c.sock'') None, Called (ChmodSocket ''/run/c.sock'') None]"
proof -
  have "fst (prepare labSockets ''/run/c.sock'' labHost) = Inr ()" by code_simp
  then have "prepare labSockets ''/run/c.sock'' labHost = (Inr (), snd (prepare labSockets ''/run/c.sock'' labHost))"
    by (metis prod.collapse)
  from socket_is_prepared_safely [OF this] show ?thesis by (auto simp: labHost_def)
qed

end
