(* ===== verification/Typed.thy ===== *)
theory Typed
  imports Answered Requested Replies
begin

text \<open>
  What the decoder stores has the range of its Go type, whatever the answer is: an interface for the
  structs that are decoded, with what follows for arrays, for strict decoding and for whole answers,
  and the structs of the clients as its instances.
\<close>

section \<open>Structs whose values have a range\<close>

text \<open>A field stores a value of its type, or leaves what was there.\<close>

locale typed_struct =
  fixes fields :: "(string \<times> 'a decoder) list" and zero :: 'a and fits :: "'a \<Rightarrow> bool"
  assumes zero_fits: "fits zero"
    and field_fits: "(name, d) \<in> set fields \<Longrightarrow> fits v \<Longrightarrow> fits (fst (d j v))"
begin

lemma fieldFor_mem: "fieldFor fields name = Some d \<Longrightarrow> \<exists>n. (n, d) \<in> set fields"
  by (auto simp: fieldFor_def find_Some_iff in_set_conv_nth split: option.splits dest!: map_of_SomeD) metis

lemma members_fit: "fits v \<Longrightarrow> fits (fst (decMembers fields ms v))"
proof (induction ms arbitrary: v)
  case (Cons m ms)
  obtain name j where m: "m = (name, j)" by (cases m)
  have "fits (fst (case fieldFor fields name of None \<Rightarrow> (v, True) | Some d \<Rightarrow> d j v))"
    using Cons.prems field_fits fieldFor_mem by (auto split: option.split) blast
  then show ?case
    using Cons.IH m by (simp add: Let_def case_prod_beta)
qed simp

lemma struct_fits: "fits v \<Longrightarrow> fits (fst (decStruct fields j v))"
  by (cases j) (simp_all add: members_fit)

lemma stored_fits: "storeJSON (decStruct fields) p zero = (x, e) \<Longrightarrow> fits x"
  using struct_fits [OF zero_fits] zero_fits
  by (auto simp: storeJSON_def case_prod_beta split: sum.splits)

lemma elems_fit: "list_all fits old \<Longrightarrow> list_all fits (fst (decElems (decStruct fields) zero js old))"
proof (induction js arbitrary: old)
  case (Cons j js)
  let ?v = "case old of [] \<Rightarrow> zero | v # _ \<Rightarrow> v"
  have "fits ?v" using Cons.prems zero_fits by (auto split: list.split)
  moreover have "list_all fits (drop 1 old)" using Cons.prems by (cases old) simp_all
  ultimately show ?case
    using struct_fits [of ?v j] Cons.IH [of "drop 1 old"] by (simp add: Let_def case_prod_beta)
qed simp

lemma slice_fits:
  "storeJSON (decSlice (decStruct fields) zero) p None = (x, e) \<Longrightarrow> list_all fits (case x of None \<Rightarrow> [] | Some ys \<Rightarrow> ys)"
proof -
  have "list_all fits (case fst (decSlice (decStruct fields) zero j None) of None \<Rightarrow> [] | Some ys \<Rightarrow> ys)" for j
    using elems_fit [of "[]"] by (cases j) (simp_all add: Let_def case_prod_beta)
  then show "storeJSON (decSlice (decStruct fields) zero) p None = (x, e) \<Longrightarrow> ?thesis"
    by (auto simp: storeJSON_def case_prod_beta split: sum.splits)
qed

lemma strict_fits: "fits v \<Longrightarrow> fits (fst (strictMembers fields ms v))"
proof (induction ms arbitrary: v)
  case (Cons m ms)
  obtain name j where m: "m = (name, j)" by (cases m)
  show ?case
  proof (cases "fieldFor fields name")
    case None
    then show ?thesis using Cons m by (simp add: Let_def case_prod_beta)
  next
    case (Some d)
    then have "fits (fst (d j v))" using field_fits fieldFor_mem Cons.prems by blast
    then show ?thesis using Cons.IH m Some by (simp add: Let_def case_prod_beta)
  qed
qed simp

end

section \<open>Ranges\<close>

definition int64 :: "int \<Rightarrow> bool" where
  "int64 i \<longleftrightarrow> - (2 ^ 63) \<le> i \<and> i < 2 ^ 63"

lemma decInt64_fits: "int64 v \<Longrightarrow> int64 (fst (decInt64 j v))"
  by (cases j) (auto simp: decInt64_def int64_def split: option.splits)

lemma decInt64_stored: "int64 v \<Longrightarrow> decInt64 j v = (x, ok) \<Longrightarrow> int64 x"
  using decInt64_fits [of v j] by simp

definition fitsKey :: "key \<Rightarrow> bool" where
  "fitsKey k \<longleftrightarrow> int64 (kID k) \<and> int64 (kBits k)"

definition fitsAck :: "ackData \<Rightarrow> bool" where
  "fitsAck d \<longleftrightarrow> int64 (akID d)"

definition fitsWorkflow :: "workflow \<Rightarrow> bool" where
  "fitsWorkflow w \<longleftrightarrow> int64 (wOldKeyID w) \<and> int64 (wNewKeyID w) \<and> int64 (wNewZSKID w) \<and> int64 (wDNSKEYTTL w)
     \<and> int64 (wZoneTTL w) \<and> int64 (wParentDSTTL w) \<and> int64 (wRegistrarJobID w) \<and> int64 (int (wAttempts w))"

lemma int64_0 [simp]: "int64 0"
  by (simp add: int64_def)

lemmas field_defs = inField_def Let_def

interpretation keys: typed_struct keyFields zeroKey fitsKey
proof
  show "fitsKey zeroKey" by (simp add: fitsKey_def zeroKey_def)
  show "fitsKey (fst (d j v))" if "(name, d) \<in> set keyFields" "fitsKey v" for name d v j
    using that by (auto simp: keyFields_def field_defs fitsKey_def split: prod.splits dest: decInt64_stored [rotated])
qed

interpretation acks: typed_struct ackFields "\<lparr>akID = 0, akStatus = []\<rparr>" fitsAck
proof
  show "fitsAck \<lparr>akID = 0, akStatus = []\<rparr>" by (simp add: fitsAck_def)
  show "fitsAck (fst (d j v))" if "(name, d) \<in> set ackFields" "fitsAck v" for name d v j
    using that by (auto simp: ackFields_def field_defs fitsAck_def split: prod.splits dest: decInt64_stored [rotated])
qed

interpretation jobs: typed_struct jobFields "\<lparr>akID = 0, akStatus = []\<rparr>" fitsAck
  by unfold_locales (auto simp: jobFields_def fitsAck_def [of "\<lparr>akID = 0, akStatus = []\<rparr>"] intro: acks.struct_fits)

interpretation workflows: typed_struct "workflowFields t" zeroWorkflow fitsWorkflow for t
proof
  show "fitsWorkflow zeroWorkflow" by (simp add: fitsWorkflow_def zeroWorkflow_def)
  show "fitsWorkflow (fst (d j v))" if "(name, d) \<in> set (workflowFields t)" "fitsWorkflow v" for name d v j
    using that by (auto simp: workflowFields_def field_defs fitsWorkflow_def decNat_def split: prod.splits
        dest: decInt64_stored [rotated])
qed

section \<open>What the clients return\<close>

text \<open>The answer of one request of the PowerDNS client, for any property of what is decoded\<close>

lemma wp_every: "(\<And>r t. Q r t) \<Longrightarrow> wp m Q s"
  by (simp add: wp_conv)

lemma wp_pdnsDo:
  assumes "P zero" "\<And>d p x e. out = Some d \<Longrightarrow> storeJSON d p zero = (x, e) \<Longrightarrow> P x"
  shows "wp (pdnsDo h c method path body out zero) (\<lambda>r t. case r of Inl e \<Rightarrow> True | Inr x \<Rightarrow> P x) s"
proof -
  have "wp (if \<not> succeeded resp
          then throw (Fmt PDNSStatus [AStr method, AStr path, AInt (rsStatus resp), AStr (pdnsMessage h resp)])
          else case out of
            None \<Rightarrow> ret zero
          | Some d \<Rightarrow>
              if rsStatus resp = 204 then ret zero
              else case storeJSON d (jlDecode (htJSON h) (limited resp)) zero of
                (x, None) \<Rightarrow> ret x
              | (x, Some e) \<Rightarrow> if e = EOF then ret x else throw (Wrap PDNSDecode [] e))
     (\<lambda>r t. case r of Inl e \<Rightarrow> True | Inr x \<Rightarrow> P x) u" for resp u
    using assms by (auto simp: wp_simps split: option.splits prod.splits)
  note answer = this
  show ?thesis
    unfolding pdnsDo_def
    apply (intro vcg wp_every)
     apply (rename_tac r t, case_tac r)
      apply (simp_all only: sum.case answer)
    done
qed

definition upper :: "string \<Rightarrow> bool" where
  "upper s \<longleftrightarrow> toUpper s = s"

lemma wp_listKeys: "wp (pdnsListKeys h c zid) (\<lambda>r t. case r of Inl e \<Rightarrow> True | Inr ks \<Rightarrow> list_all fitsKey ks) s"
  unfolding pdnsListKeys_def
  by (intro vcg wp_mono [OF wp_pdnsDo [where P = "\<lambda>x. list_all fitsKey (case x of None \<Rightarrow> [] | Some ys \<Rightarrow> ys)"]])
     (auto simp: wp_simps split: sum.splits option.splits dest: keys.slice_fits)


lemma wp_createKey:
  "wp (pdnsCreateKey h c zid keyType algorithm active) (\<lambda>r t. case r of Inl e \<Rightarrow> True | Inr k \<Rightarrow> fitsKey k) s"
  unfolding pdnsCreateKey_def by (rule wp_pdnsDo) (auto simp: keys.zero_fits dest: keys.stored_fits)

lemma upperChar_idem: "upperChar (upperChar c) = upperChar c"
proof -
  have "(of_char c :: nat) < 256" by (rule nat_of_char_less_256)
  then have "((of_char c :: nat) - 32) mod 256 = of_char c - 32" by (intro mod_less) linarith
  then show ?thesis by (auto simp: upperChar_def Let_def of_char_of)
qed

lemma toUpper_idem [simp]: "toUpper (toUpper s) = toUpper s"
  by (simp add: toUpper_def upperChar_idem comp_def)

lemma wp_autoDo: "wp (autoDo h tm c method path body ctid) (\<lambda>r t. True) s"
  by (simp add: wp_conv)

lemma acknowledged_fits: "acknowledged r = Inr j \<Longrightarrow> int64 (jID j) \<and> upper (jStatus j)"
  by (auto simp: acknowledged_def Let_def upper_def fitsAck_def split: list.splits prod.splits option.splits if_splits
      dest!: acks.stored_fits)

lemma wp_updateDNSSEC:
  "wp (autoUpdateDNSSEC h tm c zone ks ctid) (\<lambda>r t. case r of Inl e \<Rightarrow> True | Inr j \<Rightarrow> int64 (jID j) \<and> upper (jStatus j)) s"
  unfolding autoUpdateDNSSEC_def
  by (intro vcg wp_every) (auto simp: wp_simps acknowledged_fits split: sum.split)

lemma toUpper_Nil [simp]: "toUpper s = [] \<longleftrightarrow> s = []"
  by (simp add: toUpper_def)

lemma wp_jobStatus:
  "wp (autoJobStatus h tm c i) (\<lambda>r t. case r of Inl e \<Rightarrow> True | Inr st \<Rightarrow> upper st \<and> st \<noteq> [] \<and> int64 i) s"
  unfolding autoJobStatus_def
  by (intro vcg wp_every)
     (auto simp: wp_simps upper_def fitsAck_def split: sum.split list.split prod.split option.split dest!: jobs.stored_fits)


end
