(* ===== verification/Printed.thy ===== *)
theory Printed
  imports Typed Reached
begin

text \<open>
  What the commands that only read print: the answer of the controller, as it was encoded by the server
  and decoded by the client. Of an error only the text is left.
\<close>

section \<open>Values are read as they were written\<close>

text \<open>Times that have been written can be read.\<close>

definition readsTimes :: "wire \<Rightarrow> bool" where
  "readsTimes t \<longleftrightarrow> (\<forall>x. wrParse t (wrTime t x) = Some x)"

lemma parseInt_itoa: "parseInt (itoa i) = Some i"
proof (cases "i < 0")
  case True
  then show ?thesis by (simp add: itoa_def parseInt_def parseNat_natDigits)
next
  case False
  obtain c s where c: "natDigits (nat i) = c # s" by (cases "natDigits (nat i)") auto
  then have "c \<noteq> CHR 0x2D" using minus_notin_natDigits [of "nat i"] by auto
  then show ?thesis using False c parseNat_natDigits [of "nat i"] by (simp add: itoa_def parseInt_def)
qed

lemma decInt64_encInt [simp]: "int64 i \<Longrightarrow> decInt64 (encInt i) v = (i, True)"
  by (simp add: decInt64_def encInt_def parseInt_itoa int64_def)

lemma decNat_encInt [simp]: "int64 (int n) \<Longrightarrow> decNat (encInt (int n)) v = (n, True)"
  by (simp add: decNat_def)

lemma decNat_zero [simp]: "decNat (encInt 0) v = (0, True)"
  using decNat_encInt [of 0] by simp

lemma decTime_wrTime [simp]: "readsTimes t \<Longrightarrow> decTime t (JStr (wrTime t x)) v = (x, True)"
  by (simp add: readsTimes_def)

lemma decError_text [simp]: "decError t (JStr s) v = (readError s, True)"
  by (simp add: decError_def)

lemma members_field:
  assumes "fieldFor fs name = Some (inField d get put)" "snd (d j (get v))"
  shows "decMembers fs ((name, j) # ms) v = decMembers fs ms (put (fst (d j (get v))) v)"
  using assms by (simp add: inField_def case_prod_beta)

lemma members_omitted:
  assumes "fieldFor fs name = Some (inField d get put)" "snd (d j (get v))" "unset \<Longrightarrow> put (fst (d j (get v))) v = v"
  shows "decMembers fs (omitEmpty unset name j @ ms) v = decMembers fs ms (put (fst (d j (get v))) v)"
  using assms members_field [OF assms(1,2)] by (cases unset) (simp_all add: omitEmpty_def)

section \<open>Workflows\<close>

definition textOnly :: "wire \<Rightarrow> workflow \<Rightarrow> workflow" where
  "textOnly t w = w\<lparr>wLastError := readError (errorText t (wLastError w))\<rparr>"

definition plainWorkflow :: "workflow \<Rightarrow> bool" where
  "plainWorkflow w \<longleftrightarrow> fitsWorkflow w \<and> kindOfStr (kindStr (wKind w)) = wKind w \<and> phaseOfStr (phaseStr (wPhase w)) = wPhase w"

lemma workflow_fieldFor:
  "fieldFor (workflowFields t) ''zone'' = Some (inField decString wZone (\<lambda>x v. v\<lparr>wZone := x\<rparr>))"
  "fieldFor (workflowFields t) ''zoneId'' = Some (inField decString wZoneID (\<lambda>x v. v\<lparr>wZoneID := x\<rparr>))"
  "fieldFor (workflowFields t) ''kind'' = Some (inField decKind wKind (\<lambda>x v. v\<lparr>wKind := x\<rparr>))"
  "fieldFor (workflowFields t) ''phase'' = Some (inField decPhase wPhase (\<lambda>x v. v\<lparr>wPhase := x\<rparr>))"
  "fieldFor (workflowFields t) ''oldKeyId'' = Some (inField decInt64 wOldKeyID (\<lambda>x v. v\<lparr>wOldKeyID := x\<rparr>))"
  "fieldFor (workflowFields t) ''newKeyId'' = Some (inField decInt64 wNewKeyID (\<lambda>x v. v\<lparr>wNewKeyID := x\<rparr>))"
  "fieldFor (workflowFields t) ''newZskId'' = Some (inField decInt64 wNewZSKID (\<lambda>x v. v\<lparr>wNewZSKID := x\<rparr>))"
  "fieldFor (workflowFields t) ''newKeyCreateAttemptedAt'' = Some (inField (decTime t) wNewKeyCreateAttemptedAt (\<lambda>x v. v\<lparr>wNewKeyCreateAttemptedAt := x\<rparr>))"
  "fieldFor (workflowFields t) ''newZskCreateAttemptedAt'' = Some (inField (decTime t) wNewZSKCreateAttemptedAt (\<lambda>x v. v\<lparr>wNewZSKCreateAttemptedAt := x\<rparr>))"
  "fieldFor (workflowFields t) ''phaseStartedAt'' = Some (inField (decTime t) wPhaseStartedAt (\<lambda>x v. v\<lparr>wPhaseStartedAt := x\<rparr>))"
  "fieldFor (workflowFields t) ''nextActionAt'' = Some (inField (decTime t) wNextActionAt (\<lambda>x v. v\<lparr>wNextActionAt := x\<rparr>))"
  "fieldFor (workflowFields t) ''lastCompletedAt'' = Some (inField (decTime t) wLastCompletedAt (\<lambda>x v. v\<lparr>wLastCompletedAt := x\<rparr>))"
  "fieldFor (workflowFields t) ''lastError'' = Some (inField (decError t) wLastError (\<lambda>x v. v\<lparr>wLastError := x\<rparr>))"
  "fieldFor (workflowFields t) ''attempts'' = Some (inField decNat wAttempts (\<lambda>x v. v\<lparr>wAttempts := x\<rparr>))"
  "fieldFor (workflowFields t) ''manual'' = Some (inField decBool wManual (\<lambda>x v. v\<lparr>wManual := x\<rparr>))"
  "fieldFor (workflowFields t) ''idempotencyKey'' = Some (inField decString wIdempotencyKey (\<lambda>x v. v\<lparr>wIdempotencyKey := x\<rparr>))"
  "fieldFor (workflowFields t) ''dnskeyTtlSeconds'' = Some (inField decInt64 wDNSKEYTTL (\<lambda>x v. v\<lparr>wDNSKEYTTL := x\<rparr>))"
  "fieldFor (workflowFields t) ''zoneTtlSeconds'' = Some (inField decInt64 wZoneTTL (\<lambda>x v. v\<lparr>wZoneTTL := x\<rparr>))"
  "fieldFor (workflowFields t) ''parentDsTtlSeconds'' = Some (inField decInt64 wParentDSTTL (\<lambda>x v. v\<lparr>wParentDSTTL := x\<rparr>))"
  "fieldFor (workflowFields t) ''evidenceAt'' = Some (inField (decTime t) wEvidenceAt (\<lambda>x v. v\<lparr>wEvidenceAt := x\<rparr>))"
  "fieldFor (workflowFields t) ''registrarCtid'' = Some (inField decString wRegistrarCTID (\<lambda>x v. v\<lparr>wRegistrarCTID := x\<rparr>))"
  "fieldFor (workflowFields t) ''registrarStid'' = Some (inField decString wRegistrarSTID (\<lambda>x v. v\<lparr>wRegistrarSTID := x\<rparr>))"
  "fieldFor (workflowFields t) ''registrarJobId'' = Some (inField decInt64 wRegistrarJobID (\<lambda>x v. v\<lparr>wRegistrarJobID := x\<rparr>))"
  "fieldFor (workflowFields t) ''registrarJobStatus'' = Some (inField decString wRegistrarJobStatus (\<lambda>x v. v\<lparr>wRegistrarJobStatus := x\<rparr>))"
  "fieldFor (workflowFields t) ''registrarAttemptedAt'' = Some (inField (decTime t) wRegistrarAttemptedAt (\<lambda>x v. v\<lparr>wRegistrarAttemptedAt := x\<rparr>))"
  "fieldFor (workflowFields t) ''registrarPayloadHash'' = Some (inField decString wRegistrarPayloadHash (\<lambda>x v. v\<lparr>wRegistrarPayloadHash := x\<rparr>))"
  "fieldFor (workflowFields t) ''parentMode'' = Some (inField decString wParentMode (\<lambda>x v. v\<lparr>wParentMode := x\<rparr>))"
  "fieldFor (workflowFields t) ''splitSignerTransitionAt'' = Some (inField (decTime t) wSplitSignerTransitionAt (\<lambda>x v. v\<lparr>wSplitSignerTransitionAt := x\<rparr>))"
  "fieldFor (workflowFields t) ''discoveredAt'' = Some (inField (decTime t) wDiscoveredAt (\<lambda>x v. v\<lparr>wDiscoveredAt := x\<rparr>))"
  "fieldFor (workflowFields t) ''keysetFingerprint'' = Some (inField decString wKeysetFingerprint (\<lambda>x v. v\<lparr>wKeysetFingerprint := x\<rparr>))"
  "fieldFor (workflowFields t) ''enrollmentDisposition'' = Some (inField decString wEnrollmentDisposition (\<lambda>x v. v\<lparr>wEnrollmentDisposition := x\<rparr>))"
  by (simp_all add: fieldFor_def workflowFields_def)

lemma readError_Nil [simp]: "readError [] = None"
  by (simp add: readError_def)

lemma members_last:
  assumes "fieldFor fs name = Some (inField d get put)" "snd (d j (get v))" "unset \<Longrightarrow> put (fst (d j (get v))) v = v"
  shows "decMembers fs (omitEmpty unset name j) v = (put (fst (d j (get v))) v, True)"
  using members_omitted [OF assms, where ms = "[]"] by simp

lemma nil_text: "s = [] \<Longrightarrow> readError s = None"
  by simp

lemma workflow_reads:
  assumes "plainWorkflow w" "readsTimes t"
  shows "decStruct (workflowFields t) (encWorkflow t w) zeroWorkflow = (textOnly t w, True)"
proof -
  note facts = assms(1) [unfolded plainWorkflow_def fitsWorkflow_def]
  show ?thesis
    unfolding encWorkflow_def decStruct.simps zeroWorkflow_def textOnly_def
    using facts
    by (simp add: workflow_fieldFor [THEN members_field] workflow_fieldFor [THEN members_omitted]
        workflow_fieldFor(31) [THEN members_last] assms(2) decKind_def decPhase_def del: decMembers.simps decTime.simps)
qed


section \<open>Answers\<close>

text \<open>The text of an error that was read is the text that was read.\<close>

definition keepsTexts :: "wire \<Rightarrow> bool" where
  "keepsTexts t \<longleftrightarrow> (\<forall>x. wrError t (Ext x) = x)"

lemma errorText_read [simp]: "keepsTexts t \<Longrightarrow> errorText t (readError x) = x"
  by (simp add: keepsTexts_def errorText_def readError_def)

lemma encWorkflow_textOnly: "keepsTexts t \<Longrightarrow> encWorkflow t (textOnly t w) = encWorkflow t w"
  by (simp add: encWorkflow_def textOnly_def)

definition zoneText :: "wire \<Rightarrow> zoneStatus \<Rightarrow> zoneStatus" where
  "zoneText t z = z\<lparr>zsBlockedReason := readError (errorText t (zsBlockedReason z)), zsWorkflows := map (textOnly t) (zsWorkflows z)\<rparr>"

definition auditText :: "wire \<Rightarrow> auditResult \<Rightarrow> auditResult" where
  "auditText t a = a\<lparr>arError := readError (errorText t (arError a))\<rparr>"

lemma encZone_zoneText: "keepsTexts t \<Longrightarrow> encZone t (zoneText t z) = encZone t z"
  by (simp add: encZone_def zoneText_def encSlice_def encWorkflow_textOnly)

lemma encAudit_auditText: "keepsTexts t \<Longrightarrow> encAudit t (auditText t a) = encAudit t a"
  by (simp add: encAudit_def auditText_def)

lemma decElems_map:
  assumes "\<And>x. x \<in> set xs \<Longrightarrow> d (f x) zero = (g x, True)"
  shows "decElems d zero (map f xs) [] = (map g xs, True)"
  using assms by (induction xs) (simp_all add: Let_def)

lemma decList_slice:
  assumes "\<And>x. x \<in> set xs \<Longrightarrow> d (f x) zero = (g x, True)"
  shows "decList d zero (encSlice f xs) [] = (map g xs, True)"
  using decElems_map [of xs d f zero g] assms by (simp add: decList_def encSlice_def Let_def)

definition plainZone :: "zoneStatus \<Rightarrow> bool" where
  "plainZone z \<longleftrightarrow> list_all plainWorkflow (zsWorkflows z)"

lemma zone_reads:
  assumes "plainZone z" "readsTimes t"
  shows "decStruct (zoneStatusFields t) (encZone t z) zeroZoneStatus = (zoneText t z, True)"
proof -
  have "decList (decStruct (workflowFields t)) zeroWorkflow (encSlice (encWorkflow t) (zsWorkflows z)) [] =
      (map (textOnly t) (zsWorkflows z), True)"
    using assms by (intro decList_slice workflow_reads) (simp_all add: plainZone_def list_all_iff)
  then show ?thesis
    by (simp add: encZone_def zoneStatusFields_def zeroZoneStatus_def zoneText_def fieldFor_def inField_def omitEmpty_def)
qed

lemma audit_reads: "decStruct (auditFields t) (encAudit t a) zeroAudit = (auditText t a, True)"
  by (simp add: encAudit_def auditFields_def zeroAudit_def auditText_def fieldFor_def inField_def omitEmpty_def)

definition fitsStatus :: "controllerStatus \<Rightarrow> bool" where
  "fitsStatus s \<longleftrightarrow> int64 (int (stZones s)) \<and> int64 (int (stBlocked s)) \<and> int64 (int (stEnrolling s)) \<and> int64 (int (stManaged s))
     \<and> int64 (int (stPendingNotifications s))"

lemma status_reads: "fitsStatus s \<Longrightarrow> decStruct controllerFields (encController s) zeroController = (s, True)"
  by (simp add: fitsStatus_def encController_def controllerFields_def zeroController_def fieldFor_def inField_def)

section \<open>Commands that read\<close>

text \<open>An answer in UTF-8 that is short enough for the client\<close>

definition carried :: "json \<Rightarrow> bool" where
  "carried j \<longleftrightarrow> validJSON j = j \<and> int (length (jsonText j)) < replyLimit"

lemma intLiteral_itoa [simp]: "intLiteral (itoa i)"
  by (simp add: intLiteral_def parseInt_itoa)

lemma writable_encInt [simp]: "writable d (encInt i)"
  by (simp add: encInt_def)

lemma writable_omit: "writable d j \<Longrightarrow> list_all (\<lambda>(k, j). writable d j) (omitEmpty b n j)"
  by (simp add: omitEmpty_def)

lemma writable_slice: "0 < d \<Longrightarrow> (\<And>x. writable (d - 1) (f x)) \<Longrightarrow> writable d (encSlice f xs)"
  by (simp add: encSlice_def list_all_iff)

lemma writable_workflow: "0 < d \<Longrightarrow> writable d (encWorkflow t w)"
  by (simp add: encWorkflow_def writable_omit)

lemma writable_answers:
  "writable nestingLimit (encController s)" "writable nestingLimit (encSlice (encZone t) zs)"
  "writable nestingLimit (encSlice (encAudit t) rs)"
  by (auto simp: encController_def encZone_def encAudit_def nestingLimit_def writable_omit writable_workflow intro!: writable_slice)

lemma getCmd_local:
  assumes "map_of getRoutes path = Some q" "serve c q s = (Inr (200, body), u)" "encBody t body = j" "writable nestingLimit j"
    "carried j" "d j zero = (x, True)" "enc x = j"
  shows "getCmd (localUnix c t mux) path d zero enc s = (Inr (printJSON j), u)"
proof -
  have r: "route (clientRequest ''GET'' path None []) = Some q" "rwMethod (clientRequest ''GET'' path None []) = ''GET''"
    using assms(1) by (simp_all add: route_def clientRequest_def)
  have "limitReader replyLimit (jsonText j @ [CHR 0x0A]) = jsonText j @ [CHR 0x0A]"
    using assms(5) by (simp add: carried_def limitReader_def)
  moreover have "goDecode (jsonText j @ [CHR 0x0A]) = Inr j"
    using goDecode_jsonText [OF assms(4) ends_line] assms(5) by (simp add: carried_def)
  ultimately show ?thesis
    using assms(2,3,6,7) by (simp add: getCmd_def clientGet_def clientDo_def localUnix_def handleRaw_def r bind_def ret_def
        writeJSON_def storeJSON_def)
qed

lemma read_routes:
  "map_of getRoutes ''/v1/status'' = Some GetStatus" "map_of getRoutes ''/v1/zones'' = Some GetZones"
  "map_of getRoutes ''/v1/audit'' = Some GetAudit"
  by (simp_all add: getRoutes_def)

lemma read_answers:
  "Status c s = (Inr st, u) \<Longrightarrow> serve c GetStatus s = (Inr (200, BodyController st), u)"
  "Zones c s = (Inr zs, u) \<Longrightarrow> serve c GetZones s = (Inr (200, BodyZones zs), u)"
  "Audit c s = (Inr rs, u) \<Longrightarrow> serve c GetAudit s = (Inr (200, BodyAudit rs), u)"
  by (simp_all add: serve_def respond_def bind_def attempt_def ret_def)

lemma read_bodies:
  "encBody t (BodyController st) = encController st" "encBody t (BodyZones zs) = encSlice (encZone t) zs"
  "encBody t (BodyAudit rs) = encSlice (encAudit t) rs"
  by (simp_all add: encBody_def)


end
