(* ===== verification/Printlab.thy ===== *)
theory Printlab
  imports Socketlab Printed
begin

text \<open>The reading commands at work: the answers of \<open>Desk\<close>'s controller, with times as numbers.\<close>

definition clockWire :: wire where
  "clockWire = \<lparr>wrError = (\<lambda>e. case e of Ext x \<Rightarrow> x | _ \<Rightarrow> ''failed''), wrTime = itoa, wrParse = parseInt\<rparr>"

lemma clock_reads: "readsTimes clockWire"
  by (simp add: readsTimes_def clockWire_def parseInt_itoa)

lemma clock_keeps: "keepsTexts clockWire"
  by (simp add: keepsTexts_def clockWire_def)

definition clockBinary :: "unit sys binary" where
  "clockBinary = labBinary\<lparr>bnClient := (\<lambda>_. localUnix triggerDesk clockWire labMux), bnWire := clockWire\<rparr>"

lemma clock_wire [simp]: "bnWire clockBinary = clockWire"
  by (simp add: clockBinary_def)

lemma clock_connected: "connected clockBinary ''control.sock'' triggerDesk (bnWire clockBinary)"
  by (auto simp: connected_def clockBinary_def)

abbreviation "deskSys \<equiv> labSys idleFlow"

definition deskStatus :: controllerStatus where
  "deskStatus = \<lparr>stMode = ''enforce'', stReady = True, stZones = 1, stBlocked = 0, stEnrollmentArmed = False,
     stEnrolling = 0, stManaged = 0, stPendingNotifications = 0\<rparr>"

definition deskZones :: "zoneStatus list" where
  "deskZones = [\<lparr>zsZone = ''z'', zsDNSSEC = True, zsScheme = ''split'', zsManaged = False, zsEnrollmentStatus = ''disarmed'',
     zsBlockedReason = None, zsWorkflows = [idleFlow]\<rparr>]"

definition deskAudit :: "auditResult list" where
  "deskAudit = [\<lparr>arZone = ''z'', arScheme = ''split'', arRegistrarMatch = True, arError = None\<rparr>]"

lemma desk_answers:
  "fst (Status triggerDesk deskSys) = Inr deskStatus"
  "fst (Zones triggerDesk deskSys) = Inr deskZones"
  "fst (Audit triggerDesk deskSys) = Inr deskAudit"
  by code_simp+

lemma desk_fits: "fitsStatus deskStatus"
  by code_simp
lemma desk_plain: "list_all plainZone deskZones"
  by code_simp
lemma desk_valid1: "validJSON (encController deskStatus) = encController deskStatus"
  by code_simp
lemma desk_len1: "int (length (jsonText (encController deskStatus))) < replyLimit"
  by code_simp
lemma ttl_text: "itoa 86400 = ''86400''" "itoa 0 = ''0''"
  by (simp_all add: itoa_def natDigits.simps digitChar_def char_of_def bit_0)

definition deskJSON :: json where
  "deskJSON = JArr [JObj [(''zone'', JStr ''z''), (''dnssec'', JBool True), (''scheme'', JStr ''split''), (''managed'', JBool False),
     (''enrollmentStatus'', JStr ''disarmed''), (''workflows'', JArr [JObj ([(''zone'', JStr ''z''), (''kind'', JStr ''zsk''), (''phase'', JStr ''idle'')]
       @ map (\<lambda>n. (n, JStr ''0'')) [''newKeyCreateAttemptedAt'', ''newZskCreateAttemptedAt'', ''phaseStartedAt'', ''nextActionAt'', ''lastCompletedAt'']
       @ [(''zoneTtlSeconds'', JNum ''86400'')]
       @ map (\<lambda>n. (n, JStr ''0'')) [''evidenceAt'', ''registrarAttemptedAt'', ''splitSignerTransitionAt'', ''discoveredAt''])])]]"

lemma desk_json: "encSlice (encZone clockWire) deskZones = deskJSON"
  by (simp add: encSlice_def deskZones_def deskJSON_def encZone_def encWorkflow_def labWorkflow_def zeroWorkflow_def omitEmpty_def clockWire_def
      encInt_def ttl_text errorText_def)

lemma desk_valid2: "validJSON deskJSON = deskJSON"
  by code_simp
lemma desk_len2: "int (length (jsonText deskJSON)) < replyLimit"
  by code_simp
lemma desk_valid3: "validJSON (encSlice (encAudit clockWire) deskAudit) = encSlice (encAudit clockWire) deskAudit"
  by code_simp
lemma desk_len3: "int (length (jsonText (encSlice (encAudit clockWire) deskAudit))) < replyLimit"
  by code_simp

lemma desk_carried:
  "carried (encController deskStatus)" "carried (encSlice (encZone clockWire) deskZones)" "carried (encSlice (encAudit clockWire) deskAudit)"
  by (simp_all add: carried_def desk_json desk_valid1 desk_valid2 desk_valid3 desk_len1 desk_len2 desk_len3)


end
