(* ===== verification/Bounded.thy ===== *)
theory Bounded
  imports Lookup
begin

text \<open>
  Every observation of the configured servers ends after a bounded number of exchanges, whatever the
  servers answer and however it ends: a query makes at most three.
\<close>

section \<open>Counting exchanges\<close>

text \<open>At most \<open>n\<close> exchanges more than before, from every state\<close>

definition costs :: "nat \<Rightarrow> ('v net, 'a) opn \<Rightarrow> bool" where
  "costs n m \<longleftrightarrow> (\<forall>s. length (netLog (snd (m s))) \<le> length (netLog s) + n)"

named_theorems cost \<open>how many exchanges an operation makes\<close>

lemma costsD: "costs n m \<Longrightarrow> length (netLog (snd (m s))) \<le> length (netLog s) + n"
  by (simp add: costs_def)

lemma costs_mono: "costs k m \<Longrightarrow> k \<le> n \<Longrightarrow> costs n m"
  unfolding costs_def by (meson add_left_mono le_trans)

lemma costs_free [cost]:
  "costs 0 (ret x)" "costs 0 (throw e)" "costs 0 (pureE r)" "costs 0 (ctxErr p)" "costs 0 (probeNow p)"
  by (simp_all add: costs_def ret_def throw_def pureE_def ctxErr_def probeNow_def split: prod.split)

lemma costs_check [cost]: "costs 0 (check r)"
  by (simp add: check_def costs_free split: option.split)

lemma costs_exchange [cost]: "costs 1 (exchangeContext p m server)"
  by (simp add: costs_def exchangeContext_def split: prod.split)

lemma costs_bind [cost]:
  assumes "costs a m" "\<And>x. costs b (f x)"
  shows "costs (a + b) (bind m f)"
  unfolding costs_def
proof
  fix s
  obtain r t where m: "m s = (r, t)" by (cases "m s")
  have t: "length (netLog t) \<le> length (netLog s) + a" using costsD [OF assms(1), of s] m by simp
  show "length (netLog (snd (bind m f s))) \<le> length (netLog s) + (a + b)"
  proof (cases r)
    case (Inr x)
    then show ?thesis using costsD [OF assms(2), of x t] t m by (simp add: bind_def)
  qed (use t m in \<open>simp add: bind_def\<close>)
qed

lemma costs_attempt [cost]: "costs a m \<Longrightarrow> costs a (attempt m)"
  by (simp add: costs_def attempt_def case_prod_beta)

lemma costs_wrapErr [cost]: "costs a m \<Longrightarrow> costs a (wrapErr f m)"
proof -
  have "snd (wrapErr f m s) = snd (m s)" for s
    by (simp add: wrapErr_def split: prod.split sum.split)
  then show "costs a m \<Longrightarrow> ?thesis" by (simp add: costs_def)
qed

section \<open>Queries\<close>

lemma costs_exchangeLoop:
  fixes p :: "'v probe"
  shows "costs (Suc n) (exchangeLoop p m server n)"
proof (induction n)
  case 0
  have "costs (0 + 0) (bind (ctxErr p) (case_option (throw e) throw) :: ('v net, dnsMsg) opn)" for e
    by (intro costs_bind) (auto intro: cost split: option.split)
  then have "costs (1 + 0) (exchangeLoop p m server 0)"
    unfolding exchangeLoop.simps by (intro costs_bind costs_attempt costs_exchange) (simp add: costs_free split: sum.split)
  then show ?case by simp
next
  case (Suc n)
  have "costs (0 + Suc n) (bind (ctxErr p) (\<lambda>c. case c of Some d \<Rightarrow> throw d | None \<Rightarrow> exchangeLoop p m server n))"
    by (intro costs_bind) (auto intro: cost Suc costs_mono [OF costs_free(2)] split: option.split)
  then have "costs (1 + Suc n) (exchangeLoop p m server (Suc n))"
    unfolding exchangeLoop.simps
    by (intro costs_bind costs_attempt costs_exchange) (auto intro: costs_mono [OF costs_free(1)] split: sum.split)
  then show ?case by simp
qed

lemma costs_query [cost]: "costs 3 (query p server name typ recursive)"
proof -
  have "costs (Suc 2 + 0) (query p server name typ recursive)"
    unfolding query_def by (intro costs_bind costs_exchangeLoop) (simp add: costs_free)
  then show ?thesis by simp
qed

section \<open>Observations\<close>

lemma costs_then: "costs a m \<Longrightarrow> (\<And>x. costs b (f x)) \<Longrightarrow> a + b \<le> n \<Longrightarrow> costs n (bind m f)"
  by (rule costs_mono [OF costs_bind])

lemma costs_zero: "costs 0 m \<Longrightarrow> (\<And>x. costs n (f x)) \<Longrightarrow> costs n (bind m f)"
  by (rule costs_then [of 0 _ n]) simp_all

lemma costs_three: "costs 3 m \<Longrightarrow> (\<And>x. costs (3 * n) (f x)) \<Longrightarrow> costs (3 * Suc n) (bind m f)"
  by (rule costs_then [of 3 _ "3 * n"]) simp_all

lemma costs_authoritativeDNSKEY: "costs (3 * length servers) (authoritativeDNSKEY p name expected servers ttl)"
proof (induction servers arbitrary: ttl)
  case (Cons server servers)
  then show ?case
    by (simp only: authoritativeDNSKEY.simps length_Cons Let_def) (intro costs_three costs_zero cost)
qed (simp add: costs_free)

lemma costs_recursiveDNSKEY: "costs (3 * length servers) (recursiveDNSKEY p name expected servers)"
proof (induction servers)
  case (Cons server servers)
  then show ?case
    by (simp only: recursiveDNSKEY.simps length_Cons) (intro costs_three costs_zero cost)
qed (simp add: costs_free)

lemma costs_signedBy: "costs (3 * length servers) (signedBy p name typ rr recursive servers)"
proof (induction servers)
  case (Cons server servers)
  then show ?case
    by (simp only: signedBy.simps length_Cons) (intro costs_three costs_zero cost)
qed (simp add: costs_free)

lemma costs_recursiveDS: "costs (3 * length servers) (recursiveDS p name want servers)"
proof (induction servers)
  case (Cons server servers)
  have "costs (3 * length servers) (if \<not> b then throw e else bind (wrapErr f (check c)) (\<lambda>_. recursiveDS p name want servers))" for b e f c
    by (auto intro: costs_mono [OF costs_free(2)] costs_zero cost Cons)
  then show ?case
    by (simp only: recursiveDS.simps length_Cons) (intro costs_three cost)
qed (simp add: costs_free)

text \<open>One observation of the local server, the authoritative servers and the resolvers\<close>

definition serverCount :: "'v probe \<Rightarrow> nat" where
  "serverCount p = 1 + length (prAuthoritative p) + length (prResolvers p)"


end
