(* ===== verification/Spec2Isabelle.thy ===== *)
theory Spec2Isabelle
  imports Witnesses Desk Assembly Validated Disklab Clientlab Documents Socketlab Printlab Typed Bounded
begin

text \<open>
  The DNSSEC key-rotation controller \<open>dnssec-keyrotation\<close>.

  \<^bold>\<open>The program.\<close> A daemon keeps a JSON document with one workflow per zone and kind
  (\<open>internal/model\<close>, \<open>internal/state\<close>). Every minute \<open>Tick\<close> (\<open>internal/controller\<close>) lists
  the zones and keys of PowerDNS (\<open>internal/pdns\<close>) and advances the active workflow of each
  zone by one phase: it creates, activates, deactivates and deletes keys in PowerDNS, replaces
  the DNSSEC material at the registrar (\<open>internal/autodns\<close>), and waits for evidence from the
  public DNS (\<open>internal/dnsprobe\<close>) and for TTLs in between. Completion events go to an outbox
  in the same document and from there to LMTP (\<open>internal/lmtp\<close>). Every phase is re-entered
  after a crash, so whatever a phase does to the outside must be safe to find half done.

  \<^bold>\<open>Theories and sources.\<close>
  \<^item> \<open>Prelude\<close>: Go strings, maps, times and durations; \<open>dns.Fqdn\<close>. Generic lemmas.
  \<^item> \<open>Errors\<close>: error values with the source's format strings.
  \<^item> \<open>Model\<close>: \<open>internal/model/model.go\<close>. \<open>Config\<close>: the structs of \<open>internal/config/config.go\<close>;
    \<open>Validate\<close>: its defaults, \<open>Load\<close>, \<open>Validate\<close> and \<open>ReadSecret\<close>, over the paths and
    addresses of the standard library in \<open>Paths\<close>.
  \<^item> \<open>Dns\<close>: resource records, \<open>DNSSECDataForKey\<close> of \<open>internal/dnsprobe/probe.go\<close>, algorithm labels.
  \<^item> \<open>Keys\<close>, \<open>Material\<close>: the pure functions at the end of \<open>controller.go\<close>: key lookup and roles,
    the closed inventories, registrar material, fingerprints, TTLs, job states.
  \<^item> \<open>Effects\<close>: operations that end in an error or a value, and their weakest preconditions.
  \<^item> \<open>Io\<close>: the \<open>Controller\<close> struct, the interfaces it calls and \<open>Store.Snapshot\<close>,
    \<open>Store.Update\<close>, as functions on a system state with a history of calls.
  \<^item> \<open>Transitions\<close>: \<open>bootstrap\<close>, \<open>start\<close>, \<open>transition\<close>, \<open>recordRetry\<close>, \<open>block\<close>, \<open>complete\<close>,
    \<open>recordCreateAttempt\<close>, \<open>selected\<close>.
  \<^item> \<open>Rotation\<close>, \<open>Enrollment\<close>: one function per phase handler, in the order of the source.
  \<^item> \<open>Reconcile\<close>: \<open>advance\<close>, \<open>reconcileZone\<close>, \<open>deliverNotifications\<close>, \<open>Tick\<close>.
  \<^item> \<open>Operations\<close>: \<open>ArmEnrollment\<close>, \<open>Trigger\<close>, \<open>Resume\<close>, \<open>ReconcileSplitSignerTransition\<close>;
    \<open>Views\<close>: \<open>Plan\<close>, \<open>Zones\<close>, \<open>Status\<close>, \<open>Audit\<close>.
  \<^item> \<open>Evidence\<close>, \<open>Probe\<close>, \<open>Lookup\<close>: \<open>internal/dnsprobe/probe.go\<close>: what a response proves, whom
    the probe asks, and the iterative lookups from the root servers.
  \<^item> \<open>Files\<close>, \<open>Store\<close>: \<open>internal/state/store.go\<close> over a disk whose changes may be lost.
  \<^item> \<open>Http\<close>: the parts of \<open>net/url\<close>, \<open>encoding/json\<close> and \<open>net/http\<close> that the clients use;
    \<open>Pdns\<close>: \<open>internal/pdns/client.go\<close>; \<open>Autodns\<close>: \<open>internal/autodns/client.go\<close>;
    \<open>Lmtp\<close>: \<open>internal/lmtp/client.go\<close>.
  \<^item> \<open>Wiring\<close>: the constructors of \<open>internal/app/app.go\<close>, which put all this together.
  \<^item> \<open>Control\<close>: the handlers of \<open>internal/control/server.go\<close> on decoded requests, and the requests
    that the commands of \<open>cmd/dnssecctl\<close> build.
  \<^item> \<open>Json\<close>: \<open>encoding/json\<close> on bytes, as the control channel uses it: UTF-8, the writer and the
    reader. \<open>Messages\<close>, \<open>Replies\<close>: the requests and answers of the control interface as JSON values.
  \<^item> \<open>Channel\<close>: the routes, limits and headers of \<open>internal/control/server.go\<close> on the bytes of a
    request, and \<open>internal/control/client.go\<close>. \<open>Command\<close>: the commands of
    \<open>cmd/dnssecctl/main.go\<close> and what they print.
  \<^item> \<open>Daemon\<close>: the socket (\<open>Prepare\<close>, \<open>Serve\<close>, \<open>Run\<close> of the server), \<open>Run\<close> of the controller and
    \<open>app.Run\<close>; the histories of the daemon as an inductive relation.

  \<^bold>\<open>How the code is represented.\<close> Structs are records with one field per field, the string
  types \<open>Kind\<close> and \<open>Phase\<close> are datatypes with a constructor for any other text, Go maps are
  association lists. An operation is a function on \<open>sys\<close>: the document, the world behind the
  interfaces (of any type, changed by any call), and the history of calls with their results
  and of the documents written. An operation appends to the history in program order, so a
  prefix of the history is what had happened when the process stopped there. Errors are a
  sum; \<open>block\<close> and every early return are branches. Times are nanoseconds with 0 for the zero
  time; durations wrap at 64 bits; TTLs, flags and algorithms keep their width.

  \<^bold>\<open>What is a parameter.\<close> For the controller the services, the clock, the observer and
  \<open>writeAtomic\<close>; for the probe the exchange of messages and \<open>miekg/dns\<close> with the
  cryptography; for the store the system calls, each of which may fail, and JSON; for the clients
  the transport, the connection, the clock and the syntax of JSON (what the decoder stores is
  written out, and \<open>goJSON\<close> is the instance with the syntax); for the control channel the HTTP
  transport, the answers of the multiplexer to unknown paths, and the text of errors and times;
  for the socket the system calls; for the
  configuration \<open>viper\<close>, \<open>url.Parse\<close>, \<open>net.ParseIP\<close>, \<open>mail.ParseAddress\<close>; further
  \<open>dns.NewRR\<close>, \<open>dns.IsDomainName\<close>, SHA-256, time formatting, and the order in which
  \<open>range\<close> visits a map. No theorem about the controller assumes anything of the services.
  The assumptions that appear: \<open>rangesAll\<close>, that \<open>range\<close> over a map visits each entry once;
  that the clock does not return the zero time, which the code uses for ``never''; that the
  initial document is well formed, \<open>wfState\<close>, which every pass then preserves; \<open>watches p c\<close>,
  that the observer of the controller is the probe; \<open>ownName\<close>, that the state file is not named
  like its lock or a temporary file; and \<open>reads\<close>, that the text of the document that was written
  is read back as that document; \<open>steady\<close>, that the clock does not go back and a timer takes its
  time; \<open>foreign\<close>, that nothing outside the package returns its sentinel error; \<open>tidy\<close>, that
  parsed addresses, encoded words and formatted times have no line breaks; \<open>connected\<close>, that the
  client talks to this server; \<open>shortErrors\<close>, that an error text fits into the answer the client
  reads; \<open>readsTimes\<close> and \<open>keepsTexts\<close>, that a written time and a read text are kept.
  Loops: the reader of JSON runs with fuel \<open>enoughFuel\<close>, twice the length of the text and two, which
  \<open>enough\<close> in \<open>Readback\<close> shows to suffice; the ticker of \<open>Run\<close> is given by its number of ticks;
  the probe asks each server at most three times, which \<open>Bounded\<close> shows to bound an observation.

  \<^bold>\<open>The lemma groups.\<close>
  \<^item> \<open>Wp\<close>: weakest preconditions, and the locale \<open>trace_guard\<close>: a property of every event that
    depends on the events before it, proved call by call and then composed.
  \<^item> \<open>Inventory\<close>: declarative descriptions of the inventories; each check decides its own.
  \<^item> \<open>Lifecycle\<close>: the phase graph of each kind and well-formed documents, the specification;
    \<open>Phases\<close>: every handler makes one of its edges; \<open>Guards\<close>: what precedes every write.
  \<^item> \<open>Ticks\<close>: the guards for a whole pass; \<open>Requests\<close>: for a request. \<open>Runs\<close>: for a life, that is
    any sequence of passes, requests, changes of the world and crashes at any event followed by
    a restart from the last document whose update completed; at most one submission and one
    creation per workflow run.
  \<^item> \<open>Operator\<close>: requests change the document only, may be repeated, and rest on evidence.
  \<^item> \<open>Single\<close>: at most one active workflow per zone, where no enrollment can newly begin.
  \<^item> \<open>Conduct\<close>: observe mode, zones independent of each other, retries, starting.
    \<open>Outbox\<close>: completion and delivery. \<open>Waits\<close>: the TTL waits and their arithmetic.
  \<^item> \<open>Observed\<close>: what a successful observation has seen on the network; \<open>Netlab\<close>: a network to
    try it on, and the lookup that needs every root server. \<open>Assured\<close>, \<open>Assembly\<close>: the
    controller over any observer that keeps the contract of the locale \<open>observer\<close>, and over the probe,
    which keeps it.
  \<^item> \<open>Requested\<close>, \<open>Paced\<close>, \<open>Answered\<close>, \<open>Delivered\<close>: what the clients send, when they send it and
    what they make of the answers; \<open>Clientlab\<close>: services to try them on. \<open>Wiring\<close> also shows
    that the wired observer is the probe, and that the update of the document by the controller
    is \<open>Store.Update\<close> on the disk.
  \<^item> \<open>Readback\<close>: what the writer of JSON writes, the reader reads. \<open>Reached\<close>: a command over the
    socket is the operation of the controller; \<open>Printed\<close>: what the reading commands print is what the
    controller answered; \<open>Socketlab\<close>, \<open>Printlab\<close>: a server and a client to try it on.
    \<open>Daemon\<close> also shows that every history of the daemon is a life, that only confirmed requests
    change the document, and how the socket is replaced.
  \<^item> \<open>Typed\<close>: what the clients return has the range of its Go type (locale \<open>typed_struct\<close>, one
    interpretation per struct). \<open>Bounded\<close>: the number of exchanges of an observation.
    \<open>Documents\<close>: a sequence of updates leaves the document that the successful ones made, for any
    store with the laws of \<open>document_store\<close>, which the controller's store and the disk fulfil.
  \<^item> \<open>Validated\<close>: the configurations that \<open>Validate\<close> accepts, and what it lets through.
  \<^item> \<open>Durable\<close>: the disks that \<open>writeAtomic\<close> goes through. \<open>Survival\<close>: what the next
    \<open>Open\<close> finds after failing calls, kills and power losses. \<open>Disklab\<close>: a disk to try it on.
  \<^item> \<open>Scenario\<close>: a laboratory environment in which whole passes are run symbolically;
    \<open>Witnesses\<close>, \<open>Desk\<close>: every property at work there, and the overlap of an enrollment with a
    rotation.

  \<^bold>\<open>Not modelled.\<close> Logging; the parsing of flags by \<open>cobra\<close>; \<open>fx\<close> and the scheduling of
  goroutines; timeouts, TLS and the bytes of HTTP. Passes and requests do not interleave: the
  mutex of the controller orders them, except \<open>Trigger\<close>, which does not take it and whose
  update may fall into the middle of a pass; here it runs before or after one. In the life of
  the controller an update that returned an error counts as not written, also after a crash;
  \<open>Survival\<close> shows what else the file may hold then. \<open>flock\<close> may fail but the exclusion of a
  second process is not modelled. Rendering of error texts:
  an error keeps its format string and arguments. The \<open>strings\<close> functions are those for ASCII.
\<close>

end
